(* ===== verification/Web_Prelude.thy ===== *)
theory Web_Prelude
  imports Main "HOL-Library.Sublist" "HOL-Library.Word" "HOL-Library.Multiset"
begin

text \<open>
  The prelude of the development: the byte constants and string operations of the C++
  library that every component uses (\<open>std::string\<close> is a list of bytes, the HOL type
  \<open>string\<close>), 32-bit conversion, a generic notion of reachability for the step relations,
  and the theorem collections the component proofs draw on.
\<close>

named_theorems web_defs \<open>definitions of the pure request and response helpers\<close>
named_theorems io_simps \<open>evaluation rules of the stream and process models\<close>

section \<open>Bytes and strings\<close>

abbreviation NUL :: char where "NUL \<equiv> CHR 0x00"
abbreviation LF :: char where "LF \<equiv> CHR 0x0A"
abbreviation CR :: char where "CR \<equiv> CHR 0x0D"

text \<open>\<open>LINE_END\<close> of Protocol.hpp.\<close>

abbreviation CRLF :: string where "CRLF \<equiv> [CR, LF]"

text \<open>
  A \<open>std::string\<close> handed to a C function through \<open>c_str()\<close> ends at its first zero byte.
\<close>

definition c_str :: "string \<Rightarrow> string" where
  "c_str s = takeWhile (\<lambda>c. c \<noteq> NUL) s"

lemma c_str_id [simp]: "NUL \<notin> set s \<Longrightarrow> c_str s = s"
  by (auto simp: c_str_def intro: takeWhile_eq_all_conv [THEN iffD2])

lemma c_str_NUL_free [simp]: "NUL \<notin> set (c_str s)"
  by (auto simp: c_str_def dest: set_takeWhileD)

lemma c_str_append: "NUL \<notin> set s \<Longrightarrow> c_str (s @ t) = s @ c_str t"
  by (induction s) (auto simp: c_str_def)

text \<open>\<open>std::string::find\<close> and \<open>rfind\<close>: \<open>None\<close> is \<open>npos\<close>.\<close>

fun find_sub :: "string \<Rightarrow> string \<Rightarrow> nat option" where
  "find_sub sep [] = (if sep = [] then Some 0 else None)"
| "find_sub sep (c # cs) =
     (if prefix sep (c # cs) then Some 0 else map_option Suc (find_sub sep cs))"

fun rfind_sub :: "string \<Rightarrow> string \<Rightarrow> nat option" where
  "rfind_sub sep [] = (if sep = [] then Some 0 else None)"
| "rfind_sub sep (c # cs) =
     (case rfind_sub sep cs of
        Some i \<Rightarrow> Some (Suc i)
      | None \<Rightarrow> if prefix sep (c # cs) then Some 0 else None)"

lemma find_sub_Some:
  assumes "find_sub sep s = Some i"
  shows "i \<le> length s" and "s = take i s @ sep @ drop (i + length sep) s"
    and "\<forall>j < i. \<not> prefix sep (drop j s)"
proof -
  have "i \<le> length s \<and> prefix sep (drop i s) \<and> (\<forall>j < i. \<not> prefix sep (drop j s))"
    using assms
  proof (induction sep s arbitrary: i rule: find_sub.induct)
    case (1 sep)
    then show ?case by (auto split: if_splits)
  next
    case (2 sep c cs)
    show ?case
    proof (cases "prefix sep (c # cs)")
      case True
      with "2.prems" show ?thesis by simp
    next
      case False
      with "2.prems" obtain k where k: "find_sub sep cs = Some k" "i = Suc k" by auto
      from "2.IH" [OF False k(1)] k(2) False show ?thesis
        by (auto simp: less_Suc_eq_0_disj)
    qed
  qed
  then show "i \<le> length s" and "\<forall>j < i. \<not> prefix sep (drop j s)"
    and "s = take i s @ sep @ drop (i + length sep) s"
    by (auto simp: prefix_def) (metis add.commute append_eq_conv_conj append_take_drop_id drop_drop)
qed

lemma find_sub_None: "find_sub sep s = None \<longleftrightarrow> (\<forall>j < Suc (length s). \<not> prefix sep (drop j s))"
  by (induction sep s rule: find_sub.induct) (simp_all add: All_less_Suc2)

lemma find_sub_first:
  "x \<notin> set k \<Longrightarrow> find_sub (x # xs) (k @ (x # xs) @ v) = Some (length k)"
  by (induction k) (auto simp: prefix_def)

lemma find_sub_absent: "x \<notin> set s \<Longrightarrow> find_sub (x # xs) s = None"
  by (induction s) (auto simp: prefix_def)

lemma find_sub_char: "find_sub [x] s = None \<longleftrightarrow> x \<notin> set s"
  by (induction s) (auto simp: prefix_def)

lemma rfind_sub_Some: "rfind_sub sep s = Some i \<Longrightarrow> i \<le> length s \<and> prefix sep (drop i s)"
  by (induction sep s arbitrary: i rule: rfind_sub.induct) (auto split: if_splits option.splits)

lemma rfind_sub_head: "prefix sep (c # cs) \<Longrightarrow> \<exists>i. rfind_sub sep (c # cs) = Some i"
  by (auto split: option.splits)

lemma rfind_sub_last:
  "x \<notin> set e \<Longrightarrow> rfind_sub [x] (b @ x # e) = Some (length b)"
proof (induction b)
  case Nil
  have "rfind_sub [x] e = None" using Nil by (induction e) (auto simp: prefix_def)
  then show ?case by (simp add: prefix_def)
qed simp

section \<open>Reachable states and invariants\<close>

text \<open>
  The states a step relation reaches from the initial ones. The concurrent components
  (\<open>GetInstance\<close> and the thread pool) are step relations, and their safety properties are
  invariants: facts of the initial states that every step keeps.
\<close>

inductive reach :: "('s \<Rightarrow> bool) \<Rightarrow> ('s \<Rightarrow> 's \<Rightarrow> bool) \<Rightarrow> 's \<Rightarrow> bool"
  for ini :: "'s \<Rightarrow> bool" and step :: "'s \<Rightarrow> 's \<Rightarrow> bool" where
  reach_init: "ini s \<Longrightarrow> reach ini step s"
| reach_step: "reach ini step s \<Longrightarrow> step s t \<Longrightarrow> reach ini step t"

locale invariant_system =
  fixes ini :: "'s \<Rightarrow> bool" and step :: "'s \<Rightarrow> 's \<Rightarrow> bool" and inv :: "'s \<Rightarrow> bool"
  assumes inv_init: "ini s \<Longrightarrow> inv s"
    and inv_step: "inv s \<Longrightarrow> step s t \<Longrightarrow> inv t"
begin

lemma reachable_inv: "reach ini step s \<Longrightarrow> inv s"
  by (induction rule: reach.induct) (auto intro: inv_init inv_step)

lemma inv_rtranclp: "step\<^sup>*\<^sup>* s t \<Longrightarrow> inv s \<Longrightarrow> inv t"
  by (induction rule: rtranclp_induct) (auto intro: inv_step)

end

lemma reach_rtranclp: "reach ini step s \<Longrightarrow> step\<^sup>*\<^sup>* s t \<Longrightarrow> reach ini step t"
  by (rotate_tac, induction rule: rtranclp_induct) (auto intro: reach_step)

text \<open>
  A schedule: a list of the choices a step relation leaves open, run by a function that makes
  one step for a choice, or none where the choice cannot move.
\<close>

primrec run_sched :: "('t \<Rightarrow> 's \<Rightarrow> 's option) \<Rightarrow> 't list \<Rightarrow> 's \<Rightarrow> 's option" where
  "run_sched f [] s = Some s"
| "run_sched f (t # ts) s = (case f t s of None \<Rightarrow> None | Some s' \<Rightarrow> run_sched f ts s')"

lemma run_sched_append:
  "run_sched f (ts @ us) s = (case run_sched f ts s of None \<Rightarrow> None | Some s' \<Rightarrow> run_sched f us s')"
  by (induction ts arbitrary: s) (auto split: option.splits)

lemma run_sched_rtranclp:
  assumes "\<And>t s s'. f t s = Some s' \<Longrightarrow> step s s'"
  shows "run_sched f ts s = Some s' \<Longrightarrow> step\<^sup>*\<^sup>* s s'"
proof (induction ts arbitrary: s)
  case (Cons t ts)
  then obtain u where u: "f t s = Some u" "run_sched f ts u = Some s'"
    by (auto split: option.splits)
  from assms [OF u(1)] Cons.IH [OF u(2)] show ?case by (rule converse_rtranclp_into_rtranclp)
qed simp

text \<open>A sum over the threads when one of them moves.\<close>

lemma sum_thread:
  fixes g :: "'a \<Rightarrow> 'b :: comm_monoid_add" and n :: nat
  assumes "j < n"
  shows "(\<Sum>i<n. g (f i)) = g (f j) + (\<Sum>i \<in> {..<n} - {j}. g (f i))"
    and "(\<Sum>i<n. g ((f(j := p)) i)) = g p + (\<Sum>i \<in> {..<n} - {j}. g (f i))"
proof -
  show "(\<Sum>i<n. g (f i)) = g (f j) + (\<Sum>i \<in> {..<n} - {j}. g (f i))"
    using assms by (simp add: sum.remove)
  have "(\<Sum>i<n. g ((f(j := p)) i)) = g p + (\<Sum>i \<in> {..<n} - {j}. g ((f(j := p)) i))"
    using assms by (subst sum.remove [of _ j]) simp_all
  also have "(\<Sum>i \<in> {..<n} - {j}. g ((f(j := p)) i)) = (\<Sum>i \<in> {..<n} - {j}. g (f i))"
    by (rule sum.cong) auto
  finally show "(\<Sum>i<n. g ((f(j := p)) i)) = g p + (\<Sum>i \<in> {..<n} - {j}. g (f i))" .
qed

end
