(* ===== verification/Mysql_Byteorder.thy ===== *)
theory Mysql_Byteorder
  imports "HOL-Library.Word" Web_Prelude
begin

text \<open>
  The byte-order functions of the MySQL client headers that the registration program is
  compiled against (cgi/include): reading and storing integers low byte first. They exist
  twice, written out byte by byte (byte_order_generic.h) and as unaligned machine accesses
  for x86 (byte_order_generic_x86.h); my_byteorder.h adds the odd widths, and
  little_endian.h and big_endian.h the access in machine order. A pointer is the function
  from offsets to the bytes found there; a store returns the changed memory. Integer
  arithmetic is that of the words of the source's types, an \<open>int\<close> being a \<open>32 word\<close>.
\<close>

type_synonym mem = "nat \<Rightarrow> 8 word"

unbundle bit_operations_syntax

section \<open>Machine accesses\<close>

text \<open>
  \<open>*((uint32*) A)\<close> and the like on a little-endian machine: the \<open>n\<close> bytes from \<open>A\<close> on, and
  the memory after the assignment of such a value.
\<close>

fun native_load :: "nat \<Rightarrow> mem \<Rightarrow> 'a::len word" where
  "native_load 0 A = 0"
| "native_load (Suc n) A = ucast (A 0) + push_bit 8 (native_load n (\<lambda>i. A (Suc i)))"

definition native_store :: "nat \<Rightarrow> mem \<Rightarrow> 'a::len word \<Rightarrow> mem" where
  "native_store n T a = (\<lambda>i. if i < n then ucast (drop_bit (8 * i) a) else T i)"

lemma native_store_Suc: "(\<lambda>i. native_store (Suc n) T a (Suc i)) = native_store n (\<lambda>i. T (Suc i)) (drop_bit 8 a)"
  by (simp add: native_store_def fun_eq_iff add.commute)

lemma ucast_ucast_byte: "ucast (ucast a :: 8 word) = take_bit 8 (a :: 'a::len word)"
  by (rule bit_word_eqI) (auto simp: bit_simps)

lemma native_load_store: "native_load n (native_store n T a) = take_bit (8 * n) (a :: 'a::len word)"
proof (induction n arbitrary: T a)
  case 0
  then show ?case by simp
next
  case (Suc n)
  have "native_load (Suc n) (native_store (Suc n) T a)
    = take_bit 8 a + push_bit 8 (take_bit (8 * n) (drop_bit 8 a))"
    using Suc [of "\<lambda>i. T (Suc i)" "drop_bit 8 a"]
    by (simp add: native_store_Suc) (simp add: native_store_def ucast_ucast_byte)
  also have "\<dots> = push_bit 8 (drop_bit 8 (take_bit (8 * Suc n) a)) + take_bit 8 (take_bit (8 * Suc n) a)"
    by (simp add: drop_bit_take_bit add.commute)
  also have "\<dots> = take_bit (8 * Suc n) a" by (rule bits_ident)
  finally show ?case .
qed

lemma native_store_frame: "n \<le> i \<Longrightarrow> native_store n T a i = T i"
  by (simp add: native_store_def)

text \<open>The x86 functions (byte_order_generic_x86.h).\<close>

definition sint2korr_x86 :: "mem \<Rightarrow> 16 word" where "sint2korr_x86 A = native_load 2 A"
definition sint4korr_x86 :: "mem \<Rightarrow> 32 word" where "sint4korr_x86 A = native_load 4 A"
definition uint2korr_x86 :: "mem \<Rightarrow> 16 word" where "uint2korr_x86 A = native_load 2 A"
definition uint4korr_x86 :: "mem \<Rightarrow> 32 word" where "uint4korr_x86 A = native_load 4 A"
definition uint8korr_x86 :: "mem \<Rightarrow> 64 word" where "uint8korr_x86 A = native_load 8 A"
definition sint8korr_x86 :: "mem \<Rightarrow> 64 word" where "sint8korr_x86 A = native_load 8 A"
definition int2store_x86 :: "mem \<Rightarrow> 16 word \<Rightarrow> mem" where "int2store_x86 T A = native_store 2 T A"
definition int4store_x86 :: "mem \<Rightarrow> 32 word \<Rightarrow> mem" where "int4store_x86 T A = native_store 4 T A"
definition int8store_x86 :: "mem \<Rightarrow> 64 word \<Rightarrow> mem" where "int8store_x86 T A = native_store 8 T A"

lemmas x86_defs = sint2korr_x86_def sint4korr_x86_def uint2korr_x86_def uint4korr_x86_def
  uint8korr_x86_def sint8korr_x86_def int2store_x86_def int4store_x86_def int8store_x86_def

section \<open>Byte by byte\<close>

text \<open>byte_order_generic.h. A byte shifted as a 16-bit value is promoted to \<open>int\<close> first.\<close>

definition sint2korr_generic :: "mem \<Rightarrow> 16 word" where
  "sint2korr_generic A = ucast ((ucast (A 0) :: 32 word) + push_bit 8 (ucast (A 1)))"

definition sint4korr_generic :: "mem \<Rightarrow> 32 word" where
  "sint4korr_generic A = ucast (A 0) + push_bit 8 (ucast (A 1)) + push_bit 16 (ucast (A 2))
     + push_bit 24 (ucast (A 3))"

definition uint2korr_generic :: "mem \<Rightarrow> 16 word" where
  "uint2korr_generic A = ucast ((ucast (A 0) :: 32 word) + push_bit 8 (ucast (A 1)))"

definition uint4korr_generic :: "mem \<Rightarrow> 32 word" where
  "uint4korr_generic A = ucast (A 0) + push_bit 8 (ucast (A 1)) + push_bit 16 (ucast (A 2))
     + push_bit 24 (ucast (A 3))"

definition uint8korr_generic :: "mem \<Rightarrow> 64 word" where
  "uint8korr_generic A =
     ucast ((ucast (A 0) :: 32 word) + push_bit 8 (ucast (A 1)) + push_bit 16 (ucast (A 2))
       + push_bit 24 (ucast (A 3)))
     + push_bit 32 (ucast ((ucast (A 4) :: 32 word) + push_bit 8 (ucast (A 5))
       + push_bit 16 (ucast (A 6)) + push_bit 24 (ucast (A 7))))"

definition sint8korr_generic :: "mem \<Rightarrow> 64 word" where
  "sint8korr_generic A = uint8korr_generic A"

definition int2store_generic :: "mem \<Rightarrow> 16 word \<Rightarrow> mem" where
  "int2store_generic T A =
     (let def_temp = ucast A :: 32 word
      in T(0 := ucast def_temp, 1 := ucast (drop_bit 8 def_temp)))"

definition int4store_generic :: "mem \<Rightarrow> 32 word \<Rightarrow> mem" where
  "int4store_generic T A =
     T(0 := ucast A, 1 := ucast (drop_bit 8 A), 2 := ucast (drop_bit 16 A), 3 := ucast (drop_bit 24 A))"

text \<open>A store and a load through \<open>T + k\<close>.\<close>

definition from_offset :: "nat \<Rightarrow> mem \<Rightarrow> mem" where
  "from_offset k T = (\<lambda>i. T (i + k))"

definition at_offset :: "nat \<Rightarrow> (mem \<Rightarrow> mem) \<Rightarrow> mem \<Rightarrow> mem" where
  "at_offset k st T = (\<lambda>i. if i < k then T i else st (\<lambda>j. T (j + k)) (i - k))"

definition int8store_generic :: "mem \<Rightarrow> 64 word \<Rightarrow> mem" where
  "int8store_generic T A =
     (let def_temp = ucast A :: 32 word;
          def_temp2 = ucast (drop_bit 32 A) :: 32 word
      in at_offset 4 (\<lambda>T. int4store_generic T def_temp2) (int4store_generic T def_temp))"

section \<open>The odd widths\<close>

text \<open>my_byteorder.h.\<close>

definition sint3korr :: "mem \<Rightarrow> 32 word" where
  "sint3korr A =
     (if (ucast (A 2) :: 32 word) AND 128 \<noteq> 0
      then push_bit 24 255 OR push_bit 16 (ucast (A 2)) OR push_bit 8 (ucast (A 1)) OR ucast (A 0)
      else push_bit 16 (ucast (A 2)) OR push_bit 8 (ucast (A 1)) OR ucast (A 0))"

definition uint3korr :: "mem \<Rightarrow> 32 word" where
  "uint3korr A = ucast (A 0) + push_bit 8 (ucast (A 1)) + push_bit 16 (ucast (A 2))"

definition uint5korr :: "mem \<Rightarrow> 64 word" where
  "uint5korr A =
     ucast ((ucast (A 0) :: 32 word) + push_bit 8 (ucast (A 1)) + push_bit 16 (ucast (A 2))
       + push_bit 24 (ucast (A 3)))
     + push_bit 32 (ucast (A 4))"

definition uint6korr :: "mem \<Rightarrow> 64 word" where
  "uint6korr A =
     ucast ((ucast (A 0) :: 32 word) + push_bit 8 (ucast (A 1)) + push_bit 16 (ucast (A 2))
       + push_bit 24 (ucast (A 3)))
     + push_bit 32 (ucast (A 4)) + push_bit 40 (ucast (A 5))"

definition int3store :: "mem \<Rightarrow> 32 word \<Rightarrow> mem" where
  "int3store T A = T(0 := ucast A, 1 := ucast (drop_bit 8 A), 2 := ucast (drop_bit 16 A))"

definition int5store :: "mem \<Rightarrow> 64 word \<Rightarrow> mem" where
  "int5store T A = T(0 := ucast A, 1 := ucast (drop_bit 8 A), 2 := ucast (drop_bit 16 A),
     3 := ucast (drop_bit 24 A), 4 := ucast (drop_bit 32 A))"

definition int6store :: "mem \<Rightarrow> 64 word \<Rightarrow> mem" where
  "int6store T A = T(0 := ucast A, 1 := ucast (drop_bit 8 A), 2 := ucast (drop_bit 16 A),
     3 := ucast (drop_bit 24 A), 4 := ucast (drop_bit 32 A), 5 := ucast (drop_bit 40 A))"

section \<open>Generic and native agree\<close>

lemma native_2: "native_load 2 A = ucast (A 0) + push_bit 8 (ucast (A 1))"
  by (simp add: numeral_nat)

lemma native_3: "native_load 3 A = ucast (A 0) + push_bit 8 (ucast (A 1)) + push_bit 16 (ucast (A 2))"
  by (simp add: numeral_nat push_bit_add add.assoc)

lemma native_4: "native_load 4 A = ucast (A 0) + push_bit 8 (ucast (A 1)) + push_bit 16 (ucast (A 2))
    + push_bit 24 (ucast (A 3))"
  by (simp add: numeral_nat push_bit_add add.assoc)

text \<open>The value of the first \<open>n\<close> bytes, low byte first.\<close>

fun bytes_val :: "nat \<Rightarrow> mem \<Rightarrow> nat" where
  "bytes_val 0 A = 0"
| "bytes_val (Suc n) A = unat (A 0) + 256 * bytes_val n (\<lambda>i. A (Suc i))"

lemma bytes_val_bound: "bytes_val n A < 256 ^ n"
proof (induction n arbitrary: A)
  case (Suc n)
  have "unat (A 0) < 256" using unsigned_less [of "A 0", where ?'a = nat] by simp
  moreover have "bytes_val n (\<lambda>i. A (Suc i)) + 1 \<le> 256 ^ n" using Suc [of "\<lambda>i. A (Suc i)"] by simp
  ultimately show ?case by (simp add: algebra_simps)
qed simp

lemma native_load_val: "native_load n A = of_nat (bytes_val n A)"
proof (induction n arbitrary: A)
  case (Suc n)
  have "ucast (A 0) = (of_nat (unat (A 0)) :: 'a word)" by simp
  then show ?case using Suc by (simp add: push_bit_eq_mult mult.commute)
qed simp

lemma ucast_native_load:
  assumes "8 * n \<le> LENGTH('a)"
  shows "ucast (native_load n A :: 'a::len word) = (native_load n A :: 'b::len word)"
proof -
  have "(256 :: nat) ^ n = 2 ^ (8 * n)" by (simp add: power_mult)
  also have "\<dots> \<le> 2 ^ LENGTH('a)" using assms by (rule power_increasing) simp
  finally have "bytes_val n A < 2 ^ LENGTH('a)" using bytes_val_bound [of n A] by simp
  then have "unat (of_nat (bytes_val n A) :: 'a word) = bytes_val n A" by (simp add: unat_of_nat)
  moreover have "ucast w = (of_nat (unat w) :: 'b word)" for w :: "'a word" by simp
  ultimately show ?thesis by (metis native_load_val)
qed

lemma native_load_split: "native_load (m + n) A = native_load m A + push_bit (8 * m) (native_load n (\<lambda>i. A (i + m)))"
  by (induction m arbitrary: A) (simp_all add: push_bit_add add.assoc)

lemma native_5: "native_load 5 A = native_load 4 A + push_bit 32 (ucast (A 4))"
  using native_load_split [of 4 1 A] by (simp add: numeral_eq_Suc [of num.One])

lemma native_6: "native_load 6 A = native_load 4 A + push_bit 32 (ucast (A 4)) + push_bit 40 (ucast (A 5))"
  using native_load_split [of 4 2 A] by (simp add: native_2 push_bit_add add.assoc)

lemma native_8: "native_load 8 A = native_load 4 A + push_bit 32 (native_load 4 (\<lambda>i. A (i + 4)))"
  using native_load_split [of 4 4 A] by simp

lemma generic_loads:
  "sint2korr_generic A = native_load 2 A" "uint2korr_generic A = native_load 2 A"
  "sint4korr_generic A = native_load 4 A" "uint4korr_generic A = native_load 4 A"
  "uint8korr_generic A = native_load 8 A" "sint8korr_generic A = native_load 8 A"
  "uint3korr A = native_load 3 A" "uint5korr A = native_load 5 A" "uint6korr A = native_load 6 A"
proof -
  have t2: "(ucast (A 0) :: 32 word) + push_bit 8 (ucast (A 1)) = native_load 2 A" by (simp add: native_2)
  have t4: "(ucast (A k) :: 32 word) + push_bit 8 (ucast (A (Suc k))) + push_bit 16 (ucast (A (Suc (Suc k))))
      + push_bit 24 (ucast (A (Suc (Suc (Suc k))))) = native_load 4 (\<lambda>i. A (i + k))" for k
    by (simp add: native_4 eval_nat_numeral)
  have f0: "(ucast (A 0) :: 32 word) + push_bit 8 (ucast (A 1)) + push_bit 16 (ucast (A 2))
      + push_bit 24 (ucast (A 3)) = native_load 4 A" by (simp add: native_4)
  have f4: "(ucast (A 4) :: 32 word) + push_bit 8 (ucast (A 5)) + push_bit 16 (ucast (A 6))
      + push_bit 24 (ucast (A 7)) = native_load 4 (\<lambda>i. A (i + 4))" by (simp add: native_4)
  show "sint2korr_generic A = native_load 2 A" "uint2korr_generic A = native_load 2 A"
    unfolding sint2korr_generic_def uint2korr_generic_def t2 by (rule ucast_native_load, simp)+
  show "sint4korr_generic A = native_load 4 A" "uint4korr_generic A = native_load 4 A"
    by (simp_all add: sint4korr_generic_def uint4korr_generic_def native_4)
  show u8: "uint8korr_generic A = native_load 8 A"
    unfolding uint8korr_generic_def f0 f4 by (simp add: ucast_native_load native_8)
  then show "sint8korr_generic A = native_load 8 A" by (simp add: sint8korr_generic_def)
  show "uint3korr A = native_load 3 A" by (simp add: uint3korr_def native_3)
  show "uint5korr A = native_load 5 A" unfolding uint5korr_def f0 by (simp add: ucast_native_load native_5)
  show "uint6korr A = native_load 6 A" unfolding uint6korr_def f0 by (simp add: ucast_native_load native_6)
qed

lemma native_store_0: "native_store 0 T a = T"
  by (simp add: native_store_def)

lemma native_store_upd: "native_store (Suc n) T a = (native_store n T a)(n := ucast (drop_bit (8 * n) a))"
  by (auto simp: native_store_def less_Suc_eq)

lemma ucast_wide_byte: "LENGTH('a) \<le> LENGTH('b) \<Longrightarrow>
    ucast (drop_bit k (ucast (a :: 'a::len word) :: 'b::len word)) = (ucast (drop_bit k a) :: 8 word)"
  by (rule bit_word_eqI) (auto simp: bit_simps dest: bit_imp_le_length)

lemma ucast_wide_byte_0: "LENGTH('a) \<le> LENGTH('b) \<Longrightarrow>
    ucast (ucast (a :: 'a::len word) :: 'b::len word) = (ucast a :: 8 word)"
  using ucast_wide_byte [of 0 a, where 'b = 'b] by simp

lemma native_stores:
  "native_store 1 T a = T(0 := ucast a)"
  "native_store 2 T a = T(0 := ucast a, 1 := ucast (drop_bit 8 a))"
  "native_store 3 T a = T(0 := ucast a, 1 := ucast (drop_bit 8 a), 2 := ucast (drop_bit 16 a))"
  "native_store 4 T a = T(0 := ucast a, 1 := ucast (drop_bit 8 a), 2 := ucast (drop_bit 16 a),
     3 := ucast (drop_bit 24 a))"
  "native_store 5 T a = T(0 := ucast a, 1 := ucast (drop_bit 8 a), 2 := ucast (drop_bit 16 a),
     3 := ucast (drop_bit 24 a), 4 := ucast (drop_bit 32 a))"
  "native_store 6 T a = T(0 := ucast a, 1 := ucast (drop_bit 8 a), 2 := ucast (drop_bit 16 a),
     3 := ucast (drop_bit 24 a), 4 := ucast (drop_bit 32 a), 5 := ucast (drop_bit 40 a))"
proof -
  show 1: "native_store 1 T a = T(0 := ucast a)"
    using native_store_upd [of 0 T a] by (simp add: native_store_0)
  show 2: "native_store 2 T a = T(0 := ucast a, 1 := ucast (drop_bit 8 a))"
    using native_store_upd [of 1 T a] 1 by (simp del: One_nat_def)
  show 3: "native_store 3 T a = T(0 := ucast a, 1 := ucast (drop_bit 8 a), 2 := ucast (drop_bit 16 a))"
    using native_store_upd [of 2 T a] 2 by simp
  show 4: "native_store 4 T a = T(0 := ucast a, 1 := ucast (drop_bit 8 a), 2 := ucast (drop_bit 16 a),
     3 := ucast (drop_bit 24 a))"
    using native_store_upd [of 3 T a] 3 by simp
  show 5: "native_store 5 T a = T(0 := ucast a, 1 := ucast (drop_bit 8 a), 2 := ucast (drop_bit 16 a),
     3 := ucast (drop_bit 24 a), 4 := ucast (drop_bit 32 a))"
    using native_store_upd [of 4 T a] 4 by simp
  show "native_store 6 T a = T(0 := ucast a, 1 := ucast (drop_bit 8 a), 2 := ucast (drop_bit 16 a),
     3 := ucast (drop_bit 24 a), 4 := ucast (drop_bit 32 a), 5 := ucast (drop_bit 40 a))"
    using native_store_upd [of 5 T a] 5 by simp
qed

lemma generic_stores_wide:
  "int4store_generic T b = native_store 4 T b"
  "int3store T b = native_store 3 T b" "int5store T c = native_store 5 T c" "int6store T c = native_store 6 T c"
  by (simp_all only: int4store_generic_def int3store_def int5store_def int6store_def native_stores)

lemma generic_store_2: "int2store_generic T a = native_store 2 T a"
proof -
  have "(ucast (drop_bit 8 (ucast a :: 32 word)) :: 8 word) = ucast (drop_bit 8 a)"
    and "(ucast (ucast a :: 32 word) :: 8 word) = ucast a"
    by (rule ucast_wide_byte ucast_wide_byte_0, simp)+
  then show ?thesis by (simp only: int2store_generic_def native_stores Let_def)
qed

lemmas generic_stores = generic_store_2 generic_stores_wide

lemma native_store_offset:
  "at_offset m (\<lambda>T. native_store n T b) (native_store m T a) =
    (\<lambda>i. if i < m then ucast (drop_bit (8 * i) a)
         else if i < m + n then ucast (drop_bit (8 * (i - m)) b) else T i)"
  by (rule ext) (auto simp: at_offset_def native_store_def)

lemma ucast_narrow_byte: "k + 8 \<le> LENGTH('b) \<Longrightarrow>
    (ucast (drop_bit k (ucast (a :: 'a::len word) :: 'b::len word)) :: 8 word) = ucast (drop_bit k a)"
  by (rule bit_word_eqI) (auto simp: bit_simps)

lemma generic_store_8: "int8store_generic T c = native_store 8 T c"
proof
  fix i
  have e: "int8store_generic T c = at_offset 4 (\<lambda>T. native_store 4 T (ucast (drop_bit 32 c) :: 32 word))
      (native_store 4 T (ucast c :: 32 word))"
    by (simp only: int8store_generic_def Let_def generic_stores)
  have lo: "(ucast (drop_bit (8 * i) (ucast c :: 32 word)) :: 8 word) = ucast (drop_bit (8 * i) c)" if "i < 4"
    by (rule ucast_narrow_byte) (use that in simp)
  have hi: "(ucast (drop_bit (8 * (i - 4)) (ucast (drop_bit 32 c) :: 32 word)) :: 8 word)
      = ucast (drop_bit (8 * i) c)" if "\<not> i < 4" "i < 8"
  proof -
    have "(ucast (drop_bit (8 * (i - 4)) (ucast (drop_bit 32 c) :: 32 word)) :: 8 word)
        = ucast (drop_bit (8 * (i - 4)) (drop_bit 32 c))"
      by (rule ucast_narrow_byte) (use that in simp)
    also have "drop_bit (8 * (i - 4)) (drop_bit 32 c) = drop_bit (8 * (i - 4) + 32) c" by simp
    also have "8 * (i - 4) + 32 = 8 * i" using that by simp
    finally show ?thesis .
  qed
  have n: "i < 4 + 4 \<longleftrightarrow> i < 8" by simp
  show "int8store_generic T c i = native_store 8 T c i"
    unfolding e native_store_offset n unfolding native_store_def
    using lo hi by (simp only: split: if_splits) auto
qed

section \<open>Through char pointers\<close>

text \<open>
  The C++ overloads of my_byteorder.h take \<open>char *\<close> and read the same bytes as \<open>uchar\<close>; a
  store through such a pointer changes them in place. On x86 they call the native versions.
\<close>

type_synonym cmem = "nat \<Rightarrow> char"

definition as_uchar :: "cmem \<Rightarrow> mem" where "as_uchar p = (\<lambda>i. of_nat (of_char (p i)))"
definition as_char :: "mem \<Rightarrow> cmem" where "as_char m = (\<lambda>i. char_of (unat (m i)))"

definition sint2korr_char :: "cmem \<Rightarrow> 16 word" where "sint2korr_char pT = sint2korr_x86 (as_uchar pT)"
definition uint2korr_char :: "cmem \<Rightarrow> 16 word" where "uint2korr_char pT = uint2korr_x86 (as_uchar pT)"
definition uint3korr_char :: "cmem \<Rightarrow> 32 word" where "uint3korr_char pT = uint3korr (as_uchar pT)"
definition sint3korr_char :: "cmem \<Rightarrow> 32 word" where "sint3korr_char pT = sint3korr (as_uchar pT)"
definition uint4korr_char :: "cmem \<Rightarrow> 32 word" where "uint4korr_char pT = uint4korr_x86 (as_uchar pT)"
definition sint4korr_char :: "cmem \<Rightarrow> 32 word" where "sint4korr_char pT = sint4korr_x86 (as_uchar pT)"
definition uint6korr_char :: "cmem \<Rightarrow> 64 word" where "uint6korr_char pT = uint6korr (as_uchar pT)"
definition uint8korr_char :: "cmem \<Rightarrow> 64 word" where "uint8korr_char pT = uint8korr_x86 (as_uchar pT)"
definition sint8korr_char :: "cmem \<Rightarrow> 64 word" where "sint8korr_char pT = sint8korr_x86 (as_uchar pT)"
definition int2store_char :: "cmem \<Rightarrow> 16 word \<Rightarrow> cmem" where
  "int2store_char pT A = as_char (int2store_x86 (as_uchar pT) A)"
definition int3store_char :: "cmem \<Rightarrow> 32 word \<Rightarrow> cmem" where
  "int3store_char pT A = as_char (int3store (as_uchar pT) A)"
definition int4store_char :: "cmem \<Rightarrow> 32 word \<Rightarrow> cmem" where
  "int4store_char pT A = as_char (int4store_x86 (as_uchar pT) A)"
definition int5store_char :: "cmem \<Rightarrow> 64 word \<Rightarrow> cmem" where
  "int5store_char pT A = as_char (int5store (as_uchar pT) A)"
definition int6store_char :: "cmem \<Rightarrow> 64 word \<Rightarrow> cmem" where
  "int6store_char pT A = as_char (int6store (as_uchar pT) A)"
definition int8store_char :: "cmem \<Rightarrow> 64 word \<Rightarrow> cmem" where
  "int8store_char pT A = as_char (int8store_x86 (as_uchar pT) A)"

lemmas char_defs = sint2korr_char_def uint2korr_char_def uint3korr_char_def sint3korr_char_def
  uint4korr_char_def sint4korr_char_def uint6korr_char_def uint8korr_char_def sint8korr_char_def
  int2store_char_def int3store_char_def int4store_char_def int5store_char_def int6store_char_def
  int8store_char_def

lemma as_uchar_char [simp]: "as_uchar (as_char m) = m"
proof
  fix i
  have "unat (m i) < 256" using unsigned_less [of "m i", where ?'a = nat] by simp
  then show "as_uchar (as_char m) i = m i" by (simp add: as_uchar_def as_char_def)
qed

section \<open>Machine order\<close>

text \<open>
  Floating-point values are their object representations, words of 32 and 64 bits, and
  \<open>memcpy\<close> of one is the machine access. little_endian.h:
\<close>

definition float4get_le :: "mem \<Rightarrow> 32 word" where "float4get_le M = native_load 4 M"
definition float4store_le :: "mem \<Rightarrow> 32 word \<Rightarrow> mem" where "float4store_le V M = native_store 4 V M"
definition float8get_le :: "mem \<Rightarrow> 64 word" where "float8get_le M = native_load 8 M"
definition float8store_le :: "mem \<Rightarrow> 64 word \<Rightarrow> mem" where "float8store_le V M = native_store 8 V M"
definition float4store_char :: "cmem \<Rightarrow> 32 word \<Rightarrow> cmem" where
  "float4store_char V M = as_char (float4store_le (as_uchar V) M)"
definition float8get_char :: "cmem \<Rightarrow> 64 word" where "float8get_char M = float8get_le (as_uchar M)"
definition float8store_char :: "cmem \<Rightarrow> 64 word \<Rightarrow> cmem" where
  "float8store_char V M = as_char (float8store_le (as_uchar V) M)"
definition floatget_le :: "mem \<Rightarrow> 32 word" where "floatget_le M = float4get_le M"
definition floatstore_le :: "mem \<Rightarrow> 32 word \<Rightarrow> mem" where "floatstore_le V M = float4store_le V M"
definition doublestore_le :: "mem \<Rightarrow> 64 word \<Rightarrow> mem" where "doublestore_le T V = native_store 8 T V"
definition doubleget_le :: "mem \<Rightarrow> 64 word" where "doubleget_le M = native_load 8 M"
definition ushortget_le :: "mem \<Rightarrow> 16 word" where "ushortget_le pM = uint2korr_x86 pM"
definition shortget_le :: "mem \<Rightarrow> 16 word" where "shortget_le pM = sint2korr_x86 pM"
definition longget_le :: "mem \<Rightarrow> 32 word" where "longget_le pM = sint4korr_x86 pM"
definition ulongget_le :: "mem \<Rightarrow> 32 word" where "ulongget_le pM = uint4korr_x86 pM"
definition shortstore_le :: "mem \<Rightarrow> 16 word \<Rightarrow> mem" where "shortstore_le T V = int2store_x86 T V"
definition longstore_le :: "mem \<Rightarrow> 32 word \<Rightarrow> mem" where "longstore_le T V = int4store_x86 T V"
definition longlongget_le :: "mem \<Rightarrow> 64 word" where "longlongget_le M = native_load 8 M"
definition longlongstore_le :: "mem \<Rightarrow> 64 word \<Rightarrow> mem" where "longlongstore_le T V = native_store 8 T V"

text \<open>
  The variants for machines whose doubles have their two halves exchanged
  (\<open>__FLOAT_WORD_ORDER\<close>): \<open>V\<close> is the representation of the double, byte by byte.
\<close>

definition doublestore_swapped :: "mem \<Rightarrow> mem \<Rightarrow> mem" where
  "doublestore_swapped T V = T(0 := V 4, 1 := V 5, 2 := V 6, 3 := V 7, 4 := V 0, 5 := V 1, 6 := V 2, 7 := V 3)"

definition doubleget_swapped :: "mem \<Rightarrow> mem \<Rightarrow> mem" where
  "doubleget_swapped V M = V(0 := M 4, 1 := M 5, 2 := M 6, 3 := M 7, 4 := M 0, 5 := M 1, 6 := M 2, 7 := M 3)"

text \<open>
  big_endian.h, for a machine that keeps the high byte first: its accesses, and the functions
  that reverse the bytes by hand. \<open>rep4 A\<close> and \<open>rep8 A\<close> are \<open>(uchar *) &A\<close> there.
\<close>

definition load_be :: "nat \<Rightarrow> mem \<Rightarrow> 'a::len word" where
  "load_be n A = native_load n (\<lambda>i. A (n - 1 - i))"

definition store_be :: "nat \<Rightarrow> mem \<Rightarrow> 'a::len word \<Rightarrow> mem" where
  "store_be n T a = (\<lambda>i. if i < n then ucast (drop_bit (8 * (n - 1 - i)) a) else T i)"

definition rep_be :: "nat \<Rightarrow> 'a::len word \<Rightarrow> mem" where
  "rep_be n a = store_be n (\<lambda>_. 0) a"

definition float4store_be :: "mem \<Rightarrow> 32 word \<Rightarrow> mem" where
  "float4store_be T A = T(0 := rep_be 4 A 3, 1 := rep_be 4 A 2, 2 := rep_be 4 A 1, 3 := rep_be 4 A 0)"

definition float4get_be :: "mem \<Rightarrow> 32 word" where
  "float4get_be M = load_be 4 ((\<lambda>_. 0)(0 := M 3, 1 := M 2, 2 := M 1, 3 := M 0))"

definition float8store_be :: "mem \<Rightarrow> 64 word \<Rightarrow> mem" where
  "float8store_be T V = T(0 := rep_be 8 V 7, 1 := rep_be 8 V 6, 2 := rep_be 8 V 5, 3 := rep_be 8 V 4,
     4 := rep_be 8 V 3, 5 := rep_be 8 V 2, 6 := rep_be 8 V 1, 7 := rep_be 8 V 0)"

definition float8get_be :: "mem \<Rightarrow> 64 word" where
  "float8get_be M = load_be 8 ((\<lambda>_. 0)(0 := M 7, 1 := M 6, 2 := M 5, 3 := M 4, 4 := M 3, 5 := M 2,
     6 := M 1, 7 := M 0))"

definition ushortget_be :: "mem \<Rightarrow> 16 word" where
  "ushortget_be pM = ucast ((ucast (pM 1) :: 32 word) + push_bit 8 (ucast (pM 0)))"

definition shortget_be :: "mem \<Rightarrow> 16 word" where
  "shortget_be pM = ucast ((ucast (pM 1) :: 32 word) + push_bit 8 (ucast (pM 0)))"

definition longget_be :: "mem \<Rightarrow> 32 word" where
  "longget_be pM = load_be 4 ((\<lambda>_. 0)(0 := pM 0, 1 := pM 1, 2 := pM 2, 3 := pM 3))"

definition ulongget_be :: "mem \<Rightarrow> 32 word" where
  "ulongget_be pM = load_be 4 ((\<lambda>_. 0)(0 := pM 0, 1 := pM 1, 2 := pM 2, 3 := pM 3))"

definition shortstore_be :: "mem \<Rightarrow> 16 word \<Rightarrow> mem" where
  "shortstore_be T A =
     (let def_temp = scast A :: 32 word in T(1 := ucast def_temp, 0 := ucast (drop_bit 8 def_temp)))"

definition longstore_be :: "mem \<Rightarrow> 32 word \<Rightarrow> mem" where
  "longstore_be T A = T(3 := ucast A, 2 := ucast (signed_drop_bit 8 A), 1 := ucast (signed_drop_bit 16 A),
     0 := ucast (signed_drop_bit 24 A))"

definition floatget_be :: "mem \<Rightarrow> 32 word" where "floatget_be M = load_be 4 M"
definition floatstore_be :: "mem \<Rightarrow> 32 word \<Rightarrow> mem" where "floatstore_be T V = store_be 4 T V"
definition doubleget_be :: "mem \<Rightarrow> 64 word" where "doubleget_be M = load_be 8 M"
definition doublestore_be :: "mem \<Rightarrow> 64 word \<Rightarrow> mem" where "doublestore_be T V = store_be 8 T V"
definition longlongget_be :: "mem \<Rightarrow> 64 word" where "longlongget_be M = load_be 8 M"
definition longlongstore_be :: "mem \<Rightarrow> 64 word \<Rightarrow> mem" where "longlongstore_be T V = store_be 8 T V"

lemma native_load_cong: "(\<And>i. i < n \<Longrightarrow> A i = B i) \<Longrightarrow> native_load n A = native_load n B"
proof (induction n arbitrary: A B)
  case (Suc n)
  have "A (Suc i) = B (Suc i)" if "i < n" for i using that by (intro Suc.prems) simp
  then have "(native_load n (\<lambda>i. A (Suc i)) :: 'a word) = native_load n (\<lambda>i. B (Suc i))" by (rule Suc.IH)
  moreover have "A 0 = B 0" by (rule Suc.prems) simp
  ultimately show ?case by (simp only: native_load.simps)
qed simp

lemma load_store_be: "load_be n (store_be n T a) = take_bit (8 * n) (a :: 'a::len word)"
proof -
  have "store_be n T a (n - 1 - i) = native_store n T a i" if "i < n" for i
    using that by (simp add: store_be_def native_store_def)
  then have "load_be n (store_be n T a) = (native_load n (native_store n T a) :: 'a word)"
    unfolding load_be_def by (rule native_load_cong)
  then show ?thesis by (simp only: native_load_store)
qed

lemma rep_be_byte: "i < n \<Longrightarrow> rep_be n a i = ucast (drop_bit (8 * (n - 1 - i)) a)"
  by (simp add: rep_be_def store_be_def)

lemma float_be_le:
  "float4store_be T a = float4store_le T a" "float8store_be T b = float8store_le T b"
proof -
  show "float4store_be T a = float4store_le T a"
    unfolding float4store_be_def float4store_le_def native_stores by (simp add: rep_be_byte)
  have "native_store 8 T b = (native_store 6 T b)(6 := ucast (drop_bit 48 b), 7 := ucast (drop_bit 56 b))"
    using native_store_upd [of 6 T b] native_store_upd [of 7 T b] by simp
  then show "float8store_be T b = float8store_le T b"
    unfolding float8store_be_def float8store_le_def native_stores by (simp add: rep_be_byte)
qed

lemma float_get_be_le: "float4get_be M = float4get_le M" "float8get_be M = float8get_le M"
  unfolding float4get_be_def float4get_le_def float8get_be_def float8get_le_def load_be_def
  by (rule native_load_cong, auto simp: eval_nat_numeral less_Suc_eq)+

section \<open>Sign extension of three bytes\<close>

lemma and_128: "(w :: 32 word) AND 128 \<noteq> 0 \<longleftrightarrow> bit w 7"
proof -
  have "(128 :: 32 word) = 2 ^ 7" by simp
  then show ?thesis by (simp only: and_exp_eq_0_iff_not_bit not_not)
qed

lemma sint3korr_store: "sint3korr (int3store T a) = signed_take_bit 23 a"
proof (rule bit_word_eqI)
  fix i assume i: "i < LENGTH(32)"
  have b: "int3store T a 0 = ucast a" "int3store T a (Suc 0) = ucast (drop_bit 8 a)" "int3store T a 2 = ucast (drop_bit 16 a)"
    by (simp_all add: int3store_def)
  have s: "bit (ucast (int3store T a 2) :: 32 word) 7 = bit a 23"
    by (simp add: b bit_simps)
  have m: "bit (push_bit 24 255 :: 32 word) i \<longleftrightarrow> 24 \<le> i"
  proof -
    have e: "(255 :: 32 word) = mask 8" by (simp add: mask_eq_exp_minus_1)
    show ?thesis unfolding e bit_push_bit_iff bit_mask_iff using i by auto
  qed
  show "bit (sint3korr (int3store T a)) i = bit (signed_take_bit 23 a) i"
    unfolding sint3korr_def and_128 s bit_signed_take_bit_iff using i m
    by (cases "bit a 23"; cases "i < 8"; cases "i < 16"; cases "i < 24"; cases "i = 23")
       (auto simp: b bit_or_iff bit_push_bit_iff bit_drop_bit_eq bit_ucast_iff min_def simp del: push_bit_numeral)
qed

lemma sint3korr_local: "(\<And>i. i < 3 \<Longrightarrow> A i = B i) \<Longrightarrow> sint3korr A = sint3korr B"
  by (simp add: sint3korr_def)

lemma sint3korr_stored:
  "sint3korr (from_offset k (at_offset (k + 3 + d) f (at_offset k (\<lambda>T. int3store T b) T))) = signed_take_bit 23 b"
proof -
  have "sint3korr (from_offset k (at_offset (k + 3 + d) f (at_offset k (\<lambda>T. int3store T b) T)))
      = sint3korr (int3store (\<lambda>j. T (j + k)) b)"
    by (rule sint3korr_local) (simp add: from_offset_def at_offset_def)
  then show ?thesis by (simp only: sint3korr_store)
qed

text \<open>The memory with the \<open>n\<close> low bytes of a value from offset \<open>k\<close> on.\<close>

definition stored_bytes :: "nat \<Rightarrow> nat \<Rightarrow> 'a::len word \<Rightarrow> mem \<Rightarrow> mem" where
  "stored_bytes k n a T =
     (\<lambda>i. if k \<le> i \<and> i < k + n then ucast (drop_bit (8 * (i - k)) a) else T i)"

lemma native_store_at: "at_offset k (\<lambda>T. native_store n T a) T = stored_bytes k n a T"
  by (rule ext) (auto simp: at_offset_def native_store_def stored_bytes_def)

section \<open>Stores and loads as a codec\<close>

text \<open>
  What a pair of a store and a load of \<open>n\<close> bytes promises: the load returns the low \<open>n\<close> bytes
  of what was stored, the store touches nothing else, and the load looks at nothing else.
  Then fields laid out one after the other do not disturb each other.
\<close>

locale byte_codec =
  fixes n :: nat and st :: "mem \<Rightarrow> 'a::len word \<Rightarrow> mem" and ld :: "mem \<Rightarrow> 'a word"
  assumes ld_st: "ld (st T a) = take_bit (8 * n) a"
    and st_frame: "n \<le> i \<Longrightarrow> st T a i = T i"
    and ld_local: "(\<And>i. i < n \<Longrightarrow> A i = B i) \<Longrightarrow> ld A = ld B"
begin

text \<open>
  A value stored through \<open>T + k\<close> is what is loaded from there, whatever \<open>st'\<close> writes to the
  memory \<open>d\<close> bytes after it or further on.
\<close>

lemma ld_stored:
  "ld (from_offset k (at_offset (k + n + d) st' (at_offset k (\<lambda>T. st T a) T))) = take_bit (8 * n) a"
proof -
  have "ld (from_offset k (at_offset (k + n + d) st' (at_offset k (\<lambda>T. st T a) T)))
      = ld (st (\<lambda>j. T (j + k)) a)"
    by (rule ld_local) (simp add: from_offset_def at_offset_def)
  then show ?thesis by (simp only: ld_st)
qed

end

lemma native_codec: "byte_codec n (native_store n) (native_load n)"
proof unfold_locales
  show "native_load n (native_store n T a) = take_bit (8 * n) a" for T and a :: "'a word"
    by (rule native_load_store)
  show "native_store n T a i = T i" if "n \<le> i" for T and a :: "'a word" and i
    using that by (rule native_store_frame)
  show "(native_load n A :: 'a word) = native_load n B" if "\<And>i. i < n \<Longrightarrow> A i = B i" for A B
    using that by (rule native_load_cong)
qed

interpretation codec2: byte_codec 2 int2store_x86 uint2korr_x86
  using native_codec [of 2] by (simp add: x86_defs [abs_def])

interpretation codec3: byte_codec 3 int3store uint3korr
  using native_codec [of 3] by (simp add: generic_stores [abs_def] generic_loads [abs_def])

interpretation codec4: byte_codec 4 int4store_x86 uint4korr_x86
  using native_codec [of 4] by (simp add: x86_defs [abs_def])

interpretation codec5: byte_codec 5 int5store uint5korr
  using native_codec [of 5] by (simp add: generic_stores [abs_def] generic_loads [abs_def])

interpretation codec6: byte_codec 6 int6store uint6korr
  using native_codec [of 6] by (simp add: generic_stores [abs_def] generic_loads [abs_def])

interpretation codec8: byte_codec 8 int8store_x86 uint8korr_x86
  using native_codec [of 8] by (simp add: x86_defs [abs_def])

section \<open>Properties\<close>

text \<open>The functions written out byte by byte and the unaligned machine accesses used on x86
  are the same functions, for every memory and every value.\<close>

theorem korr_generic_native:
  "sint2korr_generic A = sint2korr_x86 A \<and> sint4korr_generic A = sint4korr_x86 A
    \<and> uint2korr_generic A = uint2korr_x86 A \<and> uint4korr_generic A = uint4korr_x86 A
    \<and> uint8korr_generic A = uint8korr_x86 A \<and> sint8korr_generic A = sint8korr_x86 A
    \<and> int2store_generic T a = int2store_x86 T a \<and> int4store_generic T b = int4store_x86 T b
    \<and> int8store_generic T c = int8store_x86 T c"
  by (simp only: generic_loads generic_stores generic_store_8 x86_defs simp_thms)

text \<open>C40: a value stored at an offset is read back from that offset, whatever is stored behind
  it: the 16, 32 and 64 bits of the widths two, four and eight as they are, the widths three,
  five and six reduced to their 24, 40 and 48 bits, and the signed three-byte load extends the
  sign of what was stored (there is no width seven). A store changes its own bytes and no
  other: the memory afterwards is the one before with the bytes of the value, low byte first,
  from the offset on.\<close>

theorem korr_roundtrip:
  "uint2korr_x86 (from_offset k (at_offset (k + 2 + d) f (at_offset k (\<lambda>T. int2store_x86 T a) T))) = a
    \<and> uint3korr (from_offset k (at_offset (k + 3 + d) f (at_offset k (\<lambda>T. int3store T b) T))) = take_bit 24 b
    \<and> sint3korr (from_offset k (at_offset (k + 3 + d) f (at_offset k (\<lambda>T. int3store T b) T)))
        = signed_take_bit 23 b
    \<and> uint4korr_x86 (from_offset k (at_offset (k + 4 + d) f (at_offset k (\<lambda>T. int4store_x86 T b) T))) = b
    \<and> uint5korr (from_offset k (at_offset (k + 5 + d) f (at_offset k (\<lambda>T. int5store T c) T))) = take_bit 40 c
    \<and> uint6korr (from_offset k (at_offset (k + 6 + d) f (at_offset k (\<lambda>T. int6store T c) T))) = take_bit 48 c
    \<and> uint8korr_x86 (from_offset k (at_offset (k + 8 + d) f (at_offset k (\<lambda>T. int8store_x86 T c) T))) = c
    \<and> at_offset k (\<lambda>T. int2store_x86 T a) T = stored_bytes k 2 a T
    \<and> at_offset k (\<lambda>T. int3store T b) T = stored_bytes k 3 b T
    \<and> at_offset k (\<lambda>T. int4store_x86 T b) T = stored_bytes k 4 b T
    \<and> at_offset k (\<lambda>T. int5store T c) T = stored_bytes k 5 c T
    \<and> at_offset k (\<lambda>T. int6store T c) T = stored_bytes k 6 c T
    \<and> at_offset k (\<lambda>T. int8store_x86 T c) T = stored_bytes k 8 c T"
  using codec2.ld_stored [of k d f a T] codec3.ld_stored [of k d f b T] codec4.ld_stored [of k d f b T]
    codec5.ld_stored [of k d f c T] codec6.ld_stored [of k d f c T] codec8.ld_stored [of k d f c T]
    take_bit_word_eq_self [of 16 a] take_bit_word_eq_self [of 32 b] take_bit_word_eq_self [of 64 c]
    sint3korr_stored [of k d f b T]
  by (simp add: native_store_at x86_defs generic_stores)

text \<open>The field of three bytes at offset 5, in front of a field of four.\<close>

theorem korr_roundtrip_witness:
  "uint3korr (from_offset 5 (at_offset 8 (\<lambda>T. int4store_x86 T 7) (at_offset 5 (\<lambda>T. int3store T 0x1020304) (\<lambda>_. 0))))
    = 0x20304"
proof -
  have "uint3korr (from_offset 5 (at_offset (5 + 3 + 0) (\<lambda>T. int4store_x86 T 7)
      (at_offset 5 (\<lambda>T. int3store T 0x1020304) (\<lambda>_. 0)))) = take_bit 24 0x1020304"
    using korr_roundtrip [of 5 0 "\<lambda>T. int4store_x86 T 7" 0 "\<lambda>_. 0" "0x1020304" 0] by (rule conjunct1 [OF conjunct2])
  then show ?thesis by simp
qed

text \<open>Stored floating-point values do not depend on the machine: the byte-reversing
  functions of a big-endian machine write the same bytes as the copies of a little-endian
  one, and read the same value back.\<close>

theorem float_format_machine_independent:
  "float4store_be T a = float4store_le T a \<and> float8store_be T b = float8store_le T b
    \<and> float4get_be (float4store_le T a) = a \<and> float8get_be (float8store_le T b) = b
    \<and> doubleget_swapped V (doublestore_swapped T W) = (\<lambda>i. if i < 8 then W i else V i)"
proof (intro conjI)
  show "float4get_be (float4store_le T a) = a" "float8get_be (float8store_le T b) = b"
    by (simp_all add: float_get_be_le float4get_le_def float4store_le_def float8get_le_def float8store_le_def
        native_load_store take_bit_word_eq_self)
  show "doubleget_swapped V (doublestore_swapped T W) = (\<lambda>i. if i < 8 then W i else V i)"
  proof
    fix i :: nat
    have "i < 8 \<longleftrightarrow> i = 0 \<or> i = 1 \<or> i = 2 \<or> i = 3 \<or> i = 4 \<or> i = 5 \<or> i = 6 \<or> i = 7" by arith
    then show "doubleget_swapped V (doublestore_swapped T W) i = (if i < 8 then W i else V i)"
      by (auto simp: doubleget_swapped_def doublestore_swapped_def)
  qed
qed (rule float_be_le)+

end
