(* ===== verification/Mysql_Inline.thy ===== *)
theory Mysql_Inline
  imports Mysql_Byteorder
begin

text \<open>
  Two groups of inline functions of the MySQL client headers: \<open>skip_trailing_space\<close> (m_string.h)
  in its two versions, which compare words of memory where they can, and the arithmetic of
  \<open>timespec\<close> (my_global.h). Memory is a function from addresses to bytes; times are words of
  64 bits, as \<open>time_t\<close> and \<open>long\<close> are in the configuration of the repository (my_config.h).
\<close>

section \<open>Trailing spaces\<close>

text \<open>
  The end pointer moves down; it is kept as an address, like \<open>ptr\<close>. \<open>byte_loop\<close> is the last
  loop of both versions.
\<close>

function byte_loop :: "mem \<Rightarrow> nat \<Rightarrow> nat \<Rightarrow> nat" where
  "byte_loop M low e = (if low < e \<and> M (e - 1) = 0x20 then byte_loop M low (e - 1) else e)"
  by auto

termination byte_loop
  by (relation "measure (\<lambda>(M, low, e). e)") auto

declare byte_loop.simps [simp del]

text \<open>Eight bytes at a time, ignoring alignment.\<close>

function word_loop :: "mem \<Rightarrow> nat \<Rightarrow> nat \<Rightarrow> nat" where
  "word_loop M ptr e =
     (if 8 \<le> e - ptr
      then if uint8korr_x86 (\<lambda>i. M (e - 8 + i)) \<noteq> 0x2020202020202020 then e else word_loop M ptr (e - 8)
      else e)"
  by auto

termination word_loop
  by (relation "measure (\<lambda>(M, ptr, e). e)") auto

declare word_loop.simps [simp del]

definition skip_trailing_space :: "mem \<Rightarrow> nat \<Rightarrow> nat \<Rightarrow> nat" where
  "skip_trailing_space M ptr len = (let e = ptr + len in byte_loop M ptr (word_loop M ptr e))"

text \<open>
  The version for SPARC, which is big-endian: aligned words of four bytes between the first
  and the last multiple of four.
\<close>

function int_loop :: "mem \<Rightarrow> nat \<Rightarrow> nat \<Rightarrow> nat" where
  "int_loop M start_words e =
     (if start_words < e \<and> load_be 4 (\<lambda>i. M (e - 4 + i)) = (0x20202020 :: 32 word)
      then int_loop M start_words (e - 4) else e)"
  by auto

termination int_loop
  by (relation "measure (\<lambda>(M, s, e). e)") auto

declare int_loop.simps [simp del]

definition skip_trailing_space_sparc :: "mem \<Rightarrow> nat \<Rightarrow> nat \<Rightarrow> nat" where
  "skip_trailing_space_sparc M ptr len =
     (let e = ptr + len;
          e = (if len > 20
               then let end_words = e div 4 * 4;
                        start_words = (ptr + 4 - 1) div 4 * 4;
                        e = byte_loop M end_words e
                    in if M (e - 1) = 0x20 \<and> start_words < end_words then int_loop M start_words e else e
               else e)
      in byte_loop M ptr e)"

section \<open>What the loops do\<close>

text \<open>The spaces between two addresses, and the end of the text: the specification.\<close>

definition spaces :: "mem \<Rightarrow> nat \<Rightarrow> nat \<Rightarrow> bool" where
  "spaces M a b \<longleftrightarrow> (\<forall>i \<in> {a ..< b}. M i = 0x20)"

lemma spaces_join:
  assumes "spaces M a b" and "spaces M b c"
  shows "spaces M a c"
  unfolding spaces_def
proof
  fix i
  assume "i \<in> {a ..< c}"
  then have "i \<in> {a ..< b} \<or> i \<in> {b ..< c}" by auto
  with assms show "M i = 0x20" by (auto simp only: spaces_def)
qed

lemma spaces_refl [simp]: "spaces M a a"
  by (simp add: spaces_def)

lemma spaces_last: "M (e - 1) = 0x20 \<Longrightarrow> spaces M (e - 1) e"
proof -
  assume "M (e - 1) = 0x20"
  moreover have "i = e - 1" if "i \<in> {e - 1 ..< e}" for i using that by auto
  ultimately show ?thesis by (simp only: spaces_def) blast
qed

definition text_end :: "mem \<Rightarrow> nat \<Rightarrow> nat \<Rightarrow> nat \<Rightarrow> bool" where
  "text_end M ptr len e \<longleftrightarrow>
     ptr \<le> e \<and> e \<le> ptr + len \<and> spaces M e (ptr + len) \<and> (e = ptr \<or> M (e - 1) \<noteq> 0x20)"

lemma text_end_le:
  assumes "text_end M ptr len a" "text_end M ptr len b"
  shows "b \<le> a"
proof (rule ccontr)
  assume "\<not> b \<le> a"
  then have "b - 1 \<in> {a ..< ptr + len}" "b \<noteq> ptr" using assms by (auto simp: text_end_def)
  then show False using assms unfolding text_end_def spaces_def by blast
qed

lemma text_end_unique: "text_end M ptr len a \<Longrightarrow> text_end M ptr len b \<Longrightarrow> a = b"
  by (intro antisym text_end_le)

lemma byte_loop_result:
  "low \<le> e \<Longrightarrow> low \<le> byte_loop M low e \<and> byte_loop M low e \<le> e \<and> spaces M (byte_loop M low e) e
    \<and> (byte_loop M low e = low \<or> M (byte_loop M low e - 1) \<noteq> 0x20)"
proof (induction M low e rule: byte_loop.induct)
  case (1 M low e)
  show ?case
  proof (cases "low < e \<and> M (e - 1) = 0x20")
    case True
    then have step: "byte_loop M low e = byte_loop M low (e - 1)" by (subst byte_loop.simps) simp
    have "spaces M (e - 1) e" using True by (intro spaces_last) simp
    moreover have "low \<le> e - 1" using True by linarith
    ultimately show ?thesis
      using 1(1) [OF True] unfolding step by (auto intro: spaces_join)
  next
    case False
    then have "byte_loop M low e = e" by (subst byte_loop.simps) auto
    with False 1(2) show ?thesis by auto
  qed
qed

lemma byte_loop_text_end:
  assumes "ptr \<le> e" "e \<le> ptr + len" "spaces M e (ptr + len)"
  shows "text_end M ptr len (byte_loop M ptr e)"
  using byte_loop_result [OF assms(1), of M] assms(2,3) unfolding text_end_def
  by (auto intro: spaces_join)

lemma low_digit: "(a :: nat) < 256 \<Longrightarrow> b < 256 \<Longrightarrow> a + 256 * x = b + 256 * y \<longleftrightarrow> a = b \<and> x = y"
proof
  assume less: "a < 256" "b < 256" and eq: "a + 256 * x = b + 256 * y"
  have "(a + 256 * x) mod 256 = a" "(b + 256 * y) mod 256 = b" using less by simp_all
  with eq have "a = b" by simp
  with eq show "a = b \<and> x = y" by simp
qed simp

lemma bytes_val_inj: "bytes_val n A = bytes_val n B \<longleftrightarrow> (\<forall>i < n. A i = B i)"
proof (induction n arbitrary: A B)
  case 0
  then show ?case by simp
next
  case (Suc n)
  have "unat (A 0) < 256" "unat (B 0) < 256"
    using unsigned_less [of "A 0", where ?'a = nat] unsigned_less [of "B 0", where ?'a = nat] by simp_all
  then have "bytes_val (Suc n) A = bytes_val (Suc n) B \<longleftrightarrow>
    A 0 = B 0 \<and> bytes_val n (\<lambda>i. A (Suc i)) = bytes_val n (\<lambda>i. B (Suc i))"
    by (simp only: bytes_val.simps low_digit word_unat_eq_iff [of "A 0" "B 0"])
  then show ?case by (simp only: Suc.IH All_less_Suc2)
qed

lemma native_load_inj:
  assumes "8 * n \<le> LENGTH('a)"
  shows "native_load n A = (native_load n B :: 'a::len word) \<longleftrightarrow> (\<forall>i < n. A i = B i)"
proof -
  have "(256 :: nat) ^ n = 2 ^ (8 * n)" by (simp add: power_mult)
  also have "\<dots> \<le> 2 ^ LENGTH('a)" using assms by (rule power_increasing) simp
  finally have "bytes_val n C < 2 ^ LENGTH('a)" for C using bytes_val_bound [of n C] by simp
  then have "native_load n A = (native_load n B :: 'a word) \<longleftrightarrow> bytes_val n A = bytes_val n B"
    by (metis native_load_val of_nat_inverse)
  then show ?thesis by (simp only: bytes_val_inj)
qed

lemma spaces_8: "native_load 8 (\<lambda>_. 0x20) = (0x2020202020202020 :: 64 word)"
  by (simp add: native_8 native_4)

lemma spaces_4: "native_load 4 (\<lambda>_. 0x20) = (0x20202020 :: 32 word)"
  by (simp add: native_4)

lemma below_spaces:
  assumes "n \<le> e"
  shows "(\<forall>i < n. M (e - n + i) = 0x20) \<longleftrightarrow> spaces M (e - n) e"
proof
  assume all: "\<forall>i < n. M (e - n + i) = 0x20"
  show "spaces M (e - n) e" unfolding spaces_def
  proof
    fix i
    assume "i \<in> {e - n ..< e}"
    then have "i - (e - n) < n" "e - n + (i - (e - n)) = i" using assms by auto
    then show "M i = 0x20" using all by metis
  qed
next
  assume sp: "spaces M (e - n) e"
  have "e - n + i \<in> {e - n ..< e}" if "i < n" for i using that assms by auto
  with sp show "\<forall>i < n. M (e - n + i) = 0x20" by (simp only: spaces_def) blast
qed

lemma uint8korr_spaces:
  "8 \<le> e \<Longrightarrow> uint8korr_x86 (\<lambda>i. M (e - 8 + i)) = 0x2020202020202020 \<longleftrightarrow> spaces M (e - 8) e"
  using native_load_inj [of 8 "\<lambda>i. M (e - 8 + i)" "\<lambda>_. 0x20", where ?'a = 64] below_spaces [of 8 e M]
  by (simp add: uint8korr_x86_def spaces_8)

lemma rev_index: "(\<forall>i < (n :: nat). P (n - 1 - i)) \<longleftrightarrow> (\<forall>i < n. P i)"
proof
  assume all: "\<forall>i < n. P (n - 1 - i)"
  show "\<forall>i < n. P i"
  proof (intro allI impI)
    fix i
    assume "i < n"
    then have "n - 1 - i < n" "n - 1 - (n - 1 - i) = i" by simp_all
    with all show "P i" by metis
  qed
qed auto

lemma load_be_spaces:
  assumes "4 \<le> e"
  shows "load_be 4 (\<lambda>i. M (e - 4 + i)) = (0x20202020 :: 32 word) \<longleftrightarrow> spaces M (e - 4) e"
proof -
  have "load_be 4 (\<lambda>i. M (e - 4 + i)) = (0x20202020 :: 32 word) \<longleftrightarrow>
      (\<forall>i < 4. M (e - 4 + (4 - 1 - i)) = 0x20)"
    using native_load_inj [of 4 "\<lambda>i. M (e - 4 + (4 - 1 - i))" "\<lambda>_. 0x20", where ?'a = 32]
    by (simp only: load_be_def spaces_4) simp
  also have "\<dots> \<longleftrightarrow> (\<forall>i < 4. M (e - 4 + i) = 0x20)"
    by (rule rev_index [of 4 "\<lambda>i. M (e - 4 + i) = 0x20"])
  finally show ?thesis using below_spaces [OF assms] by simp
qed

lemma word_loop_result:
  "ptr \<le> e \<Longrightarrow> ptr \<le> word_loop M ptr e \<and> word_loop M ptr e \<le> e \<and> spaces M (word_loop M ptr e) e"
proof (induction M ptr e rule: word_loop.induct)
  case (1 M ptr e)
  show ?case
  proof (cases "8 \<le> e - ptr \<and> uint8korr_x86 (\<lambda>i. M (e - 8 + i)) = 0x2020202020202020")
    case True
    then have step: "word_loop M ptr e = word_loop M ptr (e - 8)" by (subst word_loop.simps) simp
    have "spaces M (e - 8) e" using True uint8korr_spaces [of e M] by linarith
    moreover have "ptr \<le> e - 8" using True by linarith
    ultimately show ?thesis
      using 1 True unfolding step by (auto intro: spaces_join)
  next
    case False
    then have "word_loop M ptr e = e" by (subst word_loop.simps) auto
    with 1 show ?thesis by simp
  qed
qed

text \<open>The aligned loop stays above the first word boundary: both ends are multiples of four.\<close>

lemma int_loop_result:
  "s \<le> e \<Longrightarrow> 4 dvd s \<Longrightarrow> 4 dvd e \<Longrightarrow>
    s \<le> int_loop M s e \<and> int_loop M s e \<le> e \<and> spaces M (int_loop M s e) e"
proof (induction M s e rule: int_loop.induct)
  case (1 M s e)
  show ?case
  proof (cases "s < e \<and> load_be 4 (\<lambda>i. M (e - 4 + i)) = (0x20202020 :: 32 word)")
    case True
    then have step: "int_loop M s e = int_loop M s (e - 4)" by (subst int_loop.simps) simp
    have le: "4 \<le> e" "s \<le> e - 4" using 1(2-4) True by (auto elim!: dvdE)
    have sp: "spaces M (e - 4) e" using True load_be_spaces [OF le(1), of M] by blast
    have "4 dvd e - 4" using 1(4) by (simp add: dvd_diff_nat)
    then show ?thesis
      using 1(1) [OF True le(2) 1(3)] sp unfolding step by (auto intro: spaces_join)
  next
    case False
    then have "int_loop M s e = e" by (subst int_loop.simps) auto
    with 1 show ?thesis by simp
  qed
qed

text \<open>Both versions meet the specification.\<close>

lemma skip_trailing_space_spec: "text_end M ptr len (skip_trailing_space M ptr len)"
  unfolding skip_trailing_space_def Let_def
  using word_loop_result [of ptr "ptr + len" M] by (intro byte_loop_text_end) auto

lemma skip_trailing_space_sparc_spec: "text_end M ptr len (skip_trailing_space_sparc M ptr len)"
proof (cases "len > 20")
  case False
  then show ?thesis
    unfolding skip_trailing_space_sparc_def Let_def by (simp add: byte_loop_text_end)
next
  case True
  define b where "b = (ptr + len) div 4 * 4"
  define a where "a = (ptr + 4 - 1) div 4 * 4"
  define e where "e = byte_loop M b (ptr + len)"
  have b: "b \<le> ptr + len" "ptr + 17 \<le> b" "4 dvd b" using True by (auto simp: b_def)
  have a: "ptr \<le> a" "a \<le> ptr + 3" "4 dvd a" by (auto simp: a_def)
  have e: "b \<le> e" "e \<le> ptr + len" "spaces M e (ptr + len)" "e = b \<or> M (e - 1) \<noteq> 0x20"
    using byte_loop_result [OF b(1), of M] by (auto simp: e_def)
  define c where "c = (if M (e - 1) = 0x20 \<and> a < b then int_loop M a e else e)"
  have "skip_trailing_space_sparc M ptr len = byte_loop M ptr c"
    using True by (simp only: skip_trailing_space_sparc_def Let_def if_True a_def b_def c_def e_def)
  moreover have "ptr \<le> c \<and> c \<le> ptr + len \<and> spaces M c (ptr + len)"
  proof (cases "M (e - 1) = 0x20 \<and> a < b")
    case True
    then have "e = b" using e(4) by blast
    then have "a \<le> c" "c \<le> e" "spaces M c e"
      using int_loop_result [of a b M] a b True by (simp_all add: c_def)
    then show ?thesis using a e by (auto intro: spaces_join)
  next
    case False
    then show ?thesis using b e by (auto simp: c_def)
  qed
  ultimately show ?thesis using byte_loop_text_end by simp
qed

section \<open>Times\<close>

text \<open>
  \<open>my_getsystime\<close>, in units of 100 ns, is a parameter. \<open>ulonglong\<close> arithmetic wraps; the fields
  of a \<open>timespec\<close> are signed, so they are compared as signed words.
\<close>

record timespec =
  tv_sec :: "64 word"
  tv_nsec :: "64 word"

definition set_timespec_nsec :: "64 word \<Rightarrow> 64 word \<Rightarrow> timespec" where
  "set_timespec_nsec systime nsec =
     (let now = systime + nsec div 100;
          sec = now div 10000000
      in \<lparr>tv_sec = sec, tv_nsec = (now mod 10000000) * 100 + nsec mod 100\<rparr>)"

definition set_timespec :: "64 word \<Rightarrow> 64 word \<Rightarrow> timespec" where
  "set_timespec systime sec = set_timespec_nsec systime (sec * 1000000000)"

definition cmp_timespec :: "timespec \<Rightarrow> timespec \<Rightarrow> int" where
  "cmp_timespec ts1 ts2 =
     (if tv_sec ts2 <s tv_sec ts1 \<or> tv_sec ts1 = tv_sec ts2 \<and> tv_nsec ts2 <s tv_nsec ts1 then 1
      else if tv_sec ts1 <s tv_sec ts2 \<or> tv_sec ts1 = tv_sec ts2 \<and> tv_nsec ts1 <s tv_nsec ts2 then -1
      else 0)"

definition diff_timespec :: "timespec \<Rightarrow> timespec \<Rightarrow> 64 word" where
  "diff_timespec ts1 ts2 = (tv_sec ts1 - tv_sec ts2) * 1000000000 + tv_nsec ts1 - tv_nsec ts2"

text \<open>The time in nanoseconds, as a number, and the times whose nanoseconds are below a second.\<close>

definition nanos :: "timespec \<Rightarrow> int" where
  "nanos ts = sint (tv_sec ts) * 1000000000 + sint (tv_nsec ts)"

definition normal_time :: "timespec \<Rightarrow> bool" where
  "normal_time ts \<longleftrightarrow> 0 \<le> sint (tv_nsec ts) \<and> sint (tv_nsec ts) < 1000000000"

lemma sint_small: "uint (w :: 64 word) < 9223372036854775808 \<Longrightarrow> sint w = uint w"
  by (simp add: sint_uint signed_take_bit_int_eq_self_iff) (use uint_ge_0 [of w] in linarith)

lemma set_timespec_nsec_fields:
  assumes "uint systime + uint nsec div 100 < 18446744073709551616"
  shows "uint (tv_sec (set_timespec_nsec systime nsec)) = (uint systime + uint nsec div 100) div 10000000"
    and "uint (tv_nsec (set_timespec_nsec systime nsec)) =
      (uint systime + uint nsec div 100) mod 10000000 * 100 + uint nsec mod 100"
proof -
  let ?now = "uint systime + uint nsec div 100"
  define now where "now = systime + nsec div 100"
  have uint_now: "uint now = ?now"
    unfolding now_def using assms uint_ge_0 [of systime] uint_ge_0 [of nsec]
    by (simp add: uint_word_ariths uint_div mod_pos_pos_trivial pos_imp_zdiv_nonneg_iff)
  show "uint (tv_sec (set_timespec_nsec systime nsec)) = ?now div 10000000"
    by (simp add: set_timespec_nsec_def Let_def uint_div uint_now flip: now_def)
  have "?now mod 10000000 * 100 + uint nsec mod 100 < 1000000000"
    using pos_mod_bound [of 10000000 ?now] pos_mod_bound [of 100 "uint nsec"] by linarith
  moreover have "0 \<le> ?now mod 10000000 * 100 + uint nsec mod 100"
    using uint_ge_0 [of nsec] by simp
  ultimately show "uint (tv_nsec (set_timespec_nsec systime nsec)) = ?now mod 10000000 * 100 + uint nsec mod 100"
    by (simp add: set_timespec_nsec_def Let_def uint_word_ariths uint_mod uint_now
        mod_pos_pos_trivial flip: now_def)
qed

lemma diff_timespec_nanos: "diff_timespec a b = word_of_int (nanos a - nanos b)"
proof -
  have "(word_of_int (nanos c) :: 64 word) = tv_sec c * 1000000000 + tv_nsec c" for c
    unfolding nanos_def by (simp flip: wi_hom_add wi_hom_mult)
  then show ?thesis
    by (simp add: diff_timespec_def wi_hom_sub [symmetric] algebra_simps)
qed

lemma seconds_nanos: "q * 1000000000 + (r * 100 + n) = (q * 10000000 + r) * 100 + (n :: int)"
  by simp

lemma lexicographic_nanos:
  fixes x y a b :: int
  assumes "0 \<le> a" "a < 1000000000" "0 \<le> b" "b < 1000000000"
  shows "x * 1000000000 + a < y * 1000000000 + b \<longleftrightarrow> x < y \<or> x = y \<and> a < b"
  using assms by linarith

section \<open>The properties\<close>

text \<open>C37: both versions of \<open>skip_trailing_space\<close>, eight bytes at a time and by aligned words, are
  the loop that looks at one byte at a time, for every string at every address: the result
  is the end of the text before the trailing spaces.\<close>

theorem skip_trailing_space_correct:
  "skip_trailing_space M ptr len = byte_loop M ptr (ptr + len)
    \<and> skip_trailing_space_sparc M ptr len = byte_loop M ptr (ptr + len)
    \<and> text_end M ptr len (skip_trailing_space M ptr len)"
proof -
  have "text_end M ptr len (byte_loop M ptr (ptr + len))" by (rule byte_loop_text_end) auto
  then show ?thesis
    using text_end_unique skip_trailing_space_spec skip_trailing_space_sparc_spec by metis
qed

text \<open>an absolute time is exact and normalised: as long as the system time and the timeout
  fit in 64 bits of 100 ns units, the fields of the \<open>timespec\<close> add up to the system time plus
  the timeout, to the nanosecond, and the nanoseconds are below one second.\<close>

theorem set_timespec_nsec_exact:
  assumes "uint systime + uint nsec div 100 < 18446744073709551616"
  shows "nanos (set_timespec_nsec systime nsec) = uint systime * 100 + uint nsec
    \<and> normal_time (set_timespec_nsec systime nsec)"
proof -
  let ?ts = "set_timespec_nsec systime nsec" and ?now = "uint systime + uint nsec div 100"
  note f = set_timespec_nsec_fields [OF assms]
  have "?now div 10000000 < 9223372036854775808" using assms by linarith
  then have sec: "sint (tv_sec ?ts) = ?now div 10000000" using f(1) sint_small [of "tv_sec ?ts"] by simp
  have "?now mod 10000000 * 100 + uint nsec mod 100 < 1000000000"
    using pos_mod_bound [of 10000000 ?now] pos_mod_bound [of 100 "uint nsec"] by linarith
  then have nsec: "sint (tv_nsec ?ts) = ?now mod 10000000 * 100 + uint nsec mod 100"
    and "sint (tv_nsec ?ts) < 1000000000"
    using f(2) sint_small [of "tv_nsec ?ts"] by simp_all
  moreover have "0 \<le> sint (tv_nsec ?ts)" unfolding nsec using uint_ge_0 [of nsec] by simp
  moreover have "nanos ?ts = uint systime * 100 + uint nsec"
  proof -
    have "nanos ?ts = (?now div 10000000 * 10000000 + ?now mod 10000000) * 100 + uint nsec mod 100"
      by (simp only: nanos_def sec nsec seconds_nanos)
    also have "\<dots> = ?now * 100 + uint nsec mod 100" by (simp only: div_mult_mod_eq)
    also have "\<dots> = uint systime * 100 + (uint nsec div 100 * 100 + uint nsec mod 100)"
      by (simp only: distrib_right add.assoc)
    finally show ?thesis by (simp only: div_mult_mod_eq)
  qed
  ultimately show ?thesis by (simp only: normal_time_def simp_thms)
qed

text \<open>The system time of 2021-01-01 and a timeout of 1.5 seconds and one nanosecond.\<close>

theorem set_timespec_nsec_exact_witness:
  "nanos (set_timespec_nsec 16094592000000000 1500000001) = 1609459201500000001
    \<and> normal_time (set_timespec_nsec 16094592000000000 1500000001)"
  using set_timespec_nsec_exact [of 16094592000000000 1500000001] by simp

text \<open>comparing and subtracting times is comparing and subtracting the times in nanoseconds:
  the order is the order of the totals, and the difference is exact modulo \<open>2 ^ 64\<close>.\<close>

theorem timespec_arithmetic:
  assumes "normal_time a" and "normal_time b"
  shows "cmp_timespec a b = sgn (nanos a - nanos b) \<and> diff_timespec a b = word_of_int (nanos a - nanos b)"
proof -
  have less: "nanos c < nanos d \<longleftrightarrow> tv_sec c <s tv_sec d \<or> tv_sec c = tv_sec d \<and> tv_nsec c <s tv_nsec d"
    if "normal_time c" "normal_time d" for c d
  proof -
    have "tv_sec c = tv_sec d \<longleftrightarrow> sint (tv_sec c) = sint (tv_sec d)" by (auto intro: signed_word_eqI)
    moreover have "nanos c < nanos d \<longleftrightarrow> sint (tv_sec c) < sint (tv_sec d)
        \<or> sint (tv_sec c) = sint (tv_sec d) \<and> sint (tv_nsec c) < sint (tv_nsec d)"
      unfolding nanos_def by (rule lexicographic_nanos) (use that in \<open>simp_all only: normal_time_def\<close>)
    ultimately show ?thesis by (simp only: word_sless_alt)
  qed
  have after: "tv_sec b <s tv_sec a \<or> tv_sec a = tv_sec b \<and> tv_nsec b <s tv_nsec a \<longleftrightarrow> nanos b < nanos a"
    unfolding less [OF assms(2,1)] eq_commute [of "tv_sec b"] by (rule refl)
  have "cmp_timespec a b = (if nanos b < nanos a then 1 else if nanos a < nanos b then -1 else 0)"
    unfolding cmp_timespec_def after less [OF assms] by (rule refl)
  then show ?thesis by (simp add: diff_timespec_nanos sgn_if)
qed

theorem timespec_arithmetic_witness:
  "cmp_timespec \<lparr>tv_sec = 5, tv_nsec = 999999999\<rparr> \<lparr>tv_sec = 6, tv_nsec = 0\<rparr> = -1"
  using timespec_arithmetic [of "\<lparr>tv_sec = 5, tv_nsec = 999999999\<rparr>" "\<lparr>tv_sec = 6, tv_nsec = 0\<rparr>"]
  by (simp add: normal_time_def nanos_def)

text \<open>a timeout in seconds that does not fit wraps around: \<open>set_timespec\<close> multiplies in 64
  bits, so 18446744074 seconds is 290448384 nanoseconds, less than a third of a second.\<close>

theorem set_timespec_wraps:
  "set_timespec systime 18446744074 = set_timespec_nsec systime 290448384"
proof -
  have "(18446744074 * 1000000000 :: 64 word) = 290448384" by (rule word_uint_eqI) simp
  then show ?thesis by (simp only: set_timespec_def)
qed

end
