(* ===== verification/Mysql_Psi.thy ===== *)
theory Mysql_Psi
  imports "HOL-Library.Word" "HOL-Library.State_Monad" Web_Prelude
begin

text \<open>
  What the instrumentation headers of the MySQL client (cgi/include/mysql/psi) share: the
  operations they announce (psi.h), a machine on which a wrapper makes its system calls and
  its calls of the performance schema, and the discipline of waits. A wrapper starts a wait,
  makes the system call and ends the wait; the performance schema may decline to open the
  wait by returning no locker.

  The system calls and the performance schema are not part of the repository. A system call
  is a function of the world, which holds the client's memory and the operating system. The
  performance schema is the function that gives the pointer each of its calls returns,
  depending on everything that happened before; it does not touch the client's world. A
  pointer is a number and NULL is 0. The compile-time switch \<open>HAVE_PSI_INTERFACE\<close> is the
  field \<open>have_psi\<close>, so every wrapper is modelled in both builds.
\<close>

section \<open>Operations\<close>

text \<open>The operation enumerations of psi.h, in the source's order.\<close>

datatype PSI_mutex_operation = PSI_MUTEX_LOCK | PSI_MUTEX_TRYLOCK

datatype PSI_rwlock_operation =
  PSI_RWLOCK_READLOCK | PSI_RWLOCK_WRITELOCK | PSI_RWLOCK_TRYREADLOCK | PSI_RWLOCK_TRYWRITELOCK
| PSI_RWLOCK_SHAREDLOCK | PSI_RWLOCK_SHAREDEXCLUSIVELOCK | PSI_RWLOCK_EXCLUSIVELOCK
| PSI_RWLOCK_TRYSHAREDLOCK | PSI_RWLOCK_TRYSHAREDEXCLUSIVELOCK | PSI_RWLOCK_TRYEXCLUSIVELOCK

datatype PSI_cond_operation = PSI_COND_WAIT | PSI_COND_TIMEDWAIT

datatype PSI_file_operation =
  PSI_FILE_CREATE | PSI_FILE_CREATE_TMP | PSI_FILE_OPEN | PSI_FILE_STREAM_OPEN | PSI_FILE_CLOSE
| PSI_FILE_STREAM_CLOSE | PSI_FILE_READ | PSI_FILE_WRITE | PSI_FILE_SEEK | PSI_FILE_TELL
| PSI_FILE_FLUSH | PSI_FILE_STAT | PSI_FILE_FSTAT | PSI_FILE_CHSIZE | PSI_FILE_DELETE
| PSI_FILE_RENAME | PSI_FILE_SYNC

datatype PSI_socket_state = PSI_SOCKET_STATE_IDLE | PSI_SOCKET_STATE_ACTIVE

datatype PSI_socket_operation =
  PSI_SOCKET_CREATE | PSI_SOCKET_CONNECT | PSI_SOCKET_BIND | PSI_SOCKET_CLOSE | PSI_SOCKET_SEND
| PSI_SOCKET_RECV | PSI_SOCKET_SENDTO | PSI_SOCKET_RECVFROM | PSI_SOCKET_SENDMSG
| PSI_SOCKET_RECVMSG | PSI_SOCKET_SEEK | PSI_SOCKET_OPT | PSI_SOCKET_STAT | PSI_SOCKET_SHUTDOWN
| PSI_SOCKET_SELECT

section \<open>The machine\<close>

abbreviation return :: "'a \<Rightarrow> ('s, 'a) state" where
  "return \<equiv> State_Monad.return"

abbreviation bind :: "('s, 'a) state \<Rightarrow> ('a \<Rightarrow> ('s, 'b) state) \<Rightarrow> ('s, 'b) state" where
  "bind \<equiv> State_Monad.bind"

text \<open>A conditional statement.\<close>

abbreviation whenever :: "bool \<Rightarrow> ('s, unit) state \<Rightarrow> ('s, unit) state" where
  "whenever b p \<equiv> (if b then p else return ())"

text \<open>
  An event is a call of the performance schema with the pointer it returned (0 for a call
  that returns nothing) or a system call, by name.
\<close>

datatype 'c event = Psi 'c nat | Sys string

record ('w, 'c) machine =
  world :: 'w
  events :: "'c event list"

record 'c psi =
  have_psi :: bool
  answer :: "'c event list \<Rightarrow> 'c \<Rightarrow> nat"

text \<open>A call that returns a pointer, a call that returns nothing, and a system call.\<close>

definition PSI_CALL :: "'c psi \<Rightarrow> 'c \<Rightarrow> (('w, 'c, 'z) machine_scheme, nat) state" where
  "PSI_CALL p c = State (\<lambda>m. let a = answer p (events m) c in (a, m\<lparr>events := events m @ [Psi c a]\<rparr>))"

definition PSI_NOTE :: "'c \<Rightarrow> (('w, 'c, 'z) machine_scheme, unit) state" where
  "PSI_NOTE c = State (\<lambda>m. ((), m\<lparr>events := events m @ [Psi c 0]\<rparr>))"

definition sys :: "string \<Rightarrow> ('w \<Rightarrow> 'a \<times> 'w) \<Rightarrow> (('w, 'c, 'z) machine_scheme, 'a) state" where
  "sys n f = State (\<lambda>m. case f (world m) of (r, w) \<Rightarrow> (r, m\<lparr>world := w, events := events m @ [Sys n]\<rparr>))"

text \<open>Reading the world, without a call.\<close>

definition reads :: "('w \<Rightarrow> 'a) \<Rightarrow> (('w, 'c, 'z) machine_scheme, 'a) state" where
  "reads f = State (\<lambda>m. (f (world m), m))"

lemma run_PSI_CALL [simp]: "run_state (PSI_CALL p c) m =
    (answer p (events m) c, m\<lparr>events := events m @ [Psi c (answer p (events m) c)]\<rparr>)"
  by (simp add: PSI_CALL_def Let_def)

lemma run_PSI_NOTE [simp]: "run_state (PSI_NOTE c) m = ((), m\<lparr>events := events m @ [Psi c 0]\<rparr>)"
  by (simp add: PSI_NOTE_def)

lemma run_sys [simp]: "run_state (sys n f) m =
    (fst (f (world m)), m\<lparr>world := snd (f (world m)), events := events m @ [Sys n]\<rparr>)"
  by (simp add: sys_def split: prod.split)

lemma run_reads [simp]: "run_state (reads f) m = (f (world m), m)"
  by (simp add: reads_def)

section \<open>Transparency\<close>

text \<open>
  A program on the machine behaves for its caller as \<open>f\<close> when, seen through \<open>ab\<close>, it returns
  what \<open>f\<close> returns and leaves the state as \<open>f\<close> does.
\<close>

definition transparent :: "('m \<Rightarrow> 's) \<Rightarrow> ('m, 'a) state \<Rightarrow> ('s \<Rightarrow> 'a \<times> 's) \<Rightarrow> bool" where
  "transparent ab prog f \<longleftrightarrow> (\<forall>m. f (ab m) = map_prod id ab (run_state prog m))"

lemma transparentD: "transparent ab prog f \<Longrightarrow> run_state prog m = (r, m') \<Longrightarrow> f (ab m) = (r, ab m')"
  by (auto simp: transparent_def)

lemma transparent_return: "transparent ab (return x) (Pair x)"
  by (simp add: transparent_def)

lemma transparent_if:
  "(b \<Longrightarrow> transparent ab p f) \<Longrightarrow> (\<not> b \<Longrightarrow> transparent ab q f) \<Longrightarrow> transparent ab (if b then p else q) f"
  by simp

text \<open>What follows the raw call only reports and returns the result.\<close>

lemma transparent_around:
  assumes "transparent ab raw f" and "\<And>r. transparent ab (k r) (Pair r)"
  shows "transparent ab (bind raw k) f"
  using assms by (simp add: transparent_def prod_eq_iff split_beta)

lemma transparent_skip:
  assumes "transparent ab q (Pair ())" and "transparent ab k (Pair r)"
  shows "transparent ab (bind q (\<lambda>_. k)) (Pair r)"
  using assms by (simp add: transparent_def prod_eq_iff split_beta)

text \<open>Programs run one after the other.\<close>

lemma transparent_bind:
  assumes "transparent ab p (run_state q)" and "\<And>r. transparent ab (k r) (run_state (h r))"
  shows "transparent ab (bind p k) (run_state (bind q h))"
  using assms by (simp add: transparent_def prod_eq_iff split_beta)

lemma transparent_traverse:
  assumes "\<And>q. transparent ab (perform q) (run_state (raw q))"
  shows "transparent ab (traverse_list perform qs) (run_state (traverse_list raw qs))"
proof (induction qs)
  case Nil
  then show ?case by (simp add: transparent_def)
next
  case (Cons q qs)
  have "transparent ab (return x) (run_state (return x))" for x :: "'d list"
    by (simp add: transparent_def)
  then show ?case by (simp only: traverse_list.simps) (intro transparent_bind assms Cons.IH)
qed

text \<open>
  A view of the machine: it shows the world and possibly more of the client's memory, but not
  the events. \<open>lift\<close> is a system call on what a view shows.
\<close>

definition lift :: "('s \<Rightarrow> 'w) \<Rightarrow> ('w \<Rightarrow> 's \<Rightarrow> 's) \<Rightarrow> ('w \<Rightarrow> 'a \<times> 'w) \<Rightarrow> 's \<Rightarrow> 'a \<times> 's" where
  "lift gets puts f s = (case f (gets s) of (r, w) \<Rightarrow> (r, puts w s))"

locale view =
  fixes ab :: "('w, 'c, 'z) machine_scheme \<Rightarrow> 's" and gets :: "'s \<Rightarrow> 'w" and puts :: "'w \<Rightarrow> 's \<Rightarrow> 's"
  assumes ab_events: "ab (m\<lparr>events := es\<rparr>) = ab m"
    and ab_world: "ab (m\<lparr>world := w\<rparr>) = puts w (ab m)"
    and gets_ab: "gets (ab m) = world m"
begin

lemma ab_sys: "ab (m\<lparr>world := w, events := es\<rparr>) = puts w (ab m)"
  using ab_events [of es "m\<lparr>world := w\<rparr>"] ab_world [of w m] by simp

lemma transparent_sys: "transparent ab (sys n f) (lift gets puts f)"
  by (simp add: transparent_def lift_def ab_sys gets_ab split_beta)

lemma transparent_result:
  "(\<And>r. transparent ab (k r) (Pair r)) \<Longrightarrow> transparent ab (bind (sys n f) k) (lift gets puts f)"
  by (rule transparent_around [OF transparent_sys])

lemma transparent_note:
  assumes "transparent ab k f"
  shows "transparent ab (bind (PSI_NOTE c) (\<lambda>_. k)) f"
  unfolding transparent_def
proof
  fix m
  show "f (ab m) = map_prod id ab (run_state (bind (PSI_NOTE c) (\<lambda>_. k)) m)"
    using assms [unfolded transparent_def, rule_format, of "m\<lparr>events := events m @ [Psi c 0]\<rparr>"]
    by (simp add: ab_events)
qed

lemma transparent_call:
  assumes "\<And>l. transparent ab (k l) f"
  shows "transparent ab (bind (PSI_CALL p c) k) f"
  unfolding transparent_def
proof
  fix m
  show "f (ab m) = map_prod id ab (run_state (bind (PSI_CALL p c) k) m)"
    using assms [unfolded transparent_def, rule_format,
      of "m\<lparr>events := events m @ [Psi c (answer p (events m) c)]\<rparr>" "answer p (events m) c"]
    by (simp add: ab_events)
qed

lemma transparent_PSI_NOTE: "transparent ab (PSI_NOTE c) (Pair ())"
  by (simp add: transparent_def ab_events)

lemmas transparent_rules = transparent_return transparent_if transparent_skip transparent_sys
  transparent_result transparent_note transparent_call transparent_PSI_NOTE

end

text \<open>The view of the world alone.\<close>

interpretation world_view: view world "\<lambda>w. w" "\<lambda>w _. w"
  by unfold_locales auto

lemma lift_world [simp]: "lift (\<lambda>w. w) (\<lambda>w _. w) f = f"
  by (simp add: lift_def fun_eq_iff)

lemmas world_rules = world_view.transparent_rules [unfolded lift_world]

section \<open>Waits\<close>

text \<open>
  What a call of the performance schema does to the wait of the caller: it opens one when it
  returns a locker, closes the one of a locker, or neither.
\<close>

datatype phase = Opens nat | Closes nat | Neutral

datatype wait = Idle | Waiting nat bool

text \<open>
  The discipline, as a machine over the events: a wait is opened only where none is open,
  closed with its own locker, and encloses a system call.
\<close>

fun scan :: "('c \<Rightarrow> nat \<Rightarrow> phase) \<Rightarrow> wait \<Rightarrow> 'c event list \<Rightarrow> wait option" where
  "scan ph s [] = Some s"
| "scan ph s (Sys n # es) =
     scan ph (case s of Idle \<Rightarrow> Idle | Waiting l b \<Rightarrow> Waiting l True) es"
| "scan ph s (Psi c a # es) =
     (case ph c a of
        Opens l \<Rightarrow> (case s of Idle \<Rightarrow> scan ph (if l = 0 then Idle else Waiting l False) es | Waiting _ _ \<Rightarrow> None)
      | Closes l \<Rightarrow> (case s of Idle \<Rightarrow> None
                            | Waiting k b \<Rightarrow> if k = l \<and> b then scan ph Idle es else None)
      | Neutral \<Rightarrow> scan ph s es)"

definition bracketed :: "('c \<Rightarrow> nat \<Rightarrow> phase) \<Rightarrow> 'c event list \<Rightarrow> bool" where
  "bracketed ph es \<longleftrightarrow> scan ph Idle es = Some Idle"

lemma scan_append: "scan ph s (es @ fs) = Option.bind (scan ph s es) (\<lambda>s'. scan ph s' fs)"
  by (induction ph s es rule: scan.induct) (auto split: phase.split wait.split)

text \<open>The lockers granted and the lockers closed, as multisets.\<close>

fun granted :: "('c \<Rightarrow> nat \<Rightarrow> phase) \<Rightarrow> 'c event list \<Rightarrow> nat list" where
  "granted ph [] = []"
| "granted ph (Sys n # es) = granted ph es"
| "granted ph (Psi c a # es) = (case ph c a of Opens l \<Rightarrow> if l = 0 then granted ph es else l # granted ph es | _ \<Rightarrow> granted ph es)"

fun closed :: "('c \<Rightarrow> nat \<Rightarrow> phase) \<Rightarrow> 'c event list \<Rightarrow> nat list" where
  "closed ph [] = []"
| "closed ph (Sys n # es) = closed ph es"
| "closed ph (Psi c a # es) = (case ph c a of Closes l \<Rightarrow> l # closed ph es | _ \<Rightarrow> closed ph es)"

fun held :: "wait \<Rightarrow> nat list" where
  "held Idle = []"
| "held (Waiting l b) = [l]"

lemma scan_granted_closed: "scan ph s es = Some t \<Longrightarrow> held s @ granted ph es = closed ph es @ held t"
  by (induction ph s es rule: scan.induct) (auto split: phase.splits wait.splits if_splits)

lemma bracketed_granted_closed: "bracketed ph es \<Longrightarrow> closed ph es = granted ph es"
  using scan_granted_closed [of ph Idle es Idle] by (simp add: bracketed_def)

text \<open>
  \<open>waits ph s prog t\<close>: run where the wait is \<open>s\<close>, the program keeps the discipline and ends
  where the wait is \<open>t r\<close> for its result \<open>r\<close>.
\<close>

definition waits :: "('c \<Rightarrow> nat \<Rightarrow> phase) \<Rightarrow> wait \<Rightarrow> (('w, 'c, 'z) machine_scheme, 'a) state
    \<Rightarrow> ('a \<Rightarrow> wait) \<Rightarrow> bool" where
  "waits ph s prog t \<longleftrightarrow> (\<forall>m. \<exists>es. events (snd (run_state prog m)) = events m @ es
      \<and> scan ph s es = Some (t (fst (run_state prog m))))"

lemma waits_bind:
  assumes "waits ph s p t" and "\<And>r. waits ph (t r) (k r) u"
  shows "waits ph s (bind p k) u"
  unfolding waits_def
proof
  fix m
  obtain r m1 where p: "run_state p m = (r, m1)" by force
  obtain es where es: "events m1 = events m @ es" "scan ph s es = Some (t r)"
    using assms(1) p by (metis fst_conv snd_conv waits_def)
  obtain fs where fs: "events (snd (run_state (k r) m1)) = events m1 @ fs"
    "scan ph (t r) fs = Some (u (fst (run_state (k r) m1)))"
    using assms(2) by (metis waits_def)
  show "\<exists>es. events (snd (run_state (bind p k) m)) = events m @ es
      \<and> scan ph s es = Some (u (fst (run_state (bind p k) m)))"
    using p es fs by (intro exI [of _ "es @ fs"]) (simp add: scan_append)
qed

lemma waits_return: "waits ph s (return x) (\<lambda>_. s)"
  by (simp add: waits_def)

lemma waits_reads: "waits ph s (reads f) (\<lambda>_. s)"
  by (simp add: waits_def)

lemma waits_sys: "waits ph Idle (sys n f) (\<lambda>_. Idle)"
  by (simp add: waits_def)

lemma waits_sys_inside: "waits ph (Waiting l b) (sys n f) (\<lambda>_. Waiting l True)"
  by (simp add: waits_def)

lemma waits_if: "(b \<Longrightarrow> waits ph s p t) \<Longrightarrow> (\<not> b \<Longrightarrow> waits ph s q t) \<Longrightarrow> waits ph s (if b then p else q) t"
  by simp

lemma waits_traverse:
  assumes "\<And>q. waits ph s (perform q) (\<lambda>_. s)"
  shows "waits ph s (traverse_list perform qs) (\<lambda>_. s)"
proof (induction qs)
  case Nil
  then show ?case by (simp add: waits_return)
next
  case (Cons q qs)
  then show ?case by (auto intro!: waits_bind [where t = "\<lambda>_. s"] assms waits_return)
qed

lemma waits_bracketed:
  "waits ph Idle prog (\<lambda>_. Idle) \<Longrightarrow>
    \<exists>es. events (snd (run_state prog m)) = events m @ es \<and> bracketed ph es"
  by (auto simp: waits_def bracketed_def)

text \<open>Without instrumentation there is no call of the performance schema at all.\<close>

definition only_sys :: "(('w, 'c, 'z) machine_scheme, 'a) state \<Rightarrow> bool" where
  "only_sys prog \<longleftrightarrow> (\<forall>m. \<exists>ns. events (snd (run_state prog m)) = events m @ map Sys ns)"

lemma only_sys_sys: "only_sys (sys n f)"
  by (auto simp: only_sys_def intro: exI [of _ "[n]"])

lemma only_sys_return: "only_sys (return x)"
  by (auto simp: only_sys_def intro: exI [of _ "[]"])

lemma only_sys_reads: "only_sys (reads f)"
  by (auto simp: only_sys_def intro: exI [of _ "[]"])

lemma only_sys_bind: "only_sys p \<Longrightarrow> (\<And>r. only_sys (k r)) \<Longrightarrow> only_sys (bind p k)"
  unfolding only_sys_def by (simp add: split_beta) (metis append.assoc map_append)

lemmas only_sys_rules = only_sys_bind only_sys_sys only_sys_return only_sys_reads

lemma only_sys_traverse: "(\<And>q. only_sys (perform q)) \<Longrightarrow> only_sys (traverse_list perform qs)"
  by (induction qs) (auto intro!: only_sys_bind only_sys_return)

section \<open>The interfaces\<close>

text \<open>
  What the wrappers of an instrument rely on: its closing call closes the locker it is
  given. Where the call that starts a wait returns the locker, as for sockets, mutexes,
  read-write locks and conditions, it opens the wait of that locker; where a separate call
  hands the locker out and the start is given it, as for files, the start opens its wait.
\<close>

locale wait_interface =
  fixes ph :: "'c \<Rightarrow> nat \<Rightarrow> phase"
    and fin :: "nat \<Rightarrow> 'y \<Rightarrow> 'c"
  assumes fin_closes: "ph (fin l y) a = Closes l"
begin

lemma finish: "waits ph (Waiting l True) (PSI_NOTE (fin l y)) (\<lambda>_. Idle)"
  by (simp add: waits_def fin_closes)

lemma finish_returning: "waits ph (Waiting l True) (PSI_CALL p (fin l y)) (\<lambda>_. Idle)"
  by (simp add: waits_def fin_closes)

lemma neutral: "(\<And>a. ph c a = Neutral) \<Longrightarrow> waits ph s (PSI_NOTE c) (\<lambda>_. s)"
  by (simp add: waits_def)

lemma neutral_call: "(\<And>a. ph c a = Neutral) \<Longrightarrow> waits ph s (PSI_CALL p c) (\<lambda>_. s)"
  by (simp add: waits_def)

end

locale granting_interface = wait_interface ph fin
  for ph :: "'c \<Rightarrow> nat \<Rightarrow> phase" and fin :: "nat \<Rightarrow> 'y \<Rightarrow> 'c" +
  fixes start :: "'x \<Rightarrow> 'c"
  assumes start_opens: "ph (start x) a = Opens a"
begin

text \<open>
  The body of a wrapper: start, system call, possibly a neutral report, end if there is a
  locker. The system call runs inside the wait, or alone when no locker was granted.
\<close>

lemma wait_block:
  assumes idle: "waits ph Idle raw (\<lambda>_. Idle)"
    and inside: "\<And>l b. waits ph (Waiting l b) raw (\<lambda>_. Waiting l True)"
    and noted: "\<And>r s. waits ph s (report r) (\<lambda>_. s)"
    and rest: "\<And>r. waits ph Idle (k r) (\<lambda>_. Idle)"
  shows "waits ph Idle
     (bind (PSI_CALL p (start x)) (\<lambda>l.
      bind raw (\<lambda>r.
      bind (report r) (\<lambda>_.
      bind (whenever (l \<noteq> 0) (PSI_NOTE (fin l (y r)))) (\<lambda>_.
      k r))))) (\<lambda>_. Idle)"
proof (rule waits_bind)
  show "waits ph Idle (PSI_CALL p (start x)) (\<lambda>l. if l = 0 then Idle else Waiting l False)"
    by (simp add: waits_def start_opens)
  fix l
  show "waits ph (if l = 0 then Idle else Waiting l False)
     (bind raw (\<lambda>r. bind (report r) (\<lambda>_.
      bind (whenever (l \<noteq> 0) (PSI_NOTE (fin l (y r)))) (\<lambda>_.
      k r)))) (\<lambda>_. Idle)"
    by (cases "l = 0")
      (auto intro!: waits_bind [OF idle] waits_bind [OF inside] waits_bind [OF noted]
        waits_bind [OF waits_return] waits_bind [OF finish] rest)
qed

lemma plain_block:
  assumes idle: "waits ph Idle raw (\<lambda>_. Idle)"
    and inside: "\<And>l b. waits ph (Waiting l b) raw (\<lambda>_. Waiting l True)"
    and rest: "\<And>r. waits ph Idle (k r) (\<lambda>_. Idle)"
  shows "waits ph Idle
     (bind (PSI_CALL p (start x)) (\<lambda>l.
      bind raw (\<lambda>r.
      bind (whenever (l \<noteq> 0) (PSI_NOTE (fin l (y r)))) (\<lambda>_.
      k r)))) (\<lambda>_. Idle)"
  using wait_block [where report = "\<lambda>_. return ()", OF idle inside waits_return rest]
  by (simp only: bind_left_identity)

end

locale locker_interface = wait_interface ph fin
  for ph :: "'c \<Rightarrow> nat \<Rightarrow> phase" and fin :: "nat \<Rightarrow> 'y \<Rightarrow> 'c" +
  fixes start :: "nat \<Rightarrow> 'x \<Rightarrow> 'c"
  assumes start_opens: "ph (start l x) a = Opens l"
begin

lemma begin_wait: "l \<noteq> 0 \<Longrightarrow> waits ph Idle (PSI_NOTE (start l x)) (\<lambda>_. Waiting l False)"
  by (simp add: waits_def start_opens)

lemma locker_block:
  assumes "l \<noteq> 0" and inside: "waits ph (Waiting l False) raw (\<lambda>_. Waiting l True)"
    and rest: "\<And>r. waits ph Idle (k r) (\<lambda>_. Idle)"
  shows "waits ph Idle
     (bind (PSI_NOTE (start l x)) (\<lambda>_.
      bind raw (\<lambda>r.
      bind (PSI_NOTE (fin l (y r))) (\<lambda>_. k r)))) (\<lambda>_. Idle)"
  by (intro waits_bind [OF begin_wait] waits_bind [OF inside] waits_bind [OF finish] rest assms)

end

end
