(* ===== verification/Mysql_Socket.thy ===== *)
theory Mysql_Socket
  imports Mysql_Psi
begin

text \<open>
  The instrumented sockets of the MySQL client (mysql/psi/mysql_socket.h). A \<open>MYSQL_SOCKET\<close>
  is a descriptor with the handle of its instrumentation; each wrapper makes one system call
  on the descriptor (two for non-blocking mode), inside a wait of the performance schema
  where the socket is instrumented. A descriptor and an \<open>int\<close> result are integers, an
  address is a number (0 is NULL), a \<open>size_t\<close> is a \<open>64 word\<close>, a \<open>socklen_t\<close> a \<open>32 word\<close>.
  The platform is not Windows; \<open>state\<close>, the scratch space of a locker, is left out.
\<close>

section \<open>Calls of the performance schema and of the system\<close>

datatype psi_socket_call =
  register_socket string nat int
| init_socket nat int nat "32 word"
| destroy_socket nat
| start_socket_wait nat PSI_socket_operation "64 word" string int
| end_socket_wait nat "64 word"
| set_socket_state nat PSI_socket_state
| set_socket_info nat nat nat "32 word"
| set_socket_thread_owner nat

fun socket_phase :: "psi_socket_call \<Rightarrow> nat \<Rightarrow> phase" where
  "socket_phase (start_socket_wait psi oper n src_file src_line) a = Opens a"
| "socket_phase (end_socket_wait l n) a = Closes l"
| "socket_phase _ a = Neutral"

text \<open>
  The system calls. An address handed over is opaque, with one exception: the wrapper of
  \<open>accept\<close> looks at the length of the address itself and passes a copy. So \<open>sys_accept\<close> takes
  what is found at the address of the length (\<open>None\<close> where that address is NULL) and returns
  what it writes there (\<open>None\<close> where it writes nothing) beside the descriptor; who reads and
  writes which variable is said by \<open>accept_local\<close> and \<open>accept_bare\<close> below. \<open>deref_socklen\<close> is
  the length found at an address, \<open>put_socklen\<close> the world after one is written there.
\<close>

record 'w socket_sys =
  sys_socket :: "int \<Rightarrow> int \<Rightarrow> int \<Rightarrow> 'w \<Rightarrow> int \<times> 'w"
  sys_bind :: "int \<Rightarrow> nat \<Rightarrow> 32 word \<Rightarrow> 'w \<Rightarrow> int \<times> 'w"
  sys_getsockname :: "int \<Rightarrow> nat \<Rightarrow> nat \<Rightarrow> 'w \<Rightarrow> int \<times> 'w"
  sys_connect :: "int \<Rightarrow> nat \<Rightarrow> 32 word \<Rightarrow> 'w \<Rightarrow> int \<times> 'w"
  sys_getpeername :: "int \<Rightarrow> nat \<Rightarrow> nat \<Rightarrow> 'w \<Rightarrow> int \<times> 'w"
  sys_send :: "int \<Rightarrow> nat \<Rightarrow> 64 word \<Rightarrow> int \<Rightarrow> 'w \<Rightarrow> int \<times> 'w"
  sys_recv :: "int \<Rightarrow> nat \<Rightarrow> 64 word \<Rightarrow> int \<Rightarrow> 'w \<Rightarrow> int \<times> 'w"
  sys_sendto :: "int \<Rightarrow> nat \<Rightarrow> 64 word \<Rightarrow> int \<Rightarrow> nat \<Rightarrow> 32 word \<Rightarrow> 'w \<Rightarrow> int \<times> 'w"
  sys_recvfrom :: "int \<Rightarrow> nat \<Rightarrow> 64 word \<Rightarrow> int \<Rightarrow> nat \<Rightarrow> nat \<Rightarrow> 'w \<Rightarrow> int \<times> 'w"
  sys_getsockopt :: "int \<Rightarrow> int \<Rightarrow> int \<Rightarrow> nat \<Rightarrow> nat \<Rightarrow> 'w \<Rightarrow> int \<times> 'w"
  sys_setsockopt :: "int \<Rightarrow> int \<Rightarrow> int \<Rightarrow> nat \<Rightarrow> 32 word \<Rightarrow> 'w \<Rightarrow> int \<times> 'w"
  sys_fcntl_getfl :: "int \<Rightarrow> 'w \<Rightarrow> int \<times> 'w"
  sys_fcntl_setfl :: "int \<Rightarrow> int \<Rightarrow> 'w \<Rightarrow> int \<times> 'w"
  sys_listen :: "int \<Rightarrow> int \<Rightarrow> 'w \<Rightarrow> int \<times> 'w"
  sys_accept :: "int \<Rightarrow> nat \<Rightarrow> 32 word option \<Rightarrow> 'w \<Rightarrow> (int \<times> 32 word option) \<times> 'w"
  sys_close :: "int \<Rightarrow> 'w \<Rightarrow> int \<times> 'w"
  sys_shutdown :: "int \<Rightarrow> int \<Rightarrow> 'w \<Rightarrow> int \<times> 'w"
  deref_socklen :: "nat \<Rightarrow> 'w \<Rightarrow> 32 word"
  put_socklen :: "nat \<Rightarrow> 32 word \<Rightarrow> 'w \<Rightarrow> 'w"
  errno :: "'w \<Rightarrow> int"
  O_NONBLOCK :: int

section \<open>The socket and its accessors\<close>

record MYSQL_SOCKET =
  sock_fd :: int
  m_psi :: nat

definition INVALID_SOCKET :: int where "INVALID_SOCKET = -1"

definition mysql_socket_invalid :: MYSQL_SOCKET where
  "mysql_socket_invalid = \<lparr>sock_fd = INVALID_SOCKET, m_psi = 0\<rparr>"

type_synonym ('w, 'a) socket_prog = "(('w, psi_socket_call) machine, 'a) state"

definition mysql_socket_set_address :: "psi_socket_call psi \<Rightarrow> MYSQL_SOCKET \<Rightarrow> nat \<Rightarrow> 32 word
    \<Rightarrow> ('w, unit) socket_prog" where
  "mysql_socket_set_address p socket addr addr_len =
     whenever (have_psi p \<and> m_psi socket \<noteq> 0)
       (PSI_NOTE (set_socket_info (m_psi socket) 0 addr addr_len))"

definition mysql_socket_set_thread_owner :: "psi_socket_call psi \<Rightarrow> MYSQL_SOCKET \<Rightarrow> ('w, unit) socket_prog" where
  "mysql_socket_set_thread_owner p socket =
     whenever (have_psi p \<and> m_psi socket \<noteq> 0) (PSI_NOTE (set_socket_thread_owner (m_psi socket)))"

definition mysql_socket_getfd :: "MYSQL_SOCKET \<Rightarrow> int" where
  "mysql_socket_getfd mysql_socket = sock_fd mysql_socket"

text \<open>The argument is a pointer: the result is what it points to afterwards, \<open>None\<close> being NULL.\<close>

definition mysql_socket_setfd :: "MYSQL_SOCKET option \<Rightarrow> int \<Rightarrow> MYSQL_SOCKET option" where
  "mysql_socket_setfd mysql_socket fd =
     (case mysql_socket of None \<Rightarrow> None | Some s \<Rightarrow> Some (s\<lparr>sock_fd := fd\<rparr>))"

text \<open>
  The helpers behind \<open>MYSQL_START_SOCKET_WAIT\<close>, \<open>MYSQL_END_SOCKET_WAIT\<close> and
  \<open>MYSQL_SOCKET_SET_STATE\<close>; they exist in the instrumented build only.
\<close>

definition inline_mysql_start_socket_wait :: "psi_socket_call psi \<Rightarrow> MYSQL_SOCKET \<Rightarrow> PSI_socket_operation
    \<Rightarrow> 64 word \<Rightarrow> string \<Rightarrow> int \<Rightarrow> ('w, nat) socket_prog" where
  "inline_mysql_start_socket_wait p mysql_socket oper byte_count src_file src_line =
     (if m_psi mysql_socket \<noteq> 0
      then PSI_CALL p (start_socket_wait (m_psi mysql_socket) oper byte_count src_file src_line)
      else return 0)"

definition inline_mysql_end_socket_wait :: "nat \<Rightarrow> 64 word \<Rightarrow> ('w, unit) socket_prog" where
  "inline_mysql_end_socket_wait locker byte_count =
     whenever (locker \<noteq> 0) (PSI_NOTE (end_socket_wait locker byte_count))"

definition inline_mysql_socket_set_state :: "MYSQL_SOCKET \<Rightarrow> PSI_socket_state \<Rightarrow> ('w, unit) socket_prog" where
  "inline_mysql_socket_set_state socket st =
     whenever (m_psi socket \<noteq> 0) (PSI_NOTE (set_socket_state (m_psi socket) st))"

definition inline_mysql_socket_register :: "string \<Rightarrow> nat \<Rightarrow> int \<Rightarrow> ('w, unit) socket_prog" where
  "inline_mysql_socket_register category info n = PSI_NOTE (register_socket category info n)"

section \<open>The wrappers\<close>

definition inline_mysql_socket_socket :: "psi_socket_call psi \<Rightarrow> 'w socket_sys \<Rightarrow> nat \<Rightarrow> int \<Rightarrow> int \<Rightarrow> int
    \<Rightarrow> ('w, MYSQL_SOCKET) socket_prog" where
  "inline_mysql_socket_socket p os key domain type protocol =
     do {
       fd \<leftarrow> sys ''socket'' (sys_socket os domain type protocol);
       psi \<leftarrow> (if have_psi p \<and> fd \<noteq> INVALID_SOCKET then PSI_CALL p (init_socket key fd 0 0)
              else return (m_psi mysql_socket_invalid));
       return \<lparr>sock_fd = fd, m_psi = psi\<rparr>
     }"

definition inline_mysql_socket_bind :: "psi_socket_call psi \<Rightarrow> 'w socket_sys \<Rightarrow> string \<Rightarrow> int
    \<Rightarrow> MYSQL_SOCKET \<Rightarrow> nat \<Rightarrow> 32 word \<Rightarrow> ('w, int) socket_prog" where
  "inline_mysql_socket_bind p os src_file src_line mysql_socket addr len =
     (if have_psi p \<and> m_psi mysql_socket \<noteq> 0
      then do {
        locker \<leftarrow> PSI_CALL p (start_socket_wait (m_psi mysql_socket) PSI_SOCKET_BIND 0 src_file src_line);
        result \<leftarrow> sys ''bind'' (sys_bind os (sock_fd mysql_socket) addr len);
        whenever (result = 0) (PSI_NOTE (set_socket_info (m_psi mysql_socket) 0 addr len));
        whenever (locker \<noteq> 0) (PSI_NOTE (end_socket_wait locker 0));
        return result
      }
      else sys ''bind'' (sys_bind os (sock_fd mysql_socket) addr len))"

definition inline_mysql_socket_getsockname :: "psi_socket_call psi \<Rightarrow> 'w socket_sys \<Rightarrow> string \<Rightarrow> int
    \<Rightarrow> MYSQL_SOCKET \<Rightarrow> nat \<Rightarrow> nat \<Rightarrow> ('w, int) socket_prog" where
  "inline_mysql_socket_getsockname p os src_file src_line mysql_socket addr len =
     (if have_psi p \<and> m_psi mysql_socket \<noteq> 0
      then do {
        locker \<leftarrow> PSI_CALL p (start_socket_wait (m_psi mysql_socket) PSI_SOCKET_BIND 0 src_file src_line);
        result \<leftarrow> sys ''getsockname'' (sys_getsockname os (sock_fd mysql_socket) addr len);
        whenever (locker \<noteq> 0) (PSI_NOTE (end_socket_wait locker 0));
        return result
      }
      else sys ''getsockname'' (sys_getsockname os (sock_fd mysql_socket) addr len))"

definition inline_mysql_socket_connect :: "psi_socket_call psi \<Rightarrow> 'w socket_sys \<Rightarrow> string \<Rightarrow> int
    \<Rightarrow> MYSQL_SOCKET \<Rightarrow> nat \<Rightarrow> 32 word \<Rightarrow> ('w, int) socket_prog" where
  "inline_mysql_socket_connect p os src_file src_line mysql_socket addr len =
     (if have_psi p \<and> m_psi mysql_socket \<noteq> 0
      then do {
        locker \<leftarrow> PSI_CALL p (start_socket_wait (m_psi mysql_socket) PSI_SOCKET_CONNECT 0 src_file src_line);
        result \<leftarrow> sys ''connect'' (sys_connect os (sock_fd mysql_socket) addr len);
        whenever (locker \<noteq> 0) (PSI_NOTE (end_socket_wait locker 0));
        return result
      }
      else sys ''connect'' (sys_connect os (sock_fd mysql_socket) addr len))"

definition inline_mysql_socket_getpeername :: "psi_socket_call psi \<Rightarrow> 'w socket_sys \<Rightarrow> string \<Rightarrow> int
    \<Rightarrow> MYSQL_SOCKET \<Rightarrow> nat \<Rightarrow> nat \<Rightarrow> ('w, int) socket_prog" where
  "inline_mysql_socket_getpeername p os src_file src_line mysql_socket addr len =
     (if have_psi p \<and> m_psi mysql_socket \<noteq> 0
      then do {
        locker \<leftarrow> PSI_CALL p (start_socket_wait (m_psi mysql_socket) PSI_SOCKET_BIND 0 src_file src_line);
        result \<leftarrow> sys ''getpeername'' (sys_getpeername os (sock_fd mysql_socket) addr len);
        whenever (locker \<noteq> 0) (PSI_NOTE (end_socket_wait locker 0));
        return result
      }
      else sys ''getpeername'' (sys_getpeername os (sock_fd mysql_socket) addr len))"

definition inline_mysql_socket_send :: "psi_socket_call psi \<Rightarrow> 'w socket_sys \<Rightarrow> string \<Rightarrow> int
    \<Rightarrow> MYSQL_SOCKET \<Rightarrow> nat \<Rightarrow> 64 word \<Rightarrow> int \<Rightarrow> ('w, int) socket_prog" where
  "inline_mysql_socket_send p os src_file src_line mysql_socket buf n flags =
     (if have_psi p \<and> m_psi mysql_socket \<noteq> 0
      then do {
        locker \<leftarrow> PSI_CALL p (start_socket_wait (m_psi mysql_socket) PSI_SOCKET_SEND n src_file src_line);
        result \<leftarrow> sys ''send'' (sys_send os (sock_fd mysql_socket) buf n flags);
        whenever (locker \<noteq> 0) (PSI_NOTE (end_socket_wait locker (if result > -1 then word_of_int result else 0)));
        return result
      }
      else sys ''send'' (sys_send os (sock_fd mysql_socket) buf n flags))"

definition inline_mysql_socket_recv :: "psi_socket_call psi \<Rightarrow> 'w socket_sys \<Rightarrow> string \<Rightarrow> int
    \<Rightarrow> MYSQL_SOCKET \<Rightarrow> nat \<Rightarrow> 64 word \<Rightarrow> int \<Rightarrow> ('w, int) socket_prog" where
  "inline_mysql_socket_recv p os src_file src_line mysql_socket buf n flags =
     (if have_psi p \<and> m_psi mysql_socket \<noteq> 0
      then do {
        locker \<leftarrow> PSI_CALL p (start_socket_wait (m_psi mysql_socket) PSI_SOCKET_RECV 0 src_file src_line);
        result \<leftarrow> sys ''recv'' (sys_recv os (sock_fd mysql_socket) buf n flags);
        whenever (locker \<noteq> 0) (PSI_NOTE (end_socket_wait locker (if result > -1 then word_of_int result else 0)));
        return result
      }
      else sys ''recv'' (sys_recv os (sock_fd mysql_socket) buf n flags))"

definition inline_mysql_socket_sendto :: "psi_socket_call psi \<Rightarrow> 'w socket_sys \<Rightarrow> string \<Rightarrow> int
    \<Rightarrow> MYSQL_SOCKET \<Rightarrow> nat \<Rightarrow> 64 word \<Rightarrow> int \<Rightarrow> nat \<Rightarrow> 32 word \<Rightarrow> ('w, int) socket_prog" where
  "inline_mysql_socket_sendto p os src_file src_line mysql_socket buf n flags addr addr_len =
     (if have_psi p \<and> m_psi mysql_socket \<noteq> 0
      then do {
        locker \<leftarrow> PSI_CALL p (start_socket_wait (m_psi mysql_socket) PSI_SOCKET_SEND n src_file src_line);
        result \<leftarrow> sys ''sendto'' (sys_sendto os (sock_fd mysql_socket) buf n flags addr addr_len);
        whenever (locker \<noteq> 0) (PSI_NOTE (end_socket_wait locker (if result > -1 then word_of_int result else 0)));
        return result
      }
      else sys ''sendto'' (sys_sendto os (sock_fd mysql_socket) buf n flags addr addr_len))"

definition inline_mysql_socket_recvfrom :: "psi_socket_call psi \<Rightarrow> 'w socket_sys \<Rightarrow> string \<Rightarrow> int
    \<Rightarrow> MYSQL_SOCKET \<Rightarrow> nat \<Rightarrow> 64 word \<Rightarrow> int \<Rightarrow> nat \<Rightarrow> nat \<Rightarrow> ('w, int) socket_prog" where
  "inline_mysql_socket_recvfrom p os src_file src_line mysql_socket buf n flags addr addr_len =
     (if have_psi p \<and> m_psi mysql_socket \<noteq> 0
      then do {
        locker \<leftarrow> PSI_CALL p (start_socket_wait (m_psi mysql_socket) PSI_SOCKET_RECV 0 src_file src_line);
        result \<leftarrow> sys ''recvfrom'' (sys_recvfrom os (sock_fd mysql_socket) buf n flags addr addr_len);
        whenever (locker \<noteq> 0) (PSI_NOTE (end_socket_wait locker (if result > -1 then word_of_int result else 0)));
        return result
      }
      else sys ''recvfrom'' (sys_recvfrom os (sock_fd mysql_socket) buf n flags addr addr_len))"

definition inline_mysql_socket_getsockopt :: "psi_socket_call psi \<Rightarrow> 'w socket_sys \<Rightarrow> string \<Rightarrow> int
    \<Rightarrow> MYSQL_SOCKET \<Rightarrow> int \<Rightarrow> int \<Rightarrow> nat \<Rightarrow> nat \<Rightarrow> ('w, int) socket_prog" where
  "inline_mysql_socket_getsockopt p os src_file src_line mysql_socket level optname optval optlen =
     (if have_psi p \<and> m_psi mysql_socket \<noteq> 0
      then do {
        locker \<leftarrow> PSI_CALL p (start_socket_wait (m_psi mysql_socket) PSI_SOCKET_OPT 0 src_file src_line);
        result \<leftarrow> sys ''getsockopt'' (sys_getsockopt os (sock_fd mysql_socket) level optname optval optlen);
        whenever (locker \<noteq> 0) (PSI_NOTE (end_socket_wait locker 0));
        return result
      }
      else sys ''getsockopt'' (sys_getsockopt os (sock_fd mysql_socket) level optname optval optlen))"

definition inline_mysql_socket_setsockopt :: "psi_socket_call psi \<Rightarrow> 'w socket_sys \<Rightarrow> string \<Rightarrow> int
    \<Rightarrow> MYSQL_SOCKET \<Rightarrow> int \<Rightarrow> int \<Rightarrow> nat \<Rightarrow> 32 word \<Rightarrow> ('w, int) socket_prog" where
  "inline_mysql_socket_setsockopt p os src_file src_line mysql_socket level optname optval optlen =
     (if have_psi p \<and> m_psi mysql_socket \<noteq> 0
      then do {
        locker \<leftarrow> PSI_CALL p (start_socket_wait (m_psi mysql_socket) PSI_SOCKET_OPT 0 src_file src_line);
        result \<leftarrow> sys ''setsockopt'' (sys_setsockopt os (sock_fd mysql_socket) level optname optval optlen);
        whenever (locker \<noteq> 0) (PSI_NOTE (end_socket_wait locker 0));
        return result
      }
      else sys ''setsockopt'' (sys_setsockopt os (sock_fd mysql_socket) level optname optval optlen))"

text \<open>
  Non-blocking mode reads the flags of the descriptor and sets them again with \<open>O_NONBLOCK\<close>;
  the error number is returned where either call fails.
\<close>

definition set_socket_nonblock :: "'w socket_sys \<Rightarrow> int \<Rightarrow> ('w, int) socket_prog" where
  "set_socket_nonblock os fd =
     do {
       fd_flags \<leftarrow> sys ''fcntl'' (sys_fcntl_getfl os fd);
       if fd_flags < 0 then reads (errno os)
       else do {
         r \<leftarrow> sys ''fcntl'' (sys_fcntl_setfl os fd (or fd_flags (O_NONBLOCK os)));
         if r = -1 then reads (errno os) else return 0
       }
     }"

definition inline_mysql_sock_set_nonblocking :: "psi_socket_call psi \<Rightarrow> 'w socket_sys \<Rightarrow> string \<Rightarrow> int
    \<Rightarrow> MYSQL_SOCKET \<Rightarrow> ('w, int) socket_prog" where
  "inline_mysql_sock_set_nonblocking p os src_file src_line mysql_socket =
     (if have_psi p \<and> m_psi mysql_socket \<noteq> 0
      then do {
        locker \<leftarrow> PSI_CALL p (start_socket_wait (m_psi mysql_socket) PSI_SOCKET_OPT 0 src_file src_line);
        result \<leftarrow> set_socket_nonblock os (sock_fd mysql_socket);
        whenever (locker \<noteq> 0) (PSI_NOTE (end_socket_wait locker 0));
        return result
      }
      else set_socket_nonblock os (sock_fd mysql_socket))"

definition inline_mysql_socket_listen :: "psi_socket_call psi \<Rightarrow> 'w socket_sys \<Rightarrow> string \<Rightarrow> int
    \<Rightarrow> MYSQL_SOCKET \<Rightarrow> int \<Rightarrow> ('w, int) socket_prog" where
  "inline_mysql_socket_listen p os src_file src_line mysql_socket backlog =
     (if have_psi p \<and> m_psi mysql_socket \<noteq> 0
      then do {
        locker \<leftarrow> PSI_CALL p (start_socket_wait (m_psi mysql_socket) PSI_SOCKET_CONNECT 0 src_file src_line);
        result \<leftarrow> sys ''listen'' (sys_listen os (sock_fd mysql_socket) backlog);
        whenever (locker \<noteq> 0) (PSI_NOTE (end_socket_wait locker 0));
        return result
      }
      else sys ''listen'' (sys_listen os (sock_fd mysql_socket) backlog))"

text \<open>
  \<open>accept(fd, addr, &addr_length)\<close> with a local variable for the length: the descriptor and
  the value of that variable afterwards. Nothing else is told of the length.
\<close>

definition accept_local :: "'w socket_sys \<Rightarrow> int \<Rightarrow> nat \<Rightarrow> 32 word \<Rightarrow> 'w \<Rightarrow> (int \<times> 32 word) \<times> 'w" where
  "accept_local os fd addr addr_length w =
     (case sys_accept os fd addr (Some addr_length) w of ((r, written), w') \<Rightarrow>
        ((r, case written of None \<Rightarrow> addr_length | Some n \<Rightarrow> n), w'))"

definition inline_mysql_socket_accept :: "psi_socket_call psi \<Rightarrow> 'w socket_sys \<Rightarrow> string \<Rightarrow> int \<Rightarrow> nat
    \<Rightarrow> MYSQL_SOCKET \<Rightarrow> nat \<Rightarrow> nat \<Rightarrow> ('w, MYSQL_SOCKET) socket_prog" where
  "inline_mysql_socket_accept p os src_file src_line key socket_listen addr addr_len =
     do {
       addr_length \<leftarrow> (if addr_len \<noteq> 0 then reads (deref_socklen os addr_len) else return 0);
       (fd, addr_length) \<leftarrow>
         (if have_psi p \<and> m_psi socket_listen \<noteq> 0
          then do {
            locker \<leftarrow> PSI_CALL p (start_socket_wait (m_psi socket_listen) PSI_SOCKET_CONNECT 0 src_file src_line);
            result \<leftarrow> sys ''accept'' (accept_local os (sock_fd socket_listen) addr addr_length);
            whenever (locker \<noteq> 0) (PSI_NOTE (end_socket_wait locker 0));
            return result
          }
          else sys ''accept'' (accept_local os (sock_fd socket_listen) addr addr_length));
       psi \<leftarrow> (if have_psi p \<and> fd \<noteq> INVALID_SOCKET then PSI_CALL p (init_socket key fd addr addr_length)
              else return (m_psi mysql_socket_invalid));
       return \<lparr>sock_fd = fd, m_psi = psi\<rparr>
     }"

definition inline_mysql_socket_close :: "psi_socket_call psi \<Rightarrow> 'w socket_sys \<Rightarrow> string \<Rightarrow> int
    \<Rightarrow> MYSQL_SOCKET \<Rightarrow> ('w, int) socket_prog" where
  "inline_mysql_socket_close p os src_file src_line mysql_socket =
     (if have_psi p \<and> m_psi mysql_socket \<noteq> 0
      then do {
        locker \<leftarrow> PSI_CALL p (start_socket_wait (m_psi mysql_socket) PSI_SOCKET_CLOSE 0 src_file src_line);
        result \<leftarrow> sys ''close'' (sys_close os (sock_fd mysql_socket));
        whenever (locker \<noteq> 0) (PSI_NOTE (end_socket_wait locker 0));
        whenever (m_psi mysql_socket \<noteq> 0) (PSI_NOTE (destroy_socket (m_psi mysql_socket)));
        return result
      }
      else sys ''close'' (sys_close os (sock_fd mysql_socket)))"

definition inline_mysql_socket_shutdown :: "psi_socket_call psi \<Rightarrow> 'w socket_sys \<Rightarrow> string \<Rightarrow> int
    \<Rightarrow> MYSQL_SOCKET \<Rightarrow> int \<Rightarrow> ('w, int) socket_prog" where
  "inline_mysql_socket_shutdown p os src_file src_line mysql_socket how =
     (if have_psi p \<and> m_psi mysql_socket \<noteq> 0
      then do {
        locker \<leftarrow> PSI_CALL p (start_socket_wait (m_psi mysql_socket) PSI_SOCKET_SHUTDOWN 0 src_file src_line);
        result \<leftarrow> sys ''shutdown'' (sys_shutdown os (sock_fd mysql_socket) how);
        whenever (locker \<noteq> 0) (PSI_NOTE (end_socket_wait locker 0));
        return result
      }
      else sys ''shutdown'' (sys_shutdown os (sock_fd mysql_socket) how))"

section \<open>Transparency and waits of each wrapper\<close>

interpretation socket_wait: granting_interface socket_phase end_socket_wait
    "\<lambda>(psi, oper, n, src_file, src_line). start_socket_wait psi oper n src_file src_line"
  by unfold_locales auto

lemmas socket_block = socket_wait.plain_block [where x = "(psi, oper, n, src_file, src_line)" for psi oper n src_file src_line,
  simplified prod.case]

lemmas socket_report_block = socket_wait.wait_block [where x = "(psi, oper, n, src_file, src_line)" for psi oper n src_file src_line,
  simplified prod.case]

lemmas socket_wrapper_defs =
  inline_mysql_socket_bind_def inline_mysql_socket_getsockname_def inline_mysql_socket_connect_def
  inline_mysql_socket_getpeername_def inline_mysql_socket_send_def inline_mysql_socket_recv_def
  inline_mysql_socket_sendto_def inline_mysql_socket_recvfrom_def inline_mysql_socket_getsockopt_def
  inline_mysql_socket_setsockopt_def inline_mysql_sock_set_nonblocking_def
  inline_mysql_socket_listen_def inline_mysql_socket_close_def inline_mysql_socket_shutdown_def

lemma nonblock_inside: "waits socket_phase (Waiting l b) (set_socket_nonblock os fd) (\<lambda>_. Waiting l True)"
  unfolding set_socket_nonblock_def
  by (intro waits_bind [OF waits_sys_inside] waits_if waits_reads waits_return)

lemma nonblock_idle: "waits socket_phase Idle (set_socket_nonblock os fd) (\<lambda>_. Idle)"
  unfolding set_socket_nonblock_def
  by (intro waits_bind [OF waits_sys] waits_if waits_reads waits_return)

section \<open>Programs over the socket calls\<close>

text \<open>
  A request for one wrapper, and what it does through the instrumented interface and through
  the system calls alone. The caller of \<open>socket\<close> and \<open>accept\<close> is given the descriptor.
\<close>

datatype socket_request =
  Req_socket nat int int int
| Req_accept nat MYSQL_SOCKET nat nat
| Req_nonblock MYSQL_SOCKET
| Req_bind MYSQL_SOCKET nat "32 word"
| Req_getsockname MYSQL_SOCKET nat nat
| Req_connect MYSQL_SOCKET nat "32 word"
| Req_getpeername MYSQL_SOCKET nat nat
| Req_send MYSQL_SOCKET nat "64 word" int
| Req_recv MYSQL_SOCKET nat "64 word" int
| Req_sendto MYSQL_SOCKET nat "64 word" int nat "32 word"
| Req_recvfrom MYSQL_SOCKET nat "64 word" int nat nat
| Req_getsockopt MYSQL_SOCKET int int nat nat
| Req_setsockopt MYSQL_SOCKET int int nat "32 word"
| Req_listen MYSQL_SOCKET int
| Req_close MYSQL_SOCKET
| Req_shutdown MYSQL_SOCKET int

fun mysql_call :: "psi_socket_call psi \<Rightarrow> 'w socket_sys \<Rightarrow> string \<Rightarrow> int \<Rightarrow> socket_request
    \<Rightarrow> ('w, int) socket_prog" where
  "mysql_call p os f l (Req_socket key domain type protocol) =
     do { s \<leftarrow> inline_mysql_socket_socket p os key domain type protocol; return (sock_fd s) }"
| "mysql_call p os f l (Req_accept key s addr addr_len) =
     do { s \<leftarrow> inline_mysql_socket_accept p os f l key s addr addr_len; return (sock_fd s) }"
| "mysql_call p os f l (Req_nonblock s) = inline_mysql_sock_set_nonblocking p os f l s"
| "mysql_call p os f l (Req_bind s addr len) = inline_mysql_socket_bind p os f l s addr len"
| "mysql_call p os f l (Req_getsockname s addr len) = inline_mysql_socket_getsockname p os f l s addr len"
| "mysql_call p os f l (Req_connect s addr len) = inline_mysql_socket_connect p os f l s addr len"
| "mysql_call p os f l (Req_getpeername s addr len) = inline_mysql_socket_getpeername p os f l s addr len"
| "mysql_call p os f l (Req_send s buf n flags) = inline_mysql_socket_send p os f l s buf n flags"
| "mysql_call p os f l (Req_recv s buf n flags) = inline_mysql_socket_recv p os f l s buf n flags"
| "mysql_call p os f l (Req_sendto s buf n flags addr addr_len) = inline_mysql_socket_sendto p os f l s buf n flags addr addr_len"
| "mysql_call p os f l (Req_recvfrom s buf n flags addr addr_len) = inline_mysql_socket_recvfrom p os f l s buf n flags addr addr_len"
| "mysql_call p os f l (Req_getsockopt s level optname optval optlen) = inline_mysql_socket_getsockopt p os f l s level optname optval optlen"
| "mysql_call p os f l (Req_setsockopt s level optname optval optlen) = inline_mysql_socket_setsockopt p os f l s level optname optval optlen"
| "mysql_call p os f l (Req_listen s backlog) = inline_mysql_socket_listen p os f l s backlog"
| "mysql_call p os f l (Req_close s) = inline_mysql_socket_close p os f l s"
| "mysql_call p os f l (Req_shutdown s how) = inline_mysql_socket_shutdown p os f l s how"

text \<open>The raw calls; \<open>fcntl_nonblock\<close> is the pair of \<open>fcntl\<close> calls.\<close>

definition fcntl_nonblock :: "'w socket_sys \<Rightarrow> int \<Rightarrow> 'w \<Rightarrow> int \<times> 'w" where
  "fcntl_nonblock os fd w =
     (case sys_fcntl_getfl os fd w of (fl, w1) \<Rightarrow>
        if fl < 0 then (errno os w1, w1)
        else case sys_fcntl_setfl os fd (or fl (O_NONBLOCK os)) w1 of (r, w2) \<Rightarrow>
          if r = -1 then (errno os w2, w2) else (0, w2))"

text \<open>
  The bare \<open>accept(fd, addr, addr_len)\<close>: it reads the length at the address the caller passes
  and writes the new one there.
\<close>

definition accept_bare :: "'w socket_sys \<Rightarrow> int \<Rightarrow> nat \<Rightarrow> nat \<Rightarrow> 'w \<Rightarrow> int \<times> 'w" where
  "accept_bare os fd addr addr_len w =
     (case sys_accept os fd addr (if addr_len \<noteq> 0 then Some (deref_socklen os addr_len w) else None) w of
        ((r, None), w') \<Rightarrow> (r, w')
      | ((r, Some n), w') \<Rightarrow> (r, if addr_len \<noteq> 0 then put_socklen os addr_len n w' else w'))"

fun raw_call :: "'w socket_sys \<Rightarrow> socket_request \<Rightarrow> ('w, int) state" where
  "raw_call os (Req_socket key domain type protocol) = State (sys_socket os domain type protocol)"
| "raw_call os (Req_accept key s addr addr_len) =
     State (accept_bare os (sock_fd s) addr addr_len)"
| "raw_call os (Req_nonblock s) = State (fcntl_nonblock os (sock_fd s))"
| "raw_call os (Req_bind s addr len) = State (sys_bind os (sock_fd s) addr len)"
| "raw_call os (Req_getsockname s addr len) = State (sys_getsockname os (sock_fd s) addr len)"
| "raw_call os (Req_connect s addr len) = State (sys_connect os (sock_fd s) addr len)"
| "raw_call os (Req_getpeername s addr len) = State (sys_getpeername os (sock_fd s) addr len)"
| "raw_call os (Req_send s buf n flags) = State (sys_send os (sock_fd s) buf n flags)"
| "raw_call os (Req_recv s buf n flags) = State (sys_recv os (sock_fd s) buf n flags)"
| "raw_call os (Req_sendto s buf n flags addr addr_len) = State (sys_sendto os (sock_fd s) buf n flags addr addr_len)"
| "raw_call os (Req_recvfrom s buf n flags addr addr_len) = State (sys_recvfrom os (sock_fd s) buf n flags addr addr_len)"
| "raw_call os (Req_getsockopt s level optname optval optlen) = State (sys_getsockopt os (sock_fd s) level optname optval optlen)"
| "raw_call os (Req_setsockopt s level optname optval optlen) = State (sys_setsockopt os (sock_fd s) level optname optval optlen)"
| "raw_call os (Req_listen s backlog) = State (sys_listen os (sock_fd s) backlog)"
| "raw_call os (Req_close s) = State (sys_close os (sock_fd s))"
| "raw_call os (Req_shutdown s how) = State (sys_shutdown os (sock_fd s) how)"

text \<open>
  The system call each wrapper really makes: the bare one, but for \<open>accept\<close>, which gets a copy
  of the length in place of the caller's variable.
\<close>

definition made_call :: "'w socket_sys \<Rightarrow> socket_request \<Rightarrow> ('w, int) state" where
  "made_call os q =
     (case q of
        Req_accept key s addr addr_len \<Rightarrow>
          State (\<lambda>w. map_prod fst id
            (accept_local os (sock_fd s) addr (if addr_len \<noteq> 0 then deref_socklen os addr_len w else 0) w))
      | _ \<Rightarrow> raw_call os q)"

fun accepts :: "socket_request \<Rightarrow> bool" where
  "accepts (Req_accept key s addr addr_len) = True"
| "accepts _ = False"

lemma made_call_raw: "\<not> accepts q \<Longrightarrow> made_call os q = raw_call os q"
  by (cases q) (simp_all add: made_call_def)

text \<open>
  What the bare \<open>accept\<close> does beyond the wrapper's: it writes the new length to the caller's
  variable.
\<close>

definition length_written :: "'w socket_sys \<Rightarrow> nat \<Rightarrow> 32 word option \<Rightarrow> 'w \<Rightarrow> 'w" where
  "length_written os addr_len written w =
     (case written of None \<Rightarrow> w | Some n \<Rightarrow> put_socklen os addr_len n w)"

lemma accept_made_bare:
  assumes "addr_len \<noteq> 0"
    and "sys_accept os (sock_fd s) addr (Some (deref_socklen os addr_len w)) w = ((fd, written), w')"
  shows "run_state (made_call os (Req_accept key s addr addr_len)) w = (fd, w')"
    and "run_state (raw_call os (Req_accept key s addr addr_len)) w = (fd, length_written os addr_len written w')"
  using assms by (auto simp: made_call_def accept_local_def accept_bare_def length_written_def split: option.split)

lemma transparent_nonblock: "transparent world (set_socket_nonblock os fd) (fcntl_nonblock os fd)"
  by (auto simp: transparent_def set_socket_nonblock_def fcntl_nonblock_def split: prod.split)

lemma transparent_inline_nonblock:
  "transparent world (inline_mysql_sock_set_nonblocking p os f l s) (fcntl_nonblock os (sock_fd s))"
  unfolding inline_mysql_sock_set_nonblocking_def
  by (intro transparent_if world_view.transparent_call transparent_around [OF transparent_nonblock]
      transparent_nonblock transparent_skip world_view.transparent_PSI_NOTE transparent_return)

lemma transparent_socket:
  "transparent world (mysql_call p os f l (Req_socket key domain type protocol))
     (run_state (raw_call os (Req_socket key domain type protocol)))"
  by (auto simp: transparent_def inline_mysql_socket_socket_def split: prod.split)

lemma transparent_accept:
  "transparent world (mysql_call p os f l (Req_accept key s addr addr_len))
     (run_state (made_call os (Req_accept key s addr addr_len)))"
  by (simp add: transparent_def inline_mysql_socket_accept_def made_call_def split_beta prod_eq_iff)

lemma mysql_call_transparent: "transparent world (mysql_call p os f l q) (run_state (made_call os q))"
proof (cases q)
  case (Req_socket key domain type protocol)
  then show ?thesis by (simp only: transparent_socket made_call_raw accepts.simps simp_thms)
next
  case (Req_accept key s addr addr_len)
  then show ?thesis by (simp only: transparent_accept)
qed (simp_all only: mysql_call.simps made_call_raw accepts.simps simp_thms raw_call.simps state.sel transparent_inline_nonblock
    inline_mysql_socket_bind_def inline_mysql_socket_getsockname_def inline_mysql_socket_connect_def
    inline_mysql_socket_getpeername_def inline_mysql_socket_send_def inline_mysql_socket_recv_def
    inline_mysql_socket_sendto_def inline_mysql_socket_recvfrom_def inline_mysql_socket_getsockopt_def
    inline_mysql_socket_setsockopt_def inline_mysql_socket_listen_def inline_mysql_socket_close_def
    inline_mysql_socket_shutdown_def, (intro world_rules)+)

lemma waits_socket: "waits socket_phase Idle (mysql_call p os f l (Req_socket key domain type protocol)) (\<lambda>_. Idle)"
  unfolding mysql_call.simps inline_mysql_socket_socket_def
  by (intro waits_bind [where t = "\<lambda>_. Idle"] waits_sys waits_if waits_return socket_wait.neutral_call) simp

lemma waits_accept: "waits socket_phase Idle (mysql_call p os f l (Req_accept key s addr addr_len)) (\<lambda>_. Idle)"
proof -
  have accepting: "waits socket_phase Idle
     (if have_psi p \<and> m_psi s \<noteq> 0
      then bind (PSI_CALL p (start_socket_wait (m_psi s) PSI_SOCKET_CONNECT 0 f l)) (\<lambda>locker.
           bind (sys ''accept'' (accept_local os (sock_fd s) addr n)) (\<lambda>result.
           bind (whenever (locker \<noteq> 0) (PSI_NOTE (end_socket_wait locker 0))) (\<lambda>_. return result)))
      else sys ''accept'' (accept_local os (sock_fd s) addr n)) (\<lambda>_. Idle)" for n
    by (intro waits_if socket_block waits_sys waits_sys_inside waits_return)
  show ?thesis
    unfolding mysql_call.simps inline_mysql_socket_accept_def split_beta
    by (intro waits_bind [where t = "\<lambda>_. Idle"] accepting waits_reads waits_if waits_return
        socket_wait.neutral_call) simp
qed

lemma mysql_call_waits: "waits socket_phase Idle (mysql_call p os f l q) (\<lambda>_. Idle)"
proof (cases q)
  case (Req_socket key domain type protocol)
  then show ?thesis by (simp only: waits_socket)
next
  case (Req_accept key s addr addr_len)
  then show ?thesis by (simp only: waits_accept)
next
  case (Req_bind s addr len)
  show ?thesis
    unfolding Req_bind mysql_call.simps inline_mysql_socket_bind_def
    by (intro waits_if socket_report_block waits_sys waits_sys_inside waits_return socket_wait.neutral) simp
next
  case (Req_close s)
  show ?thesis
    unfolding Req_close mysql_call.simps inline_mysql_socket_close_def
    by (intro waits_if socket_block waits_sys waits_sys_inside waits_return
        waits_bind [where t = "\<lambda>_. Idle"] socket_wait.neutral) simp
qed (simp_all only: mysql_call.simps socket_wrapper_defs,
    (intro waits_if socket_block waits_sys waits_sys_inside nonblock_inside nonblock_idle waits_return)+)

text \<open>In the build without instrumentation only system calls remain.\<close>

lemma mysql_call_uninstrumented: "\<not> have_psi p \<Longrightarrow> only_sys (mysql_call p os f l q)"
  by (cases q) (auto simp: socket_wrapper_defs inline_mysql_socket_socket_def set_socket_nonblock_def
      inline_mysql_socket_accept_def split_beta intro!: only_sys_rules)

section \<open>Reported byte counts\<close>

text \<open>The counts the performance schema is given at the end of waits.\<close>

fun reported :: "psi_socket_call event list \<Rightarrow> 64 word list" where
  "reported [] = []"
| "reported (Psi (end_socket_wait l n) a # es) = n # reported es"
| "reported (_ # es) = reported es"

lemma reported_append: "reported (es @ fs) = reported es @ reported fs"
  by (induction es rule: reported.induct) auto

fun transfer_size :: "socket_request \<Rightarrow> 64 word option" where
  "transfer_size (Req_send s buf n flags) = Some n"
| "transfer_size (Req_recv s buf n flags) = Some n"
| "transfer_size (Req_sendto s buf n flags addr addr_len) = Some n"
| "transfer_size (Req_recvfrom s buf n flags addr addr_len) = Some n"
| "transfer_size _ = None"

lemma transfer_reports:
  assumes "transfer_size q = Some n" and "run_state (mysql_call p os f l q) m = (r, m')"
  shows "\<exists>es. events m' = events m @ es \<and>
    set (reported es) \<subseteq> {if r > -1 then word_of_int r else 0}"
  using assms
  by (cases q) (auto simp: inline_mysql_socket_send_def inline_mysql_socket_recv_def
      inline_mysql_socket_sendto_def inline_mysql_socket_recvfrom_def split: if_splits)

lemma uint_word_of_int_bounded: "0 \<le> r \<Longrightarrow> r \<le> uint (n :: 64 word) \<Longrightarrow> uint (word_of_int r :: 64 word) = r"
  using uint_bounded [of n] by (simp add: uint_word_of_int)

section \<open>The properties of the sockets\<close>

lemma socket_calls_transparent:
  "run_state (traverse_list (\<lambda>(f, l, q). made_call os q) qs) (world m) =
   map_prod id world (run_state (traverse_list (\<lambda>(f, l, q). mysql_call p os f l q) qs) m)"
proof -
  have "transparent world (traverse_list (\<lambda>(f, l, q). mysql_call p os f l q) qs)
    (run_state (traverse_list (\<lambda>(f, l, q). made_call os q) qs))"
    by (rule transparent_traverse) (auto intro: mysql_call_transparent)
  then show ?thesis by (simp add: transparent_def)
qed

text \<open>A sequence without \<open>accept\<close> is one of bare calls.\<close>

lemma made_calls_raw:
  "list_all (\<lambda>(f, l, q). \<not> accepts q) qs \<Longrightarrow>
   traverse_list (\<lambda>(f, l, q). raw_call os q) qs = traverse_list (\<lambda>(f, l, q). made_call os q) qs"
  by (induction qs) (auto simp: made_call_raw)

lemma accept_wrapper_bare:
  assumes "addr_len \<noteq> 0"
  shows "run_state (raw_call os (Req_accept key s addr addr_len)) (world m) =
    map_prod id (\<lambda>m'. length_written os addr_len
        (snd (fst (sys_accept os (sock_fd s) addr (Some (deref_socklen os addr_len (world m))) (world m)))) (world m'))
      (run_state (mysql_call p os f l (Req_accept key s addr addr_len)) m)"
proof -
  obtain fd written w' where call:
    "sys_accept os (sock_fd s) addr (Some (deref_socklen os addr_len (world m))) (world m) = ((fd, written), w')"
    by (metis prod.exhaust)
  have "map_prod id world (run_state (mysql_call p os f l (Req_accept key s addr addr_len)) m)
      = run_state (made_call os (Req_accept key s addr addr_len)) (world m)"
    using transparent_accept [of p os f l key s addr addr_len] by (simp only: transparent_def)
  then have "map_prod id world (run_state (mysql_call p os f l (Req_accept key s addr addr_len)) m) = (fd, w')"
    by (simp only: accept_made_bare(1) [OF assms call])
  then show ?thesis
    using accept_made_bare(2) [OF assms call]
    by (cases "run_state (mysql_call p os f l (Req_accept key s addr addr_len)) m")
       (simp only: call fst_conv snd_conv map_prod_simp id_apply prod.inject)
qed

lemma socket_waits_bracketed:
  "\<exists>es. events (snd (run_state (traverse_list (\<lambda>(f, l, q). mysql_call p os f l q) qs) m)) = events m @ es
     \<and> bracketed socket_phase es \<and> closed socket_phase es = granted socket_phase es"
proof -
  have "waits socket_phase Idle (traverse_list (\<lambda>(f, l, q). mysql_call p os f l q) qs) (\<lambda>_. Idle)"
    by (rule waits_traverse) (auto intro: mysql_call_waits)
  then show ?thesis using waits_bracketed bracketed_granted_closed by metis
qed

text \<open>C32: the instrumented sockets are the sockets, but for the length \<open>accept\<close> reports, and
  their waits are bracketed. A program that makes any sequence of socket calls through the
  wrappers gets the results, and leaves the world, of the same sequence of system calls,
  whatever the performance schema answers and in both builds; the system calls are the bare
  ones, except that \<open>accept\<close> is made on a copy of the length. So \<open>mysql_socket_accept\<close> is not
  the replacement for \<open>accept\<close> its comment promises: where the caller passes a variable for
  the length, it gets the same descriptor and the same world as from \<open>accept\<close> but for that
  variable, into which \<open>accept\<close> would have written the new length and the wrapper does not.
  Every locker the performance schema grants is handed back exactly once, in the order
  granted, after the system call it stands for and before the next wait begins.\<close>

theorem socket_instrumentation:
  "run_state (traverse_list (\<lambda>(f, l, q). made_call os q) qs) (world m) =
     map_prod id world (run_state (traverse_list (\<lambda>(f, l, q). mysql_call p os f l q) qs) m)
   \<and> (list_all (\<lambda>(f, l, q). \<not> accepts q) qs \<longrightarrow>
       run_state (traverse_list (\<lambda>(f, l, q). raw_call os q) qs) (world m) =
       map_prod id world (run_state (traverse_list (\<lambda>(f, l, q). mysql_call p os f l q) qs) m))
   \<and> (addr_len \<noteq> 0 \<longrightarrow>
       run_state (raw_call os (Req_accept key s addr addr_len)) (world m) =
       map_prod id (\<lambda>m'. length_written os addr_len
           (snd (fst (sys_accept os (sock_fd s) addr (Some (deref_socklen os addr_len (world m))) (world m)))) (world m'))
         (run_state (mysql_call p os f l (Req_accept key s addr addr_len)) m))
   \<and> (\<exists>es. events (snd (run_state (traverse_list (\<lambda>(f, l, q). mysql_call p os f l q) qs) m)) = events m @ es
     \<and> bracketed socket_phase es \<and> closed socket_phase es = granted socket_phase es)"
proof (intro conjI impI)
  show "run_state (traverse_list (\<lambda>(f, l, q). made_call os q) qs) (world m) =
      map_prod id world (run_state (traverse_list (\<lambda>(f, l, q). mysql_call p os f l q) qs) m)"
    by (rule socket_calls_transparent)
  then show "run_state (traverse_list (\<lambda>(f, l, q). raw_call os q) qs) (world m) =
      map_prod id world (run_state (traverse_list (\<lambda>(f, l, q). mysql_call p os f l q) qs) m)"
    if "list_all (\<lambda>(f, l, q). \<not> accepts q) qs" by (simp only: made_calls_raw [OF that])
qed (fact accept_wrapper_bare socket_waits_bracketed)+

text \<open>the byte count reported for a transfer is the number of bytes transferred, and 0 for a
  failed one: it never exceeds the size asked for, where the system call keeps to its
  contract of transferring no more than that.\<close>

theorem socket_count_bounds:
  assumes "transfer_size q = Some n"
    and "fst (run_state (raw_call os q) (world m)) \<le> uint n"
    and "run_state (mysql_call p os f l q) m = (r, m')"
  shows "\<exists>es. events m' = events m @ es \<and>
    (\<forall>c \<in> set (reported es). uint c = max 0 r \<and> c \<le> n)"
proof -
  have "\<not> accepts q" using assms(1) by (cases q) simp_all
  then have r: "r \<le> uint n"
    using transparentD [OF mysql_call_transparent assms(3)] assms(2) by (simp add: made_call_raw)
  have count: "uint c = max 0 r \<and> c \<le> n" if "c = (if r > -1 then word_of_int r else 0)" for c :: "64 word"
    using that r uint_word_of_int_bounded [of r n] uint_ge_0 [of n]
    by (auto simp: word_le_def)
  from transfer_reports [OF assms(1,3)] obtain es where
    "events m' = events m @ es" "set (reported es) \<subseteq> {if r > -1 then word_of_int r else 0}" by blast
  then show ?thesis using count by blast
qed

text \<open>
  A system on which \<open>recv\<close> delivers what is ready and \<open>accept\<close> writes the length of an address;
  the world is the number of bytes ready and the variable a caller of \<open>accept\<close> has for the length.
\<close>

definition ready_sys :: "(int \<times> 32 word) socket_sys" where
  "ready_sys = \<lparr>sys_socket = \<lambda>d t q w. (3, w), sys_bind = \<lambda>fd a n w. (0, w), sys_getsockname = \<lambda>fd a n w. (0, w),
     sys_connect = \<lambda>fd a n w. (0, w), sys_getpeername = \<lambda>fd a n w. (0, w),
     sys_send = \<lambda>fd b n fl w. (uint n, w),
     sys_recv = \<lambda>fd b n fl (r, al). (min r (uint n), (r - min r (uint n), al)),
     sys_sendto = \<lambda>fd b n fl a al w. (uint n, w), sys_recvfrom = \<lambda>fd b n fl a al w. (-1, w),
     sys_getsockopt = \<lambda>fd l nm v n w. (0, w), sys_setsockopt = \<lambda>fd l nm v n w. (0, w),
     sys_fcntl_getfl = \<lambda>fd w. (2, w), sys_fcntl_setfl = \<lambda>fd fl w. (0, w), sys_listen = \<lambda>fd n w. (0, w),
     sys_accept = \<lambda>fd a n w. ((5, if a = 0 then None else Some 16), w),
     sys_close = \<lambda>fd w. (0, w), sys_shutdown = \<lambda>fd h w. (0, w),
     deref_socklen = \<lambda>a (r, al). al, put_socklen = \<lambda>a n (r, al). (r, n), errno = \<lambda>w. 11, O_NONBLOCK = 2048\<rparr>"

definition granting_psi :: "psi_socket_call psi" where
  "granting_psi = \<lparr>have_psi = True, answer = \<lambda>es c. 1 + length es\<rparr>"

theorem socket_count_bounds_witness:
  "\<exists>es. events (snd (run_state (mysql_call granting_psi ready_sys ''vio.c'' 1
        (Req_recv \<lparr>sock_fd = 3, m_psi = 9\<rparr> 100 10 0)) \<lparr>world = (4, 128), events = []\<rparr>)) = es
     \<and> list_all (\<lambda>c. uint c = 4 \<and> c \<le> 10) (reported es) \<and> reported es = [4]"
proof -
  define m :: "(int \<times> 32 word, psi_socket_call) machine" where "m = \<lparr>world = (4, 128), events = []\<rparr>"
  define q where "q = Req_recv \<lparr>sock_fd = 3, m_psi = 9\<rparr> 100 10 0"
  obtain r m' where run: "run_state (mysql_call granting_psi ready_sys ''vio.c'' 1 q) m = (r, m')" by force
  have "r = 4" and counts: "reported (events m') = [4]"
    using run by (auto simp: q_def m_def granting_psi_def ready_sys_def inline_mysql_socket_recv_def)
  moreover obtain es where "events m' = events m @ es" "\<forall>c \<in> set (reported es). uint c = max 0 r \<and> c \<le> 10"
    using socket_count_bounds [where q = q and n = 10 and os = ready_sys and m = m, OF _ _ run]
    by (auto simp: q_def ready_sys_def m_def)
  ultimately show ?thesis
    using run by (intro exI [of _ es]) (simp add: q_def m_def list_all_iff)
qed

text \<open>
  A listening socket, instrumented: \<open>accept\<close> leaves 16 in the caller's variable, the wrapper
  leaves the 128 that were there.
\<close>

theorem socket_instrumentation_witness:
  "map_prod id world (run_state (mysql_call granting_psi ready_sys ''vio.c'' 1
       (Req_accept 7 \<lparr>sock_fd = 3, m_psi = 9\<rparr> 100 200)) \<lparr>world = (4, 128), events = []\<rparr>) = (5, (4, 128))
   \<and> run_state (raw_call ready_sys (Req_accept 7 \<lparr>sock_fd = 3, m_psi = 9\<rparr> 100 200)) (4, 128) = (5, (4, 16))
   \<and> run_state (traverse_list (\<lambda>(f, l, q). raw_call ready_sys q)
       [(''vio.c'', 1, Req_recv \<lparr>sock_fd = 3, m_psi = 9\<rparr> 100 10 0)]) (4, 128) = ([4], (0, 128))"
proof -
  define m :: "(int \<times> 32 word, psi_socket_call) machine" where "m = \<lparr>world = (4, 128), events = []\<rparr>"
  define a where "a = Req_accept 7 \<lparr>sock_fd = 3, m_psi = 9\<rparr> 100 200"
  define qs :: "(string \<times> int \<times> socket_request) list"
    where "qs = [(''vio.c'', 1, Req_recv \<lparr>sock_fd = 3, m_psi = 9\<rparr> 100 10 0)]"
  have made: "map_prod id world (run_state (mysql_call granting_psi ready_sys ''vio.c'' 1 a) m) = (5, (4, 128))"
    by (simp add: a_def m_def granting_psi_def ready_sys_def inline_mysql_socket_accept_def accept_local_def)
  have recv: "map_prod id world (run_state (traverse_list (\<lambda>(f, l, q). mysql_call granting_psi ready_sys f l q) qs) m)
      = ([4], (0, 128))"
    by (simp add: qs_def m_def granting_psi_def ready_sys_def inline_mysql_socket_recv_def)
  have "run_state (raw_call ready_sys a) (4, 128) = (5, (4, 16))
    \<and> run_state (traverse_list (\<lambda>(f, l, q). raw_call ready_sys q) qs) (4, 128) = ([4], (0, 128))"
    using socket_instrumentation [where os = ready_sys and qs = qs and m = m and p = granting_psi and key = 7
        and s = "\<lparr>sock_fd = 3, m_psi = 9\<rparr>" and addr = 100 and addr_len = 200 and f = "''vio.c''" and l = 1] made recv
    by (cases "run_state (mysql_call granting_psi ready_sys ''vio.c'' 1 a) m")
       (simp add: a_def qs_def m_def ready_sys_def length_written_def)
  then show ?thesis using made by (simp add: a_def qs_def m_def)
qed

end
