(* ===== verification/Mysql_File.thy ===== *)
theory Mysql_File
  imports Mysql_Psi
begin

text \<open>
  The instrumented files of the MySQL client (mysql/psi/mysql_file.h). A wrapper first asks
  the performance schema for a locker, by stream, by descriptor or by name; with a locker it
  starts the wait, makes the call of the C library or of mysys and ends the wait, without one
  it makes the call alone. A stream is a \<open>MYSQL_FILE\<close> on the heap, allocated by \<open>fopen\<close> and
  freed by \<open>fclose\<close>; it holds the \<open>FILE\<close> pointer and the handle of the instrumentation.

  Pointers are numbers (0 is NULL), an \<open>int\<close>, \<open>File\<close> or \<open>myf\<close> is an integer, a \<open>size_t\<close> and a
  \<open>my_off_t\<close> is a \<open>64 word\<close>. The wrapped calls are parameters, functions of the world, which
  holds all memory but the \<open>MYSQL_FILE\<close> structures. The list of variable arguments of
  \<open>fprintf\<close> is one opaque argument.
\<close>

section \<open>Calls of the performance schema and of the system\<close>

text \<open>
  The identity given with a name is the new stream for \<open>fopen\<close>, and the address of a local
  variable (\<open>None\<close>) everywhere else.
\<close>

datatype psi_file_call =
  register_file string nat int
| get_thread_file_stream_locker nat PSI_file_operation
| get_thread_file_descriptor_locker int PSI_file_operation
| get_thread_file_name_locker nat PSI_file_operation nat "nat option"
| start_file_wait nat "64 word" string int
| end_file_wait nat "64 word"
| start_file_open_wait nat string int
| end_file_open_wait nat nat
| end_file_open_wait_and_bind_to_descriptor nat int
| end_temp_file_open_wait_and_bind_to_descriptor nat int nat
| start_file_close_wait nat string int
| end_file_close_wait nat int

fun file_phase :: "psi_file_call \<Rightarrow> nat \<Rightarrow> phase" where
  "file_phase (start_file_wait l n src_file src_line) a = Opens l"
| "file_phase (start_file_open_wait l src_file src_line) a = Opens l"
| "file_phase (start_file_close_wait l src_file src_line) a = Opens l"
| "file_phase (end_file_wait l n) a = Closes l"
| "file_phase (end_file_open_wait l r) a = Closes l"
| "file_phase (end_file_open_wait_and_bind_to_descriptor l fd) a = Closes l"
| "file_phase (end_temp_file_open_wait_and_bind_to_descriptor l fd name) a = Closes l"
| "file_phase (end_file_close_wait l r) a = Closes l"
| "file_phase _ a = Neutral"

record 'w file_sys =
  c_fgets :: "nat \<Rightarrow> int \<Rightarrow> nat \<Rightarrow> 'w \<Rightarrow> nat \<times> 'w"
  c_fgetc :: "nat \<Rightarrow> 'w \<Rightarrow> int \<times> 'w"
  c_fputs :: "nat \<Rightarrow> nat \<Rightarrow> 'w \<Rightarrow> int \<times> 'w"
  c_fputc :: "int \<Rightarrow> nat \<Rightarrow> 'w \<Rightarrow> int \<times> 'w"
  c_vfprintf :: "nat \<Rightarrow> nat \<Rightarrow> nat \<Rightarrow> 'w \<Rightarrow> int \<times> 'w"
  c_fflush :: "nat \<Rightarrow> 'w \<Rightarrow> int \<times> 'w"
  my_fstat :: "int \<Rightarrow> nat \<Rightarrow> int \<Rightarrow> 'w \<Rightarrow> int \<times> 'w"
  my_stat :: "nat \<Rightarrow> nat \<Rightarrow> int \<Rightarrow> 'w \<Rightarrow> nat \<times> 'w"
  my_chsize :: "int \<Rightarrow> 64 word \<Rightarrow> int \<Rightarrow> int \<Rightarrow> 'w \<Rightarrow> int \<times> 'w"
  my_fread :: "nat \<Rightarrow> nat \<Rightarrow> 64 word \<Rightarrow> int \<Rightarrow> 'w \<Rightarrow> 64 word \<times> 'w"
  my_fwrite :: "nat \<Rightarrow> nat \<Rightarrow> 64 word \<Rightarrow> int \<Rightarrow> 'w \<Rightarrow> 64 word \<times> 'w"
  my_fseek :: "nat \<Rightarrow> 64 word \<Rightarrow> int \<Rightarrow> int \<Rightarrow> 'w \<Rightarrow> 64 word \<times> 'w"
  my_ftell :: "nat \<Rightarrow> int \<Rightarrow> 'w \<Rightarrow> 64 word \<times> 'w"
  my_create :: "nat \<Rightarrow> int \<Rightarrow> int \<Rightarrow> int \<Rightarrow> 'w \<Rightarrow> int \<times> 'w"
  create_temp_file :: "nat \<Rightarrow> nat \<Rightarrow> nat \<Rightarrow> int \<Rightarrow> int \<Rightarrow> 'w \<Rightarrow> int \<times> 'w"
  my_open :: "nat \<Rightarrow> int \<Rightarrow> int \<Rightarrow> 'w \<Rightarrow> int \<times> 'w"
  my_close :: "int \<Rightarrow> int \<Rightarrow> 'w \<Rightarrow> int \<times> 'w"
  my_read :: "int \<Rightarrow> nat \<Rightarrow> 64 word \<Rightarrow> int \<Rightarrow> 'w \<Rightarrow> 64 word \<times> 'w"
  my_write :: "int \<Rightarrow> nat \<Rightarrow> 64 word \<Rightarrow> int \<Rightarrow> 'w \<Rightarrow> 64 word \<times> 'w"
  my_pread :: "int \<Rightarrow> nat \<Rightarrow> 64 word \<Rightarrow> 64 word \<Rightarrow> int \<Rightarrow> 'w \<Rightarrow> 64 word \<times> 'w"
  my_pwrite :: "int \<Rightarrow> nat \<Rightarrow> 64 word \<Rightarrow> 64 word \<Rightarrow> int \<Rightarrow> 'w \<Rightarrow> 64 word \<times> 'w"
  my_seek :: "int \<Rightarrow> 64 word \<Rightarrow> int \<Rightarrow> int \<Rightarrow> 'w \<Rightarrow> 64 word \<times> 'w"
  my_tell :: "int \<Rightarrow> int \<Rightarrow> 'w \<Rightarrow> 64 word \<times> 'w"
  my_delete :: "nat \<Rightarrow> int \<Rightarrow> 'w \<Rightarrow> int \<times> 'w"
  my_rename :: "nat \<Rightarrow> nat \<Rightarrow> int \<Rightarrow> 'w \<Rightarrow> int \<times> 'w"
  my_create_with_symlink :: "nat \<Rightarrow> nat \<Rightarrow> int \<Rightarrow> int \<Rightarrow> int \<Rightarrow> 'w \<Rightarrow> int \<times> 'w"
  my_delete_with_symlink :: "nat \<Rightarrow> int \<Rightarrow> 'w \<Rightarrow> int \<times> 'w"
  my_rename_with_symlink :: "nat \<Rightarrow> nat \<Rightarrow> int \<Rightarrow> 'w \<Rightarrow> int \<times> 'w"
  my_sync :: "int \<Rightarrow> int \<Rightarrow> 'w \<Rightarrow> int \<times> 'w"
  c_feof :: "nat \<Rightarrow> 'w \<Rightarrow> int \<times> 'w"
  my_fopen :: "nat \<Rightarrow> int \<Rightarrow> int \<Rightarrow> 'w \<Rightarrow> nat \<times> 'w"
  my_fclose :: "nat \<Rightarrow> int \<Rightarrow> 'w \<Rightarrow> int \<times> 'w"
  my_malloc :: "nat \<Rightarrow> 64 word \<Rightarrow> int \<Rightarrow> 'w \<Rightarrow> nat \<times> 'w"
  my_free :: "nat \<Rightarrow> 'w \<Rightarrow> unit \<times> 'w"
  c_strlen :: "nat \<Rightarrow> 'w \<Rightarrow> 64 word"

section \<open>The streams\<close>

record MYSQL_FILE =
  m_file :: nat
  file_psi :: nat

text \<open>
  \<open>file_mem\<close> is the memory the structures live in, by address; \<open>live\<close> is the set of blocks
  allocated and not freed, which no code reads.
\<close>

record 'w file_machine = "('w, psi_file_call) machine" +
  file_mem :: "nat \<Rightarrow> MYSQL_FILE"
  live :: "nat set"

type_synonym ('w, 'a) file_prog = "('w file_machine, 'a) state"

definition file_at :: "nat \<Rightarrow> ('w, MYSQL_FILE) file_prog" where
  "file_at a = State (\<lambda>m. (file_mem m a, m))"

definition set_m_file :: "nat \<Rightarrow> nat \<Rightarrow> ('w, unit) file_prog" where
  "set_m_file a v = State (\<lambda>m. ((), m\<lparr>file_mem := (file_mem m)(a := (file_mem m a)\<lparr>m_file := v\<rparr>)\<rparr>))"

definition set_file_psi :: "nat \<Rightarrow> nat \<Rightarrow> ('w, unit) file_prog" where
  "set_file_psi a v = State (\<lambda>m. ((), m\<lparr>file_mem := (file_mem m)(a := (file_mem m a)\<lparr>file_psi := v\<rparr>)\<rparr>))"

definition malloc_file :: "'w file_sys \<Rightarrow> nat \<Rightarrow> 64 word \<Rightarrow> int \<Rightarrow> ('w, nat) file_prog" where
  "malloc_file os key n flags = do {
     that \<leftarrow> sys ''my_malloc'' (my_malloc os key n flags);
     whenever (that \<noteq> 0) (State (\<lambda>m. ((), m\<lparr>live := insert that (live m)\<rparr>)));
     return that
   }"

definition free_file :: "'w file_sys \<Rightarrow> nat \<Rightarrow> ('w, unit) file_prog" where
  "free_file os a = do {
     sys ''my_free'' (my_free os a);
     State (\<lambda>m. ((), m\<lparr>live := live m - {a}\<rparr>))
   }"

definition MY_FILE_ERROR :: "64 word" where "MY_FILE_ERROR = -1"

definition MY_FNABP :: int where "MY_FNABP = 2"

definition MY_NABP :: int where "MY_NABP = 4"

definition MY_WME :: int where "MY_WME = 16"

text \<open>
  The locker of a call: without instrumentation the code that asks for it does not exist.
\<close>

definition get_locker :: "psi_file_call psi \<Rightarrow> psi_file_call \<Rightarrow> ('w, nat) file_prog" where
  "get_locker p c = (if have_psi p then PSI_CALL p c else return 0)"

section \<open>The wrappers\<close>

definition inline_mysql_file_register :: "psi_file_call psi \<Rightarrow> string \<Rightarrow> nat \<Rightarrow> int \<Rightarrow> ('w, unit) file_prog" where
  "inline_mysql_file_register p category info n =
     whenever (have_psi p) (PSI_NOTE (register_file category info n))"

definition inline_mysql_file_fgets :: "psi_file_call psi \<Rightarrow> 'w file_sys
    \<Rightarrow> string \<Rightarrow> int \<Rightarrow> nat \<Rightarrow> int \<Rightarrow> nat \<Rightarrow> ('w, nat) file_prog" where
  "inline_mysql_file_fgets p os src_file src_line str sz file =
     do {
       s \<leftarrow> file_at file;
       locker \<leftarrow> get_locker p (get_thread_file_stream_locker (file_psi s) PSI_FILE_READ);
       if locker \<noteq> 0
       then do {
         PSI_NOTE (start_file_wait locker (word_of_int sz) src_file src_line);
         result \<leftarrow> sys ''fgets'' (c_fgets os str sz (m_file s));
         bytes \<leftarrow> (if result \<noteq> 0 then reads (c_strlen os result) else return 0);
         PSI_NOTE (end_file_wait locker bytes);
         return result
       }
       else sys ''fgets'' (c_fgets os str sz (m_file s))
     }"

definition inline_mysql_file_fgetc :: "psi_file_call psi \<Rightarrow> 'w file_sys
    \<Rightarrow> string \<Rightarrow> int \<Rightarrow> nat \<Rightarrow> ('w, int) file_prog" where
  "inline_mysql_file_fgetc p os src_file src_line file =
     do {
       s \<leftarrow> file_at file;
       locker \<leftarrow> get_locker p (get_thread_file_stream_locker (file_psi s) PSI_FILE_READ);
       if locker \<noteq> 0
       then do {
         PSI_NOTE (start_file_wait locker 1 src_file src_line);
         result \<leftarrow> sys ''fgetc'' (c_fgetc os (m_file s));
         PSI_NOTE (end_file_wait locker 1);
         return result
       }
       else sys ''fgetc'' (c_fgetc os (m_file s))
     }"

definition inline_mysql_file_fputs :: "psi_file_call psi \<Rightarrow> 'w file_sys
    \<Rightarrow> string \<Rightarrow> int \<Rightarrow> nat \<Rightarrow> nat \<Rightarrow> ('w, int) file_prog" where
  "inline_mysql_file_fputs p os src_file src_line str file =
     do {
       s \<leftarrow> file_at file;
       locker \<leftarrow> get_locker p (get_thread_file_stream_locker (file_psi s) PSI_FILE_WRITE);
       if locker \<noteq> 0
       then do {
         bytes \<leftarrow> (if str \<noteq> 0 then reads (c_strlen os str) else return 0);
         PSI_NOTE (start_file_wait locker bytes src_file src_line);
         result \<leftarrow> sys ''fputs'' (c_fputs os str (m_file s));
         PSI_NOTE (end_file_wait locker bytes);
         return result
       }
       else sys ''fputs'' (c_fputs os str (m_file s))
     }"

definition inline_mysql_file_fputc :: "psi_file_call psi \<Rightarrow> 'w file_sys
    \<Rightarrow> string \<Rightarrow> int \<Rightarrow> int \<Rightarrow> nat \<Rightarrow> ('w, int) file_prog" where
  "inline_mysql_file_fputc p os src_file src_line c file =
     do {
       s \<leftarrow> file_at file;
       locker \<leftarrow> get_locker p (get_thread_file_stream_locker (file_psi s) PSI_FILE_WRITE);
       if locker \<noteq> 0
       then do {
         PSI_NOTE (start_file_wait locker 1 src_file src_line);
         result \<leftarrow> sys ''fputc'' (c_fputc os c (m_file s));
         PSI_NOTE (end_file_wait locker 1);
         return result
       }
       else sys ''fputc'' (c_fputc os c (m_file s))
     }"

text \<open>\<open>fprintf\<close> reports its own place in the header as the place of the call.\<close>

definition FPRINTF_FILE :: string where "FPRINTF_FILE = ''mysql/psi/mysql_file.h''"

definition FPRINTF_LINE :: int where "FPRINTF_LINE = 650"

definition inline_mysql_file_fprintf :: "psi_file_call psi \<Rightarrow> 'w file_sys
    \<Rightarrow> nat \<Rightarrow> nat \<Rightarrow> nat \<Rightarrow> ('w, int) file_prog" where
  "inline_mysql_file_fprintf p os file format args =
     do {
       s \<leftarrow> file_at file;
       locker \<leftarrow> get_locker p (get_thread_file_stream_locker (file_psi s) PSI_FILE_WRITE);
       if locker \<noteq> 0
       then do {
         PSI_NOTE (start_file_wait locker 0 FPRINTF_FILE FPRINTF_LINE);
         result \<leftarrow> sys ''vfprintf'' (c_vfprintf os (m_file s) format args);
         PSI_NOTE (end_file_wait locker (word_of_int result));
         return result
       }
       else sys ''vfprintf'' (c_vfprintf os (m_file s) format args)
     }"

definition inline_mysql_file_vfprintf :: "psi_file_call psi \<Rightarrow> 'w file_sys
    \<Rightarrow> string \<Rightarrow> int \<Rightarrow> nat \<Rightarrow> nat \<Rightarrow> nat \<Rightarrow> ('w, int) file_prog" where
  "inline_mysql_file_vfprintf p os src_file src_line file format args =
     do {
       s \<leftarrow> file_at file;
       locker \<leftarrow> get_locker p (get_thread_file_stream_locker (file_psi s) PSI_FILE_WRITE);
       if locker \<noteq> 0
       then do {
         PSI_NOTE (start_file_wait locker 0 src_file src_line);
         result \<leftarrow> sys ''vfprintf'' (c_vfprintf os (m_file s) format args);
         PSI_NOTE (end_file_wait locker (word_of_int result));
         return result
       }
       else sys ''vfprintf'' (c_vfprintf os (m_file s) format args)
     }"

definition inline_mysql_file_fflush :: "psi_file_call psi \<Rightarrow> 'w file_sys
    \<Rightarrow> string \<Rightarrow> int \<Rightarrow> nat \<Rightarrow> ('w, int) file_prog" where
  "inline_mysql_file_fflush p os src_file src_line file =
     do {
       s \<leftarrow> file_at file;
       locker \<leftarrow> get_locker p (get_thread_file_stream_locker (file_psi s) PSI_FILE_FLUSH);
       if locker \<noteq> 0
       then do {
         PSI_NOTE (start_file_wait locker 0 src_file src_line);
         result \<leftarrow> sys ''fflush'' (c_fflush os (m_file s));
         PSI_NOTE (end_file_wait locker 0);
         return result
       }
       else sys ''fflush'' (c_fflush os (m_file s))
     }"

definition inline_mysql_file_feof :: "'w file_sys \<Rightarrow> nat \<Rightarrow> ('w, int) file_prog" where
  "inline_mysql_file_feof os file = do { s \<leftarrow> file_at file; sys ''feof'' (c_feof os (m_file s)) }"

definition inline_mysql_file_fstat :: "psi_file_call psi \<Rightarrow> 'w file_sys
    \<Rightarrow> string \<Rightarrow> int \<Rightarrow> int \<Rightarrow> nat \<Rightarrow> int \<Rightarrow> ('w, int) file_prog" where
  "inline_mysql_file_fstat p os src_file src_line filenr stat_area flags =
     do {
       locker \<leftarrow> get_locker p (get_thread_file_descriptor_locker filenr PSI_FILE_FSTAT);
       if locker \<noteq> 0
       then do {
         PSI_NOTE (start_file_wait locker 0 src_file src_line);
         result \<leftarrow> sys ''my_fstat'' (my_fstat os filenr stat_area flags);
         PSI_NOTE (end_file_wait locker 0);
         return result
       }
       else sys ''my_fstat'' (my_fstat os filenr stat_area flags)
     }"

definition inline_mysql_file_stat :: "psi_file_call psi \<Rightarrow> 'w file_sys
    \<Rightarrow> nat \<Rightarrow> string \<Rightarrow> int \<Rightarrow> nat \<Rightarrow> nat \<Rightarrow> int \<Rightarrow> ('w, nat) file_prog" where
  "inline_mysql_file_stat p os key src_file src_line path stat_area flags =
     do {
       locker \<leftarrow> get_locker p (get_thread_file_name_locker key PSI_FILE_STAT path None);
       if locker \<noteq> 0
       then do {
         PSI_NOTE (start_file_open_wait locker src_file src_line);
         result \<leftarrow> sys ''my_stat'' (my_stat os path stat_area flags);
         _ \<leftarrow> PSI_CALL p (end_file_open_wait locker result);
         return result
       }
       else sys ''my_stat'' (my_stat os path stat_area flags)
     }"

definition inline_mysql_file_chsize :: "psi_file_call psi \<Rightarrow> 'w file_sys
    \<Rightarrow> string \<Rightarrow> int \<Rightarrow> int \<Rightarrow> 64 word \<Rightarrow> int \<Rightarrow> int \<Rightarrow> ('w, int) file_prog" where
  "inline_mysql_file_chsize p os src_file src_line file newlength filler flags =
     do {
       locker \<leftarrow> get_locker p (get_thread_file_descriptor_locker file PSI_FILE_CHSIZE);
       if locker \<noteq> 0
       then do {
         PSI_NOTE (start_file_wait locker newlength src_file src_line);
         result \<leftarrow> sys ''my_chsize'' (my_chsize os file newlength filler flags);
         PSI_NOTE (end_file_wait locker newlength);
         return result
       }
       else sys ''my_chsize'' (my_chsize os file newlength filler flags)
     }"

definition inline_mysql_file_fopen :: "psi_file_call psi \<Rightarrow> 'w file_sys \<Rightarrow> nat \<Rightarrow> string \<Rightarrow> int
    \<Rightarrow> nat \<Rightarrow> int \<Rightarrow> int \<Rightarrow> ('w, nat) file_prog" where
  "inline_mysql_file_fopen p os key src_file src_line filename flags myFlags =
     do {
       that \<leftarrow> malloc_file os 0 16 MY_WME;
       if that \<noteq> 0
       then do {
         locker \<leftarrow> get_locker p (get_thread_file_name_locker key PSI_FILE_STREAM_OPEN filename (Some that));
         if locker \<noteq> 0
         then do {
           PSI_NOTE (start_file_open_wait locker src_file src_line);
           f \<leftarrow> sys ''my_fopen'' (my_fopen os filename flags myFlags);
           set_m_file that f;
           psi \<leftarrow> PSI_CALL p (end_file_open_wait locker f);
           set_file_psi that psi;
           if f = 0 then do { free_file os that; return 0 } else return that
         }
         else do {
           set_file_psi that 0;
           f \<leftarrow> sys ''my_fopen'' (my_fopen os filename flags myFlags);
           set_m_file that f;
           if f = 0 then do { free_file os that; return 0 } else return that
         }
       }
       else return that
     }"

definition inline_mysql_file_fclose :: "psi_file_call psi \<Rightarrow> 'w file_sys \<Rightarrow> string \<Rightarrow> int
    \<Rightarrow> nat \<Rightarrow> int \<Rightarrow> ('w, int) file_prog" where
  "inline_mysql_file_fclose p os src_file src_line file flags =
     (if file \<noteq> 0
      then do {
        s \<leftarrow> file_at file;
        locker \<leftarrow> get_locker p (get_thread_file_stream_locker (file_psi s) PSI_FILE_STREAM_CLOSE);
        if locker \<noteq> 0
        then do {
          PSI_NOTE (start_file_close_wait locker src_file src_line);
          result \<leftarrow> sys ''my_fclose'' (my_fclose os (m_file s) flags);
          PSI_NOTE (end_file_close_wait locker result);
          free_file os file;
          return result
        }
        else do {
          result \<leftarrow> sys ''my_fclose'' (my_fclose os (m_file s) flags);
          free_file os file;
          return result
        }
      }
      else return 0)"

definition inline_mysql_file_fread :: "psi_file_call psi \<Rightarrow> 'w file_sys
    \<Rightarrow> string \<Rightarrow> int \<Rightarrow> nat \<Rightarrow> nat \<Rightarrow> 64 word \<Rightarrow> int \<Rightarrow> ('w, 64 word) file_prog" where
  "inline_mysql_file_fread p os src_file src_line file buffer cnt flags =
     do {
       s \<leftarrow> file_at file;
       locker \<leftarrow> get_locker p (get_thread_file_stream_locker (file_psi s) PSI_FILE_READ);
       if locker \<noteq> 0
       then do {
         PSI_NOTE (start_file_wait locker cnt src_file src_line);
         result \<leftarrow> sys ''my_fread'' (my_fread os (m_file s) buffer cnt flags);
         let bytes_read = (if and flags (or MY_NABP MY_FNABP) \<noteq> 0 then (if result = 0 then cnt else 0)
           else (if result \<noteq> MY_FILE_ERROR then result else 0));
         PSI_NOTE (end_file_wait locker bytes_read);
         return result
       }
       else sys ''my_fread'' (my_fread os (m_file s) buffer cnt flags)
     }"

definition inline_mysql_file_fwrite :: "psi_file_call psi \<Rightarrow> 'w file_sys
    \<Rightarrow> string \<Rightarrow> int \<Rightarrow> nat \<Rightarrow> nat \<Rightarrow> 64 word \<Rightarrow> int \<Rightarrow> ('w, 64 word) file_prog" where
  "inline_mysql_file_fwrite p os src_file src_line file buffer cnt flags =
     do {
       s \<leftarrow> file_at file;
       locker \<leftarrow> get_locker p (get_thread_file_stream_locker (file_psi s) PSI_FILE_WRITE);
       if locker \<noteq> 0
       then do {
         PSI_NOTE (start_file_wait locker cnt src_file src_line);
         result \<leftarrow> sys ''my_fwrite'' (my_fwrite os (m_file s) buffer cnt flags);
         let bytes_written = (if and flags (or MY_NABP MY_FNABP) \<noteq> 0 then (if result = 0 then cnt else 0)
           else (if result \<noteq> MY_FILE_ERROR then result else 0));
         PSI_NOTE (end_file_wait locker bytes_written);
         return result
       }
       else sys ''my_fwrite'' (my_fwrite os (m_file s) buffer cnt flags)
     }"

definition inline_mysql_file_fseek :: "psi_file_call psi \<Rightarrow> 'w file_sys
    \<Rightarrow> string \<Rightarrow> int \<Rightarrow> nat \<Rightarrow> 64 word \<Rightarrow> int \<Rightarrow> int \<Rightarrow> ('w, 64 word) file_prog" where
  "inline_mysql_file_fseek p os src_file src_line file pos whence flags =
     do {
       s \<leftarrow> file_at file;
       locker \<leftarrow> get_locker p (get_thread_file_stream_locker (file_psi s) PSI_FILE_SEEK);
       if locker \<noteq> 0
       then do {
         PSI_NOTE (start_file_wait locker 0 src_file src_line);
         result \<leftarrow> sys ''my_fseek'' (my_fseek os (m_file s) pos whence flags);
         PSI_NOTE (end_file_wait locker 0);
         return result
       }
       else sys ''my_fseek'' (my_fseek os (m_file s) pos whence flags)
     }"

definition inline_mysql_file_ftell :: "psi_file_call psi \<Rightarrow> 'w file_sys
    \<Rightarrow> string \<Rightarrow> int \<Rightarrow> nat \<Rightarrow> int \<Rightarrow> ('w, 64 word) file_prog" where
  "inline_mysql_file_ftell p os src_file src_line file flags =
     do {
       s \<leftarrow> file_at file;
       locker \<leftarrow> get_locker p (get_thread_file_stream_locker (file_psi s) PSI_FILE_TELL);
       if locker \<noteq> 0
       then do {
         PSI_NOTE (start_file_wait locker 0 src_file src_line);
         result \<leftarrow> sys ''my_ftell'' (my_ftell os (m_file s) flags);
         PSI_NOTE (end_file_wait locker 0);
         return result
       }
       else sys ''my_ftell'' (my_ftell os (m_file s) flags)
     }"

definition inline_mysql_file_create :: "psi_file_call psi \<Rightarrow> 'w file_sys
    \<Rightarrow> nat \<Rightarrow> string \<Rightarrow> int \<Rightarrow> nat \<Rightarrow> int \<Rightarrow> int \<Rightarrow> int \<Rightarrow> ('w, int) file_prog" where
  "inline_mysql_file_create p os key src_file src_line filename create_flags access_flags myFlags =
     do {
       locker \<leftarrow> get_locker p (get_thread_file_name_locker key PSI_FILE_CREATE filename None);
       if locker \<noteq> 0
       then do {
         PSI_NOTE (start_file_open_wait locker src_file src_line);
         result \<leftarrow> sys ''my_create'' (my_create os filename create_flags access_flags myFlags);
         PSI_NOTE (end_file_open_wait_and_bind_to_descriptor locker result);
         return result
       }
       else sys ''my_create'' (my_create os filename create_flags access_flags myFlags)
     }"

definition inline_mysql_file_create_temp :: "psi_file_call psi \<Rightarrow> 'w file_sys
    \<Rightarrow> nat \<Rightarrow> string \<Rightarrow> int \<Rightarrow> nat \<Rightarrow> nat \<Rightarrow> nat \<Rightarrow> int \<Rightarrow> int \<Rightarrow> ('w, int) file_prog" where
  "inline_mysql_file_create_temp p os key src_file src_line to dir pfx mode myFlags =
     do {
       locker \<leftarrow> get_locker p (get_thread_file_name_locker key PSI_FILE_CREATE 0 None);
       if locker \<noteq> 0
       then do {
         PSI_NOTE (start_file_open_wait locker src_file src_line);
         result \<leftarrow> sys ''create_temp_file'' (create_temp_file os to dir pfx mode myFlags);
         PSI_NOTE (end_temp_file_open_wait_and_bind_to_descriptor locker result to);
         return result
       }
       else sys ''create_temp_file'' (create_temp_file os to dir pfx mode myFlags)
     }"

definition inline_mysql_file_open :: "psi_file_call psi \<Rightarrow> 'w file_sys
    \<Rightarrow> nat \<Rightarrow> string \<Rightarrow> int \<Rightarrow> nat \<Rightarrow> int \<Rightarrow> int \<Rightarrow> ('w, int) file_prog" where
  "inline_mysql_file_open p os key src_file src_line filename flags myFlags =
     do {
       locker \<leftarrow> get_locker p (get_thread_file_name_locker key PSI_FILE_OPEN filename None);
       if locker \<noteq> 0
       then do {
         PSI_NOTE (start_file_open_wait locker src_file src_line);
         result \<leftarrow> sys ''my_open'' (my_open os filename flags myFlags);
         PSI_NOTE (end_file_open_wait_and_bind_to_descriptor locker result);
         return result
       }
       else sys ''my_open'' (my_open os filename flags myFlags)
     }"

definition inline_mysql_file_close :: "psi_file_call psi \<Rightarrow> 'w file_sys
    \<Rightarrow> string \<Rightarrow> int \<Rightarrow> int \<Rightarrow> int \<Rightarrow> ('w, int) file_prog" where
  "inline_mysql_file_close p os src_file src_line file flags =
     do {
       locker \<leftarrow> get_locker p (get_thread_file_descriptor_locker file PSI_FILE_CLOSE);
       if locker \<noteq> 0
       then do {
         PSI_NOTE (start_file_close_wait locker src_file src_line);
         result \<leftarrow> sys ''my_close'' (my_close os file flags);
         PSI_NOTE (end_file_close_wait locker result);
         return result
       }
       else sys ''my_close'' (my_close os file flags)
     }"

definition inline_mysql_file_read :: "psi_file_call psi \<Rightarrow> 'w file_sys
    \<Rightarrow> string \<Rightarrow> int \<Rightarrow> int \<Rightarrow> nat \<Rightarrow> 64 word \<Rightarrow> int \<Rightarrow> ('w, 64 word) file_prog" where
  "inline_mysql_file_read p os src_file src_line file buffer cnt flags =
     do {
       locker \<leftarrow> get_locker p (get_thread_file_descriptor_locker file PSI_FILE_READ);
       if locker \<noteq> 0
       then do {
         PSI_NOTE (start_file_wait locker cnt src_file src_line);
         result \<leftarrow> sys ''my_read'' (my_read os file buffer cnt flags);
         let bytes_read = (if and flags (or MY_NABP MY_FNABP) \<noteq> 0 then (if result = 0 then cnt else 0)
           else (if result \<noteq> MY_FILE_ERROR then result else 0));
         PSI_NOTE (end_file_wait locker bytes_read);
         return result
       }
       else sys ''my_read'' (my_read os file buffer cnt flags)
     }"

definition inline_mysql_file_write :: "psi_file_call psi \<Rightarrow> 'w file_sys
    \<Rightarrow> string \<Rightarrow> int \<Rightarrow> int \<Rightarrow> nat \<Rightarrow> 64 word \<Rightarrow> int \<Rightarrow> ('w, 64 word) file_prog" where
  "inline_mysql_file_write p os src_file src_line file buffer cnt flags =
     do {
       locker \<leftarrow> get_locker p (get_thread_file_descriptor_locker file PSI_FILE_WRITE);
       if locker \<noteq> 0
       then do {
         PSI_NOTE (start_file_wait locker cnt src_file src_line);
         result \<leftarrow> sys ''my_write'' (my_write os file buffer cnt flags);
         let bytes_written = (if and flags (or MY_NABP MY_FNABP) \<noteq> 0 then (if result = 0 then cnt else 0)
           else (if result \<noteq> MY_FILE_ERROR then result else 0));
         PSI_NOTE (end_file_wait locker bytes_written);
         return result
       }
       else sys ''my_write'' (my_write os file buffer cnt flags)
     }"

definition inline_mysql_file_pread :: "psi_file_call psi \<Rightarrow> 'w file_sys
    \<Rightarrow> string \<Rightarrow> int \<Rightarrow> int \<Rightarrow> nat \<Rightarrow> 64 word \<Rightarrow> 64 word \<Rightarrow> int \<Rightarrow> ('w, 64 word) file_prog" where
  "inline_mysql_file_pread p os src_file src_line file buffer cnt offset flags =
     do {
       locker \<leftarrow> get_locker p (get_thread_file_descriptor_locker file PSI_FILE_READ);
       if locker \<noteq> 0
       then do {
         PSI_NOTE (start_file_wait locker cnt src_file src_line);
         result \<leftarrow> sys ''my_pread'' (my_pread os file buffer cnt offset flags);
         let bytes_read = (if and flags (or MY_NABP MY_FNABP) \<noteq> 0 then (if result = 0 then cnt else 0)
           else (if result \<noteq> MY_FILE_ERROR then result else 0));
         PSI_NOTE (end_file_wait locker bytes_read);
         return result
       }
       else sys ''my_pread'' (my_pread os file buffer cnt offset flags)
     }"

definition inline_mysql_file_pwrite :: "psi_file_call psi \<Rightarrow> 'w file_sys
    \<Rightarrow> string \<Rightarrow> int \<Rightarrow> int \<Rightarrow> nat \<Rightarrow> 64 word \<Rightarrow> 64 word \<Rightarrow> int \<Rightarrow> ('w, 64 word) file_prog" where
  "inline_mysql_file_pwrite p os src_file src_line file buffer cnt offset flags =
     do {
       locker \<leftarrow> get_locker p (get_thread_file_descriptor_locker file PSI_FILE_WRITE);
       if locker \<noteq> 0
       then do {
         PSI_NOTE (start_file_wait locker cnt src_file src_line);
         result \<leftarrow> sys ''my_pwrite'' (my_pwrite os file buffer cnt offset flags);
         let bytes_written = (if and flags (or MY_NABP MY_FNABP) \<noteq> 0 then (if result = 0 then cnt else 0)
           else (if result \<noteq> MY_FILE_ERROR then result else 0));
         PSI_NOTE (end_file_wait locker bytes_written);
         return result
       }
       else sys ''my_pwrite'' (my_pwrite os file buffer cnt offset flags)
     }"

definition inline_mysql_file_seek :: "psi_file_call psi \<Rightarrow> 'w file_sys
    \<Rightarrow> string \<Rightarrow> int \<Rightarrow> int \<Rightarrow> 64 word \<Rightarrow> int \<Rightarrow> int \<Rightarrow> ('w, 64 word) file_prog" where
  "inline_mysql_file_seek p os src_file src_line file pos whence flags =
     do {
       locker \<leftarrow> get_locker p (get_thread_file_descriptor_locker file PSI_FILE_SEEK);
       if locker \<noteq> 0
       then do {
         PSI_NOTE (start_file_wait locker 0 src_file src_line);
         result \<leftarrow> sys ''my_seek'' (my_seek os file pos whence flags);
         PSI_NOTE (end_file_wait locker 0);
         return result
       }
       else sys ''my_seek'' (my_seek os file pos whence flags)
     }"

definition inline_mysql_file_tell :: "psi_file_call psi \<Rightarrow> 'w file_sys
    \<Rightarrow> string \<Rightarrow> int \<Rightarrow> int \<Rightarrow> int \<Rightarrow> ('w, 64 word) file_prog" where
  "inline_mysql_file_tell p os src_file src_line file flags =
     do {
       locker \<leftarrow> get_locker p (get_thread_file_descriptor_locker file PSI_FILE_TELL);
       if locker \<noteq> 0
       then do {
         PSI_NOTE (start_file_wait locker 0 src_file src_line);
         result \<leftarrow> sys ''my_tell'' (my_tell os file flags);
         PSI_NOTE (end_file_wait locker 0);
         return result
       }
       else sys ''my_tell'' (my_tell os file flags)
     }"

definition inline_mysql_file_delete :: "psi_file_call psi \<Rightarrow> 'w file_sys
    \<Rightarrow> nat \<Rightarrow> string \<Rightarrow> int \<Rightarrow> nat \<Rightarrow> int \<Rightarrow> ('w, int) file_prog" where
  "inline_mysql_file_delete p os key src_file src_line nm flags =
     do {
       locker \<leftarrow> get_locker p (get_thread_file_name_locker key PSI_FILE_DELETE nm None);
       if locker \<noteq> 0
       then do {
         PSI_NOTE (start_file_close_wait locker src_file src_line);
         result \<leftarrow> sys ''my_delete'' (my_delete os nm flags);
         PSI_NOTE (end_file_close_wait locker result);
         return result
       }
       else sys ''my_delete'' (my_delete os nm flags)
     }"

definition inline_mysql_file_rename :: "psi_file_call psi \<Rightarrow> 'w file_sys
    \<Rightarrow> nat \<Rightarrow> string \<Rightarrow> int \<Rightarrow> nat \<Rightarrow> nat \<Rightarrow> int \<Rightarrow> ('w, int) file_prog" where
  "inline_mysql_file_rename p os key src_file src_line src dst flags =
     do {
       locker \<leftarrow> get_locker p (get_thread_file_name_locker key PSI_FILE_RENAME dst None);
       if locker \<noteq> 0
       then do {
         PSI_NOTE (start_file_wait locker 0 src_file src_line);
         result \<leftarrow> sys ''my_rename'' (my_rename os src dst flags);
         PSI_NOTE (end_file_wait locker 0);
         return result
       }
       else sys ''my_rename'' (my_rename os src dst flags)
     }"

definition inline_mysql_file_create_with_symlink :: "psi_file_call psi \<Rightarrow> 'w file_sys
    \<Rightarrow> nat \<Rightarrow> string \<Rightarrow> int \<Rightarrow> nat \<Rightarrow> nat \<Rightarrow> int \<Rightarrow> int \<Rightarrow> int \<Rightarrow> ('w, int) file_prog" where
  "inline_mysql_file_create_with_symlink p os key src_file src_line linkname filename create_flags access_flags flags =
     do {
       locker \<leftarrow> get_locker p (get_thread_file_name_locker key PSI_FILE_CREATE filename None);
       if locker \<noteq> 0
       then do {
         PSI_NOTE (start_file_open_wait locker src_file src_line);
         result \<leftarrow> sys ''my_create_with_symlink'' (my_create_with_symlink os linkname filename create_flags access_flags flags);
         PSI_NOTE (end_file_open_wait_and_bind_to_descriptor locker result);
         return result
       }
       else sys ''my_create_with_symlink'' (my_create_with_symlink os linkname filename create_flags access_flags flags)
     }"

definition inline_mysql_file_delete_with_symlink :: "psi_file_call psi \<Rightarrow> 'w file_sys
    \<Rightarrow> nat \<Rightarrow> string \<Rightarrow> int \<Rightarrow> nat \<Rightarrow> int \<Rightarrow> ('w, int) file_prog" where
  "inline_mysql_file_delete_with_symlink p os key src_file src_line nm flags =
     do {
       locker \<leftarrow> get_locker p (get_thread_file_name_locker key PSI_FILE_DELETE nm None);
       if locker \<noteq> 0
       then do {
         PSI_NOTE (start_file_close_wait locker src_file src_line);
         result \<leftarrow> sys ''my_delete_with_symlink'' (my_delete_with_symlink os nm flags);
         PSI_NOTE (end_file_close_wait locker result);
         return result
       }
       else sys ''my_delete_with_symlink'' (my_delete_with_symlink os nm flags)
     }"

definition inline_mysql_file_rename_with_symlink :: "psi_file_call psi \<Rightarrow> 'w file_sys
    \<Rightarrow> nat \<Rightarrow> string \<Rightarrow> int \<Rightarrow> nat \<Rightarrow> nat \<Rightarrow> int \<Rightarrow> ('w, int) file_prog" where
  "inline_mysql_file_rename_with_symlink p os key src_file src_line src dst flags =
     do {
       locker \<leftarrow> get_locker p (get_thread_file_name_locker key PSI_FILE_RENAME dst None);
       if locker \<noteq> 0
       then do {
         PSI_NOTE (start_file_wait locker 0 src_file src_line);
         result \<leftarrow> sys ''my_rename_with_symlink'' (my_rename_with_symlink os src dst flags);
         PSI_NOTE (end_file_wait locker 0);
         return result
       }
       else sys ''my_rename_with_symlink'' (my_rename_with_symlink os src dst flags)
     }"

definition inline_mysql_file_sync :: "psi_file_call psi \<Rightarrow> 'w file_sys
    \<Rightarrow> string \<Rightarrow> int \<Rightarrow> int \<Rightarrow> int \<Rightarrow> ('w, int) file_prog" where
  "inline_mysql_file_sync p os src_file src_line fd flags =
     do {
       locker \<leftarrow> get_locker p (get_thread_file_descriptor_locker fd PSI_FILE_SYNC);
       if locker \<noteq> 0
       then do {
         PSI_NOTE (start_file_wait locker 0 src_file src_line);
         result \<leftarrow> sys ''my_sync'' (my_sync os fd flags);
         PSI_NOTE (end_file_wait locker 0);
         return result
       }
       else sys ''my_sync'' (my_sync os fd flags)
     }"

section \<open>Programs over the file calls\<close>

text \<open>
  A request for one wrapper, by the way it names the file, and the reply its caller gets.
  The wrappers that take a name take the instrumentation key first.
\<close>

datatype stream_request =
  Req_fopen nat nat int int
| Req_fclose nat int
| Req_feof nat
| Req_fgets nat int nat
| Req_fgetc nat
| Req_fputs nat nat
| Req_fputc int nat
| Req_fprintf nat nat nat
| Req_vfprintf nat nat nat
| Req_fflush nat
| Req_fread nat nat "64 word" int
| Req_fwrite nat nat "64 word" int
| Req_fseek nat "64 word" int int
| Req_ftell nat int

datatype descriptor_request =
  Req_fstat int nat int
| Req_chsize int "64 word" int int
| Req_close int int
| Req_read int nat "64 word" int
| Req_write int nat "64 word" int
| Req_pread int nat "64 word" "64 word" int
| Req_pwrite int nat "64 word" "64 word" int
| Req_seek int "64 word" int int
| Req_tell int int
| Req_sync int int

datatype name_request =
  Req_stat nat nat nat int
| Req_create nat nat int int int
| Req_create_temp nat nat nat nat int int
| Req_open nat nat int int
| Req_delete nat nat int
| Req_rename nat nat nat int
| Req_create_with_symlink nat nat nat int int int
| Req_delete_with_symlink nat nat int
| Req_rename_with_symlink nat nat nat int

datatype file_request = Stream stream_request | Descriptor descriptor_request | Name name_request

datatype file_reply = RInt int | RPtr nat | RSize "64 word"

fun stream_call :: "psi_file_call psi \<Rightarrow> 'w file_sys \<Rightarrow> string \<Rightarrow> int \<Rightarrow> stream_request
    \<Rightarrow> ('w, file_reply) file_prog" where
  "stream_call p os f l (Req_fopen key filename flags myFlags) =
     do { r \<leftarrow> inline_mysql_file_fopen p os key f l filename flags myFlags; return (RPtr r) }"
| "stream_call p os f l (Req_fclose file flags) =
     do { r \<leftarrow> inline_mysql_file_fclose p os f l file flags; return (RInt r) }"
| "stream_call p os f l (Req_feof file) = do { r \<leftarrow> inline_mysql_file_feof os file; return (RInt r) }"
| "stream_call p os f l (Req_fgets str sz file) =
     do { r \<leftarrow> inline_mysql_file_fgets p os f l str sz file; return (RPtr r) }"
| "stream_call p os f l (Req_fgetc file) =
     do { r \<leftarrow> inline_mysql_file_fgetc p os f l file; return (RInt r) }"
| "stream_call p os f l (Req_fputs str file) =
     do { r \<leftarrow> inline_mysql_file_fputs p os f l str file; return (RInt r) }"
| "stream_call p os f l (Req_fputc c file) =
     do { r \<leftarrow> inline_mysql_file_fputc p os f l c file; return (RInt r) }"
| "stream_call p os f l (Req_fprintf file format args) =
     do { r \<leftarrow> inline_mysql_file_fprintf p os file format args; return (RInt r) }"
| "stream_call p os f l (Req_vfprintf file format args) =
     do { r \<leftarrow> inline_mysql_file_vfprintf p os f l file format args; return (RInt r) }"
| "stream_call p os f l (Req_fflush file) =
     do { r \<leftarrow> inline_mysql_file_fflush p os f l file; return (RInt r) }"
| "stream_call p os f l (Req_fread file buffer cnt flags) =
     do { r \<leftarrow> inline_mysql_file_fread p os f l file buffer cnt flags; return (RSize r) }"
| "stream_call p os f l (Req_fwrite file buffer cnt flags) =
     do { r \<leftarrow> inline_mysql_file_fwrite p os f l file buffer cnt flags; return (RSize r) }"
| "stream_call p os f l (Req_fseek file pos whence flags) =
     do { r \<leftarrow> inline_mysql_file_fseek p os f l file pos whence flags; return (RSize r) }"
| "stream_call p os f l (Req_ftell file flags) =
     do { r \<leftarrow> inline_mysql_file_ftell p os f l file flags; return (RSize r) }"

fun descriptor_call :: "psi_file_call psi \<Rightarrow> 'w file_sys \<Rightarrow> string \<Rightarrow> int \<Rightarrow> descriptor_request
    \<Rightarrow> ('w, file_reply) file_prog" where
  "descriptor_call p os f l (Req_fstat filenr stat_area flags) =
     do { r \<leftarrow> inline_mysql_file_fstat p os f l filenr stat_area flags; return (RInt r) }"
| "descriptor_call p os f l (Req_chsize file newlength filler flags) =
     do { r \<leftarrow> inline_mysql_file_chsize p os f l file newlength filler flags; return (RInt r) }"
| "descriptor_call p os f l (Req_close file flags) =
     do { r \<leftarrow> inline_mysql_file_close p os f l file flags; return (RInt r) }"
| "descriptor_call p os f l (Req_read file buffer cnt flags) =
     do { r \<leftarrow> inline_mysql_file_read p os f l file buffer cnt flags; return (RSize r) }"
| "descriptor_call p os f l (Req_write file buffer cnt flags) =
     do { r \<leftarrow> inline_mysql_file_write p os f l file buffer cnt flags; return (RSize r) }"
| "descriptor_call p os f l (Req_pread file buffer cnt offset flags) =
     do { r \<leftarrow> inline_mysql_file_pread p os f l file buffer cnt offset flags; return (RSize r) }"
| "descriptor_call p os f l (Req_pwrite file buffer cnt offset flags) =
     do { r \<leftarrow> inline_mysql_file_pwrite p os f l file buffer cnt offset flags; return (RSize r) }"
| "descriptor_call p os f l (Req_seek file pos whence flags) =
     do { r \<leftarrow> inline_mysql_file_seek p os f l file pos whence flags; return (RSize r) }"
| "descriptor_call p os f l (Req_tell file flags) =
     do { r \<leftarrow> inline_mysql_file_tell p os f l file flags; return (RSize r) }"
| "descriptor_call p os f l (Req_sync fd flags) =
     do { r \<leftarrow> inline_mysql_file_sync p os f l fd flags; return (RInt r) }"

fun name_call :: "psi_file_call psi \<Rightarrow> 'w file_sys \<Rightarrow> string \<Rightarrow> int \<Rightarrow> name_request
    \<Rightarrow> ('w, file_reply) file_prog" where
  "name_call p os f l (Req_stat key path stat_area flags) =
     do { r \<leftarrow> inline_mysql_file_stat p os key f l path stat_area flags; return (RPtr r) }"
| "name_call p os f l (Req_create key filename create_flags access_flags myFlags) =
     do { r \<leftarrow> inline_mysql_file_create p os key f l filename create_flags access_flags myFlags; return (RInt r) }"
| "name_call p os f l (Req_create_temp key to dir pfx mode myFlags) =
     do { r \<leftarrow> inline_mysql_file_create_temp p os key f l to dir pfx mode myFlags; return (RInt r) }"
| "name_call p os f l (Req_open key filename flags myFlags) =
     do { r \<leftarrow> inline_mysql_file_open p os key f l filename flags myFlags; return (RInt r) }"
| "name_call p os f l (Req_delete key nm flags) =
     do { r \<leftarrow> inline_mysql_file_delete p os key f l nm flags; return (RInt r) }"
| "name_call p os f l (Req_rename key src dst flags) =
     do { r \<leftarrow> inline_mysql_file_rename p os key f l src dst flags; return (RInt r) }"
| "name_call p os f l (Req_create_with_symlink key linkname filename create_flags access_flags flags) =
     do { r \<leftarrow> inline_mysql_file_create_with_symlink p os key f l linkname filename create_flags access_flags flags; return (RInt r) }"
| "name_call p os f l (Req_delete_with_symlink key nm flags) =
     do { r \<leftarrow> inline_mysql_file_delete_with_symlink p os key f l nm flags; return (RInt r) }"
| "name_call p os f l (Req_rename_with_symlink key src dst flags) =
     do { r \<leftarrow> inline_mysql_file_rename_with_symlink p os key f l src dst flags; return (RInt r) }"

fun mysql_file_call :: "psi_file_call psi \<Rightarrow> 'w file_sys \<Rightarrow> string \<Rightarrow> int \<Rightarrow> file_request
    \<Rightarrow> ('w, file_reply) file_prog" where
  "mysql_file_call p os f l (Stream q) = stream_call p os f l q"
| "mysql_file_call p os f l (Descriptor q) = descriptor_call p os f l q"
| "mysql_file_call p os f l (Name q) = name_call p os f l q"

text \<open>
  The same calls without the wrappers: on the world, the \<open>FILE\<close> pointers of the streams and
  the allocated blocks.
\<close>

type_synonym 'w raw_files = "'w \<times> (nat \<Rightarrow> nat) \<times> nat set"

definition file_view :: "'w file_machine \<Rightarrow> 'w raw_files" where
  "file_view m = (world m, (\<lambda>a. m_file (file_mem m a)), live m)"

definition raw_sys :: "('w \<Rightarrow> 'a \<times> 'w) \<Rightarrow> ('w raw_files, 'a) state" where
  "raw_sys f = State (lift fst (\<lambda>w s. (w, snd s)) f)"

definition raw_file_at :: "nat \<Rightarrow> ('w raw_files, nat) state" where
  "raw_file_at a = State (\<lambda>s. (fst (snd s) a, s))"

definition raw_free :: "'w file_sys \<Rightarrow> nat \<Rightarrow> ('w raw_files, unit) state" where
  "raw_free os a = do { raw_sys (my_free os a); State (\<lambda>(w, mem, lv). ((), (w, mem, lv - {a}))) }"

definition raw_fopen :: "'w file_sys \<Rightarrow> nat \<Rightarrow> int \<Rightarrow> int \<Rightarrow> ('w raw_files, nat) state" where
  "raw_fopen os filename flags myFlags =
     do {
       that \<leftarrow> raw_sys (my_malloc os 0 16 MY_WME);
       if that = 0 then return 0
       else do {
         f \<leftarrow> raw_sys (my_fopen os filename flags myFlags);
         State (\<lambda>(w, mem, lv). ((), (w, mem(that := f), insert that lv)));
         if f = 0 then do { raw_free os that; return 0 } else return that
       }
     }"

definition raw_fclose :: "'w file_sys \<Rightarrow> nat \<Rightarrow> int \<Rightarrow> ('w raw_files, int) state" where
  "raw_fclose os file flags =
     (if file = 0 then return 0
      else do {
        f \<leftarrow> raw_file_at file;
        result \<leftarrow> raw_sys (my_fclose os f flags);
        raw_free os file;
        return result
      })"

fun raw_stream_call :: "'w file_sys \<Rightarrow> stream_request \<Rightarrow> ('w raw_files, file_reply) state" where
  "raw_stream_call os (Req_fopen key filename flags myFlags) =
     do { r \<leftarrow> raw_fopen os filename flags myFlags; return (RPtr r) }"
| "raw_stream_call os (Req_fclose file flags) = do { r \<leftarrow> raw_fclose os file flags; return (RInt r) }"
| "raw_stream_call os (Req_feof file) =
     do { r \<leftarrow> do { f \<leftarrow> raw_file_at file; raw_sys (c_feof os f) }; return (RInt r) }"
| "raw_stream_call os (Req_fgets str sz file) =
     do { r \<leftarrow> do { f \<leftarrow> raw_file_at file; raw_sys (c_fgets os str sz f) }; return (RPtr r) }"
| "raw_stream_call os (Req_fgetc file) =
     do { r \<leftarrow> do { f \<leftarrow> raw_file_at file; raw_sys (c_fgetc os f) }; return (RInt r) }"
| "raw_stream_call os (Req_fputs str file) =
     do { r \<leftarrow> do { f \<leftarrow> raw_file_at file; raw_sys (c_fputs os str f) }; return (RInt r) }"
| "raw_stream_call os (Req_fputc c file) =
     do { r \<leftarrow> do { f \<leftarrow> raw_file_at file; raw_sys (c_fputc os c f) }; return (RInt r) }"
| "raw_stream_call os (Req_fprintf file format args) =
     do { r \<leftarrow> do { f \<leftarrow> raw_file_at file; raw_sys (c_vfprintf os f format args) }; return (RInt r) }"
| "raw_stream_call os (Req_vfprintf file format args) =
     do { r \<leftarrow> do { f \<leftarrow> raw_file_at file; raw_sys (c_vfprintf os f format args) }; return (RInt r) }"
| "raw_stream_call os (Req_fflush file) =
     do { r \<leftarrow> do { f \<leftarrow> raw_file_at file; raw_sys (c_fflush os f) }; return (RInt r) }"
| "raw_stream_call os (Req_fread file buffer cnt flags) =
     do { r \<leftarrow> do { f \<leftarrow> raw_file_at file; raw_sys (my_fread os f buffer cnt flags) }; return (RSize r) }"
| "raw_stream_call os (Req_fwrite file buffer cnt flags) =
     do { r \<leftarrow> do { f \<leftarrow> raw_file_at file; raw_sys (my_fwrite os f buffer cnt flags) }; return (RSize r) }"
| "raw_stream_call os (Req_fseek file pos whence flags) =
     do { r \<leftarrow> do { f \<leftarrow> raw_file_at file; raw_sys (my_fseek os f pos whence flags) }; return (RSize r) }"
| "raw_stream_call os (Req_ftell file flags) =
     do { r \<leftarrow> do { f \<leftarrow> raw_file_at file; raw_sys (my_ftell os f flags) }; return (RSize r) }"

fun raw_descriptor_call :: "'w file_sys \<Rightarrow> descriptor_request \<Rightarrow> ('w raw_files, file_reply) state" where
  "raw_descriptor_call os (Req_fstat filenr stat_area flags) =
     do { r \<leftarrow> raw_sys (my_fstat os filenr stat_area flags); return (RInt r) }"
| "raw_descriptor_call os (Req_chsize file newlength filler flags) =
     do { r \<leftarrow> raw_sys (my_chsize os file newlength filler flags); return (RInt r) }"
| "raw_descriptor_call os (Req_close file flags) =
     do { r \<leftarrow> raw_sys (my_close os file flags); return (RInt r) }"
| "raw_descriptor_call os (Req_read file buffer cnt flags) =
     do { r \<leftarrow> raw_sys (my_read os file buffer cnt flags); return (RSize r) }"
| "raw_descriptor_call os (Req_write file buffer cnt flags) =
     do { r \<leftarrow> raw_sys (my_write os file buffer cnt flags); return (RSize r) }"
| "raw_descriptor_call os (Req_pread file buffer cnt offset flags) =
     do { r \<leftarrow> raw_sys (my_pread os file buffer cnt offset flags); return (RSize r) }"
| "raw_descriptor_call os (Req_pwrite file buffer cnt offset flags) =
     do { r \<leftarrow> raw_sys (my_pwrite os file buffer cnt offset flags); return (RSize r) }"
| "raw_descriptor_call os (Req_seek file pos whence flags) =
     do { r \<leftarrow> raw_sys (my_seek os file pos whence flags); return (RSize r) }"
| "raw_descriptor_call os (Req_tell file flags) =
     do { r \<leftarrow> raw_sys (my_tell os file flags); return (RSize r) }"
| "raw_descriptor_call os (Req_sync fd flags) =
     do { r \<leftarrow> raw_sys (my_sync os fd flags); return (RInt r) }"

fun raw_name_call :: "'w file_sys \<Rightarrow> name_request \<Rightarrow> ('w raw_files, file_reply) state" where
  "raw_name_call os (Req_stat key path stat_area flags) =
     do { r \<leftarrow> raw_sys (my_stat os path stat_area flags); return (RPtr r) }"
| "raw_name_call os (Req_create key filename create_flags access_flags myFlags) =
     do { r \<leftarrow> raw_sys (my_create os filename create_flags access_flags myFlags); return (RInt r) }"
| "raw_name_call os (Req_create_temp key to dir pfx mode myFlags) =
     do { r \<leftarrow> raw_sys (create_temp_file os to dir pfx mode myFlags); return (RInt r) }"
| "raw_name_call os (Req_open key filename flags myFlags) =
     do { r \<leftarrow> raw_sys (my_open os filename flags myFlags); return (RInt r) }"
| "raw_name_call os (Req_delete key nm flags) =
     do { r \<leftarrow> raw_sys (my_delete os nm flags); return (RInt r) }"
| "raw_name_call os (Req_rename key src dst flags) =
     do { r \<leftarrow> raw_sys (my_rename os src dst flags); return (RInt r) }"
| "raw_name_call os (Req_create_with_symlink key linkname filename create_flags access_flags flags) =
     do { r \<leftarrow> raw_sys (my_create_with_symlink os linkname filename create_flags access_flags flags); return (RInt r) }"
| "raw_name_call os (Req_delete_with_symlink key nm flags) =
     do { r \<leftarrow> raw_sys (my_delete_with_symlink os nm flags); return (RInt r) }"
| "raw_name_call os (Req_rename_with_symlink key src dst flags) =
     do { r \<leftarrow> raw_sys (my_rename_with_symlink os src dst flags); return (RInt r) }"

fun raw_file_call :: "'w file_sys \<Rightarrow> file_request \<Rightarrow> ('w raw_files, file_reply) state" where
  "raw_file_call os (Stream q) = raw_stream_call os q"
| "raw_file_call os (Descriptor q) = raw_descriptor_call os q"
| "raw_file_call os (Name q) = raw_name_call os q"

section \<open>Transparency and waits of each wrapper\<close>

text \<open>All wrappers but \<open>fopen\<close> and \<open>fclose\<close> have one shape.\<close>

lemmas file_wrapper_defs =
  inline_mysql_file_fgets_def inline_mysql_file_fgetc_def inline_mysql_file_fputs_def
  inline_mysql_file_fputc_def inline_mysql_file_fprintf_def inline_mysql_file_vfprintf_def
  inline_mysql_file_fflush_def inline_mysql_file_fstat_def inline_mysql_file_stat_def
  inline_mysql_file_chsize_def inline_mysql_file_fread_def inline_mysql_file_fwrite_def
  inline_mysql_file_fseek_def inline_mysql_file_ftell_def inline_mysql_file_create_def
  inline_mysql_file_create_temp_def inline_mysql_file_open_def inline_mysql_file_close_def
  inline_mysql_file_read_def inline_mysql_file_write_def inline_mysql_file_pread_def
  inline_mysql_file_pwrite_def inline_mysql_file_seek_def inline_mysql_file_tell_def
  inline_mysql_file_delete_def inline_mysql_file_rename_def
  inline_mysql_file_create_with_symlink_def inline_mysql_file_delete_with_symlink_def
  inline_mysql_file_rename_with_symlink_def inline_mysql_file_sync_def inline_mysql_file_feof_def

interpretation file_world: view file_view fst "\<lambda>w s. (w, snd s)"
  by unfold_locales (auto simp: file_view_def)

lemma run_raw_sys: "run_state (raw_sys f) = lift fst (\<lambda>w s. (w, snd s)) f"
  by (simp add: raw_sys_def)

lemma transparent_file_at:
  assumes "\<And>s. transparent file_view (k s) (run_state (h (m_file s)))"
  shows "transparent file_view (bind (file_at a) k) (run_state (bind (raw_file_at a) h))"
  using assms by (simp add: transparent_def file_at_def raw_file_at_def file_view_def)

lemma transparent_get_locker:
  assumes "\<And>l. transparent file_view (k l) f"
  shows "transparent file_view (bind (get_locker p c) k) f"
  using file_world.transparent_call [of k f p c] assms by (simp add: get_locker_def)

lemma transparent_reads:
  assumes "\<And>x. transparent file_view (k x) f"
  shows "transparent file_view (bind (if b then reads g else return y) k) f"
  using assms by (simp add: transparent_def)

lemma transparent_unused_result:
  "transparent file_view k f \<Longrightarrow> transparent file_view (bind (PSI_CALL p c) (\<lambda>_. k)) f"
  by (rule file_world.transparent_call)

lemma transparent_tag:
  assumes "transparent file_view p (run_state q)"
  shows "transparent file_view (bind p (\<lambda>r. return (t r))) (run_state (bind q (\<lambda>r. return (t r))))"
proof (rule transparent_bind [OF assms])
  show "transparent file_view (return (t r)) (run_state (return (t r)))" for r
    by (simp add: transparent_def)
qed

lemmas file_rules = transparent_file_at transparent_get_locker transparent_reads
  file_world.transparent_rules

lemma transparent_fopen: "transparent file_view
    (inline_mysql_file_fopen p os key f l filename flags myFlags)
    (run_state (raw_fopen os filename flags myFlags))"
  by (simp add: transparent_def inline_mysql_file_fopen_def raw_fopen_def malloc_file_def free_file_def
      raw_free_def get_locker_def set_m_file_def set_file_psi_def file_view_def run_raw_sys lift_def
      split_beta prod_eq_iff fun_eq_iff)

lemma transparent_fclose: "transparent file_view
    (inline_mysql_file_fclose p os f l file flags) (run_state (raw_fclose os file flags))"
  by (simp add: transparent_def inline_mysql_file_fclose_def raw_fclose_def free_file_def raw_free_def
      get_locker_def file_at_def raw_file_at_def file_view_def run_raw_sys lift_def split_beta prod_eq_iff)

lemma stream_call_transparent: "transparent file_view (stream_call p os f l q) (run_state (raw_stream_call os q))"
proof (cases q)
  case (Req_fopen key filename flags myFlags)
  then show ?thesis
    by (simp only: stream_call.simps raw_stream_call.simps) (intro transparent_tag transparent_fopen)
next
  case (Req_fclose a flags)
  then show ?thesis
    by (simp only: stream_call.simps raw_stream_call.simps) (intro transparent_tag transparent_fclose)
qed (simp_all only: stream_call.simps raw_stream_call.simps file_wrapper_defs Let_def,
    (rule transparent_tag, rule transparent_file_at, unfold run_raw_sys, intro file_rules)+)

lemma descriptor_call_transparent:
  "transparent file_view (descriptor_call p os f l q) (run_state (raw_descriptor_call os q))"
  by (cases q; simp only: descriptor_call.simps raw_descriptor_call.simps file_wrapper_defs Let_def;
      rule transparent_tag; unfold run_raw_sys; intro file_rules)

lemma name_call_transparent: "transparent file_view (name_call p os f l q) (run_state (raw_name_call os q))"
  by (cases q; simp only: name_call.simps raw_name_call.simps file_wrapper_defs Let_def;
      rule transparent_tag; unfold run_raw_sys; intro file_rules)

lemma file_call_transparent: "transparent file_view (mysql_file_call p os f l q) (run_state (raw_file_call os q))"
  by (cases q) (simp_all add: stream_call_transparent descriptor_call_transparent name_call_transparent)

interpretation file_wait: locker_interface file_phase end_file_wait
    "\<lambda>l (n, src_file, src_line). start_file_wait l n src_file src_line"
  by unfold_locales auto

interpretation file_open_wait: locker_interface file_phase end_file_open_wait
    "\<lambda>l (src_file, src_line). start_file_open_wait l src_file src_line"
  by unfold_locales auto

interpretation file_bind_wait: locker_interface file_phase end_file_open_wait_and_bind_to_descriptor
    "\<lambda>l (src_file, src_line). start_file_open_wait l src_file src_line"
  by unfold_locales auto

interpretation file_temp_wait: locker_interface file_phase
    "\<lambda>l (fd, name). end_temp_file_open_wait_and_bind_to_descriptor l fd name"
    "\<lambda>l (src_file, src_line). start_file_open_wait l src_file src_line"
  by unfold_locales auto

interpretation file_close_wait: locker_interface file_phase end_file_close_wait
    "\<lambda>l (src_file, src_line). start_file_close_wait l src_file src_line"
  by unfold_locales auto

lemmas file_begins =
  file_wait.begin_wait [where x = "(n, src_file, src_line)" for n src_file src_line, simplified prod.case]
  file_open_wait.begin_wait [where x = "(src_file, src_line)" for src_file src_line, simplified prod.case]
  file_close_wait.begin_wait [where x = "(src_file, src_line)" for src_file src_line, simplified prod.case]

lemmas file_ends = file_wait.finish file_bind_wait.finish file_close_wait.finish
  file_temp_wait.finish [where y = "(fd, name)" for fd name, simplified prod.case]

lemma waits_get_locker:
  assumes "\<And>a. file_phase c a = Neutral" and "\<And>l. waits file_phase s (k l) t"
  shows "waits file_phase s (bind (get_locker p c) k) t"
  using assms file_wait.neutral_call [of c s p] by (auto simp: get_locker_def intro: waits_bind)

lemma waits_silent:
  assumes "\<And>m. events (snd (run_state p m)) = events m" and "\<And>r. waits file_phase s (k r) t"
  shows "waits file_phase s (bind p k) t"
proof (rule waits_bind [OF _ assms(2)])
  show "waits file_phase s p (\<lambda>_. s)" by (simp add: waits_def assms(1))
qed

lemma silent_accesses:
  "events (snd (run_state (file_at a) m)) = events m"
  "events (snd (run_state (set_m_file a v) m)) = events m"
  "events (snd (run_state (set_file_psi a v) m)) = events m"
  "events (snd (run_state (if b then reads g else return x) m)) = events m"
  by (simp_all add: file_at_def set_m_file_def set_file_psi_def)

lemma waits_heap:
  "waits file_phase Idle (malloc_file os key n flags) (\<lambda>_. Idle)"
  "waits file_phase Idle (free_file os a) (\<lambda>_. Idle)"
  by (simp_all add: waits_def malloc_file_def free_file_def)

lemma waits_tag: "waits file_phase Idle p (\<lambda>_. Idle) \<Longrightarrow>
    waits file_phase Idle (bind p (\<lambda>r. return (t r))) (\<lambda>_. Idle)"
  by (rule waits_bind [where t = "\<lambda>_. Idle"]) (simp_all add: waits_return)

lemmas file_wait_rules = waits_if waits_get_locker waits_silent [OF silent_accesses(1)]
  waits_silent [OF silent_accesses(2)] waits_silent [OF silent_accesses(3)]
  waits_silent [OF silent_accesses(4)] waits_bind [OF waits_heap(1)] waits_bind [OF waits_heap(2)]
  file_begins [THEN waits_bind] waits_bind [OF waits_sys_inside] file_ends [THEN waits_bind]
  waits_bind [OF file_open_wait.finish_returning] waits_sys waits_return waits_bind [OF waits_sys]

lemma stream_call_waits: "waits file_phase Idle (stream_call p os f l q) (\<lambda>_. Idle)"
  by (cases q; simp only: stream_call.simps file_wrapper_defs inline_mysql_file_fopen_def
      inline_mysql_file_fclose_def Let_def; rule waits_tag; intro file_wait_rules; simp)

lemma descriptor_call_waits: "waits file_phase Idle (descriptor_call p os f l q) (\<lambda>_. Idle)"
  by (cases q; simp only: descriptor_call.simps file_wrapper_defs Let_def; rule waits_tag;
      intro file_wait_rules; simp)

lemma name_call_waits: "waits file_phase Idle (name_call p os f l q) (\<lambda>_. Idle)"
  by (cases q; simp only: name_call.simps file_wrapper_defs Let_def; rule waits_tag;
      intro file_wait_rules; simp)

lemma file_call_waits: "waits file_phase Idle (mysql_file_call p os f l q) (\<lambda>_. Idle)"
  by (cases q) (simp_all add: stream_call_waits descriptor_call_waits name_call_waits)

text \<open>In the build without instrumentation only system calls remain.\<close>

lemma only_sys_memory:
  "only_sys (file_at a)" "only_sys (set_m_file a v)" "only_sys (set_file_psi a v)"
  "only_sys (malloc_file os k n fl)" "only_sys (free_file os a)"
  unfolding file_at_def set_m_file_def set_file_psi_def malloc_file_def free_file_def only_sys_def
  by (auto intro: exI [of _ "[]"] exI [of _ "[''my_malloc'']"] exI [of _ "[''my_free'']"])

lemma file_call_uninstrumented:
  assumes "\<not> have_psi p"
  shows "only_sys (mysql_file_call p os f l q)"
proof (cases q)
  case (Stream r)
  with assms show ?thesis
    by (cases r) (auto simp: file_wrapper_defs inline_mysql_file_fopen_def inline_mysql_file_fclose_def
        get_locker_def intro!: only_sys_rules only_sys_memory)
next
  case (Descriptor r)
  with assms show ?thesis
    by (cases r) (auto simp: file_wrapper_defs get_locker_def intro!: only_sys_rules)
next
  case (Name r)
  with assms show ?thesis
    by (cases r) (auto simp: file_wrapper_defs get_locker_def intro!: only_sys_rules)
qed

section \<open>Reported byte counts\<close>

fun file_reported :: "psi_file_call event list \<Rightarrow> 64 word list" where
  "file_reported [] = []"
| "file_reported (Psi (end_file_wait l n) a # es) = n # file_reported es"
| "file_reported (_ # es) = file_reported es"

text \<open>The size and the flags of a transfer.\<close>

fun file_transfer :: "file_request \<Rightarrow> (64 word \<times> int) option" where
  "file_transfer (Stream (Req_fread a buffer n flags)) = Some (n, flags)"
| "file_transfer (Stream (Req_fwrite a buffer n flags)) = Some (n, flags)"
| "file_transfer (Descriptor (Req_read a buffer n flags)) = Some (n, flags)"
| "file_transfer (Descriptor (Req_write a buffer n flags)) = Some (n, flags)"
| "file_transfer (Descriptor (Req_pread a buffer n offset flags)) = Some (n, flags)"
| "file_transfer (Descriptor (Req_pwrite a buffer n offset flags)) = Some (n, flags)"
| "file_transfer _ = None"

text \<open>
  What a result of the mysys functions says was moved: with one of the flags 0 is complete
  success and anything else failure, without them it is a count or the error value.
\<close>

definition bytes_moved :: "64 word \<Rightarrow> int \<Rightarrow> 64 word \<Rightarrow> 64 word" where
  "bytes_moved n flags r =
     (if and flags 6 \<noteq> 0 then (if r = 0 then n else 0) else (if r \<noteq> -1 then r else 0))"

lemma nabp_flags: "or MY_NABP MY_FNABP = 6"
  by (simp add: MY_NABP_def MY_FNABP_def)

lemma file_transfer_reports:
  assumes "file_transfer q = Some (n, flags)" and "run_state (mysql_file_call p os f l q) m = (RSize r, m')"
  shows "\<exists>es. events m' = events m @ es \<and> set (file_reported es) \<subseteq> {bytes_moved n flags r}"
  using assms
  by (cases q rule: file_transfer.cases)
    (auto simp: inline_mysql_file_fread_def inline_mysql_file_fwrite_def inline_mysql_file_read_def
      inline_mysql_file_write_def inline_mysql_file_pread_def inline_mysql_file_pwrite_def
      nabp_flags bytes_moved_def get_locker_def file_at_def MY_FILE_ERROR_def split: if_splits)

text \<open>
  A system on which \<open>malloc\<close> hands out the address the world counts, \<open>fopen\<close> opens any name, a
  transfer of a descriptor moves 5 bytes, and \<open>fgetc\<close> and \<open>vfprintf\<close> fail.
\<close>

definition demo_files :: "nat file_sys" where
  "demo_files =
   \<lparr>c_fgets = \<lambda>_ _ _ w. (0, w), c_fgetc = \<lambda>_ w. (-1, w),
     c_fputs = \<lambda>_ _ w. (0, w), c_fputc = \<lambda>_ _ w. (0, w),
     c_vfprintf = \<lambda>_ _ _ w. (-1, w), c_fflush = \<lambda>_ w. (0, w),
     my_fstat = \<lambda>_ _ _ w. (0, w), my_stat = \<lambda>_ _ _ w. (0, w),
     my_chsize = \<lambda>_ _ _ _ w. (0, w), my_fread = \<lambda>_ _ _ _ w. (0, w),
     my_fwrite = \<lambda>_ _ _ _ w. (0, w), my_fseek = \<lambda>_ _ _ _ w. (0, w),
     my_ftell = \<lambda>_ _ w. (0, w), my_create = \<lambda>_ _ _ _ w. (0, w),
     create_temp_file = \<lambda>_ _ _ _ _ w. (0, w), my_open = \<lambda>_ _ _ w. (4, w),
     my_close = \<lambda>_ _ w. (0, w), my_read = \<lambda>_ _ _ _ w. (5, w),
     my_write = \<lambda>_ _ _ _ w. (5, w), my_pread = \<lambda>_ _ _ _ _ w. (0, w),
     my_pwrite = \<lambda>_ _ _ _ _ w. (0, w), my_seek = \<lambda>_ _ _ _ w. (0, w),
     my_tell = \<lambda>_ _ w. (0, w), my_delete = \<lambda>_ _ w. (0, w),
     my_rename = \<lambda>_ _ _ w. (0, w), my_create_with_symlink = \<lambda>_ _ _ _ _ w. (0, w),
     my_delete_with_symlink = \<lambda>_ _ w. (0, w),
     my_rename_with_symlink = \<lambda>_ _ _ w. (0, w), my_sync = \<lambda>_ _ w. (0, w),
     c_feof = \<lambda>_ w. (0, w), my_fopen = \<lambda>a0 _ _ w. ((if a0 = 0 then 0 else 77), w),
     my_fclose = \<lambda>_ _ w. (0, w), my_malloc = \<lambda>_ _ _ w. (w, w + 1),
     my_free = \<lambda>_ w. ((), w), c_strlen = \<lambda>_ _. 3\<rparr>"

definition demo_file_psi :: "psi_file_call psi" where
  "demo_file_psi = \<lparr>have_psi = True, answer = \<lambda>es c. 1 + length es\<rparr>"

definition demo_machine :: "nat file_machine" where
  "demo_machine = \<lparr>world = 9, events = [], file_mem = \<lambda>a. \<lparr>m_file = 5, file_psi = 2\<rparr>, live = {4}\<rparr>"

lemmas demo_defs = demo_files_def demo_file_psi_def demo_machine_def

section \<open>The properties of the files\<close>

lemma file_calls_transparent:
  "run_state (traverse_list (\<lambda>(f, l, q). raw_file_call os q) qs) (file_view m) =
   map_prod id file_view (run_state (traverse_list (\<lambda>(f, l, q). mysql_file_call p os f l q) qs) m)"
proof -
  have "transparent file_view (traverse_list (\<lambda>(f, l, q). mysql_file_call p os f l q) qs)
    (run_state (traverse_list (\<lambda>(f, l, q). raw_file_call os q) qs))"
    by (rule transparent_traverse) (auto intro: file_call_transparent)
  then show ?thesis by (simp add: transparent_def)
qed

lemma file_waits_bracketed:
  "\<exists>es. events (snd (run_state (traverse_list (\<lambda>(f, l, q). mysql_file_call p os f l q) qs) m)) = events m @ es
     \<and> bracketed file_phase es \<and> closed file_phase es = granted file_phase es"
proof -
  have "waits file_phase Idle (traverse_list (\<lambda>(f, l, q). mysql_file_call p os f l q) qs) (\<lambda>_. Idle)"
    by (rule waits_traverse) (auto intro: file_call_waits)
  then show ?thesis using waits_bracketed bracketed_granted_closed by metis
qed

text \<open>C33: the instrumented files are the files, and their waits are bracketed. A program that makes
  any sequence of file calls through the wrappers gets the results, and leaves the world, the
  \<open>FILE\<close> pointers of its streams and the allocated blocks, of the same calls of the C library
  and mysys, whatever the performance schema answers and in both builds; and every wait that
  is started, as a transfer, an opening or a closing, is ended exactly once with its own
  locker, after the call it stands for and before the next one starts. Closing a null stream,
  which the C library leaves undefined, is taken to do nothing, as the wrapper does.\<close>

theorem file_instrumentation:
  "run_state (traverse_list (\<lambda>(f, l, q). raw_file_call os q) qs) (file_view m) =
     map_prod id file_view (run_state (traverse_list (\<lambda>(f, l, q). mysql_file_call p os f l q) qs) m)
   \<and> (\<exists>es. events (snd (run_state (traverse_list (\<lambda>(f, l, q). mysql_file_call p os f l q) qs) m)) = events m @ es
     \<and> bracketed file_phase es \<and> closed file_phase es = granted file_phase es)"
  by (rule conjI [OF file_calls_transparent file_waits_bracketed])

text \<open>the byte count reported for a read or a write is what its result says was moved: the
  whole size or nothing under \<open>MY_NABP\<close> and \<open>MY_FNABP\<close>, else the result or, for the error
  value, 0. It never exceeds the size asked for where the call keeps to its contract.\<close>

theorem file_count_bounds:
  assumes "file_transfer q = Some (n, flags)"
    and "run_state (mysql_file_call p os f l q) m = (RSize r, m')"
    and "r \<le> n \<or> r = -1"
  shows "\<exists>es. events m' = events m @ es \<and>
    (\<forall>c \<in> set (file_reported es). c = bytes_moved n flags r \<and> c \<le> n)"
proof -
  have "bytes_moved n flags r \<le> n"
    using assms(3) by (auto simp: bytes_moved_def)
  with file_transfer_reports [OF assms(1,2)] show ?thesis by blast
qed

theorem file_count_bounds_witness:
  "\<exists>es. events (snd (run_state (mysql_file_call demo_file_psi demo_files ''vio.c'' 1
        (Descriptor (Req_read 3 100 10 0))) demo_machine)) = es \<and> file_reported es = [5]
     \<and> list_all (\<lambda>c. c = bytes_moved 10 0 5 \<and> c \<le> 10) (file_reported es)"
proof -
  obtain r m' where run: "run_state (mysql_file_call demo_file_psi demo_files ''vio.c'' 1
      (Descriptor (Req_read 3 100 10 0))) demo_machine = (r, m')" by force
  then have r: "r = RSize 5" and counts: "file_reported (events m') = [5]"
    by (auto simp: demo_defs inline_mysql_file_read_def get_locker_def nabp_flags MY_FILE_ERROR_def)
  obtain es where "events m' = events demo_machine @ es"
    "\<forall>c \<in> set (file_reported es). c = bytes_moved 10 0 5 \<and> c \<le> 10"
    using file_count_bounds [OF _ run [unfolded r], of 10 0] by auto
  then show ?thesis
    using run counts by (intro exI [of _ es]) (simp add: demo_machine_def list_all_iff)
qed

text \<open>the stream of \<open>fopen\<close> does not leak. It returns NULL without a block allocated, or a new
  block with an open \<open>FILE\<close>; and closing what it returned leaves the blocks that were there
  before, whether the file could be opened or not and in both builds.\<close>

theorem fopen_fclose_no_leak:
  assumes "fst (my_malloc os 0 16 MY_WME (world m)) \<notin> live m"
    and "run_state (inline_mysql_file_fopen p os key f l filename flags myFlags) m = (r, m')"
  shows "live m' = (if r = 0 then live m else insert r (live m))
    \<and> (r = 0 \<or> r \<notin> live m \<and> m_file (file_mem m' r) \<noteq> 0)
    \<and> live (snd (run_state (inline_mysql_file_fclose p os f' l' r cflags) m')) = live m"
  using assms
  by (auto simp: inline_mysql_file_fopen_def inline_mysql_file_fclose_def malloc_file_def free_file_def
      get_locker_def set_m_file_def set_file_psi_def file_at_def split_beta split: if_splits)

theorem fopen_fclose_no_leak_witness:
  "live (snd (run_state (inline_mysql_file_fclose demo_file_psi demo_files ''a.c'' 2 9 0)
     (snd (run_state (inline_mysql_file_fopen demo_file_psi demo_files 1 ''a.c'' 1 50 0 0) demo_machine))))
   = {4}"
proof -
  obtain r m' where run: "run_state (inline_mysql_file_fopen demo_file_psi demo_files 1 ''a.c'' 1 50 0 0) demo_machine
      = (r, m')" by force
  then have "r = 9"
    by (simp add: demo_defs inline_mysql_file_fopen_def malloc_file_def get_locker_def set_m_file_def
        set_file_psi_def)
  then show ?thesis
    using fopen_fclose_no_leak [where f' = "''a.c''" and l' = 2 and cflags = 0, OF _ run] run
    by (simp add: demo_defs)
qed

text \<open>a failed stream call is reported as a transfer. With a locker, \<open>fgetc\<close> reports one byte
  read when it returns end of file, and \<open>vfprintf\<close>, which returns a negative number for
  failure, reports that number as a \<open>size_t\<close>: for -1 it is 18446744073709551615 bytes.\<close>

theorem failed_stream_counts:
  assumes "have_psi p" and "\<And>es c. answer p es c \<noteq> 0"
    and "fst (c_fgetc os F (world m)) = -1" and "fst (c_vfprintf os F fmt args (world m)) = -1"
    and "m_file (file_mem m a) = F"
  shows "(\<exists>es. events (snd (run_state (inline_mysql_file_fgetc p os f l a) m)) = events m @ es
      \<and> file_reported es = [1])
    \<and> (\<exists>es. events (snd (run_state (inline_mysql_file_vfprintf p os f l a fmt args) m)) = events m @ es
      \<and> file_reported es = [18446744073709551615])"
  using assms
  by (simp_all add: inline_mysql_file_fgetc_def inline_mysql_file_vfprintf_def get_locker_def file_at_def)

theorem failed_stream_counts_witness:
  "(\<exists>es. events (snd (run_state (inline_mysql_file_fgetc demo_file_psi demo_files ''a.c'' 2 1) demo_machine)) = es
      \<and> file_reported es = [1])
    \<and> (\<exists>es. events (snd (run_state (inline_mysql_file_vfprintf demo_file_psi demo_files ''a.c'' 2 1 60 61)
        demo_machine)) = es \<and> file_reported es = [18446744073709551615])"
  using failed_stream_counts [where p = demo_file_psi and os = demo_files and F = 5 and m = demo_machine
      and fmt = 60 and args = 61 and a = 1 and f = "''a.c''" and l = 2]
  by (simp add: demo_defs)

end
