(* ===== verification/Mysql_Thread.thy ===== *)
theory Mysql_Thread
  imports Mysql_Psi
begin

text \<open>
  Mutexes, read-write locks, conditions and threads of the MySQL client: the platform layer
  (thr_mutex.h, thr_rwlock.h, thr_cond.h), which on this platform hands every call to the
  pthread library, and the instrumented objects over it (mysql/psi/mysql_thread.h).

  An object is named by its address, and the pthread object, its first member, has the same
  address; the handle of the instrumentation, \<open>m_psi\<close>, is part of the machine. The pthread
  calls and the \<open>rw_pr\<close> locks, which the headers only declare, are parameters. The build is
  without \<open>SAFE_MUTEX\<close> and not for Windows; with or without instrumentation is \<open>have_psi\<close>.
\<close>

section \<open>The platform layer\<close>

record 'w thread_sys =
  pthread_mutex_init :: "nat \<Rightarrow> nat \<Rightarrow> 'w \<Rightarrow> int \<times> 'w"
  pthread_mutex_lock :: "nat \<Rightarrow> 'w \<Rightarrow> int \<times> 'w"
  pthread_mutex_trylock :: "nat \<Rightarrow> 'w \<Rightarrow> int \<times> 'w"
  pthread_mutex_unlock :: "nat \<Rightarrow> 'w \<Rightarrow> int \<times> 'w"
  pthread_mutex_destroy :: "nat \<Rightarrow> 'w \<Rightarrow> int \<times> 'w"
  pthread_rwlock_init :: "nat \<Rightarrow> nat \<Rightarrow> 'w \<Rightarrow> int \<times> 'w"
  pthread_rwlock_destroy :: "nat \<Rightarrow> 'w \<Rightarrow> int \<times> 'w"
  pthread_rwlock_rdlock :: "nat \<Rightarrow> 'w \<Rightarrow> int \<times> 'w"
  pthread_rwlock_tryrdlock :: "nat \<Rightarrow> 'w \<Rightarrow> int \<times> 'w"
  pthread_rwlock_wrlock :: "nat \<Rightarrow> 'w \<Rightarrow> int \<times> 'w"
  pthread_rwlock_trywrlock :: "nat \<Rightarrow> 'w \<Rightarrow> int \<times> 'w"
  pthread_rwlock_unlock :: "nat \<Rightarrow> 'w \<Rightarrow> int \<times> 'w"
  rw_pr_init :: "nat \<Rightarrow> 'w \<Rightarrow> int \<times> 'w"
  rw_pr_rdlock :: "nat \<Rightarrow> 'w \<Rightarrow> int \<times> 'w"
  rw_pr_wrlock :: "nat \<Rightarrow> 'w \<Rightarrow> int \<times> 'w"
  rw_pr_unlock :: "nat \<Rightarrow> 'w \<Rightarrow> int \<times> 'w"
  rw_pr_destroy :: "nat \<Rightarrow> 'w \<Rightarrow> int \<times> 'w"
  pthread_cond_init :: "nat \<Rightarrow> nat \<Rightarrow> 'w \<Rightarrow> int \<times> 'w"
  pthread_cond_destroy :: "nat \<Rightarrow> 'w \<Rightarrow> int \<times> 'w"
  pthread_cond_wait :: "nat \<Rightarrow> nat \<Rightarrow> 'w \<Rightarrow> int \<times> 'w"
  pthread_cond_timedwait :: "nat \<Rightarrow> nat \<Rightarrow> nat \<Rightarrow> 'w \<Rightarrow> int \<times> 'w"
  pthread_cond_signal :: "nat \<Rightarrow> 'w \<Rightarrow> int \<times> 'w"
  pthread_cond_broadcast :: "nat \<Rightarrow> 'w \<Rightarrow> int \<times> 'w"
  psi_spawn_thread :: "nat \<Rightarrow> nat \<Rightarrow> nat \<Rightarrow> nat \<Rightarrow> nat \<Rightarrow> 'w \<Rightarrow> int \<times> 'w"

text \<open>thr_mutex.h.\<close>

definition native_mutex_init :: "'w thread_sys \<Rightarrow> nat \<Rightarrow> nat \<Rightarrow> 'w \<Rightarrow> int \<times> 'w" where
  "native_mutex_init os mutex attr = pthread_mutex_init os mutex attr"

definition native_mutex_lock :: "'w thread_sys \<Rightarrow> nat \<Rightarrow> 'w \<Rightarrow> int \<times> 'w" where
  "native_mutex_lock os mutex = pthread_mutex_lock os mutex"

definition native_mutex_trylock :: "'w thread_sys \<Rightarrow> nat \<Rightarrow> 'w \<Rightarrow> int \<times> 'w" where
  "native_mutex_trylock os mutex = pthread_mutex_trylock os mutex"

definition native_mutex_unlock :: "'w thread_sys \<Rightarrow> nat \<Rightarrow> 'w \<Rightarrow> int \<times> 'w" where
  "native_mutex_unlock os mutex = pthread_mutex_unlock os mutex"

definition native_mutex_destroy :: "'w thread_sys \<Rightarrow> nat \<Rightarrow> 'w \<Rightarrow> int \<times> 'w" where
  "native_mutex_destroy os mutex = pthread_mutex_destroy os mutex"

definition my_mutex_init :: "'w thread_sys \<Rightarrow> nat \<Rightarrow> nat \<Rightarrow> 'w \<Rightarrow> int \<times> 'w" where
  "my_mutex_init os mp attr = native_mutex_init os mp attr"

definition my_mutex_lock :: "'w thread_sys \<Rightarrow> nat \<Rightarrow> 'w \<Rightarrow> int \<times> 'w" where
  "my_mutex_lock os mp = native_mutex_lock os mp"

definition my_mutex_trylock :: "'w thread_sys \<Rightarrow> nat \<Rightarrow> 'w \<Rightarrow> int \<times> 'w" where
  "my_mutex_trylock os mp = native_mutex_trylock os mp"

definition my_mutex_unlock :: "'w thread_sys \<Rightarrow> nat \<Rightarrow> 'w \<Rightarrow> int \<times> 'w" where
  "my_mutex_unlock os mp = native_mutex_unlock os mp"

definition my_mutex_destroy :: "'w thread_sys \<Rightarrow> nat \<Rightarrow> 'w \<Rightarrow> int \<times> 'w" where
  "my_mutex_destroy os mp = native_mutex_destroy os mp"

text \<open>thr_rwlock.h; the attribute is always NULL.\<close>

definition native_rw_init :: "'w thread_sys \<Rightarrow> nat \<Rightarrow> 'w \<Rightarrow> int \<times> 'w" where
  "native_rw_init os rwp = pthread_rwlock_init os rwp 0"

definition native_rw_destroy :: "'w thread_sys \<Rightarrow> nat \<Rightarrow> 'w \<Rightarrow> int \<times> 'w" where
  "native_rw_destroy os rwp = pthread_rwlock_destroy os rwp"

definition native_rw_rdlock :: "'w thread_sys \<Rightarrow> nat \<Rightarrow> 'w \<Rightarrow> int \<times> 'w" where
  "native_rw_rdlock os rwp = pthread_rwlock_rdlock os rwp"

definition native_rw_tryrdlock :: "'w thread_sys \<Rightarrow> nat \<Rightarrow> 'w \<Rightarrow> int \<times> 'w" where
  "native_rw_tryrdlock os rwp = pthread_rwlock_tryrdlock os rwp"

definition native_rw_wrlock :: "'w thread_sys \<Rightarrow> nat \<Rightarrow> 'w \<Rightarrow> int \<times> 'w" where
  "native_rw_wrlock os rwp = pthread_rwlock_wrlock os rwp"

definition native_rw_trywrlock :: "'w thread_sys \<Rightarrow> nat \<Rightarrow> 'w \<Rightarrow> int \<times> 'w" where
  "native_rw_trywrlock os rwp = pthread_rwlock_trywrlock os rwp"

definition native_rw_unlock :: "'w thread_sys \<Rightarrow> nat \<Rightarrow> 'w \<Rightarrow> int \<times> 'w" where
  "native_rw_unlock os rwp = pthread_rwlock_unlock os rwp"

text \<open>thr_cond.h.\<close>

definition native_cond_init :: "'w thread_sys \<Rightarrow> nat \<Rightarrow> 'w \<Rightarrow> int \<times> 'w" where
  "native_cond_init os cond = pthread_cond_init os cond 0"

definition native_cond_destroy :: "'w thread_sys \<Rightarrow> nat \<Rightarrow> 'w \<Rightarrow> int \<times> 'w" where
  "native_cond_destroy os cond = pthread_cond_destroy os cond"

definition native_cond_timedwait :: "'w thread_sys \<Rightarrow> nat \<Rightarrow> nat \<Rightarrow> nat \<Rightarrow> 'w \<Rightarrow> int \<times> 'w" where
  "native_cond_timedwait os cond mutex abstime = pthread_cond_timedwait os cond mutex abstime"

definition native_cond_wait :: "'w thread_sys \<Rightarrow> nat \<Rightarrow> nat \<Rightarrow> 'w \<Rightarrow> int \<times> 'w" where
  "native_cond_wait os cond mutex = pthread_cond_wait os cond mutex"

definition native_cond_signal :: "'w thread_sys \<Rightarrow> nat \<Rightarrow> 'w \<Rightarrow> int \<times> 'w" where
  "native_cond_signal os cond = pthread_cond_signal os cond"

definition native_cond_broadcast :: "'w thread_sys \<Rightarrow> nat \<Rightarrow> 'w \<Rightarrow> int \<times> 'w" where
  "native_cond_broadcast os cond = pthread_cond_broadcast os cond"

definition my_cond_timedwait :: "'w thread_sys \<Rightarrow> nat \<Rightarrow> nat \<Rightarrow> nat \<Rightarrow> 'w \<Rightarrow> int \<times> 'w" where
  "my_cond_timedwait os cond mp abstime = native_cond_timedwait os cond mp abstime"

definition my_cond_wait :: "'w thread_sys \<Rightarrow> nat \<Rightarrow> nat \<Rightarrow> 'w \<Rightarrow> int \<times> 'w" where
  "my_cond_wait os cond mp = native_cond_wait os cond mp"

section \<open>Calls of the performance schema and the objects\<close>

datatype psi_thread_call =
  register_mutex string nat int
| init_mutex nat nat
| destroy_mutex nat
| start_mutex_wait nat PSI_mutex_operation string int
| end_mutex_wait nat int
| unlock_mutex nat
| register_rwlock string nat int
| init_rwlock nat nat
| destroy_rwlock nat
| start_rwlock_rdwait nat PSI_rwlock_operation string int
| end_rwlock_rdwait nat int
| start_rwlock_wrwait nat PSI_rwlock_operation string int
| end_rwlock_wrwait nat int
| unlock_rwlock nat
| register_cond string nat int
| init_cond nat nat
| destroy_cond nat
| start_cond_wait nat nat PSI_cond_operation string int
| end_cond_wait nat int
| signal_cond nat
| broadcast_cond nat
| register_thread string nat int
| get_thread
| set_thread_id nat nat
| set_thread_THD nat nat

fun thread_phase :: "psi_thread_call \<Rightarrow> nat \<Rightarrow> phase" where
  "thread_phase (start_mutex_wait psi oper src_file src_line) a = Opens a"
| "thread_phase (start_rwlock_rdwait psi oper src_file src_line) a = Opens a"
| "thread_phase (start_rwlock_wrwait psi oper src_file src_line) a = Opens a"
| "thread_phase (start_cond_wait psi mutex oper src_file src_line) a = Opens a"
| "thread_phase (end_mutex_wait l rc) a = Closes l"
| "thread_phase (end_rwlock_rdwait l rc) a = Closes l"
| "thread_phase (end_rwlock_wrwait l rc) a = Closes l"
| "thread_phase (end_cond_wait l rc) a = Closes l"
| "thread_phase _ a = Neutral"

text \<open>\<open>hook\<close> is the \<open>m_psi\<close> of the object at an address.\<close>

record 'w thread_machine = "('w, psi_thread_call) machine" +
  hook :: "nat \<Rightarrow> nat"

type_synonym ('w, 'a) thread_prog = "('w thread_machine, 'a) state"

definition hook_of :: "nat \<Rightarrow> ('w, nat) thread_prog" where
  "hook_of that = State (\<lambda>m. (hook m that, m))"

definition set_hook :: "nat \<Rightarrow> nat \<Rightarrow> ('w, unit) thread_prog" where
  "set_hook that v = State (\<lambda>m. ((), m\<lparr>hook := (hook m)(that := v)\<rparr>))"

section \<open>Mutexes\<close>

definition inline_mysql_mutex_register :: "psi_thread_call psi \<Rightarrow> string \<Rightarrow> nat \<Rightarrow> int
    \<Rightarrow> ('w, unit) thread_prog" where
  "inline_mysql_mutex_register p category info n = whenever (have_psi p) (PSI_NOTE (register_mutex category info n))"

definition inline_mysql_mutex_init :: "psi_thread_call psi \<Rightarrow> 'w thread_sys \<Rightarrow> nat \<Rightarrow> nat \<Rightarrow> nat
    \<Rightarrow> ('w, int) thread_prog" where
  "inline_mysql_mutex_init p os key that attr =
     do {
       psi \<leftarrow> (if have_psi p then PSI_CALL p (init_mutex key that) else return 0);
       set_hook that psi;
       sys ''my_mutex_init'' (my_mutex_init os that attr)
     }"

definition inline_mysql_mutex_destroy :: "psi_thread_call psi \<Rightarrow> 'w thread_sys \<Rightarrow> nat
    \<Rightarrow> ('w, int) thread_prog" where
  "inline_mysql_mutex_destroy p os that =
     do {
       psi \<leftarrow> hook_of that;
       whenever (have_psi p \<and> psi \<noteq> 0) (do { PSI_NOTE (destroy_mutex psi); set_hook that 0 });
       sys ''my_mutex_destroy'' (my_mutex_destroy os that)
     }"

definition inline_mysql_mutex_lock :: "psi_thread_call psi \<Rightarrow> 'w thread_sys \<Rightarrow> nat \<Rightarrow> string \<Rightarrow> int
    \<Rightarrow> ('w, int) thread_prog" where
  "inline_mysql_mutex_lock p os that src_file src_line =
     do {
       psi \<leftarrow> hook_of that;
       if have_psi p \<and> psi \<noteq> 0
       then do {
         locker \<leftarrow> PSI_CALL p (start_mutex_wait psi PSI_MUTEX_LOCK src_file src_line);
         result \<leftarrow> sys ''my_mutex_lock'' (my_mutex_lock os that);
         whenever (locker \<noteq> 0) (PSI_NOTE (end_mutex_wait locker result));
         return result
       }
       else sys ''my_mutex_lock'' (my_mutex_lock os that)
     }"

definition inline_mysql_mutex_trylock :: "psi_thread_call psi \<Rightarrow> 'w thread_sys \<Rightarrow> nat \<Rightarrow> string \<Rightarrow> int
    \<Rightarrow> ('w, int) thread_prog" where
  "inline_mysql_mutex_trylock p os that src_file src_line =
     do {
       psi \<leftarrow> hook_of that;
       if have_psi p \<and> psi \<noteq> 0
       then do {
         locker \<leftarrow> PSI_CALL p (start_mutex_wait psi PSI_MUTEX_TRYLOCK src_file src_line);
         result \<leftarrow> sys ''my_mutex_trylock'' (my_mutex_trylock os that);
         whenever (locker \<noteq> 0) (PSI_NOTE (end_mutex_wait locker result));
         return result
       }
       else sys ''my_mutex_trylock'' (my_mutex_trylock os that)
     }"

definition inline_mysql_mutex_unlock :: "psi_thread_call psi \<Rightarrow> 'w thread_sys \<Rightarrow> nat
    \<Rightarrow> ('w, int) thread_prog" where
  "inline_mysql_mutex_unlock p os that =
     do {
       psi \<leftarrow> hook_of that;
       whenever (have_psi p \<and> psi \<noteq> 0) (PSI_NOTE (unlock_mutex psi));
       sys ''my_mutex_unlock'' (my_mutex_unlock os that)
     }"

section \<open>Read-write locks\<close>

definition inline_mysql_rwlock_register :: "psi_thread_call psi \<Rightarrow> string \<Rightarrow> nat \<Rightarrow> int
    \<Rightarrow> ('w, unit) thread_prog" where
  "inline_mysql_rwlock_register p category info n = whenever (have_psi p) (PSI_NOTE (register_rwlock category info n))"

definition inline_mysql_rwlock_init :: "psi_thread_call psi \<Rightarrow> 'w thread_sys \<Rightarrow> nat \<Rightarrow> nat
    \<Rightarrow> ('w, int) thread_prog" where
  "inline_mysql_rwlock_init p os key that =
     do {
       psi \<leftarrow> (if have_psi p then PSI_CALL p (init_rwlock key that) else return 0);
       set_hook that psi;
       sys ''native_rw_init'' (native_rw_init os that)
     }"

definition inline_mysql_rwlock_destroy :: "psi_thread_call psi \<Rightarrow> 'w thread_sys \<Rightarrow> nat
    \<Rightarrow> ('w, int) thread_prog" where
  "inline_mysql_rwlock_destroy p os that =
     do {
       psi \<leftarrow> hook_of that;
       whenever (have_psi p \<and> psi \<noteq> 0) (do { PSI_NOTE (destroy_rwlock psi); set_hook that 0 });
       sys ''native_rw_destroy'' (native_rw_destroy os that)
     }"

definition inline_mysql_rwlock_rdlock :: "psi_thread_call psi \<Rightarrow> 'w thread_sys \<Rightarrow> nat \<Rightarrow> string \<Rightarrow> int
    \<Rightarrow> ('w, int) thread_prog" where
  "inline_mysql_rwlock_rdlock p os that src_file src_line =
     do {
       psi \<leftarrow> hook_of that;
       if have_psi p \<and> psi \<noteq> 0
       then do {
         locker \<leftarrow> PSI_CALL p (start_rwlock_rdwait psi PSI_RWLOCK_READLOCK src_file src_line);
         result \<leftarrow> sys ''native_rw_rdlock'' (native_rw_rdlock os that);
         whenever (locker \<noteq> 0) (PSI_NOTE (end_rwlock_rdwait locker result));
         return result
       }
       else sys ''native_rw_rdlock'' (native_rw_rdlock os that)
     }"

definition inline_mysql_rwlock_wrlock :: "psi_thread_call psi \<Rightarrow> 'w thread_sys \<Rightarrow> nat \<Rightarrow> string \<Rightarrow> int
    \<Rightarrow> ('w, int) thread_prog" where
  "inline_mysql_rwlock_wrlock p os that src_file src_line =
     do {
       psi \<leftarrow> hook_of that;
       if have_psi p \<and> psi \<noteq> 0
       then do {
         locker \<leftarrow> PSI_CALL p (start_rwlock_wrwait psi PSI_RWLOCK_WRITELOCK src_file src_line);
         result \<leftarrow> sys ''native_rw_wrlock'' (native_rw_wrlock os that);
         whenever (locker \<noteq> 0) (PSI_NOTE (end_rwlock_wrwait locker result));
         return result
       }
       else sys ''native_rw_wrlock'' (native_rw_wrlock os that)
     }"

definition inline_mysql_rwlock_tryrdlock :: "psi_thread_call psi \<Rightarrow> 'w thread_sys \<Rightarrow> nat \<Rightarrow> string \<Rightarrow> int
    \<Rightarrow> ('w, int) thread_prog" where
  "inline_mysql_rwlock_tryrdlock p os that src_file src_line =
     do {
       psi \<leftarrow> hook_of that;
       if have_psi p \<and> psi \<noteq> 0
       then do {
         locker \<leftarrow> PSI_CALL p (start_rwlock_rdwait psi PSI_RWLOCK_TRYREADLOCK src_file src_line);
         result \<leftarrow> sys ''native_rw_tryrdlock'' (native_rw_tryrdlock os that);
         whenever (locker \<noteq> 0) (PSI_NOTE (end_rwlock_rdwait locker result));
         return result
       }
       else sys ''native_rw_tryrdlock'' (native_rw_tryrdlock os that)
     }"

definition inline_mysql_rwlock_trywrlock :: "psi_thread_call psi \<Rightarrow> 'w thread_sys \<Rightarrow> nat \<Rightarrow> string \<Rightarrow> int
    \<Rightarrow> ('w, int) thread_prog" where
  "inline_mysql_rwlock_trywrlock p os that src_file src_line =
     do {
       psi \<leftarrow> hook_of that;
       if have_psi p \<and> psi \<noteq> 0
       then do {
         locker \<leftarrow> PSI_CALL p (start_rwlock_wrwait psi PSI_RWLOCK_TRYWRITELOCK src_file src_line);
         result \<leftarrow> sys ''native_rw_trywrlock'' (native_rw_trywrlock os that);
         whenever (locker \<noteq> 0) (PSI_NOTE (end_rwlock_wrwait locker result));
         return result
       }
       else sys ''native_rw_trywrlock'' (native_rw_trywrlock os that)
     }"

definition inline_mysql_rwlock_unlock :: "psi_thread_call psi \<Rightarrow> 'w thread_sys \<Rightarrow> nat
    \<Rightarrow> ('w, int) thread_prog" where
  "inline_mysql_rwlock_unlock p os that =
     do {
       psi \<leftarrow> hook_of that;
       whenever (have_psi p \<and> psi \<noteq> 0) (PSI_NOTE (unlock_rwlock psi));
       sys ''native_rw_unlock'' (native_rw_unlock os that)
     }"

definition inline_mysql_prlock_init :: "psi_thread_call psi \<Rightarrow> 'w thread_sys \<Rightarrow> nat \<Rightarrow> nat
    \<Rightarrow> ('w, int) thread_prog" where
  "inline_mysql_prlock_init p os key that =
     do {
       psi \<leftarrow> (if have_psi p then PSI_CALL p (init_rwlock key that) else return 0);
       set_hook that psi;
       sys ''rw_pr_init'' (rw_pr_init os that)
     }"

definition inline_mysql_prlock_destroy :: "psi_thread_call psi \<Rightarrow> 'w thread_sys \<Rightarrow> nat
    \<Rightarrow> ('w, int) thread_prog" where
  "inline_mysql_prlock_destroy p os that =
     do {
       psi \<leftarrow> hook_of that;
       whenever (have_psi p \<and> psi \<noteq> 0) (do { PSI_NOTE (destroy_rwlock psi); set_hook that 0 });
       sys ''rw_pr_destroy'' (rw_pr_destroy os that)
     }"

definition inline_mysql_prlock_rdlock :: "psi_thread_call psi \<Rightarrow> 'w thread_sys \<Rightarrow> nat \<Rightarrow> string \<Rightarrow> int
    \<Rightarrow> ('w, int) thread_prog" where
  "inline_mysql_prlock_rdlock p os that src_file src_line =
     do {
       psi \<leftarrow> hook_of that;
       if have_psi p \<and> psi \<noteq> 0
       then do {
         locker \<leftarrow> PSI_CALL p (start_rwlock_rdwait psi PSI_RWLOCK_READLOCK src_file src_line);
         result \<leftarrow> sys ''rw_pr_rdlock'' (rw_pr_rdlock os that);
         whenever (locker \<noteq> 0) (PSI_NOTE (end_rwlock_rdwait locker result));
         return result
       }
       else sys ''rw_pr_rdlock'' (rw_pr_rdlock os that)
     }"

definition inline_mysql_prlock_wrlock :: "psi_thread_call psi \<Rightarrow> 'w thread_sys \<Rightarrow> nat \<Rightarrow> string \<Rightarrow> int
    \<Rightarrow> ('w, int) thread_prog" where
  "inline_mysql_prlock_wrlock p os that src_file src_line =
     do {
       psi \<leftarrow> hook_of that;
       if have_psi p \<and> psi \<noteq> 0
       then do {
         locker \<leftarrow> PSI_CALL p (start_rwlock_wrwait psi PSI_RWLOCK_WRITELOCK src_file src_line);
         result \<leftarrow> sys ''rw_pr_wrlock'' (rw_pr_wrlock os that);
         whenever (locker \<noteq> 0) (PSI_NOTE (end_rwlock_wrwait locker result));
         return result
       }
       else sys ''rw_pr_wrlock'' (rw_pr_wrlock os that)
     }"

definition inline_mysql_prlock_unlock :: "psi_thread_call psi \<Rightarrow> 'w thread_sys \<Rightarrow> nat
    \<Rightarrow> ('w, int) thread_prog" where
  "inline_mysql_prlock_unlock p os that =
     do {
       psi \<leftarrow> hook_of that;
       whenever (have_psi p \<and> psi \<noteq> 0) (PSI_NOTE (unlock_rwlock psi));
       sys ''rw_pr_unlock'' (rw_pr_unlock os that)
     }"

section \<open>Conditions\<close>

definition inline_mysql_cond_register :: "psi_thread_call psi \<Rightarrow> string \<Rightarrow> nat \<Rightarrow> int
    \<Rightarrow> ('w, unit) thread_prog" where
  "inline_mysql_cond_register p category info n = whenever (have_psi p) (PSI_NOTE (register_cond category info n))"

definition inline_mysql_cond_init :: "psi_thread_call psi \<Rightarrow> 'w thread_sys \<Rightarrow> nat \<Rightarrow> nat
    \<Rightarrow> ('w, int) thread_prog" where
  "inline_mysql_cond_init p os key that =
     do {
       psi \<leftarrow> (if have_psi p then PSI_CALL p (init_cond key that) else return 0);
       set_hook that psi;
       sys ''native_cond_init'' (native_cond_init os that)
     }"

definition inline_mysql_cond_destroy :: "psi_thread_call psi \<Rightarrow> 'w thread_sys \<Rightarrow> nat
    \<Rightarrow> ('w, int) thread_prog" where
  "inline_mysql_cond_destroy p os that =
     do {
       psi \<leftarrow> hook_of that;
       whenever (have_psi p \<and> psi \<noteq> 0) (do { PSI_NOTE (destroy_cond psi); set_hook that 0 });
       sys ''native_cond_destroy'' (native_cond_destroy os that)
     }"

definition inline_mysql_cond_wait :: "psi_thread_call psi \<Rightarrow> 'w thread_sys \<Rightarrow> nat \<Rightarrow> nat
    \<Rightarrow> string \<Rightarrow> int \<Rightarrow> ('w, int) thread_prog" where
  "inline_mysql_cond_wait p os that mutex src_file src_line =
     do {
       psi \<leftarrow> hook_of that;
       if have_psi p \<and> psi \<noteq> 0
       then do {
         mutex_psi \<leftarrow> hook_of mutex;
         locker \<leftarrow> PSI_CALL p (start_cond_wait psi mutex_psi PSI_COND_WAIT src_file src_line);
         result \<leftarrow> sys ''my_cond_wait'' (my_cond_wait os that mutex);
         whenever (locker \<noteq> 0) (PSI_NOTE (end_cond_wait locker result));
         return result
       }
       else sys ''my_cond_wait'' (my_cond_wait os that mutex)
     }"

definition inline_mysql_cond_timedwait :: "psi_thread_call psi \<Rightarrow> 'w thread_sys \<Rightarrow> nat \<Rightarrow> nat \<Rightarrow> nat
    \<Rightarrow> string \<Rightarrow> int \<Rightarrow> ('w, int) thread_prog" where
  "inline_mysql_cond_timedwait p os that mutex abstime src_file src_line =
     do {
       psi \<leftarrow> hook_of that;
       if have_psi p \<and> psi \<noteq> 0
       then do {
         mutex_psi \<leftarrow> hook_of mutex;
         locker \<leftarrow> PSI_CALL p (start_cond_wait psi mutex_psi PSI_COND_TIMEDWAIT src_file src_line);
         result \<leftarrow> sys ''my_cond_timedwait'' (my_cond_timedwait os that mutex abstime);
         whenever (locker \<noteq> 0) (PSI_NOTE (end_cond_wait locker result));
         return result
       }
       else sys ''my_cond_timedwait'' (my_cond_timedwait os that mutex abstime)
     }"

definition inline_mysql_cond_signal :: "psi_thread_call psi \<Rightarrow> 'w thread_sys \<Rightarrow> nat
    \<Rightarrow> ('w, int) thread_prog" where
  "inline_mysql_cond_signal p os that =
     do {
       psi \<leftarrow> hook_of that;
       whenever (have_psi p \<and> psi \<noteq> 0) (PSI_NOTE (signal_cond psi));
       sys ''native_cond_signal'' (native_cond_signal os that)
     }"

definition inline_mysql_cond_broadcast :: "psi_thread_call psi \<Rightarrow> 'w thread_sys \<Rightarrow> nat
    \<Rightarrow> ('w, int) thread_prog" where
  "inline_mysql_cond_broadcast p os that =
     do {
       psi \<leftarrow> hook_of that;
       whenever (have_psi p \<and> psi \<noteq> 0) (PSI_NOTE (broadcast_cond psi));
       sys ''native_cond_broadcast'' (native_cond_broadcast os that)
     }"

section \<open>Threads\<close>

text \<open>Only the instrumented build has these; there the performance schema itself starts the thread.\<close>

definition inline_mysql_thread_register :: "psi_thread_call psi \<Rightarrow> string \<Rightarrow> nat \<Rightarrow> int
    \<Rightarrow> ('w, unit) thread_prog" where
  "inline_mysql_thread_register p category info n = whenever (have_psi p) (PSI_NOTE (register_thread category info n))"

definition inline_mysql_thread_create :: "'w thread_sys \<Rightarrow> nat \<Rightarrow> nat \<Rightarrow> nat \<Rightarrow> nat \<Rightarrow> nat
    \<Rightarrow> ('w, int) thread_prog" where
  "inline_mysql_thread_create os key thread attr start_routine arg =
     sys ''spawn_thread'' (psi_spawn_thread os key thread attr start_routine arg)"

definition inline_mysql_thread_set_psi_id :: "psi_thread_call psi \<Rightarrow> nat
    \<Rightarrow> ('w, unit) thread_prog" where
  "inline_mysql_thread_set_psi_id p tid =
     do { psi \<leftarrow> PSI_CALL p get_thread; PSI_NOTE (set_thread_id psi tid) }"

definition inline_mysql_thread_set_psi_THD :: "psi_thread_call psi \<Rightarrow> nat
    \<Rightarrow> ('w, unit) thread_prog" where
  "inline_mysql_thread_set_psi_THD p thd =
     do { psi \<leftarrow> PSI_CALL p get_thread; PSI_NOTE (set_thread_THD psi thd) }"

section \<open>Programs over the calls\<close>

text \<open>A request for one wrapper, by the kind of object it works on.\<close>

datatype mutex_request =
  Mutex_init nat nat nat
| Mutex_destroy nat
| Mutex_lock nat
| Mutex_trylock nat
| Mutex_unlock nat

datatype rwlock_request =
  Rwlock_init nat nat
| Rwlock_destroy nat
| Rwlock_rdlock nat
| Rwlock_wrlock nat
| Rwlock_tryrdlock nat
| Rwlock_trywrlock nat
| Rwlock_unlock nat

datatype prlock_request =
  Prlock_init nat nat
| Prlock_destroy nat
| Prlock_rdlock nat
| Prlock_wrlock nat
| Prlock_unlock nat

datatype cond_request =
  Cond_init nat nat
| Cond_destroy nat
| Cond_wait nat nat
| Cond_timedwait nat nat nat
| Cond_signal nat
| Cond_broadcast nat

datatype thread_request =
  Mutex_req mutex_request | Rwlock_req rwlock_request | Prlock_req prlock_request | Cond_req cond_request

fun mutex_call :: "psi_thread_call psi \<Rightarrow> 'w thread_sys \<Rightarrow> string \<Rightarrow> int \<Rightarrow> mutex_request \<Rightarrow> ('w, int) thread_prog" where
  "mutex_call p os f l (Mutex_init key that attr) = inline_mysql_mutex_init p os key that attr"
| "mutex_call p os f l (Mutex_destroy that) = inline_mysql_mutex_destroy p os that"
| "mutex_call p os f l (Mutex_lock that) = inline_mysql_mutex_lock p os that f l"
| "mutex_call p os f l (Mutex_trylock that) = inline_mysql_mutex_trylock p os that f l"
| "mutex_call p os f l (Mutex_unlock that) = inline_mysql_mutex_unlock p os that"

fun raw_mutex_call :: "'w thread_sys \<Rightarrow> mutex_request \<Rightarrow> 'w \<Rightarrow> int \<times> 'w" where
  "raw_mutex_call os (Mutex_init key that attr) = my_mutex_init os that attr"
| "raw_mutex_call os (Mutex_destroy that) = my_mutex_destroy os that"
| "raw_mutex_call os (Mutex_lock that) = my_mutex_lock os that"
| "raw_mutex_call os (Mutex_trylock that) = my_mutex_trylock os that"
| "raw_mutex_call os (Mutex_unlock that) = my_mutex_unlock os that"

fun rwlock_call :: "psi_thread_call psi \<Rightarrow> 'w thread_sys \<Rightarrow> string \<Rightarrow> int \<Rightarrow> rwlock_request \<Rightarrow> ('w, int) thread_prog" where
  "rwlock_call p os f l (Rwlock_init key that) = inline_mysql_rwlock_init p os key that"
| "rwlock_call p os f l (Rwlock_destroy that) = inline_mysql_rwlock_destroy p os that"
| "rwlock_call p os f l (Rwlock_rdlock that) = inline_mysql_rwlock_rdlock p os that f l"
| "rwlock_call p os f l (Rwlock_wrlock that) = inline_mysql_rwlock_wrlock p os that f l"
| "rwlock_call p os f l (Rwlock_tryrdlock that) = inline_mysql_rwlock_tryrdlock p os that f l"
| "rwlock_call p os f l (Rwlock_trywrlock that) = inline_mysql_rwlock_trywrlock p os that f l"
| "rwlock_call p os f l (Rwlock_unlock that) = inline_mysql_rwlock_unlock p os that"

fun raw_rwlock_call :: "'w thread_sys \<Rightarrow> rwlock_request \<Rightarrow> 'w \<Rightarrow> int \<times> 'w" where
  "raw_rwlock_call os (Rwlock_init key that) = native_rw_init os that"
| "raw_rwlock_call os (Rwlock_destroy that) = native_rw_destroy os that"
| "raw_rwlock_call os (Rwlock_rdlock that) = native_rw_rdlock os that"
| "raw_rwlock_call os (Rwlock_wrlock that) = native_rw_wrlock os that"
| "raw_rwlock_call os (Rwlock_tryrdlock that) = native_rw_tryrdlock os that"
| "raw_rwlock_call os (Rwlock_trywrlock that) = native_rw_trywrlock os that"
| "raw_rwlock_call os (Rwlock_unlock that) = native_rw_unlock os that"

fun prlock_call :: "psi_thread_call psi \<Rightarrow> 'w thread_sys \<Rightarrow> string \<Rightarrow> int \<Rightarrow> prlock_request \<Rightarrow> ('w, int) thread_prog" where
  "prlock_call p os f l (Prlock_init key that) = inline_mysql_prlock_init p os key that"
| "prlock_call p os f l (Prlock_destroy that) = inline_mysql_prlock_destroy p os that"
| "prlock_call p os f l (Prlock_rdlock that) = inline_mysql_prlock_rdlock p os that f l"
| "prlock_call p os f l (Prlock_wrlock that) = inline_mysql_prlock_wrlock p os that f l"
| "prlock_call p os f l (Prlock_unlock that) = inline_mysql_prlock_unlock p os that"

fun raw_prlock_call :: "'w thread_sys \<Rightarrow> prlock_request \<Rightarrow> 'w \<Rightarrow> int \<times> 'w" where
  "raw_prlock_call os (Prlock_init key that) = rw_pr_init os that"
| "raw_prlock_call os (Prlock_destroy that) = rw_pr_destroy os that"
| "raw_prlock_call os (Prlock_rdlock that) = rw_pr_rdlock os that"
| "raw_prlock_call os (Prlock_wrlock that) = rw_pr_wrlock os that"
| "raw_prlock_call os (Prlock_unlock that) = rw_pr_unlock os that"

fun cond_call :: "psi_thread_call psi \<Rightarrow> 'w thread_sys \<Rightarrow> string \<Rightarrow> int \<Rightarrow> cond_request \<Rightarrow> ('w, int) thread_prog" where
  "cond_call p os f l (Cond_init key that) = inline_mysql_cond_init p os key that"
| "cond_call p os f l (Cond_destroy that) = inline_mysql_cond_destroy p os that"
| "cond_call p os f l (Cond_wait that mutex) = inline_mysql_cond_wait p os that mutex f l"
| "cond_call p os f l (Cond_timedwait that mutex abstime) = inline_mysql_cond_timedwait p os that mutex abstime f l"
| "cond_call p os f l (Cond_signal that) = inline_mysql_cond_signal p os that"
| "cond_call p os f l (Cond_broadcast that) = inline_mysql_cond_broadcast p os that"

fun raw_cond_call :: "'w thread_sys \<Rightarrow> cond_request \<Rightarrow> 'w \<Rightarrow> int \<times> 'w" where
  "raw_cond_call os (Cond_init key that) = native_cond_init os that"
| "raw_cond_call os (Cond_destroy that) = native_cond_destroy os that"
| "raw_cond_call os (Cond_wait that mutex) = my_cond_wait os that mutex"
| "raw_cond_call os (Cond_timedwait that mutex abstime) = my_cond_timedwait os that mutex abstime"
| "raw_cond_call os (Cond_signal that) = native_cond_signal os that"
| "raw_cond_call os (Cond_broadcast that) = native_cond_broadcast os that"

fun mysql_thread_call :: "psi_thread_call psi \<Rightarrow> 'w thread_sys \<Rightarrow> string \<Rightarrow> int \<Rightarrow> thread_request
    \<Rightarrow> ('w, int) thread_prog" where
  "mysql_thread_call p os f l (Mutex_req q) = mutex_call p os f l q"
| "mysql_thread_call p os f l (Rwlock_req q) = rwlock_call p os f l q"
| "mysql_thread_call p os f l (Prlock_req q) = prlock_call p os f l q"
| "mysql_thread_call p os f l (Cond_req q) = cond_call p os f l q"

fun raw_thread_call :: "'w thread_sys \<Rightarrow> thread_request \<Rightarrow> ('w, int) state" where
  "raw_thread_call os (Mutex_req q) = State (raw_mutex_call os q)"
| "raw_thread_call os (Rwlock_req q) = State (raw_rwlock_call os q)"
| "raw_thread_call os (Prlock_req q) = State (raw_prlock_call os q)"
| "raw_thread_call os (Cond_req q) = State (raw_cond_call os q)"

section \<open>Transparency and waits of each wrapper\<close>

lemmas mutex_defs =
  inline_mysql_mutex_init_def inline_mysql_mutex_destroy_def inline_mysql_mutex_lock_def
  inline_mysql_mutex_trylock_def inline_mysql_mutex_unlock_def

lemmas rwlock_defs =
  inline_mysql_rwlock_init_def inline_mysql_rwlock_destroy_def inline_mysql_rwlock_rdlock_def
  inline_mysql_rwlock_wrlock_def inline_mysql_rwlock_tryrdlock_def
  inline_mysql_rwlock_trywrlock_def inline_mysql_rwlock_unlock_def

lemmas prlock_defs =
  inline_mysql_prlock_init_def inline_mysql_prlock_destroy_def inline_mysql_prlock_rdlock_def
  inline_mysql_prlock_wrlock_def inline_mysql_prlock_unlock_def

lemmas cond_defs =
  inline_mysql_cond_init_def inline_mysql_cond_destroy_def inline_mysql_cond_wait_def
  inline_mysql_cond_timedwait_def inline_mysql_cond_signal_def inline_mysql_cond_broadcast_def

lemmas hook_defs = hook_of_def set_hook_def

lemma thread_call_transparent:
  "transparent world (mysql_thread_call p os f l q) (run_state (raw_thread_call os q))"
proof (cases q)
  case (Mutex_req r)
  then show ?thesis by (cases r) (simp_all add: transparent_def mutex_defs hook_defs prod_eq_iff)
next
  case (Rwlock_req r)
  then show ?thesis by (cases r) (simp_all add: transparent_def rwlock_defs hook_defs prod_eq_iff)
next
  case (Prlock_req r)
  then show ?thesis by (cases r) (simp_all add: transparent_def prlock_defs hook_defs prod_eq_iff)
next
  case (Cond_req r)
  then show ?thesis by (cases r) (simp_all add: transparent_def cond_defs hook_defs prod_eq_iff)
qed

interpretation mutex_wait: granting_interface thread_phase end_mutex_wait
    "\<lambda>(psi, oper, src_file, src_line). start_mutex_wait psi oper src_file src_line"
  by unfold_locales auto

interpretation rd_wait: granting_interface thread_phase end_rwlock_rdwait
    "\<lambda>(psi, oper, src_file, src_line). start_rwlock_rdwait psi oper src_file src_line"
  by unfold_locales auto

interpretation wr_wait: granting_interface thread_phase end_rwlock_wrwait
    "\<lambda>(psi, oper, src_file, src_line). start_rwlock_wrwait psi oper src_file src_line"
  by unfold_locales auto

interpretation cond_wait: granting_interface thread_phase end_cond_wait
    "\<lambda>(psi, mutex, oper, src_file, src_line). start_cond_wait psi mutex oper src_file src_line"
  by unfold_locales auto

lemmas thread_blocks =
  mutex_wait.plain_block [where x = "(psi, oper, src_file, src_line)" for psi oper src_file src_line,
    simplified prod.case]
  rd_wait.plain_block [where x = "(psi, oper, src_file, src_line)" for psi oper src_file src_line,
    simplified prod.case]
  wr_wait.plain_block [where x = "(psi, oper, src_file, src_line)" for psi oper src_file src_line,
    simplified prod.case]
  cond_wait.plain_block [where x = "(psi, mutex, oper, src_file, src_line)" for psi mutex oper src_file src_line,
    simplified prod.case]

lemma waits_hook: "waits ph s (hook_of a) (\<lambda>_. s)" "waits ph s (set_hook a v) (\<lambda>_. s)"
  by (simp_all add: waits_def hook_defs)

lemmas thread_wait_rules = waits_if thread_blocks waits_bind [OF waits_hook(1)] waits_bind [OF waits_hook(2)]
  waits_hook(2) waits_sys waits_sys_inside waits_return mutex_wait.neutral mutex_wait.neutral_call

lemma thread_call_waits: "waits thread_phase Idle (mysql_thread_call p os f l q) (\<lambda>_. Idle)"
proof (cases q)
  case (Mutex_req r)
  then show ?thesis
    by (cases r; simp only: mysql_thread_call.simps mutex_call.simps mutex_defs;
        intro thread_wait_rules waits_bind [where t = "\<lambda>_. Idle"]; simp)
next
  case (Rwlock_req r)
  then show ?thesis
    by (cases r; simp only: mysql_thread_call.simps rwlock_call.simps rwlock_defs;
        intro thread_wait_rules waits_bind [where t = "\<lambda>_. Idle"]; simp)
next
  case (Prlock_req r)
  then show ?thesis
    by (cases r; simp only: mysql_thread_call.simps prlock_call.simps prlock_defs;
        intro thread_wait_rules waits_bind [where t = "\<lambda>_. Idle"]; simp)
next
  case (Cond_req r)
  then show ?thesis
    by (cases r; simp only: mysql_thread_call.simps cond_call.simps cond_defs;
        intro thread_wait_rules waits_bind [where t = "\<lambda>_. Idle"]; simp)
qed

lemma thread_call_uninstrumented:
  assumes "\<not> have_psi p"
  shows "only_sys (mysql_thread_call p os f l q)"
proof -
  have hooks: "only_sys (hook_of a)" "only_sys (set_hook a v)" for a v
    by (auto simp: only_sys_def hook_defs intro: exI [of _ "[]"])
  show ?thesis
  proof (cases q)
    case (Mutex_req r)
    with assms show ?thesis by (cases r) (auto simp: mutex_defs intro!: only_sys_rules hooks)
  next
    case (Rwlock_req r)
    with assms show ?thesis by (cases r) (auto simp: rwlock_defs intro!: only_sys_rules hooks)
  next
    case (Prlock_req r)
    with assms show ?thesis by (cases r) (auto simp: prlock_defs intro!: only_sys_rules hooks)
  next
    case (Cond_req r)
    with assms show ?thesis by (cases r) (auto simp: cond_defs intro!: only_sys_rules hooks)
  qed
qed

section \<open>Destroyed objects\<close>

text \<open>The object a request works on, and the requests that begin and end its life.\<close>

fun target :: "thread_request \<Rightarrow> nat" where
  "target (Mutex_req (Mutex_init key that attr)) = that"
| "target (Mutex_req (Mutex_destroy that)) = that"
| "target (Mutex_req (Mutex_lock that)) = that"
| "target (Mutex_req (Mutex_trylock that)) = that"
| "target (Mutex_req (Mutex_unlock that)) = that"
| "target (Rwlock_req (Rwlock_init key that)) = that"
| "target (Rwlock_req (Rwlock_destroy that)) = that"
| "target (Rwlock_req (Rwlock_rdlock that)) = that"
| "target (Rwlock_req (Rwlock_wrlock that)) = that"
| "target (Rwlock_req (Rwlock_tryrdlock that)) = that"
| "target (Rwlock_req (Rwlock_trywrlock that)) = that"
| "target (Rwlock_req (Rwlock_unlock that)) = that"
| "target (Prlock_req (Prlock_init key that)) = that"
| "target (Prlock_req (Prlock_destroy that)) = that"
| "target (Prlock_req (Prlock_rdlock that)) = that"
| "target (Prlock_req (Prlock_wrlock that)) = that"
| "target (Prlock_req (Prlock_unlock that)) = that"
| "target (Cond_req (Cond_init key that)) = that"
| "target (Cond_req (Cond_destroy that)) = that"
| "target (Cond_req (Cond_wait that mutex)) = that"
| "target (Cond_req (Cond_timedwait that mutex abstime)) = that"
| "target (Cond_req (Cond_signal that)) = that"
| "target (Cond_req (Cond_broadcast that)) = that"

fun initialises :: "thread_request \<Rightarrow> bool" where
  "initialises (Mutex_req (Mutex_init key that attr)) = True"
| "initialises (Rwlock_req (Rwlock_init key that)) = True"
| "initialises (Prlock_req (Prlock_init key that)) = True"
| "initialises (Cond_req (Cond_init key that)) = True"
| "initialises _ = False"

fun destroys :: "thread_request \<Rightarrow> bool" where
  "destroys (Mutex_req (Mutex_destroy that)) = True"
| "destroys (Rwlock_req (Rwlock_destroy that)) = True"
| "destroys (Prlock_req (Prlock_destroy that)) = True"
| "destroys (Cond_req (Cond_destroy that)) = True"
| "destroys _ = False"

lemma destroys_clears:
  "destroys q \<Longrightarrow> have_psi p \<Longrightarrow> hook (snd (run_state (mysql_thread_call p os f l q) m)) (target q) = 0"
  by (cases q rule: target.cases) (simp_all add: mutex_defs rwlock_defs prlock_defs cond_defs hook_defs)

lemma unhooked_silent:
  assumes "hook m (target q) = 0" "\<not> initialises q"
  shows "\<exists>n. events (snd (run_state (mysql_thread_call p os f l q) m)) = events m @ [Sys n]
    \<and> hook (snd (run_state (mysql_thread_call p os f l q) m)) = hook m"
  using assms
  by (cases q rule: target.cases) (simp_all add: mutex_defs rwlock_defs prlock_defs cond_defs hook_defs)

section \<open>The properties of the locks\<close>

lemma thread_calls_transparent:
  "run_state (traverse_list (\<lambda>(f, l, q). raw_thread_call os q) qs) (world m) =
   map_prod id world (run_state (traverse_list (\<lambda>(f, l, q). mysql_thread_call p os f l q) qs) m)"
proof -
  have "transparent world (traverse_list (\<lambda>(f, l, q). mysql_thread_call p os f l q) qs)
    (run_state (traverse_list (\<lambda>(f, l, q). raw_thread_call os q) qs))"
    by (rule transparent_traverse) (auto intro: thread_call_transparent)
  then show ?thesis by (simp add: transparent_def)
qed

lemma thread_waits_bracketed:
  "\<exists>es. events (snd (run_state (traverse_list (\<lambda>(f, l, q). mysql_thread_call p os f l q) qs) m)) = events m @ es
     \<and> bracketed thread_phase es \<and> closed thread_phase es = granted thread_phase es"
proof -
  have "waits thread_phase Idle (traverse_list (\<lambda>(f, l, q). mysql_thread_call p os f l q) qs) (\<lambda>_. Idle)"
    by (rule waits_traverse) (auto intro: thread_call_waits)
  then show ?thesis using waits_bracketed bracketed_granted_closed by metis
qed

text \<open>C34: the instrumented locks are the pthread locks, and their waits are bracketed. A program
  that makes any sequence of calls on mutexes, read-write locks and conditions through the
  wrappers gets the results, and leaves the world, of the same pthread calls, whatever the
  performance schema answers and in both builds; and every locker granted is handed back
  exactly once, after the pthread call and before the next wait begins.\<close>

theorem thread_instrumentation:
  "run_state (traverse_list (\<lambda>(f, l, q). raw_thread_call os q) qs) (world m) =
     map_prod id world (run_state (traverse_list (\<lambda>(f, l, q). mysql_thread_call p os f l q) qs) m)
   \<and> (\<exists>es. events (snd (run_state (traverse_list (\<lambda>(f, l, q). mysql_thread_call p os f l q) qs) m)) = events m @ es
     \<and> bracketed thread_phase es \<and> closed thread_phase es = granted thread_phase es)"
  by (rule conjI [OF thread_calls_transparent thread_waits_bracketed])

text \<open>a destroyed object is silent. Once a mutex, lock or condition has been destroyed, no
  sequence of further calls on it, a second destruction included, reaches the performance
  schema until it is initialised again: only the pthread calls are made.\<close>

theorem destroyed_object_silent:
  assumes "have_psi p" and "destroys d" and "target d = a"
    and "\<forall>(f, l, q) \<in> set qs. target q = a \<and> \<not> initialises q"
    and "run_state (mysql_thread_call p os g k d) m = (r, m')"
  shows "\<exists>ns. events (snd (run_state (traverse_list (\<lambda>(f, l, q). mysql_thread_call p os f l q) qs) m'))
    = events m' @ map Sys ns \<and> length ns = length qs"
proof -
  have "hook m' a = 0" using destroys_clears [OF assms(2,1), of os g k m] assms(3,5) by simp
  then show ?thesis using assms(4)
  proof (induction qs arbitrary: m')
    case Nil
    then show ?case by simp
  next
    case (Cons e qs)
    obtain f l q where e: "e = (f, l, q)" by (cases e)
    obtain r' m1 where run: "run_state (mysql_thread_call p os f l q) m' = (r', m1)" by force
    obtain n where n: "events m1 = events m' @ [Sys n]" "hook m1 = hook m'"
      using unhooked_silent [of m' q p os f l] Cons.prems run by (auto simp: e)
    obtain rs m2 where rest:
      "run_state (traverse_list (\<lambda>(f, l, q). mysql_thread_call p os f l q) qs) m1 = (rs, m2)" by force
    obtain ns where "events m2 = events m1 @ map Sys ns" "length ns = length qs"
      using Cons.IH [of m1] Cons.prems n rest by auto
    then show ?case
      using run rest n by (intro exI [of _ "n # ns"]) (simp add: e)
  qed
qed

text \<open>Locks that always succeed, an event counter as performance schema, a mutex with a handle.\<close>

definition demo_locks :: "unit thread_sys" where
  "demo_locks = \<lparr>pthread_mutex_init = \<lambda>_ _ w. (0, w), pthread_mutex_lock = \<lambda>_ w. (0, w),
     pthread_mutex_trylock = \<lambda>_ w. (16, w), pthread_mutex_unlock = \<lambda>_ w. (0, w),
     pthread_mutex_destroy = \<lambda>_ w. (0, w), pthread_rwlock_init = \<lambda>_ _ w. (0, w),
     pthread_rwlock_destroy = \<lambda>_ w. (0, w), pthread_rwlock_rdlock = \<lambda>_ w. (0, w),
     pthread_rwlock_tryrdlock = \<lambda>_ w. (0, w), pthread_rwlock_wrlock = \<lambda>_ w. (0, w),
     pthread_rwlock_trywrlock = \<lambda>_ w. (0, w), pthread_rwlock_unlock = \<lambda>_ w. (0, w),
     rw_pr_init = \<lambda>_ w. (0, w), rw_pr_rdlock = \<lambda>_ w. (0, w), rw_pr_wrlock = \<lambda>_ w. (0, w),
     rw_pr_unlock = \<lambda>_ w. (0, w), rw_pr_destroy = \<lambda>_ w. (0, w), pthread_cond_init = \<lambda>_ _ w. (0, w),
     pthread_cond_destroy = \<lambda>_ w. (0, w), pthread_cond_wait = \<lambda>_ _ w. (0, w),
     pthread_cond_timedwait = \<lambda>_ _ _ w. (110, w), pthread_cond_signal = \<lambda>_ w. (0, w),
     pthread_cond_broadcast = \<lambda>_ w. (0, w), psi_spawn_thread = \<lambda>_ _ _ _ _ w. (0, w)\<rparr>"

definition demo_thread_psi :: "psi_thread_call psi" where
  "demo_thread_psi = \<lparr>have_psi = True, answer = \<lambda>es c. 1 + length es\<rparr>"

theorem destroyed_object_silent_witness:
  "\<exists>ns. events (snd (run_state (traverse_list
        (\<lambda>(f, l, q). mysql_thread_call demo_thread_psi demo_locks f l q)
        [(''a.c'', 2, Mutex_req (Mutex_lock 7)), (''a.c'', 3, Mutex_req (Mutex_destroy 7))])
      (snd (run_state (mysql_thread_call demo_thread_psi demo_locks ''a.c'' 1 (Mutex_req (Mutex_destroy 7)))
        \<lparr>world = (), events = [], hook = \<lambda>a. 5\<rparr>))))
    = [Psi (destroy_mutex 5) 0, Sys ''my_mutex_destroy''] @ map Sys ns \<and> length ns = 2"
proof -
  define m :: "unit thread_machine" where "m = \<lparr>world = (), events = [], hook = \<lambda>a. 5\<rparr>"
  obtain r m' where run: "run_state (mysql_thread_call demo_thread_psi demo_locks ''a.c'' 1
      (Mutex_req (Mutex_destroy 7))) m = (r, m')" by force
  then have "events m' = [Psi (destroy_mutex 5) 0, Sys ''my_mutex_destroy'']"
    by (auto simp: m_def mutex_defs hook_defs demo_thread_psi_def)
  then show ?thesis
    using destroyed_object_silent [where a = 7 and qs =
        "[(''a.c'', 2, Mutex_req (Mutex_lock 7)), (''a.c'', 3, Mutex_req (Mutex_destroy 7))]", OF _ _ _ _ run] run
    by (simp add: demo_thread_psi_def m_def [symmetric] numeral_2_eq_2)
qed

end
