(* ===== verification/Mysql_Owner.thy ===== *)
theory Mysql_Owner
  imports Mysql_Thread
begin

text \<open>
  Several threads that take and give back one mutex through \<open>inline_mysql_mutex_lock\<close>,
  \<open>inline_mysql_mutex_trylock\<close> and \<open>inline_mysql_mutex_unlock\<close> (mysql/psi/mysql_thread.h). The
  three wrappers are taken apart into their calls, in the order of the source and with every
  branch: the handle \<open>m_psi\<close> of the mutex may be NULL, and \<open>start_mutex_wait\<close> may grant a
  locker or answer NULL. The calls of the threads interleave in any way. The performance
  schema learns of the owner only from the calls it gets: the question is whether what it can
  conclude from them is true at every moment. The pthread mutex gives itself to one thread at
  a time. Threads that give the mutex up inside a condition wait, and threads that lock again
  a mutex they hold, are not part of this relation.
\<close>

section \<open>Steps\<close>

text \<open>
  Where a thread is: outside, between \<open>start_mutex_wait\<close> and the pthread call, between the
  pthread call and \<open>end_mutex_wait\<close> with success or an error, inside, and between
  \<open>unlock_mutex\<close> and the pthread unlock. The number is \<open>locker\<close>, what \<open>start_mutex_wait\<close>
  answered, 0 being NULL; a thread inside has forgotten it, and it is kept there to say for
  whom the wait was granted.
\<close>

datatype mpc = Out | Started nat | Acquired nat | Failed nat int | Inside nat | Leaving

record owner_state =
  mpcs :: "nat \<Rightarrow> mpc"
  holder :: "nat option"
  told :: "(nat \<times> psi_thread_call) list"

definition owner_start :: owner_state where
  "owner_start = \<lparr>mpcs = \<lambda>i. Out, holder = None, told = []\<rparr>"

text \<open>\<open>psi\<close> is \<open>m_psi\<close>; \<open>tells b i c\<close> is \<open>if (b) PSI_MUTEX_CALL(c)\<close> made by thread \<open>i\<close>.\<close>

definition tells :: "bool \<Rightarrow> nat \<Rightarrow> psi_thread_call \<Rightarrow> (nat \<times> psi_thread_call) list" where
  "tells b i c = (if b then [(i, c)] else [])"

inductive owner_step :: "nat \<Rightarrow> owner_state \<Rightarrow> owner_state \<Rightarrow> bool" for psi where
  start_wait: "mpcs s i = Out \<Longrightarrow> psi \<noteq> 0 \<Longrightarrow> oper = PSI_MUTEX_LOCK \<or> oper = PSI_MUTEX_TRYLOCK \<Longrightarrow>
    owner_step psi s (s\<lparr>mpcs := (mpcs s)(i := Started locker), told := told s @ [(i, start_mutex_wait psi oper f l)]\<rparr>)"
| start_plain: "mpcs s i = Out \<Longrightarrow> psi = 0 \<Longrightarrow>
    owner_step psi s (s\<lparr>mpcs := (mpcs s)(i := Started 0)\<rparr>)"
| acquire: "mpcs s i = Started locker \<Longrightarrow> holder s = None \<Longrightarrow>
    owner_step psi s (s\<lparr>mpcs := (mpcs s)(i := Acquired locker), holder := Some i\<rparr>)"
| fail: "mpcs s i = Started locker \<Longrightarrow> rc \<noteq> 0 \<Longrightarrow>
    owner_step psi s (s\<lparr>mpcs := (mpcs s)(i := Failed locker rc)\<rparr>)"
| end_wait: "mpcs s i = Acquired locker \<Longrightarrow>
    owner_step psi s (s\<lparr>mpcs := (mpcs s)(i := Inside locker),
      told := told s @ tells (locker \<noteq> 0) i (end_mutex_wait locker 0)\<rparr>)"
| end_wait_failed: "mpcs s i = Failed locker rc \<Longrightarrow>
    owner_step psi s (s\<lparr>mpcs := (mpcs s)(i := Out),
      told := told s @ tells (locker \<noteq> 0) i (end_mutex_wait locker rc)\<rparr>)"
| unlock_told: "mpcs s i = Inside locker \<Longrightarrow>
    owner_step psi s (s\<lparr>mpcs := (mpcs s)(i := Leaving),
      told := told s @ tells (psi \<noteq> 0) i (unlock_mutex psi)\<rparr>)"
| unlock: "mpcs s i = Leaving \<Longrightarrow>
    owner_step psi s (s\<lparr>mpcs := (mpcs s)(i := Out), holder := None\<rparr>)"

inductive_simps owner_step_simps: "owner_step psi s t"

text \<open>The owner the calls tell of: who last ended a wait with success and has not unlocked since.\<close>

fun told_owner :: "(nat \<times> psi_thread_call) list \<Rightarrow> nat option \<Rightarrow> nat option" where
  "told_owner [] w = w"
| "told_owner ((i, end_mutex_wait locker rc) # es) w = told_owner es (if rc = 0 then Some i else w)"
| "told_owner ((i, unlock_mutex psi) # es) w = told_owner es None"
| "told_owner (_ # es) w = told_owner es w"

lemma told_owner_append: "told_owner (es @ fs) w = told_owner fs (told_owner es w)"
  by (induction es w rule: told_owner.induct) auto

lemma told_owner_tells:
  "told_owner (tells b i (end_mutex_wait locker rc)) w = (if b \<and> rc = 0 then Some i else w)"
  "told_owner (tells b i (unlock_mutex psi)) w = (if b then None else w)"
  by (simp_all add: tells_def)

section \<open>The invariant\<close>

text \<open>\<open>with_locker\<close> carries the locker of a wait from its start to the release.\<close>

fun holds :: "mpc \<Rightarrow> bool" where
  "holds (Acquired locker) = True"
| "holds (Inside locker) = True"
| "holds Leaving = True"
| "holds _ = False"

fun with_locker :: "mpc \<Rightarrow> nat" where
  "with_locker (Started locker) = locker"
| "with_locker (Acquired locker) = locker"
| "with_locker (Failed locker rc) = locker"
| "with_locker (Inside locker) = locker"
| "with_locker _ = 0"

fun told_inside :: "mpc \<Rightarrow> bool" where
  "told_inside (Inside locker) = (locker \<noteq> 0)"
| "told_inside _ = False"

fun sound_failure :: "mpc \<Rightarrow> bool" where
  "sound_failure (Failed locker rc) = (rc \<noteq> 0)"
| "sound_failure _ = True"

definition owner_inv :: "nat \<Rightarrow> owner_state \<Rightarrow> bool" where
  "owner_inv psi s \<longleftrightarrow>
     (\<forall>i. holds (mpcs s i) = (holder s = Some i))
   \<and> (\<forall>i. (told_owner (told s) None = Some i) = told_inside (mpcs s i))
   \<and> (\<forall>i. sound_failure (mpcs s i))
   \<and> (psi = 0 \<longrightarrow> told s = [] \<and> (\<forall>i. with_locker (mpcs s i) = 0))"

lemma owner_invI:
  "(\<And>i. holds (mpcs s i) = (holder s = Some i)) \<Longrightarrow>
   (\<And>i. (told_owner (told s) None = Some i) = told_inside (mpcs s i)) \<Longrightarrow>
   (\<And>i. sound_failure (mpcs s i)) \<Longrightarrow> (psi = 0 \<Longrightarrow> told s = []) \<Longrightarrow>
   (\<And>i. psi = 0 \<Longrightarrow> with_locker (mpcs s i) = 0) \<Longrightarrow> owner_inv psi s"
  by (simp add: owner_inv_def)

lemma owner_invD:
  "owner_inv psi s \<Longrightarrow> holds (mpcs s i) = (holder s = Some i)"
  "owner_inv psi s \<Longrightarrow> (told_owner (told s) None = Some i) = told_inside (mpcs s i)"
  "owner_inv psi s \<Longrightarrow> sound_failure (mpcs s i)"
  "owner_inv psi s \<Longrightarrow> psi = 0 \<Longrightarrow> told s = []"
  "owner_inv psi s \<Longrightarrow> psi = 0 \<Longrightarrow> with_locker (mpcs s i) = 0"
  by (simp_all add: owner_inv_def)

lemma owner_inv_start: "owner_inv psi owner_start"
  by (simp add: owner_inv_def owner_start_def)

text \<open>One thread moves; what the others have to do with the mutex does not change.\<close>

lemma owner_inv_move:
  assumes inv: "owner_inv psi s" and t: "mpcs t = (mpcs s)(i := c)" and "sound_failure c"
    and holder: "\<And>j. (holder t = Some j) = (if j = i then holds c else holder s = Some j)"
    and told: "\<And>j. (told_owner (told t) None = Some j) =
      (if j = i then told_inside c else told_owner (told s) None = Some j)"
    and "psi = 0 \<Longrightarrow> told t = told s" and "psi = 0 \<Longrightarrow> with_locker c = 0"
  shows "owner_inv psi t"
proof (rule owner_invI)
  fix j
  show "holds (mpcs t j) = (holder t = Some j)"
    using owner_invD(1) [OF inv, of j] by (simp add: t holder)
  show "(told_owner (told t) None = Some j) = told_inside (mpcs t j)"
    using owner_invD(2) [OF inv, of j] by (simp add: t told)
  show "sound_failure (mpcs t j)"
    using owner_invD(3) [OF inv, of j] assms(3) by (simp add: t)
  show "with_locker (mpcs t j) = 0" if "psi = 0"
    using owner_invD(5) [OF inv that, of j] assms(7) [OF that] by (simp add: t)
next
  show "told t = []" if "psi = 0" using owner_invD(4) [OF inv that] assms(6) [OF that] by simp
qed

lemma told_inside_holds: "told_inside c \<Longrightarrow> holds c"
  by (cases c) simp_all

lemma other_holder: "owner_inv psi s \<Longrightarrow> holds (mpcs s i) \<Longrightarrow> holder s = Some j \<Longrightarrow> j = i"
  by (simp add: owner_invD(1))

lemma other_told: "owner_inv psi s \<Longrightarrow> holds (mpcs s i) \<Longrightarrow> told_owner (told s) None = Some j \<Longrightarrow> j = i"
  using owner_invD(1,2) [of psi s j] other_holder told_inside_holds by simp

lemma own_holder: "owner_inv psi s \<Longrightarrow> \<not> holds (mpcs s i) \<Longrightarrow> holder s \<noteq> Some i"
  by (simp add: owner_invD(1))

lemma own_told: "owner_inv psi s \<Longrightarrow> \<not> told_inside (mpcs s i) \<Longrightarrow> told_owner (told s) None \<noteq> Some i"
  by (simp add: owner_invD(2))

lemmas owner_facts = told_owner_append told_owner_tells tells_def

lemma owner_inv_step:
  assumes "owner_step psi s t" and inv: "owner_inv psi s"
  shows "owner_inv psi t"
  using assms(1)
proof (cases rule: owner_step.cases)
  case (start_wait i oper f l locker)
  then show ?thesis
    using own_holder [OF inv, of i] own_told [OF inv, of i]
    by (intro owner_inv_move [OF inv, of t i "Started locker"]) (auto simp: owner_facts)
next
  case (start_plain i)
  then show ?thesis
    using own_holder [OF inv, of i] own_told [OF inv, of i]
    by (intro owner_inv_move [OF inv, of t i "Started 0"]) auto
next
  case (acquire i locker)
  then show ?thesis
    using own_told [OF inv, of i] owner_invD(5) [OF inv, of i]
    by (intro owner_inv_move [OF inv, of t i "Acquired locker"]) auto
next
  case (fail i locker rc)
  then show ?thesis
    using own_holder [OF inv, of i] own_told [OF inv, of i] owner_invD(5) [OF inv, of i]
    by (intro owner_inv_move [OF inv, of t i "Failed locker rc"]) auto
next
  case (end_wait i locker)
  then show ?thesis
    using owner_invD(1) [OF inv, of i] own_told [OF inv, of i] other_told [OF inv, of i]
      owner_invD(5) [OF inv, of i]
    by (intro owner_inv_move [OF inv, of t i "Inside locker"]) (auto simp: owner_facts)
next
  case (end_wait_failed i locker rc)
  then show ?thesis
    using own_holder [OF inv, of i] own_told [OF inv, of i] owner_invD(3,5) [OF inv, of i]
    by (intro owner_inv_move [OF inv, of t i Out]) (auto simp: owner_facts)
next
  case (unlock_told i locker)
  then show ?thesis
    using owner_invD(1) [OF inv, of i] other_told [OF inv, of i] owner_invD(2,5) [OF inv, of i]
    by (intro owner_inv_move [OF inv, of t i Leaving]) (auto simp: owner_facts)
next
  case (unlock i)
  then show ?thesis
    using other_holder [OF inv, of i] own_told [OF inv, of i]
    by (intro owner_inv_move [OF inv, of t i Out]) auto
qed

lemma owner_inv_reachable: "(owner_step psi)\<^sup>*\<^sup>* owner_start s \<Longrightarrow> owner_inv psi s"
  by (induction rule: rtranclp_induct) (auto intro: owner_inv_start owner_inv_step)

text \<open>
  The steps are those of the wrappers: a thread that runs alone through \<open>lock\<close>, \<open>trylock\<close> or
  \<open>unlock\<close> tells the performance schema the same calls, on each branch.
\<close>

definition psi_calls :: "psi_thread_call event list \<Rightarrow> psi_thread_call list" where
  "psi_calls es = List.map_filter (\<lambda>e. case e of Psi c a \<Rightarrow> Some c | Sys n \<Rightarrow> None) es"

lemma lock_tells:
  assumes "have_psi p" "\<And>es c. answer p es c = locker"
  shows "\<exists>es. events (snd (run_state (inline_mysql_mutex_lock p os a f l) m)) = events m @ es
    \<and> map (Pair i) (psi_calls es) =
        tells (hook m a \<noteq> 0) i (start_mutex_wait (hook m a) PSI_MUTEX_LOCK f l)
      @ tells (hook m a \<noteq> 0 \<and> locker \<noteq> 0) i (end_mutex_wait locker (fst (my_mutex_lock os a (world m))))"
  using assms by (simp add: inline_mysql_mutex_lock_def hook_defs psi_calls_def List.map_filter_def tells_def)

lemma trylock_tells:
  assumes "have_psi p" "\<And>es c. answer p es c = locker"
  shows "\<exists>es. events (snd (run_state (inline_mysql_mutex_trylock p os a f l) m)) = events m @ es
    \<and> map (Pair i) (psi_calls es) =
        tells (hook m a \<noteq> 0) i (start_mutex_wait (hook m a) PSI_MUTEX_TRYLOCK f l)
      @ tells (hook m a \<noteq> 0 \<and> locker \<noteq> 0) i (end_mutex_wait locker (fst (my_mutex_trylock os a (world m))))"
  using assms by (simp add: inline_mysql_mutex_trylock_def hook_defs psi_calls_def List.map_filter_def tells_def)

lemma unlock_tells:
  assumes "have_psi p"
  shows "\<exists>es. events (snd (run_state (inline_mysql_mutex_unlock p os a) m)) = events m @ es
    \<and> map (Pair i) (psi_calls es) = tells (hook m a \<noteq> 0) i (unlock_mutex (hook m a))"
  using assms by (simp add: inline_mysql_mutex_unlock_def hook_defs psi_calls_def List.map_filter_def tells_def)

section \<open>The property\<close>

text \<open>C35: the performance schema is never wrong about the owner of a mutex that threads lock,
  try to lock and unlock through the wrappers. In every reachable state of any number of
  threads, whatever lockers are granted, the owner it can conclude from the calls it got is
  exactly the thread that is inside and was granted a locker, and that thread holds the
  pthread mutex: success is told after the mutex is taken, the release before it is given
  back. Of a thread inside that was granted none it knows nothing, and takes no other one for
  the owner; where the handle of the mutex is NULL it is told nothing at all.\<close>

theorem told_owner_exact:
  assumes "(owner_step psi)\<^sup>*\<^sup>* owner_start s"
  shows "(told_owner (told s) None = Some i) = (\<exists>locker. mpcs s i = Inside locker \<and> locker \<noteq> 0)
    \<and> (told_owner (told s) None = Some i \<longrightarrow> holder s = Some i)
    \<and> (mpcs s i = Inside 0 \<longrightarrow> told_owner (told s) None = None)
    \<and> (psi = 0 \<longrightarrow> told s = [])"
proof (intro conjI impI)
  note inv = owner_inv_reachable [OF assms]
  show told: "(told_owner (told s) None = Some i) = (\<exists>locker. mpcs s i = Inside locker \<and> locker \<noteq> 0)"
    unfolding owner_invD(2) [OF inv] by (cases "mpcs s i") auto
  show "holder s = Some i" if "told_owner (told s) None = Some i"
    using that owner_invD(1,2) [OF inv, of i] told_inside_holds by simp
  show "told_owner (told s) None = None" if "mpcs s i = Inside 0"
  proof (rule ccontr)
    assume "told_owner (told s) None \<noteq> None"
    then obtain j where j: "told_owner (told s) None = Some j" by blast
    then have "j = i" using other_told [OF inv, of i j] that by simp
    with j told that show False by simp
  qed
  show "told s = []" if "psi = 0" using owner_invD(4) [OF inv that] .
qed

text \<open>
  Thread 1 was granted a locker and takes the mutex while thread 2 waits for it; then thread 1
  gives it back and thread 2, granted none, is inside.
\<close>

abbreviation "wait_1 \<equiv> (1 :: nat, start_mutex_wait 5 PSI_MUTEX_LOCK ''a.c'' 1)"
abbreviation "wait_2 \<equiv> (2 :: nat, start_mutex_wait 5 PSI_MUTEX_TRYLOCK ''b.c'' 2)"

definition taken_state :: owner_state where
  "taken_state = \<lparr>mpcs = (\<lambda>i. Out)(1 := Inside 9, 2 := Started 0), holder = Some 1,
     told = [wait_1, wait_2, (1, end_mutex_wait 9 0)]\<rparr>"

definition untold_state :: owner_state where
  "untold_state = \<lparr>mpcs = (\<lambda>i. Out)(2 := Inside 0), holder = Some 2,
     told = [wait_1, wait_2, (1, end_mutex_wait 9 0), (1, unlock_mutex 5)]\<rparr>"

lemma taken_reachable: "(owner_step 5)\<^sup>*\<^sup>* owner_start taken_state"
proof -
  define a where "a = \<lparr>mpcs = (\<lambda>i. Out)(1 := Started 9), holder = None, told = [wait_1]\<rparr>"
  define b where "b = \<lparr>mpcs = (\<lambda>i. Out)(1 := Started 9, 2 := Started 0), holder = None, told = [wait_1, wait_2]\<rparr>"
  define c where "c = \<lparr>mpcs = (\<lambda>i. Out)(2 := Started 0, 1 := Acquired 9), holder = Some 1, told = [wait_1, wait_2]\<rparr>"
  have 1: "owner_step 5 owner_start a"
    using owner_step.start_wait [of owner_start 1 5 PSI_MUTEX_LOCK "''a.c''" 1 9] by (simp add: a_def owner_start_def)
  have 2: "owner_step 5 a b"
    using owner_step.start_wait [of a 2 5 PSI_MUTEX_TRYLOCK "''b.c''" 2 0] by (simp add: a_def b_def)
  have 3: "owner_step 5 b c"
    using owner_step.acquire [of b 1 9 5] by (simp add: b_def c_def fun_upd_twist)
  have 4: "owner_step 5 c taken_state"
    using owner_step.end_wait [of c 1 9 5] by (simp add: c_def taken_state_def tells_def fun_upd_twist)
  show ?thesis
    by (rule converse_rtranclp_into_rtranclp [OF 1 converse_rtranclp_into_rtranclp [OF 2
          converse_rtranclp_into_rtranclp [OF 3 r_into_rtranclp [where r = "owner_step 5", OF 4]]]])
qed

lemma untold_reachable: "(owner_step 5)\<^sup>*\<^sup>* owner_start untold_state"
proof -
  let ?told = "[wait_1, wait_2, (1, end_mutex_wait 9 0), (1, unlock_mutex 5)]"
  define a where "a = \<lparr>mpcs = (\<lambda>i. Out)(1 := Leaving, 2 := Started 0), holder = Some 1, told = ?told\<rparr>"
  define b where "b = \<lparr>mpcs = (\<lambda>i. Out)(2 := Started 0), holder = None, told = ?told\<rparr>"
  define c where "c = \<lparr>mpcs = (\<lambda>i. Out)(2 := Acquired 0), holder = Some 2, told = ?told\<rparr>"
  have 1: "owner_step 5 taken_state a"
    using owner_step.unlock_told [of taken_state 1 9 5] by (simp add: a_def taken_state_def tells_def fun_upd_twist)
  have 2: "owner_step 5 a b"
    using owner_step.unlock [of a 1 5] by (simp add: a_def b_def fun_upd_twist fun_upd_idem)
  have 3: "owner_step 5 b c"
    using owner_step.acquire [of b 2 0 5] by (simp add: b_def c_def)
  have 4: "owner_step 5 c untold_state"
    using owner_step.end_wait [of c 2 0 5] by (simp add: c_def untold_state_def tells_def)
  from taken_reachable 1 2 3 4 show ?thesis by (meson rtranclp.rtrancl_into_rtrancl)
qed

theorem told_owner_exact_witness:
  "told_owner (told taken_state) None = Some 1 \<and> mpcs taken_state 1 = Inside 9 \<and> holder taken_state = Some 1
    \<and> told_owner (told untold_state) None = None \<and> mpcs untold_state 2 = Inside 0 \<and> holder untold_state = Some 2"
  using told_owner_exact [OF taken_reachable, of 1] told_owner_exact [OF untold_reachable, of 2]
  by (simp add: taken_state_def untold_state_def)

end
