(* ===== verification/Mysql_Events.thy ===== *)
theory Mysql_Events
  imports Mysql_Psi
begin

text \<open>
  The instrumentation wrappers that announce events rather than wrap a system call: statements
  and their digests (mysql_statement.h), stages (mysql_stage.h), transactions
  (mysql_transaction.h), idle waits (mysql_idle.h), table locks (mysql_table.h), metadata
  locks (mysql_mdl.h), stored programs (mysql_sp.h), prepared statements (mysql_ps.h) and
  memory (mysql_memory.h). They run on the machine of \<open>Mysql_Psi\<close>. A pointer is a number and
  NULL is 0; keys, enumerations of the server and opaque structures are numbers.
\<close>

section \<open>The calls\<close>

datatype PSI_table_lock_operation = PSI_TABLE_LOCK | PSI_TABLE_EXTERNAL_LOCK

datatype psi_event_call =
  register_statement string nat int
| digest_start nat
| digest_end nat nat
| get_thread_statement_locker nat nat nat nat
| start_statement nat string "32 word" string int
| refine_statement nat nat
| set_statement_text nat string "32 word"
| set_statement_lock_time nat "64 word"
| set_statement_rows_sent nat "64 word"
| set_statement_rows_examined nat "64 word"
| end_statement nat nat
| register_stage string nat int
| start_stage nat string int
| end_stage
| get_thread_transaction_locker nat nat nat int bool bool
| start_transaction nat string int
| set_transaction_gtid nat nat nat
| set_transaction_xid nat nat int
| set_transaction_xa_state nat int
| set_transaction_trxid nat nat
| inc_transaction_savepoints nat "64 word"
| inc_transaction_rollback_to_savepoint nat "64 word"
| inc_transaction_release_savepoint nat "64 word"
| end_transaction nat bool
| start_idle_wait nat string int
| end_idle_wait nat
| start_table_lock_wait nat nat PSI_table_lock_operation "64 word" string int
| end_table_lock_wait nat
| unlock_table nat
| create_metadata_lock nat nat nat nat nat string "32 word"
| set_metadata_lock_status nat nat
| destroy_metadata_lock nat
| start_sp nat nat
| end_sp nat
| drop_sp "32 word" string "32 word" string "32 word"
| get_sp_share "32 word" string "32 word" string "32 word"
| create_prepared_stmt nat "32 word" nat string "64 word" string "64 word"
| execute_prepared_stmt nat nat
| destroy_prepared_stmt nat
| reprepare_prepared_stmt nat
| register_memory string nat int

type_synonym ('w, 'a) event_prog = "(('w, psi_event_call) machine, 'a) state"

section \<open>Statements\<close>

definition inline_mysql_statement_register :: "string \<Rightarrow> nat \<Rightarrow> int \<Rightarrow> ('w, unit) event_prog" where
  "inline_mysql_statement_register category info n = PSI_NOTE (register_statement category info n)"

definition inline_mysql_digest_start :: "psi_event_call psi \<Rightarrow> nat \<Rightarrow> ('w, nat) event_prog" where
  "inline_mysql_digest_start p locker = (if locker \<noteq> 0 then PSI_CALL p (digest_start locker) else return 0)"

definition inline_mysql_digest_end :: "nat \<Rightarrow> nat \<Rightarrow> ('w, unit) event_prog" where
  "inline_mysql_digest_end locker digest = whenever (locker \<noteq> 0) (PSI_NOTE (digest_end locker digest))"

definition inline_mysql_start_statement :: "psi_event_call psi \<Rightarrow> nat \<Rightarrow> nat \<Rightarrow> string \<Rightarrow> 32 word \<Rightarrow> nat \<Rightarrow> nat
    \<Rightarrow> string \<Rightarrow> int \<Rightarrow> ('w, nat) event_prog" where
  "inline_mysql_start_statement p st key db db_len charset sp_share src_file src_line =
     do {
       locker \<leftarrow> PSI_CALL p (get_thread_statement_locker st key charset sp_share);
       whenever (locker \<noteq> 0) (PSI_NOTE (start_statement locker db db_len src_file src_line));
       return locker
     }"

definition inline_mysql_refine_statement :: "psi_event_call psi \<Rightarrow> nat \<Rightarrow> nat \<Rightarrow> ('w, nat) event_prog" where
  "inline_mysql_refine_statement p locker key =
     (if locker \<noteq> 0 then PSI_CALL p (refine_statement locker key) else return locker)"

definition inline_mysql_set_statement_text :: "nat \<Rightarrow> string \<Rightarrow> 32 word \<Rightarrow> ('w, unit) event_prog" where
  "inline_mysql_set_statement_text locker txt txt_len =
     whenever (locker \<noteq> 0) (PSI_NOTE (set_statement_text locker txt txt_len))"

definition inline_mysql_set_statement_lock_time :: "nat \<Rightarrow> 64 word \<Rightarrow> ('w, unit) event_prog" where
  "inline_mysql_set_statement_lock_time locker n =
     whenever (locker \<noteq> 0) (PSI_NOTE (set_statement_lock_time locker n))"

definition inline_mysql_set_statement_rows_sent :: "nat \<Rightarrow> 64 word \<Rightarrow> ('w, unit) event_prog" where
  "inline_mysql_set_statement_rows_sent locker n =
     whenever (locker \<noteq> 0) (PSI_NOTE (set_statement_rows_sent locker n))"

definition inline_mysql_set_statement_rows_examined :: "nat \<Rightarrow> 64 word \<Rightarrow> ('w, unit) event_prog" where
  "inline_mysql_set_statement_rows_examined locker n =
     whenever (locker \<noteq> 0) (PSI_NOTE (set_statement_rows_examined locker n))"

text \<open>The end of a statement ends the current stage as well, with a locker or without.\<close>

definition inline_mysql_end_statement :: "nat \<Rightarrow> nat \<Rightarrow> ('w, unit) event_prog" where
  "inline_mysql_end_statement locker stmt_da =
     do {
       PSI_NOTE end_stage;
       whenever (locker \<noteq> 0) (PSI_NOTE (end_statement locker stmt_da))
     }"

section \<open>Stages\<close>

definition inline_mysql_stage_register :: "string \<Rightarrow> nat \<Rightarrow> int \<Rightarrow> ('w, unit) event_prog" where
  "inline_mysql_stage_register category info n = PSI_NOTE (register_stage category info n)"

definition inline_mysql_set_stage :: "psi_event_call psi \<Rightarrow> nat \<Rightarrow> string \<Rightarrow> int \<Rightarrow> ('w, nat) event_prog" where
  "inline_mysql_set_stage p key src_file src_line = PSI_CALL p (start_stage key src_file src_line)"

definition inline_mysql_end_stage :: "('w, unit) event_prog" where
  "inline_mysql_end_stage = PSI_NOTE end_stage"

text \<open>
  The progress of a stage, changed in place: the result is what the pointer points to
  afterwards, \<open>None\<close> being NULL. Reading through NULL is a fault, \<open>None\<close> as a result.
\<close>

record PSI_stage_progress =
  m_work_completed :: "64 word"
  m_work_estimated :: "64 word"

definition inline_mysql_stage_set_work_completed :: "PSI_stage_progress option \<Rightarrow> 64 word \<Rightarrow> PSI_stage_progress option" where
  "inline_mysql_stage_set_work_completed progress val = map_option (\<lambda>g. g\<lparr>m_work_completed := val\<rparr>) progress"

definition inline_mysql_stage_get_work_completed :: "PSI_stage_progress option \<Rightarrow> 64 word option" where
  "inline_mysql_stage_get_work_completed progress = map_option m_work_completed progress"

definition inline_mysql_stage_inc_work_completed :: "PSI_stage_progress option \<Rightarrow> 64 word \<Rightarrow> PSI_stage_progress option" where
  "inline_mysql_stage_inc_work_completed progress val =
     map_option (\<lambda>g. g\<lparr>m_work_completed := m_work_completed g + val\<rparr>) progress"

definition inline_mysql_stage_set_work_estimated :: "PSI_stage_progress option \<Rightarrow> 64 word \<Rightarrow> PSI_stage_progress option" where
  "inline_mysql_stage_set_work_estimated progress val = map_option (\<lambda>g. g\<lparr>m_work_estimated := val\<rparr>) progress"

definition inline_mysql_stage_get_work_estimated :: "PSI_stage_progress option \<Rightarrow> 64 word option" where
  "inline_mysql_stage_get_work_estimated progress = map_option m_work_estimated progress"

section \<open>Transactions\<close>

definition inline_mysql_start_transaction :: "psi_event_call psi \<Rightarrow> nat \<Rightarrow> nat \<Rightarrow> nat \<Rightarrow> int \<Rightarrow> bool \<Rightarrow> bool
    \<Rightarrow> string \<Rightarrow> int \<Rightarrow> ('w, nat) event_prog" where
  "inline_mysql_start_transaction p st xid trxid isolation_level read_only autocommit src_file src_line =
     do {
       locker \<leftarrow> PSI_CALL p (get_thread_transaction_locker st xid trxid isolation_level read_only autocommit);
       whenever (locker \<noteq> 0) (PSI_NOTE (start_transaction locker src_file src_line));
       return locker
     }"

definition inline_mysql_set_transaction_gtid :: "nat \<Rightarrow> nat \<Rightarrow> nat \<Rightarrow> ('w, unit) event_prog" where
  "inline_mysql_set_transaction_gtid locker sid gtid_spec =
     whenever (locker \<noteq> 0) (PSI_NOTE (set_transaction_gtid locker sid gtid_spec))"

definition inline_mysql_set_transaction_xid :: "nat \<Rightarrow> nat \<Rightarrow> int \<Rightarrow> ('w, unit) event_prog" where
  "inline_mysql_set_transaction_xid locker xid xa_state =
     whenever (locker \<noteq> 0) (PSI_NOTE (set_transaction_xid locker xid xa_state))"

definition inline_mysql_set_transaction_xa_state :: "nat \<Rightarrow> int \<Rightarrow> ('w, unit) event_prog" where
  "inline_mysql_set_transaction_xa_state locker xa_state =
     whenever (locker \<noteq> 0) (PSI_NOTE (set_transaction_xa_state locker xa_state))"

definition inline_mysql_set_transaction_trxid :: "nat \<Rightarrow> nat \<Rightarrow> ('w, unit) event_prog" where
  "inline_mysql_set_transaction_trxid locker trxid =
     whenever (locker \<noteq> 0) (PSI_NOTE (set_transaction_trxid locker trxid))"

definition inline_mysql_inc_transaction_savepoints :: "nat \<Rightarrow> 64 word \<Rightarrow> ('w, unit) event_prog" where
  "inline_mysql_inc_transaction_savepoints locker n =
     whenever (locker \<noteq> 0) (PSI_NOTE (inc_transaction_savepoints locker n))"

definition inline_mysql_inc_transaction_rollback_to_savepoint :: "nat \<Rightarrow> 64 word \<Rightarrow> ('w, unit) event_prog" where
  "inline_mysql_inc_transaction_rollback_to_savepoint locker n =
     whenever (locker \<noteq> 0) (PSI_NOTE (inc_transaction_rollback_to_savepoint locker n))"

definition inline_mysql_inc_transaction_release_savepoint :: "nat \<Rightarrow> 64 word \<Rightarrow> ('w, unit) event_prog" where
  "inline_mysql_inc_transaction_release_savepoint locker n =
     whenever (locker \<noteq> 0) (PSI_NOTE (inc_transaction_release_savepoint locker n))"

definition inline_mysql_rollback_transaction :: "nat \<Rightarrow> ('w, unit) event_prog" where
  "inline_mysql_rollback_transaction locker =
     whenever (locker \<noteq> 0) (PSI_NOTE (end_transaction locker False))"

definition inline_mysql_commit_transaction :: "nat \<Rightarrow> ('w, unit) event_prog" where
  "inline_mysql_commit_transaction locker =
     whenever (locker \<noteq> 0) (PSI_NOTE (end_transaction locker True))"

section \<open>Idle waits, table locks, metadata locks\<close>

definition inline_mysql_start_idle_wait :: "psi_event_call psi \<Rightarrow> nat \<Rightarrow> string \<Rightarrow> int \<Rightarrow> ('w, nat) event_prog" where
  "inline_mysql_start_idle_wait p st src_file src_line = PSI_CALL p (start_idle_wait st src_file src_line)"

definition inline_mysql_end_idle_wait :: "nat \<Rightarrow> ('w, unit) event_prog" where
  "inline_mysql_end_idle_wait locker = whenever (locker \<noteq> 0) (PSI_NOTE (end_idle_wait locker))"

definition inline_mysql_start_table_lock_wait :: "psi_event_call psi \<Rightarrow> nat \<Rightarrow> nat \<Rightarrow> PSI_table_lock_operation
    \<Rightarrow> 64 word \<Rightarrow> string \<Rightarrow> int \<Rightarrow> ('w, nat) event_prog" where
  "inline_mysql_start_table_lock_wait p st psi oper flags src_file src_line =
     (if psi \<noteq> 0 then PSI_CALL p (start_table_lock_wait st psi oper flags src_file src_line) else return 0)"

definition inline_mysql_end_table_lock_wait :: "nat \<Rightarrow> ('w, unit) event_prog" where
  "inline_mysql_end_table_lock_wait locker = whenever (locker \<noteq> 0) (PSI_NOTE (end_table_lock_wait locker))"

definition inline_mysql_unlock_table :: "nat \<Rightarrow> ('w, unit) event_prog" where
  "inline_mysql_unlock_table table = whenever (table \<noteq> 0) (PSI_NOTE (unlock_table table))"

definition inline_mysql_mdl_create :: "psi_event_call psi \<Rightarrow> nat \<Rightarrow> nat \<Rightarrow> nat \<Rightarrow> nat \<Rightarrow> nat \<Rightarrow> string \<Rightarrow> 32 word
    \<Rightarrow> ('w, nat) event_prog" where
  "inline_mysql_mdl_create p identity mdl_key mdl_type mdl_duration mdl_status src_file src_line =
     PSI_CALL p (create_metadata_lock identity mdl_key mdl_type mdl_duration mdl_status src_file src_line)"

definition inline_mysql_mdl_set_status :: "nat \<Rightarrow> nat \<Rightarrow> ('w, unit) event_prog" where
  "inline_mysql_mdl_set_status psi mdl_status = whenever (psi \<noteq> 0) (PSI_NOTE (set_metadata_lock_status psi mdl_status))"

text \<open>The place in the source is an argument that is not passed on.\<close>

definition inline_mysql_mdl_destroy :: "nat \<Rightarrow> string \<Rightarrow> 32 word \<Rightarrow> ('w, unit) event_prog" where
  "inline_mysql_mdl_destroy psi src_file src_line = whenever (psi \<noteq> 0) (PSI_NOTE (destroy_metadata_lock psi))"

section \<open>Stored programs, prepared statements, memory\<close>

definition inline_mysql_start_sp :: "psi_event_call psi \<Rightarrow> nat \<Rightarrow> nat \<Rightarrow> ('w, nat) event_prog" where
  "inline_mysql_start_sp p st sp_share = PSI_CALL p (start_sp st sp_share)"

definition inline_mysql_end_sp :: "nat \<Rightarrow> ('w, unit) event_prog" where
  "inline_mysql_end_sp locker = whenever (locker \<noteq> 0) (PSI_NOTE (end_sp locker))"

definition inline_mysql_drop_sp :: "32 word \<Rightarrow> string \<Rightarrow> 32 word \<Rightarrow> string \<Rightarrow> 32 word \<Rightarrow> ('w, unit) event_prog" where
  "inline_mysql_drop_sp sp_type schema_name schema_len object_name object_len =
     PSI_NOTE (drop_sp sp_type schema_name schema_len object_name object_len)"

definition inline_mysql_get_sp_share :: "psi_event_call psi \<Rightarrow> 32 word \<Rightarrow> string \<Rightarrow> 32 word \<Rightarrow> string \<Rightarrow> 32 word
    \<Rightarrow> ('w, nat) event_prog" where
  "inline_mysql_get_sp_share p sp_type schema_name schema_len object_name object_len =
     PSI_CALL p (get_sp_share sp_type schema_name schema_len object_name object_len)"

definition inline_mysql_create_prepared_stmt :: "psi_event_call psi \<Rightarrow> nat \<Rightarrow> 32 word \<Rightarrow> nat \<Rightarrow> string \<Rightarrow> 64 word
    \<Rightarrow> string \<Rightarrow> 64 word \<Rightarrow> ('w, nat) event_prog" where
  "inline_mysql_create_prepared_stmt p identity stmt_id locker stmt_name name_len sqltext text_len =
     (if locker = 0 then return 0
      else PSI_CALL p (create_prepared_stmt identity stmt_id locker stmt_name name_len sqltext text_len))"

definition inline_mysql_execute_prepared_stmt :: "nat \<Rightarrow> nat \<Rightarrow> ('w, unit) event_prog" where
  "inline_mysql_execute_prepared_stmt locker prepared_stmt =
     whenever (prepared_stmt \<noteq> 0 \<and> locker \<noteq> 0) (PSI_NOTE (execute_prepared_stmt locker prepared_stmt))"

definition inline_mysql_destroy_prepared_stmt :: "nat \<Rightarrow> ('w, unit) event_prog" where
  "inline_mysql_destroy_prepared_stmt prepared_stmt =
     whenever (prepared_stmt \<noteq> 0) (PSI_NOTE (destroy_prepared_stmt prepared_stmt))"

definition inline_mysql_reprepare_prepared_stmt :: "nat \<Rightarrow> ('w, unit) event_prog" where
  "inline_mysql_reprepare_prepared_stmt prepared_stmt =
     whenever (prepared_stmt \<noteq> 0) (PSI_NOTE (reprepare_prepared_stmt prepared_stmt))"

text \<open>Without the memory interface the body of this function is empty.\<close>

definition inline_mysql_memory_register :: "psi_event_call psi \<Rightarrow> string \<Rightarrow> nat \<Rightarrow> int \<Rightarrow> ('w, unit) event_prog" where
  "inline_mysql_memory_register p category info n = whenever (have_psi p) (PSI_NOTE (register_memory category info n))"

section \<open>The macros\<close>

text \<open>
  What a caller writes. With the interface the macro is the call of its function, without it
  NULL or nothing; the switch is the field \<open>have_psi\<close>. \<open>MYSQL_START_TRANSACTION\<close> has no value
  in the build without the interface.
\<close>

definition MYSQL_START_STATEMENT :: "psi_event_call psi \<Rightarrow> nat \<Rightarrow> nat \<Rightarrow> string \<Rightarrow> 32 word \<Rightarrow> nat \<Rightarrow> nat
    \<Rightarrow> string \<Rightarrow> int \<Rightarrow> ('w, nat) event_prog" where
  "MYSQL_START_STATEMENT p st key db db_len charset sp_share f l =
     (if have_psi p then inline_mysql_start_statement p st key db db_len charset sp_share f l else return 0)"

definition MYSQL_REFINE_STATEMENT :: "psi_event_call psi \<Rightarrow> nat \<Rightarrow> nat \<Rightarrow> ('w, nat) event_prog" where
  "MYSQL_REFINE_STATEMENT p locker key =
     (if have_psi p then inline_mysql_refine_statement p locker key else return 0)"

definition MYSQL_DIGEST_START :: "psi_event_call psi \<Rightarrow> nat \<Rightarrow> ('w, nat) event_prog" where
  "MYSQL_DIGEST_START p locker = (if have_psi p then inline_mysql_digest_start p locker else return 0)"

definition MYSQL_DIGEST_END :: "psi_event_call psi \<Rightarrow> nat \<Rightarrow> nat \<Rightarrow> ('w, unit) event_prog" where
  "MYSQL_DIGEST_END p locker digest = whenever (have_psi p) (inline_mysql_digest_end locker digest)"

definition MYSQL_SET_STATEMENT_TEXT :: "psi_event_call psi \<Rightarrow> nat \<Rightarrow> string \<Rightarrow> 32 word \<Rightarrow> ('w, unit) event_prog" where
  "MYSQL_SET_STATEMENT_TEXT p locker txt txt_len = whenever (have_psi p) (inline_mysql_set_statement_text locker txt txt_len)"

definition MYSQL_SET_STATEMENT_LOCK_TIME :: "psi_event_call psi \<Rightarrow> nat \<Rightarrow> 64 word \<Rightarrow> ('w, unit) event_prog" where
  "MYSQL_SET_STATEMENT_LOCK_TIME p locker n = whenever (have_psi p) (inline_mysql_set_statement_lock_time locker n)"

definition MYSQL_SET_STATEMENT_ROWS_SENT :: "psi_event_call psi \<Rightarrow> nat \<Rightarrow> 64 word \<Rightarrow> ('w, unit) event_prog" where
  "MYSQL_SET_STATEMENT_ROWS_SENT p locker n = whenever (have_psi p) (inline_mysql_set_statement_rows_sent locker n)"

definition MYSQL_SET_STATEMENT_ROWS_EXAMINED :: "psi_event_call psi \<Rightarrow> nat \<Rightarrow> 64 word \<Rightarrow> ('w, unit) event_prog" where
  "MYSQL_SET_STATEMENT_ROWS_EXAMINED p locker n = whenever (have_psi p) (inline_mysql_set_statement_rows_examined locker n)"

definition MYSQL_END_STATEMENT :: "psi_event_call psi \<Rightarrow> nat \<Rightarrow> nat \<Rightarrow> ('w, unit) event_prog" where
  "MYSQL_END_STATEMENT p locker stmt_da = whenever (have_psi p) (inline_mysql_end_statement locker stmt_da)"

definition MYSQL_START_TRANSACTION :: "psi_event_call psi \<Rightarrow> nat \<Rightarrow> nat \<Rightarrow> nat \<Rightarrow> int \<Rightarrow> bool \<Rightarrow> bool
    \<Rightarrow> string \<Rightarrow> int \<Rightarrow> ('w, nat option) event_prog" where
  "MYSQL_START_TRANSACTION p st xid trxid isolation ro ac f l =
     (if have_psi p
      then bind (inline_mysql_start_transaction p st xid trxid isolation ro ac f l) (\<lambda>locker. return (Some locker))
      else return None)"

definition MYSQL_SET_TRANSACTION_GTID :: "psi_event_call psi \<Rightarrow> nat \<Rightarrow> nat \<Rightarrow> nat \<Rightarrow> ('w, unit) event_prog" where
  "MYSQL_SET_TRANSACTION_GTID p locker sid gtid_spec = whenever (have_psi p) (inline_mysql_set_transaction_gtid locker sid gtid_spec)"

definition MYSQL_SET_TRANSACTION_XID :: "psi_event_call psi \<Rightarrow> nat \<Rightarrow> nat \<Rightarrow> int \<Rightarrow> ('w, unit) event_prog" where
  "MYSQL_SET_TRANSACTION_XID p locker xid xa_state = whenever (have_psi p) (inline_mysql_set_transaction_xid locker xid xa_state)"

definition MYSQL_SET_TRANSACTION_XA_STATE :: "psi_event_call psi \<Rightarrow> nat \<Rightarrow> int \<Rightarrow> ('w, unit) event_prog" where
  "MYSQL_SET_TRANSACTION_XA_STATE p locker xa_state = whenever (have_psi p) (inline_mysql_set_transaction_xa_state locker xa_state)"

definition MYSQL_SET_TRANSACTION_TRXID :: "psi_event_call psi \<Rightarrow> nat \<Rightarrow> nat \<Rightarrow> ('w, unit) event_prog" where
  "MYSQL_SET_TRANSACTION_TRXID p locker trxid = whenever (have_psi p) (inline_mysql_set_transaction_trxid locker trxid)"

definition MYSQL_INC_TRANSACTION_SAVEPOINTS :: "psi_event_call psi \<Rightarrow> nat \<Rightarrow> 64 word \<Rightarrow> ('w, unit) event_prog" where
  "MYSQL_INC_TRANSACTION_SAVEPOINTS p locker n = whenever (have_psi p) (inline_mysql_inc_transaction_savepoints locker n)"

definition MYSQL_INC_TRANSACTION_ROLLBACK_TO_SAVEPOINT :: "psi_event_call psi \<Rightarrow> nat \<Rightarrow> 64 word \<Rightarrow> ('w, unit) event_prog" where
  "MYSQL_INC_TRANSACTION_ROLLBACK_TO_SAVEPOINT p locker n = whenever (have_psi p) (inline_mysql_inc_transaction_rollback_to_savepoint locker n)"

definition MYSQL_INC_TRANSACTION_RELEASE_SAVEPOINT :: "psi_event_call psi \<Rightarrow> nat \<Rightarrow> 64 word \<Rightarrow> ('w, unit) event_prog" where
  "MYSQL_INC_TRANSACTION_RELEASE_SAVEPOINT p locker n = whenever (have_psi p) (inline_mysql_inc_transaction_release_savepoint locker n)"

definition MYSQL_ROLLBACK_TRANSACTION :: "psi_event_call psi \<Rightarrow> nat \<Rightarrow> ('w, unit) event_prog" where
  "MYSQL_ROLLBACK_TRANSACTION p locker = whenever (have_psi p) (inline_mysql_rollback_transaction locker)"

definition MYSQL_COMMIT_TRANSACTION :: "psi_event_call psi \<Rightarrow> nat \<Rightarrow> ('w, unit) event_prog" where
  "MYSQL_COMMIT_TRANSACTION p locker = whenever (have_psi p) (inline_mysql_commit_transaction locker)"

section \<open>What every call respects\<close>

text \<open>
  An automaton reads the events of a program from left to right; \<open>runs step s prog t\<close>: from
  the state \<open>s\<close> it accepts what the program does and ends in \<open>t r\<close> for the result \<open>r\<close>.
\<close>

fun reads_all :: "('s \<Rightarrow> 'e \<Rightarrow> 's option) \<Rightarrow> 's \<Rightarrow> 'e list \<Rightarrow> 's option" where
  "reads_all step s [] = Some s"
| "reads_all step s (e # es) = (case step s e of None \<Rightarrow> None | Some s' \<Rightarrow> reads_all step s' es)"

lemma reads_all_append: "reads_all step s (es @ fs) = Option.bind (reads_all step s es) (\<lambda>s'. reads_all step s' fs)"
  by (induction step s es rule: reads_all.induct) (auto split: option.split)

definition runs :: "('s \<Rightarrow> 'c event \<Rightarrow> 's option) \<Rightarrow> 's \<Rightarrow> (('w, 'c, 'z) machine_scheme, 'a) state \<Rightarrow> ('a \<Rightarrow> 's) \<Rightarrow> bool" where
  "runs step s prog t \<longleftrightarrow> (\<forall>m. \<exists>es. events (snd (run_state prog m)) = events m @ es
     \<and> reads_all step s es = Some (t (fst (run_state prog m))))"

lemma runs_return: "runs step s (return x) (\<lambda>_. s)"
  by (simp add: runs_def)

lemma runs_return_to: "t x = s \<Longrightarrow> runs step s (return x) t"
  by (simp add: runs_def)

lemma runs_note: "step s (Psi c 0) = Some s' \<Longrightarrow> runs step s (PSI_NOTE c) (\<lambda>_. s')"
  by (simp add: runs_def)

lemma runs_call: "(\<And>a. step s (Psi c a) = Some (t a)) \<Longrightarrow> runs step s (PSI_CALL p c) t"
  by (simp add: runs_def)

lemma runs_if: "(b \<Longrightarrow> runs step s p t) \<Longrightarrow> (\<not> b \<Longrightarrow> runs step s q t) \<Longrightarrow> runs step s (if b then p else q) t"
  by simp

lemma runs_bind:
  assumes "runs step s p t" and "\<And>r. runs step (t r) (k r) u"
  shows "runs step s (bind p k) u"
  unfolding runs_def
proof
  fix m
  obtain r m1 where p: "run_state p m = (r, m1)" by force
  obtain es where es: "events m1 = events m @ es" "reads_all step s es = Some (t r)"
    using assms(1) p by (metis fst_conv snd_conv runs_def)
  obtain fs where fs: "events (snd (run_state (k r) m1)) = events m1 @ fs"
    "reads_all step (t r) fs = Some (u (fst (run_state (k r) m1)))"
    using assms(2) by (metis runs_def)
  show "\<exists>es. events (snd (run_state (bind p k) m)) = events m @ es
      \<and> reads_all step s es = Some (u (fst (run_state (bind p k) m)))"
    using p es fs by (intro exI [of _ "es @ fs"]) (simp add: reads_all_append)
qed

lemma runs_seq: "runs step s p (\<lambda>_. s') \<Longrightarrow> runs step s' k t \<Longrightarrow> runs step s (bind p (\<lambda>_. k)) t"
  by (rule runs_bind)

lemma runs_traverse:
  assumes "\<And>q. runs step s (perform q) (\<lambda>_. s)"
  shows "runs step s (traverse_list perform qs) (\<lambda>_. s)"
proof (induction qs)
  case Nil
  then show ?case by (simp add: runs_return)
next
  case (Cons q qs)
  then show ?case by (auto intro!: runs_bind [where t = "\<lambda>_. s"] assms runs_return)
qed

section \<open>The life of an event\<close>

text \<open>
  What a call does to the event of a thread: it hands a locker out, starts the event of a
  locker, uses it, exchanges it for the one returned, or ends it. Where no locker is handed
  out, or none returned for an exchange, there is no event.
\<close>

datatype event_phase = Hands nat | Starts nat | Uses nat | Exchanges nat nat | Ends nat | Other

datatype life = No_event | Handed nat | Started nat

definition now_started :: "nat \<Rightarrow> life" where
  "now_started l = (if l = 0 then No_event else Started l)"

fun live :: "event_phase \<Rightarrow> life \<Rightarrow> life option" where
  "live (Hands l) No_event = Some (if l = 0 then No_event else Handed l)"
| "live (Starts l) (Handed k) = (if k = l then Some (Started l) else None)"
| "live (Uses l) (Started k) = (if k = l then Some (Started l) else None)"
| "live (Exchanges l l') (Started k) = (if k = l then Some (now_started l') else None)"
| "live (Ends l) (Started k) = (if k = l then Some No_event else None)"
| "live Other s = Some s"
| "live _ _ = None"

fun life_step :: "('c \<Rightarrow> nat \<Rightarrow> event_phase) \<Rightarrow> life \<Rightarrow> 'c event \<Rightarrow> life option" where
  "life_step ph s (Sys n) = Some s"
| "life_step ph s (Psi c a) = live (ph c a) s"

text \<open>
  The contract of the calls for one kind of event, and what programs that keep to it can
  rely on.
\<close>

locale event_interface =
  fixes ph :: "'c \<Rightarrow> nat \<Rightarrow> event_phase"
    and hand :: "'x \<Rightarrow> 'c" and start :: "nat \<Rightarrow> 'y \<Rightarrow> 'c" and fin :: "nat \<Rightarrow> 'z \<Rightarrow> 'c"
  assumes hands: "ph (hand x) a = Hands a"
    and starts: "ph (start l y) a = Starts l"
    and ends: "ph (fin l z) a = Ends l"
begin

lemma start_block:
  "runs (life_step ph) No_event
     (bind (PSI_CALL p (hand x)) (\<lambda>l. bind (whenever (l \<noteq> 0) (PSI_NOTE (start l y))) (\<lambda>_. return l))) now_started"
proof (rule runs_bind)
  show "runs (life_step ph) No_event (PSI_CALL p (hand x)) (\<lambda>l. if l = 0 then No_event else Handed l)"
    by (rule runs_call) (simp add: hands)
  fix l
  show "runs (life_step ph) (if l = 0 then No_event else Handed l)
      (bind (whenever (l \<noteq> 0) (PSI_NOTE (start l y))) (\<lambda>_. return l)) now_started"
    by (cases "l = 0") (auto simp: now_started_def starts runs_return_to intro!: runs_seq [OF runs_note])
qed

lemma end_block: "runs (life_step ph) (now_started l) (whenever (l \<noteq> 0) (PSI_NOTE (fin l z))) (\<lambda>_. No_event)"
  by (cases "l = 0") (auto simp: now_started_def ends intro!: runs_note runs_return)

lemma use_block:
  "(\<And>a. ph c a = Uses l) \<Longrightarrow>
    runs (life_step ph) (now_started l) (whenever (l \<noteq> 0) (PSI_NOTE c)) (\<lambda>_. now_started l)"
  by (cases "l = 0") (auto simp: now_started_def intro!: runs_note runs_return)

lemma other_note: "(\<And>a. ph c a = Other) \<Longrightarrow> runs (life_step ph) s (PSI_NOTE c) (\<lambda>_. s)"
  by (rule runs_note) simp

end

fun statement_phase :: "psi_event_call \<Rightarrow> nat \<Rightarrow> event_phase" where
  "statement_phase (get_thread_statement_locker st key charset sp_share) a = Hands a"
| "statement_phase (start_statement l db db_len f n) a = Starts l"
| "statement_phase (digest_start l) a = Uses l"
| "statement_phase (set_statement_text l t n) a = Uses l"
| "statement_phase (set_statement_lock_time l n) a = Uses l"
| "statement_phase (set_statement_rows_sent l n) a = Uses l"
| "statement_phase (set_statement_rows_examined l n) a = Uses l"
| "statement_phase (refine_statement l key) a = Exchanges l a"
| "statement_phase (end_statement l da) a = Ends l"
| "statement_phase _ a = Other"

interpretation statement_event: event_interface statement_phase
  "\<lambda>(st, key, charset, sp). get_thread_statement_locker st key charset sp"
  "\<lambda>l (db, n, f, k). start_statement l db n f k" end_statement
  by unfold_locales auto

fun transaction_phase :: "psi_event_call \<Rightarrow> nat \<Rightarrow> event_phase" where
  "transaction_phase (get_thread_transaction_locker st xid trxid isolation ro ac) a = Hands a"
| "transaction_phase (start_transaction l f n) a = Starts l"
| "transaction_phase (set_transaction_gtid l sid gtid) a = Uses l"
| "transaction_phase (set_transaction_xid l xid x) a = Uses l"
| "transaction_phase (set_transaction_xa_state l x) a = Uses l"
| "transaction_phase (set_transaction_trxid l t) a = Uses l"
| "transaction_phase (inc_transaction_savepoints l n) a = Uses l"
| "transaction_phase (inc_transaction_rollback_to_savepoint l n) a = Uses l"
| "transaction_phase (inc_transaction_release_savepoint l n) a = Uses l"
| "transaction_phase (end_transaction l c) a = Ends l"
| "transaction_phase _ a = Other"

interpretation transaction_event: event_interface transaction_phase
  "\<lambda>(st, xid, trxid, isolation, ro, ac). get_thread_transaction_locker st xid trxid isolation ro ac"
  "\<lambda>l (f, n). start_transaction l f n" end_transaction
  by unfold_locales auto

section \<open>Whole statements and transactions\<close>

text \<open>What a caller does between the start and the end, with the locker it was given.\<close>

datatype statement_action =
  Refine nat | Set_text string "32 word" | Set_lock_time "64 word" | Set_rows_sent "64 word"
| Set_rows_examined "64 word" | Digest nat

fun act_on_statement :: "psi_event_call psi \<Rightarrow> statement_action \<Rightarrow> nat \<Rightarrow> ('w, nat) event_prog" where
  "act_on_statement p (Refine key) l = MYSQL_REFINE_STATEMENT p l key"
| "act_on_statement p (Set_text t n) l = bind (MYSQL_SET_STATEMENT_TEXT p l t n) (\<lambda>_. return l)"
| "act_on_statement p (Set_lock_time n) l = bind (MYSQL_SET_STATEMENT_LOCK_TIME p l n) (\<lambda>_. return l)"
| "act_on_statement p (Set_rows_sent n) l = bind (MYSQL_SET_STATEMENT_ROWS_SENT p l n) (\<lambda>_. return l)"
| "act_on_statement p (Set_rows_examined n) l = bind (MYSQL_SET_STATEMENT_ROWS_EXAMINED p l n) (\<lambda>_. return l)"
| "act_on_statement p (Digest d) l =
     bind (MYSQL_DIGEST_START p l) (\<lambda>dl. bind (MYSQL_DIGEST_END p dl d) (\<lambda>_. return l))"

primrec act_in_turn :: "psi_event_call psi \<Rightarrow> statement_action list \<Rightarrow> nat \<Rightarrow> ('w, nat) event_prog" where
  "act_in_turn p [] l = return l"
| "act_in_turn p (a # as) l = bind (act_on_statement p a l) (act_in_turn p as)"

record statement =
  stmt_state :: nat
  stmt_key :: nat
  stmt_db :: string
  stmt_actions :: "statement_action list"
  stmt_da :: nat

definition announce_statement :: "psi_event_call psi \<Rightarrow> statement \<Rightarrow> ('w, unit) event_prog" where
  "announce_statement p q =
     bind (MYSQL_START_STATEMENT p (stmt_state q) (stmt_key q) (stmt_db q) (of_nat (length (stmt_db q))) 0 0 [] 0) (\<lambda>l.
     bind (act_in_turn p (stmt_actions q) l) (\<lambda>l'.
     MYSQL_END_STATEMENT p l' (stmt_da q)))"

datatype transaction_action =
  Set_gtid nat nat | Set_xid nat int | Set_xa_state int | Set_trxid nat
| Inc_savepoints "64 word" | Inc_rollback_to "64 word" | Inc_release "64 word" | Inside statement

fun act_on_transaction :: "psi_event_call psi \<Rightarrow> nat \<Rightarrow> transaction_action \<Rightarrow> ('w, unit) event_prog" where
  "act_on_transaction p l (Set_gtid sid gtid) = MYSQL_SET_TRANSACTION_GTID p l sid gtid"
| "act_on_transaction p l (Set_xid xid x) = MYSQL_SET_TRANSACTION_XID p l xid x"
| "act_on_transaction p l (Set_xa_state x) = MYSQL_SET_TRANSACTION_XA_STATE p l x"
| "act_on_transaction p l (Set_trxid t) = MYSQL_SET_TRANSACTION_TRXID p l t"
| "act_on_transaction p l (Inc_savepoints n) = MYSQL_INC_TRANSACTION_SAVEPOINTS p l n"
| "act_on_transaction p l (Inc_rollback_to n) = MYSQL_INC_TRANSACTION_ROLLBACK_TO_SAVEPOINT p l n"
| "act_on_transaction p l (Inc_release n) = MYSQL_INC_TRANSACTION_RELEASE_SAVEPOINT p l n"
| "act_on_transaction p l (Inside q) = announce_statement p q"

record transaction =
  trx_state :: nat
  trx_isolation :: int
  trx_read_only :: bool
  trx_autocommit :: bool
  trx_actions :: "transaction_action list"
  trx_commits :: bool

definition announce_transaction :: "psi_event_call psi \<Rightarrow> transaction \<Rightarrow> ('w, unit) event_prog" where
  "announce_transaction p t =
     bind (MYSQL_START_TRANSACTION p (trx_state t) 0 0 (trx_isolation t) (trx_read_only t) (trx_autocommit t) [] 0)
       (\<lambda>r. case r of None \<Rightarrow> return () | Some l \<Rightarrow>
          bind (traverse_list (act_on_transaction p l) (trx_actions t)) (\<lambda>_.
          if trx_commits t then MYSQL_COMMIT_TRANSACTION p l else MYSQL_ROLLBACK_TRANSACTION p l))"

lemmas statement_macro_defs = MYSQL_START_STATEMENT_def MYSQL_REFINE_STATEMENT_def MYSQL_DIGEST_START_def
  MYSQL_DIGEST_END_def MYSQL_SET_STATEMENT_TEXT_def MYSQL_SET_STATEMENT_LOCK_TIME_def
  MYSQL_SET_STATEMENT_ROWS_SENT_def MYSQL_SET_STATEMENT_ROWS_EXAMINED_def MYSQL_END_STATEMENT_def
  inline_mysql_start_statement_def inline_mysql_refine_statement_def inline_mysql_digest_start_def
  inline_mysql_digest_end_def inline_mysql_set_statement_text_def inline_mysql_set_statement_lock_time_def
  inline_mysql_set_statement_rows_sent_def inline_mysql_set_statement_rows_examined_def inline_mysql_end_statement_def

lemmas transaction_macro_defs = MYSQL_START_TRANSACTION_def MYSQL_SET_TRANSACTION_GTID_def
  MYSQL_SET_TRANSACTION_XID_def MYSQL_SET_TRANSACTION_XA_STATE_def MYSQL_SET_TRANSACTION_TRXID_def
  MYSQL_INC_TRANSACTION_SAVEPOINTS_def MYSQL_INC_TRANSACTION_ROLLBACK_TO_SAVEPOINT_def
  MYSQL_INC_TRANSACTION_RELEASE_SAVEPOINT_def MYSQL_ROLLBACK_TRANSACTION_def MYSQL_COMMIT_TRANSACTION_def
  inline_mysql_start_transaction_def inline_mysql_set_transaction_gtid_def inline_mysql_set_transaction_xid_def
  inline_mysql_set_transaction_xa_state_def inline_mysql_set_transaction_trxid_def
  inline_mysql_inc_transaction_savepoints_def inline_mysql_inc_transaction_rollback_to_savepoint_def
  inline_mysql_inc_transaction_release_savepoint_def inline_mysql_rollback_transaction_def
  inline_mysql_commit_transaction_def

text \<open>The digest of a statement is its own locker, which may be NULL where the statement's is not.\<close>

lemma act_on_statement_lives:
  assumes "have_psi p"
  shows "runs (life_step statement_phase) (now_started l) (act_on_statement p a l) now_started"
proof (cases a)
  case (Refine key)
  with assms show ?thesis
    by (cases "l = 0")
      (auto simp: statement_macro_defs now_started_def intro!: runs_call runs_return_to)
next
  case (Digest d)
  have "runs (life_step statement_phase) (now_started l) (MYSQL_DIGEST_START p l) (\<lambda>_. now_started l)"
    using assms by (cases "l = 0") (auto simp: statement_macro_defs now_started_def intro!: runs_call runs_return)
  moreover have "runs (life_step statement_phase) (now_started l) (MYSQL_DIGEST_END p dl d) (\<lambda>_. now_started l)" for dl
    by (auto simp: statement_macro_defs intro!: runs_note runs_return)
  ultimately show ?thesis
    unfolding Digest act_on_statement.simps by (intro runs_bind runs_return_to) simp_all
qed (simp_all only: act_on_statement.simps statement_macro_defs if_P [OF assms],
    (rule runs_seq [OF statement_event.use_block runs_return_to]; simp)+)

lemma act_in_turn_lives:
  "have_psi p \<Longrightarrow> runs (life_step statement_phase) (now_started l) (act_in_turn p as l) now_started"
proof (induction as arbitrary: l)
  case (Cons a as)
  then show ?case unfolding act_in_turn.simps by (intro runs_bind [OF act_on_statement_lives]) auto
qed (simp add: runs_return_to)

lemma act_in_turn_off: "\<not> have_psi p \<Longrightarrow> act_in_turn p as 0 = return 0"
proof (induction as)
  case (Cons a as)
  then show ?case by (cases a) (simp_all add: statement_macro_defs)
qed simp

lemma announce_statement_lives: "runs (life_step statement_phase) No_event (announce_statement p q) (\<lambda>_. No_event)"
proof (cases "have_psi p")
  case True
  have start: "runs (life_step statement_phase) No_event
      (MYSQL_START_STATEMENT p st key db n cs sp f k) now_started" for st key db n cs sp f k
    using statement_event.start_block [of p "(st, key, cs, sp)" "(db, n, f, k)"] True
    by (simp only: MYSQL_START_STATEMENT_def inline_mysql_start_statement_def simp_thms if_True prod.case)
  have "runs (life_step statement_phase) (now_started l) (MYSQL_END_STATEMENT p l da) (\<lambda>_. No_event)" for l da
    unfolding MYSQL_END_STATEMENT_def inline_mysql_end_statement_def if_P [OF True]
    by (intro runs_seq [OF statement_event.other_note] statement_event.end_block) simp
  then show ?thesis unfolding announce_statement_def by (intro runs_bind [OF start] runs_bind [OF act_in_turn_lives [OF True]])
next
  case False
  then show ?thesis
    by (simp add: announce_statement_def MYSQL_START_STATEMENT_def MYSQL_END_STATEMENT_def act_in_turn_off runs_return)
qed

text \<open>To the other kind of event the calls of a statement or a transaction mean nothing.\<close>

lemma announce_statement_other:
  "runs (life_step transaction_phase) s (announce_statement p q) (\<lambda>_. s)"
proof -
  have act: "runs (life_step transaction_phase) s (act_on_statement p a l) (\<lambda>_. s)" for a l
    by (cases a) (auto simp: statement_macro_defs intro!: runs_bind [where t = "\<lambda>_. s"] runs_note runs_call runs_return)
  have "runs (life_step transaction_phase) s (act_in_turn p as l) (\<lambda>_. s)" for as l
    by (induction as arbitrary: l) (auto intro!: runs_bind [OF act] runs_return)
  then show ?thesis
    unfolding announce_statement_def
    by (intro runs_bind [where t = "\<lambda>_. s"])
      (auto simp: statement_macro_defs intro!: runs_bind [where t = "\<lambda>_. s"] runs_note runs_call runs_return)
qed

lemma act_on_transaction_other:
  "runs (life_step statement_phase) No_event (act_on_transaction p l a) (\<lambda>_. No_event)"
  by (cases a) (auto simp: transaction_macro_defs intro!: runs_note runs_return announce_statement_lives)

lemma announce_transaction_other:
  "runs (life_step statement_phase) No_event (announce_transaction p t) (\<lambda>_. No_event)"
  unfolding announce_transaction_def
  by (intro runs_bind [where t = "\<lambda>_. No_event"])
    (auto simp: transaction_macro_defs split: option.split
      intro!: runs_bind [where t = "\<lambda>_. No_event"] runs_note runs_call runs_return
        runs_traverse [OF act_on_transaction_other])

lemma act_on_transaction_lives:
  "runs (life_step transaction_phase) (now_started l) (act_on_transaction p l a) (\<lambda>_. now_started l)"
proof (cases "have_psi p")
  case True
  show ?thesis
  proof (cases a)
    case (Inside q)
    then show ?thesis by (simp add: announce_statement_other)
  qed (simp_all only: act_on_transaction.simps transaction_macro_defs if_P [OF True],
      (rule transaction_event.use_block, simp)+)
next
  case False
  then show ?thesis by (cases a) (simp_all add: transaction_macro_defs runs_return announce_statement_other)
qed

lemma announce_transaction_lives: "runs (life_step transaction_phase) No_event (announce_transaction p t) (\<lambda>_. No_event)"
proof (cases "have_psi p")
  case True
  have start: "runs (life_step transaction_phase) No_event
      (inline_mysql_start_transaction p st xid trxid isolation ro ac f n) now_started" for st xid trxid isolation ro ac f n
    using transaction_event.start_block [of p "(st, xid, trxid, isolation, ro, ac)" "(f, n)"]
    by (simp only: inline_mysql_start_transaction_def prod.case)
  have "runs (life_step transaction_phase) (now_started l)
      (if trx_commits t then MYSQL_COMMIT_TRANSACTION p l else MYSQL_ROLLBACK_TRANSACTION p l) (\<lambda>_. No_event)" for l
    unfolding MYSQL_COMMIT_TRANSACTION_def MYSQL_ROLLBACK_TRANSACTION_def inline_mysql_commit_transaction_def
      inline_mysql_rollback_transaction_def if_P [OF True]
    by (intro runs_if transaction_event.end_block)
  then have "runs (life_step transaction_phase) (now_started l)
      (bind (traverse_list (act_on_transaction p l) (trx_actions t)) (\<lambda>_.
       if trx_commits t then MYSQL_COMMIT_TRANSACTION p l else MYSQL_ROLLBACK_TRANSACTION p l)) (\<lambda>_. No_event)" for l
    by (rule runs_seq [OF runs_traverse [OF act_on_transaction_lives]])
  then show ?thesis
    unfolding announce_transaction_def MYSQL_START_TRANSACTION_def if_P [OF True] bind_assoc bind_left_identity option.case
    by (rule runs_bind [OF start])
next
  case False
  then show ?thesis by (simp add: announce_transaction_def MYSQL_START_TRANSACTION_def runs_return)
qed

section \<open>Waits around a call\<close>

text \<open>
  An idle wait or a wait for a table lock, as a caller puts it around a call: they are waits
  like those of sockets and mutexes.
\<close>

fun event_wait_phase :: "psi_event_call \<Rightarrow> nat \<Rightarrow> phase" where
  "event_wait_phase (start_idle_wait st f n) a = Opens a"
| "event_wait_phase (end_idle_wait l) a = Closes l"
| "event_wait_phase (start_table_lock_wait st psi oper flags f n) a = Opens a"
| "event_wait_phase (end_table_lock_wait l) a = Closes l"
| "event_wait_phase _ a = Neutral"

interpretation idle_wait: granting_interface event_wait_phase "\<lambda>l (u :: unit). end_idle_wait l"
  "\<lambda>(st, f, n). start_idle_wait st f n"
  by unfold_locales auto

interpretation table_wait: granting_interface event_wait_phase "\<lambda>l (u :: unit). end_table_lock_wait l"
  "\<lambda>(st, psi, oper, flags, f, n). start_table_lock_wait st psi oper flags f n"
  by unfold_locales auto

definition idle_around :: "psi_event_call psi \<Rightarrow> nat \<Rightarrow> string \<Rightarrow> int \<Rightarrow> ('w, 'a) event_prog \<Rightarrow> ('w, 'a) event_prog" where
  "idle_around p st f n raw =
     (if have_psi p
      then do {
        locker \<leftarrow> inline_mysql_start_idle_wait p st f n;
        result \<leftarrow> raw;
        inline_mysql_end_idle_wait locker;
        return result
      }
      else raw)"

definition table_lock_around :: "psi_event_call psi \<Rightarrow> nat \<Rightarrow> nat \<Rightarrow> PSI_table_lock_operation \<Rightarrow> 64 word \<Rightarrow> string \<Rightarrow> int
    \<Rightarrow> ('w, 'a) event_prog \<Rightarrow> ('w, 'a) event_prog" where
  "table_lock_around p st psi oper flags f n raw =
     (if have_psi p
      then do {
        locker \<leftarrow> inline_mysql_start_table_lock_wait p st psi oper flags f n;
        result \<leftarrow> raw;
        inline_mysql_end_table_lock_wait locker;
        return result
      }
      else raw)"

lemma idle_around_waits:
  "waits event_wait_phase Idle (idle_around p st f n (sys name g)) (\<lambda>_. Idle)"
  unfolding idle_around_def inline_mysql_start_idle_wait_def inline_mysql_end_idle_wait_def
  using idle_wait.plain_block [where x = "(st, f, n)" and k = return, OF waits_sys waits_sys_inside waits_return]
  by (intro waits_if waits_sys) simp

lemma table_lock_around_waits:
  "waits event_wait_phase Idle (table_lock_around p st psi oper flags f n (sys name g)) (\<lambda>_. Idle)"
proof (cases "have_psi p \<and> psi \<noteq> 0")
  case True
  then show ?thesis
    unfolding table_lock_around_def inline_mysql_start_table_lock_wait_def inline_mysql_end_table_lock_wait_def
    using table_wait.plain_block [where x = "(st, psi, oper, flags, f, n)" and k = return,
        OF waits_sys waits_sys_inside waits_return] by simp
next
  case False
  then show ?thesis
    by (auto simp: table_lock_around_def inline_mysql_start_table_lock_wait_def inline_mysql_end_table_lock_wait_def
        intro: waits_sys)
qed

section \<open>No call with NULL\<close>

text \<open>The pointers of a call that must not be NULL.\<close>

fun handles :: "psi_event_call \<Rightarrow> nat list" where
  "handles (digest_start l) = [l]"
| "handles (digest_end l d) = [l]"
| "handles (start_statement l db n f k) = [l]"
| "handles (refine_statement l key) = [l]"
| "handles (set_statement_text l t n) = [l]"
| "handles (set_statement_lock_time l n) = [l]"
| "handles (set_statement_rows_sent l n) = [l]"
| "handles (set_statement_rows_examined l n) = [l]"
| "handles (end_statement l da) = [l]"
| "handles (start_transaction l f n) = [l]"
| "handles (set_transaction_gtid l sid gtid) = [l]"
| "handles (set_transaction_xid l xid x) = [l]"
| "handles (set_transaction_xa_state l x) = [l]"
| "handles (set_transaction_trxid l t) = [l]"
| "handles (inc_transaction_savepoints l n) = [l]"
| "handles (inc_transaction_rollback_to_savepoint l n) = [l]"
| "handles (inc_transaction_release_savepoint l n) = [l]"
| "handles (end_transaction l c) = [l]"
| "handles (end_idle_wait l) = [l]"
| "handles (start_table_lock_wait st psi oper flags f n) = [psi]"
| "handles (end_table_lock_wait l) = [l]"
| "handles (unlock_table t) = [t]"
| "handles (set_metadata_lock_status l st) = [l]"
| "handles (destroy_metadata_lock l) = [l]"
| "handles (end_sp l) = [l]"
| "handles (create_prepared_stmt i n l name nl sql sl) = [l]"
| "handles (execute_prepared_stmt l ps) = [l, ps]"
| "handles (destroy_prepared_stmt ps) = [ps]"
| "handles (reprepare_prepared_stmt ps) = [ps]"
| "handles _ = []"

fun null_step :: "unit \<Rightarrow> psi_event_call event \<Rightarrow> unit option" where
  "null_step s (Sys n) = Some s"
| "null_step s (Psi c a) = (if 0 \<in> set (handles c) then None else Some s)"

abbreviation null_free :: "('w, 'a) event_prog \<Rightarrow> bool" where
  "null_free prog \<equiv> runs null_step () prog (\<lambda>_. ())"

lemmas null_rules = runs_bind [where t = "\<lambda>_. ()"] runs_note runs_call runs_return

lemma null_free_statement: "null_free (act_on_statement p a l)"
  by (cases a) (auto simp: statement_macro_defs intro!: null_rules)

lemma null_free_announce_statement: "null_free (announce_statement p q)"
proof -
  have "null_free (act_in_turn p as l)" for as l
    by (induction as arbitrary: l) (auto intro!: runs_bind [OF null_free_statement] runs_return)
  then show ?thesis
    unfolding announce_statement_def
    by (intro null_rules(1)) (auto simp: statement_macro_defs intro!: null_rules)
qed

lemma null_free_announce_transaction: "null_free (announce_transaction p t)"
proof -
  have "null_free (act_on_transaction p l a)" for l a
    by (cases a) (auto simp: transaction_macro_defs intro!: null_rules null_free_announce_statement)
  then show ?thesis
    unfolding announce_transaction_def
    by (intro null_rules(1)) (auto simp: transaction_macro_defs split: option.split intro!: null_rules runs_traverse)
qed

lemma null_free_others:
  "null_free (inline_mysql_end_idle_wait l)" "null_free (inline_mysql_start_table_lock_wait p st psi oper flags f n)"
  "null_free (inline_mysql_end_table_lock_wait l)" "null_free (inline_mysql_unlock_table l)"
  "null_free (inline_mysql_mdl_set_status l m)" "null_free (inline_mysql_mdl_destroy l f k)"
  "null_free (inline_mysql_end_sp l)" "null_free (inline_mysql_create_prepared_stmt p i k l name nl sql sl)"
  "null_free (inline_mysql_execute_prepared_stmt l ps)" "null_free (inline_mysql_destroy_prepared_stmt ps)"
  "null_free (inline_mysql_reprepare_prepared_stmt ps)"
  by (auto simp: inline_mysql_end_idle_wait_def inline_mysql_start_table_lock_wait_def
      inline_mysql_end_table_lock_wait_def inline_mysql_unlock_table_def inline_mysql_mdl_set_status_def
      inline_mysql_mdl_destroy_def inline_mysql_end_sp_def inline_mysql_create_prepared_stmt_def
      inline_mysql_execute_prepared_stmt_def inline_mysql_destroy_prepared_stmt_def
      inline_mysql_reprepare_prepared_stmt_def intro!: runs_note runs_call runs_return)

section \<open>Properties\<close>

text \<open>C38: The calls that announce statements and transactions come in order. Whatever transactions
  with whatever statements and actions a caller announces through the macros, and whatever the
  performance schema answers, the calls for statements read by themselves are: a locker
  handed out, started once, used and exchanged only while it is the current one, ended once,
  and then the next; so are the calls for transactions; and no call is given a NULL handle.\<close>

theorem announced_events_in_order:
  "\<exists>es. events (snd (run_state (traverse_list (announce_transaction p) ts) m)) = events m @ es
     \<and> reads_all (life_step statement_phase) No_event es = Some No_event
     \<and> reads_all (life_step transaction_phase) No_event es = Some No_event
     \<and> reads_all null_step () es = Some ()"
proof -
  let ?prog = "traverse_list (announce_transaction p) ts"
  have "runs (life_step statement_phase) No_event ?prog (\<lambda>_. No_event)"
    "runs (life_step transaction_phase) No_event ?prog (\<lambda>_. No_event)" "null_free ?prog"
    by (rule runs_traverse, rule announce_transaction_other announce_transaction_lives null_free_announce_transaction)+
  then show ?thesis unfolding runs_def by (metis same_append_eq)
qed

end
