(* ===== verification/Mysql_Iocache.thy ===== *)
theory Mysql_Iocache
  imports "HOL-Library.Word" Web_Prelude
begin

text \<open>
  The macros of my_sys.h on \<open>IO_CACHE\<close>, the buffer between a file and its reader or writer.
  A macro serves a request from the buffer where it can and otherwise calls the function the
  cache was set up with, which is not part of the repository: \<open>read_function\<close>, \<open>write_function\<close>
  and \<open>_my_b_get\<close> are parameters, and what is known of them is stated where it is used. A
  pointer is a 64-bit word and pointer arithmetic wraps, as it does on the machine.
\<close>

section \<open>Memory\<close>

type_synonym ptr = "64 word"

definition memcpy :: "(ptr \<Rightarrow> 8 word) \<Rightarrow> ptr \<Rightarrow> ptr \<Rightarrow> 64 word \<Rightarrow> (ptr \<Rightarrow> 8 word)" where
  "memcpy m dst src n = (\<lambda>a. if a - dst < n then m (src + (a - dst)) else m a)"

text \<open>The \<open>n\<close> bytes from an address on.\<close>

definition bytes_at :: "(ptr \<Rightarrow> 8 word) \<Rightarrow> ptr \<Rightarrow> nat \<Rightarrow> 8 word list" where
  "bytes_at m a n = map (\<lambda>i. m (a + of_nat i)) [0..<n]"

lemma length_bytes_at [simp]: "length (bytes_at m a n) = n"
  by (simp add: bytes_at_def)

lemma nth_bytes_at [simp]: "i < n \<Longrightarrow> bytes_at m a n ! i = m (a + of_nat i)"
  by (simp add: bytes_at_def)

lemma memcpy_target:
  assumes "i < unat n"
  shows "memcpy m dst src n (dst + of_nat i) = m (src + of_nat i)"
proof -
  have "unat n < 2 ^ LENGTH(64)" by (rule unsigned_less)
  with assms have "i < 2 ^ 64" by simp
  then have "unat (of_nat i :: 64 word) = i" by (simp add: unat_of_nat take_bit_nat_eq_self)
  with assms have "(of_nat i :: 64 word) < n" by (simp add: word_less_nat_alt)
  then show ?thesis by (simp add: memcpy_def)
qed

lemma memcpy_elsewhere:
  assumes "\<forall>i < unat n. a \<noteq> dst + of_nat i"
  shows "memcpy m dst src n a = m a"
proof (cases "a - dst < n")
  case True
  then have "unat (a - dst) < unat n" by (simp add: word_less_nat_alt)
  moreover have "a = dst + of_nat (unat (a - dst))" by simp
  ultimately show ?thesis using assms by blast
qed (simp add: memcpy_def)

lemma bytes_at_memcpy: "bytes_at (memcpy m dst src n) dst (unat n) = bytes_at m src (unat n)"
  by (simp add: bytes_at_def memcpy_target)

section \<open>The cache\<close>

datatype cache_type = TYPE_NOT_SET | READ_CACHE | WRITE_CACHE | SEQ_READ_APPEND | READ_FIFO | READ_NET | WRITE_NET

text \<open>What \<open>current_pos\<close> and \<open>current_end\<close> point to: the pair for reading or that for writing.\<close>

datatype cursor = To_read | To_write

text \<open>
  The members in their order. Pointers to functions, to the lock and to names are addresses:
  the macros only go through \<open>read_function\<close> and \<open>write_function\<close>, which are arguments of them.
\<close>

record IO_CACHE =
  pos_in_file :: "64 word"
  end_of_file :: "64 word"
  read_pos :: ptr
  read_end :: ptr
  buffer :: ptr
  request_pos :: ptr
  write_buffer :: ptr
  append_read_pos :: ptr
  write_pos :: ptr
  write_end :: ptr
  current_pos :: cursor
  current_end :: cursor
  append_buffer_lock :: ptr
  share :: ptr
  read_function_ptr :: ptr
  write_function_ptr :: ptr
  ctype :: cache_type
  pre_read :: ptr
  post_read :: ptr
  pre_close :: ptr
  disk_writes :: "64 word"
  arg :: ptr
  file_name :: ptr
  dir :: ptr
  prefix :: ptr
  cache_file :: "32 word"
  file_key :: "32 word"
  seek_not_done :: "32 word"
  error :: "32 word"
  buffer_length :: "64 word"
  read_length :: "64 word"
  myflags :: "32 word"
  alloced_buffer :: bool

text \<open>The cache, the memory and the bytes of the file behind it.\<close>

record io =
  cache :: IO_CACHE
  memory :: "ptr \<Rightarrow> 8 word"
  disk :: "8 word list"

section \<open>The macros\<close>

definition my_b_clear :: "io \<Rightarrow> io" where
  "my_b_clear s = s\<lparr>cache := (cache s)\<lparr>buffer := 0\<rparr>\<rparr>"

definition my_b_inited :: "IO_CACHE \<Rightarrow> bool" where
  "my_b_inited info \<longleftrightarrow> buffer info \<noteq> 0"

definition my_b_EOF :: int where "my_b_EOF = - 2147483648"

definition my_b_read :: "(io \<Rightarrow> ptr \<Rightarrow> 64 word \<Rightarrow> int \<times> io) \<Rightarrow> io \<Rightarrow> ptr \<Rightarrow> 64 word \<Rightarrow> int \<times> io" where
  "my_b_read read_function s Buffer Count =
     (let info = cache s in
      if read_pos info + Count \<le> read_end info
      then (0, s\<lparr>memory := memcpy (memory s) Buffer (read_pos info) Count,
                 cache := info\<lparr>read_pos := read_pos info + Count\<rparr>\<rparr>)
      else read_function s Buffer Count)"

definition my_b_write :: "(io \<Rightarrow> ptr \<Rightarrow> 64 word \<Rightarrow> int \<times> io) \<Rightarrow> io \<Rightarrow> ptr \<Rightarrow> 64 word \<Rightarrow> int \<times> io" where
  "my_b_write write_function s Buffer Count =
     (let info = cache s in
      if write_pos info + Count \<le> write_end info
      then (0, s\<lparr>memory := memcpy (memory s) (write_pos info) Buffer Count,
                 cache := info\<lparr>write_pos := write_pos info + Count\<rparr>\<rparr>)
      else write_function s Buffer Count)"

definition my_b_get :: "(io \<Rightarrow> int \<times> io) \<Rightarrow> io \<Rightarrow> int \<times> io" where
  "my_b_get get_function s =
     (let info = cache s in
      if read_pos info \<noteq> read_end info
      then (let info' = info\<lparr>read_pos := read_pos info + 1\<rparr>
            in (uint (memory s (read_pos info' - 1)), s\<lparr>cache := info'\<rparr>))
      else get_function s)"

definition deref_pos :: "IO_CACHE \<Rightarrow> ptr" where
  "deref_pos info = (case current_pos info of To_read \<Rightarrow> read_pos info | To_write \<Rightarrow> write_pos info)"

definition deref_end :: "IO_CACHE \<Rightarrow> ptr" where
  "deref_end info = (case current_end info of To_read \<Rightarrow> read_end info | To_write \<Rightarrow> write_end info)"

definition my_b_tell :: "IO_CACHE \<Rightarrow> 64 word" where
  "my_b_tell info = pos_in_file info + (deref_pos info - request_pos info)"

definition my_b_get_buffer_start :: "IO_CACHE \<Rightarrow> ptr" where
  "my_b_get_buffer_start info = request_pos info"

definition my_b_get_bytes_in_buffer :: "IO_CACHE \<Rightarrow> 64 word" where
  "my_b_get_bytes_in_buffer info = read_end info - my_b_get_buffer_start info"

definition my_b_get_pos_in_file :: "IO_CACHE \<Rightarrow> 64 word" where
  "my_b_get_pos_in_file info = pos_in_file info"

definition my_b_bytes_in_cache :: "IO_CACHE \<Rightarrow> 64 word" where
  "my_b_bytes_in_cache info = deref_end info - deref_pos info"

section \<open>A cache that reads\<close>

text \<open>
  A read cache is sound where the buffer holds what the file has from \<open>pos_in_file\<close> on, and
  the pointers are in order within the allocated area.
\<close>

definition read_ok :: "io \<Rightarrow> bool" where
  "read_ok s \<longleftrightarrow> (let c = cache s in
     current_pos c = To_read \<and> current_end c = To_read
   \<and> request_pos c = buffer c \<and> buffer c \<le> read_pos c \<and> read_pos c \<le> read_end c
   \<and> unat (read_end c) \<le> unat (buffer c) + unat (buffer_length c)
   \<and> unat (buffer c) + unat (buffer_length c) < 2 ^ 64
   \<and> length (disk s) < 2 ^ 64
   \<and> unat (pos_in_file c) + (unat (read_end c) - unat (buffer c)) \<le> length (disk s)
   \<and> bytes_at (memory s) (buffer c) (unat (read_end c) - unat (buffer c))
     = take (unat (read_end c) - unat (buffer c)) (drop (unat (pos_in_file c)) (disk s)))"

text \<open>The position of the reader in the file, and the bytes it can get without a call.\<close>

definition position :: "io \<Rightarrow> nat" where
  "position s = unat (my_b_tell (cache s))"

definition buffered :: "io \<Rightarrow> nat" where
  "buffered s = unat (my_b_bytes_in_cache (cache s))"

lemma read_okD:
  assumes "read_ok s"
  shows "current_pos (cache s) = To_read" "current_end (cache s) = To_read"
    "request_pos (cache s) = buffer (cache s)"
    "unat (buffer (cache s)) \<le> unat (read_pos (cache s))" "unat (read_pos (cache s)) \<le> unat (read_end (cache s))"
    "unat (read_end (cache s)) \<le> unat (buffer (cache s)) + unat (buffer_length (cache s))"
    "unat (buffer (cache s)) + unat (buffer_length (cache s)) < 2 ^ 64" "length (disk s) < 2 ^ 64"
    "unat (pos_in_file (cache s)) + (unat (read_end (cache s)) - unat (buffer (cache s))) \<le> length (disk s)"
    "bytes_at (memory s) (buffer (cache s)) (unat (read_end (cache s)) - unat (buffer (cache s)))
     = take (unat (read_end (cache s)) - unat (buffer (cache s))) (drop (unat (pos_in_file (cache s))) (disk s))"
  using assms unfolding read_ok_def Let_def word_le_nat_alt by blast+

lemma unat_diff: "unat b \<le> unat a \<Longrightarrow> unat (a - b) = unat a - unat b" for a b :: "64 word"
  by (rule unat_sub) (simp add: word_le_nat_alt)

lemma unat_plus: "unat a + unat b < 2 ^ 64 \<Longrightarrow> unat (a + b) = unat a + unat b" for a b :: "64 word"
  by (simp add: unat_word_ariths)

lemma read_position:
  assumes "read_ok s"
  shows "position s = unat (pos_in_file (cache s)) + (unat (read_pos (cache s)) - unat (buffer (cache s)))"
    and "buffered s = unat (read_end (cache s)) - unat (read_pos (cache s))"
proof -
  note d = read_okD [OF assms]
  have "unat (read_pos (cache s) - buffer (cache s)) = unat (read_pos (cache s)) - unat (buffer (cache s))"
    by (rule unat_diff [OF d(4)])
  moreover from this have "unat (pos_in_file (cache s)) + unat (read_pos (cache s) - buffer (cache s)) < 2 ^ 64"
    using d(5,8,9) by linarith
  ultimately show "position s = unat (pos_in_file (cache s)) + (unat (read_pos (cache s)) - unat (buffer (cache s)))"
    using unat_plus [of "pos_in_file (cache s)" "read_pos (cache s) - buffer (cache s)"] d(1,3)
    by (simp add: position_def my_b_tell_def deref_pos_def)
  show "buffered s = unat (read_end (cache s)) - unat (read_pos (cache s))"
    using d(1,2) unat_diff [OF d(5)] by (simp add: buffered_def my_b_bytes_in_cache_def deref_pos_def deref_end_def)
qed

text \<open>What the reader has in the buffer is what comes next in the file.\<close>

lemma buffered_bytes:
  assumes "read_ok s" "n \<le> buffered s"
  shows "bytes_at (memory s) (read_pos (cache s)) n = take n (drop (position s) (disk s))"
    and "position s + n \<le> length (disk s)"
proof -
  note d = read_okD [OF assms(1)] and p = read_position [OF assms(1)]
  define l where "l = unat (read_end (cache s)) - unat (buffer (cache s))"
  obtain k where k: "unat (read_pos (cache s)) = unat (buffer (cache s)) + k"
    using d(4) by (metis nat_le_iff_add)
  have kl: "k + n \<le> l" using assms(2) d(5) p(2) k by (simp add: l_def)
  have at: "position s = unat (pos_in_file (cache s)) + k" using p(1) k by simp
  show bound: "position s + n \<le> length (disk s)" using kl d(9) at by (simp add: l_def)
  have "of_nat (unat (read_pos (cache s))) = (of_nat (unat (buffer (cache s))) + of_nat k :: 64 word)"
    unfolding k by (rule of_nat_add)
  then have pos: "read_pos (cache s) = buffer (cache s) + of_nat k" by simp
  have nth: "memory s (buffer (cache s) + of_nat j) = disk s ! (unat (pos_in_file (cache s)) + j)" if "j < l" for j
    using arg_cong [OF d(10) [folded l_def], of "\<lambda>xs. xs ! j"] that d(9) by (simp add: l_def [symmetric])
  show "bytes_at (memory s) (read_pos (cache s)) n = take n (drop (position s) (disk s))"
  proof (rule nth_equalityI)
    show "length (bytes_at (memory s) (read_pos (cache s)) n) = length (take n (drop (position s) (disk s)))"
      using bound by simp
    fix i assume "i < length (bytes_at (memory s) (read_pos (cache s)) n)"
    then have i: "i < n" by simp
    then have "memory s (buffer (cache s) + of_nat (k + i)) = disk s ! (position s + i)"
      using nth [of "k + i"] kl at by (simp add: add.assoc)
    then show "bytes_at (memory s) (read_pos (cache s)) n ! i = take n (drop (position s) (disk s)) ! i"
      using i bound pos by (simp add: add.assoc)
  qed
qed

text \<open>
  A request may be served: its target does not touch the area of the buffer, and its length
  does not carry a pointer into the buffer over the end of the address space.
\<close>

definition requestable :: "io \<Rightarrow> ptr \<Rightarrow> 64 word \<Rightarrow> bool" where
  "requestable s Buffer Count \<longleftrightarrow>
     (\<forall>i < unat Count. \<forall>k < unat (buffer_length (cache s)). Buffer + of_nat i \<noteq> buffer (cache s) + of_nat k)
   \<and> unat (buffer (cache s)) + unat (buffer_length (cache s)) + unat Count < 2 ^ 64"

lemma unat_offset: "unat a + i < 2 ^ 64 \<Longrightarrow> unat (a + of_nat i) = unat a + i" for a :: ptr
  using unat_plus [of a "of_nat i"] by (simp add: unat_of_nat take_bit_nat_eq_self)

lemma requestable_above:
  assumes "unat (buffer (cache s)) + unat (buffer_length (cache s)) \<le> unat Buffer"
    and "unat Buffer + unat Count < 2 ^ 64"
  shows "requestable s Buffer Count"
proof -
  have "Buffer + of_nat i \<noteq> buffer (cache s) + of_nat k"
    if i: "i < unat Count" and k: "k < unat (buffer_length (cache s))" for i k
  proof
    assume "Buffer + of_nat i = buffer (cache s) + of_nat k"
    then have "unat (Buffer + of_nat i) = unat (buffer (cache s) + of_nat k)" by simp
    moreover have "unat (Buffer + of_nat i) = unat Buffer + i" using i assms(2) by (intro unat_offset) linarith
    moreover have "unat (buffer (cache s) + of_nat k) = unat (buffer (cache s)) + k"
      using k assms by (intro unat_offset) linarith
    ultimately show False using assms(1) k by linarith
  qed
  with assms show ?thesis unfolding requestable_def by (intro conjI) (blast, linarith)
qed

definition same_area :: "io \<Rightarrow> io \<Rightarrow> bool" where
  "same_area s s' \<longleftrightarrow> disk s' = disk s \<and> buffer (cache s') = buffer (cache s)
     \<and> buffer_length (cache s') = buffer_length (cache s)"

text \<open>A reader's step from \<open>s\<close> to \<open>s'\<close> over \<open>n\<close> bytes of the file.\<close>

definition advances :: "nat \<Rightarrow> io \<Rightarrow> io \<Rightarrow> bool" where
  "advances n s s' \<longleftrightarrow> same_area s s' \<and> read_ok s' \<and> position s' = position s + n"

lemma fast_path_iff:
  assumes "read_ok s" "requestable s Buffer Count"
  shows "read_pos (cache s) + Count \<le> read_end (cache s) \<longleftrightarrow> unat Count \<le> buffered s"
proof -
  note d = read_okD [OF assms(1)]
  have "unat (read_pos (cache s)) + unat Count < 2 ^ 64"
    using assms(2) d(4-6) unfolding requestable_def by linarith
  then have "unat (read_pos (cache s) + Count) = unat (read_pos (cache s)) + unat Count" by (rule unat_plus)
  with d(5) show ?thesis by (simp add: word_le_nat_alt read_position(2) [OF assms(1)]) linarith
qed

lemma move_read_pos:
  assumes "read_ok s" "n \<le> buffered s" "unat p = unat (read_pos (cache s)) + n"
    and "bytes_at m (buffer (cache s)) (unat (buffer_length (cache s)))
      = bytes_at (memory s) (buffer (cache s)) (unat (buffer_length (cache s)))"
  shows "advances n s (s\<lparr>memory := m, cache := (cache s)\<lparr>read_pos := p\<rparr>\<rparr>)"
proof -
  note d = read_okD [OF assms(1)]
  let ?t = "s\<lparr>memory := m, cache := (cache s)\<lparr>read_pos := p\<rparr>\<rparr>"
  let ?l = "unat (read_end (cache s)) - unat (buffer (cache s))"
  have l: "?l \<le> unat (buffer_length (cache s))" using d(6) by linarith
  have take: "bytes_at mm (buffer (cache s)) ?l = take ?l (bytes_at mm (buffer (cache s)) (unat (buffer_length (cache s))))" for mm
    using l by (simp add: bytes_at_def take_map)
  have "bytes_at m (buffer (cache s)) ?l = bytes_at (memory s) (buffer (cache s)) ?l"
    unfolding take assms(4) ..
  moreover have "unat p \<le> unat (read_end (cache s))" using assms(2,3) d(5) read_position(2) [OF assms(1)] by linarith
  ultimately have ok: "read_ok ?t"
    using d assms(3) by (simp add: read_ok_def Let_def word_le_nat_alt)
  moreover have "position ?t = position s + n"
    using read_position(1) [OF ok] read_position(1) [OF assms(1)] assms(3) d(4) by simp
  ultimately show ?thesis by (simp add: advances_def same_area_def)
qed

lemma my_b_read_fast:
  assumes "read_ok s" "requestable s Buffer Count" "unat Count \<le> buffered s"
  shows "\<exists>s'. my_b_read rf s Buffer Count = (0, s') \<and> advances (unat Count) s s'
    \<and> bytes_at (memory s') Buffer (unat Count) = take (unat Count) (drop (position s) (disk s))"
proof -
  let ?m = "memcpy (memory s) Buffer (read_pos (cache s)) Count"
  let ?t = "s\<lparr>memory := ?m, cache := (cache s)\<lparr>read_pos := read_pos (cache s) + Count\<rparr>\<rparr>"
  note d = read_okD [OF assms(1)]
  have "bytes_at ?m (buffer (cache s)) (unat (buffer_length (cache s)))
      = bytes_at (memory s) (buffer (cache s)) (unat (buffer_length (cache s)))"
    using assms(2) by (auto simp: bytes_at_def requestable_def intro!: memcpy_elsewhere) metis
  moreover have "unat (read_pos (cache s) + Count) = unat (read_pos (cache s)) + unat Count"
    using assms(3) read_position(2) [OF assms(1)] d(5-7) by (intro unat_plus) linarith
  ultimately have "advances (unat Count) s ?t" by (intro move_read_pos [OF assms(1,3)])
  moreover have "my_b_read rf s Buffer Count = (0, ?t)"
    using fast_path_iff [OF assms(1,2)] assms(3) by (simp add: my_b_read_def Let_def)
  moreover have "bytes_at (memory ?t) Buffer (unat Count) = take (unat Count) (drop (position s) (disk s))"
    using buffered_bytes(1) [OF assms(1,3)] by (simp add: bytes_at_memcpy)
  ultimately show ?thesis by blast
qed

lemma my_b_get_fast:
  assumes "read_ok s" "0 < buffered s"
  shows "\<exists>s'. my_b_get gf s = (uint (disk s ! position s), s') \<and> advances 1 s s'"
proof -
  note d = read_okD [OF assms(1)]
  let ?t = "s\<lparr>memory := memory s, cache := (cache s)\<lparr>read_pos := read_pos (cache s) + 1\<rparr>\<rparr>"
  have lt: "unat (read_pos (cache s)) < unat (read_end (cache s))"
    using assms(2) read_position(2) [OF assms(1)] by linarith
  then have ne: "read_pos (cache s) \<noteq> read_end (cache s)" by auto
  have "unat (read_pos (cache s) + 1) = unat (read_pos (cache s)) + 1"
    using unat_plus [of "read_pos (cache s)" 1] lt d(6,7) by simp
  then have adv: "advances 1 s ?t" using assms(2) by (intro move_read_pos [OF assms(1)]) simp_all
  have one: "1 \<le> buffered s" using assms(2) by simp
  have "memory s (read_pos (cache s)) = disk s ! position s"
    using buffered_bytes [OF assms(1) one] by (simp add: bytes_at_def take_Suc_conv_app_nth hd_drop_conv_nth take_Suc)
  then have "my_b_get gf s = (uint (disk s ! position s), ?t)" using ne by (simp add: my_b_get_def Let_def)
  with adv show ?thesis by blast
qed

text \<open>
  What a read cache relies on its functions for, where the buffer does not suffice: they
  deliver what comes next in the file, or fail where the file has less.
\<close>

definition reads_file :: "(io \<Rightarrow> ptr \<Rightarrow> 64 word \<Rightarrow> int \<times> io) \<Rightarrow> bool" where
  "reads_file read_function \<longleftrightarrow> (\<forall>s Buffer Count. read_ok s \<and> requestable s Buffer Count \<and> buffered s < unat Count \<longrightarrow>
     (case read_function s Buffer Count of (r, s') \<Rightarrow>
        if position s + unat Count \<le> length (disk s)
        then r = 0 \<and> advances (unat Count) s s'
          \<and> bytes_at (memory s') Buffer (unat Count) = take (unat Count) (drop (position s) (disk s))
        else r \<noteq> 0))"

definition gets_file :: "(io \<Rightarrow> int \<times> io) \<Rightarrow> bool" where
  "gets_file get_function \<longleftrightarrow> (\<forall>s. read_ok s \<and> buffered s = 0 \<longrightarrow>
     (case get_function s of (r, s') \<Rightarrow>
        if position s < length (disk s) then r = uint (disk s ! position s) \<and> advances 1 s s'
        else r = my_b_EOF))"

lemma my_b_read_correct:
  assumes "read_ok s" "requestable s Buffer Count" "reads_file rf"
  shows "case my_b_read rf s Buffer Count of (r, s') \<Rightarrow>
    if position s + unat Count \<le> length (disk s)
    then r = 0 \<and> advances (unat Count) s s'
      \<and> bytes_at (memory s') Buffer (unat Count) = take (unat Count) (drop (position s) (disk s))
    else r \<noteq> 0"
proof (cases "unat Count \<le> buffered s")
  case True
  obtain s' where "my_b_read rf s Buffer Count = (0, s')" "advances (unat Count) s s'"
    "bytes_at (memory s') Buffer (unat Count) = take (unat Count) (drop (position s) (disk s))"
    using my_b_read_fast [OF assms(1,2) True] by blast
  with buffered_bytes(2) [OF assms(1) True] show ?thesis by simp
next
  case False
  then have "my_b_read rf s Buffer Count = rf s Buffer Count"
    using fast_path_iff [OF assms(1,2)] by (simp add: my_b_read_def Let_def)
  with False assms show ?thesis by (simp add: reads_file_def)
qed

lemma my_b_get_correct:
  assumes "read_ok s" "gets_file gf"
  shows "case my_b_get gf s of (r, s') \<Rightarrow>
    if position s < length (disk s) then r = uint (disk s ! position s) \<and> advances 1 s s' else r = my_b_EOF"
proof (cases "buffered s = 0")
  case True
  then have "unat (read_pos (cache s)) = unat (read_end (cache s))"
    using read_position(2) [OF assms(1)] read_okD(5) [OF assms(1)] by linarith
  then have "my_b_get gf s = gf s" by (simp add: my_b_get_def Let_def word_unat_eq_iff)
  with True assms show ?thesis by (simp add: gets_file_def)
next
  case False
  then obtain s' where "my_b_get gf s = (uint (disk s ! position s), s')" "advances 1 s s'"
    using my_b_get_fast [OF assms(1)] by auto
  moreover have "position s < length (disk s)" using buffered_bytes(2) [OF assms(1), of 1] False by simp
  ultimately show ?thesis by simp
qed

section \<open>A sequence of requests\<close>

datatype request = Fetch ptr "64 word" | Fetch_byte

text \<open>The requests through the cache, up to the first that fails: what each delivered.\<close>

fun through_cache :: "(io \<Rightarrow> ptr \<Rightarrow> 64 word \<Rightarrow> int \<times> io) \<Rightarrow> (io \<Rightarrow> int \<times> io) \<Rightarrow> request list \<Rightarrow> io
    \<Rightarrow> 8 word list list \<times> bool" where
  "through_cache rf gf [] s = ([], True)"
| "through_cache rf gf (Fetch Buffer Count # qs) s = (case my_b_read rf s Buffer Count of (r, s') \<Rightarrow>
     if r = 0 then apfst ((#) (bytes_at (memory s') Buffer (unat Count))) (through_cache rf gf qs s')
     else ([], False))"
| "through_cache rf gf (Fetch_byte # qs) s = (case my_b_get gf s of (c, s') \<Rightarrow>
     if c = my_b_EOF then ([], False)
     else apfst ((#) [word_of_int c]) (through_cache rf gf qs s'))"

text \<open>The same requests answered from the bytes of the file that are left.\<close>

fun from_file :: "request list \<Rightarrow> 8 word list \<Rightarrow> 8 word list list \<times> bool" where
  "from_file [] bs = ([], True)"
| "from_file (Fetch Buffer Count # qs) bs =
     (if unat Count \<le> length bs then apfst ((#) (take (unat Count) bs)) (from_file qs (drop (unat Count) bs))
      else ([], False))"
| "from_file (Fetch_byte # qs) bs =
     (case bs of [] \<Rightarrow> ([], False) | b # bs' \<Rightarrow> apfst ((#) [b]) (from_file qs bs'))"

definition all_requestable :: "io \<Rightarrow> request list \<Rightarrow> bool" where
  "all_requestable s qs \<longleftrightarrow> (\<forall>Buffer Count. Fetch Buffer Count \<in> set qs \<longrightarrow> requestable s Buffer Count)"

lemma all_requestable_Cons:
  "all_requestable s (q # qs) \<Longrightarrow> same_area s s' \<Longrightarrow> all_requestable s' qs"
  by (auto simp: all_requestable_def requestable_def same_area_def)

lemma position_le: "read_ok s \<Longrightarrow> position s \<le> length (disk s)"
  using buffered_bytes(2) [of s 0] by simp

lemma through_cache_from_file:
  assumes "reads_file rf" "gets_file gf" "read_ok s" "all_requestable s qs"
  shows "through_cache rf gf qs s = from_file qs (drop (position s) (disk s))"
  using assms(3,4)
proof (induction qs arbitrary: s)
  case (Cons q qs)
  have IH: "through_cache rf gf qs s' = from_file qs (drop (position s + n) (disk s))" if "advances n s s'" for n s'
  proof -
    have a: "read_ok s'" "same_area s s'" "position s' = position s + n" using that by (simp_all add: advances_def)
    then have "disk s' = disk s" by (simp add: same_area_def)
    with Cons.IH [OF a(1) all_requestable_Cons [OF Cons.prems(2) a(2)]] a(3) show ?thesis by simp
  qed
  show ?case
  proof (cases q)
    case (Fetch Buffer Count)
    have req: "requestable s Buffer Count" using Cons.prems(2) Fetch by (simp add: all_requestable_def)
    obtain r s' where m: "my_b_read rf s Buffer Count = (r, s')" by force
    note r = my_b_read_correct [OF Cons.prems(1) req assms(1), unfolded m prod.case]
    have len: "position s + unat Count \<le> length (disk s) \<longleftrightarrow> unat Count \<le> length (drop (position s) (disk s))"
      using position_le [OF Cons.prems(1)] by auto
    show ?thesis
    proof (cases "position s + unat Count \<le> length (disk s)")
      case True
      with r have a: "r = 0" "advances (unat Count) s s'"
        "bytes_at (memory s') Buffer (unat Count) = take (unat Count) (drop (position s) (disk s))" by simp_all
      have l: "unat Count \<le> length (drop (position s) (disk s))" using True len by blast
      show ?thesis
        unfolding Fetch through_cache.simps from_file.simps m prod.case a(3) IH [OF a(2)] if_P [OF a(1)] if_P [OF l]
        by (simp add: add.commute)
    next
      case False
      with r have r0: "r \<noteq> 0" by simp
      have l: "\<not> unat Count \<le> length (drop (position s) (disk s))" using False len by blast
      show ?thesis unfolding Fetch through_cache.simps from_file.simps m prod.case if_not_P [OF r0] if_not_P [OF l] ..
    qed
  next
    case Fetch_byte
    obtain r s' where m: "my_b_get gf s = (r, s')" by force
    note r = my_b_get_correct [OF Cons.prems(1) assms(2), unfolded m prod.case]
    show ?thesis
    proof (cases "position s < length (disk s)")
      case True
      with r have a: "r = uint (disk s ! position s)" "advances 1 s s'" by simp_all
      then have "0 \<le> r" by simp
      then have ne: "r \<noteq> my_b_EOF" by (simp add: my_b_EOF_def)
      have d: "drop (position s) (disk s) = disk s ! position s # drop (Suc (position s)) (disk s)"
        using True by (rule Cons_nth_drop_Suc [symmetric])
      show ?thesis
        unfolding Fetch_byte through_cache.simps from_file.simps m prod.case IH [OF a(2)] if_not_P [OF ne] d list.case
        using a(1) by simp
    next
      case False
      with r have "r = my_b_EOF" by simp
      with False m show ?thesis by (simp add: Fetch_byte)
    qed
  qed
qed simp

text \<open>
  Such functions exist: for example those that go past the buffer to the file and leave the
  buffer empty.
\<close>

definition skip_buffer :: "nat \<Rightarrow> io \<Rightarrow> io" where
  "skip_buffer n s = s\<lparr>cache := (cache s)\<lparr>pos_in_file := of_nat (position s + n),
     read_pos := buffer (cache s), read_end := buffer (cache s)\<rparr>\<rparr>"

definition direct_read :: "io \<Rightarrow> ptr \<Rightarrow> 64 word \<Rightarrow> int \<times> io" where
  "direct_read s Buffer Count =
     (if position s + unat Count \<le> length (disk s)
      then (0, (skip_buffer (unat Count) s)\<lparr>memory := (\<lambda>a. if a - Buffer < Count
              then disk s ! (position s + unat (a - Buffer)) else memory s a)\<rparr>)
      else (1, s))"

definition direct_get :: "io \<Rightarrow> int \<times> io" where
  "direct_get s = (if position s < length (disk s) then (uint (disk s ! position s), skip_buffer 1 s) else (my_b_EOF, s))"

lemma skip_buffer_advances:
  assumes "read_ok s" "position s + n \<le> length (disk s)"
  shows "advances n s ((skip_buffer n s)\<lparr>memory := m\<rparr>)"
proof -
  note d = read_okD [OF assms(1)]
  have "unat (of_nat (position s + n) :: 64 word) = position s + n"
    using assms(2) d(8) by (simp add: unat_of_nat take_bit_nat_eq_self del: of_nat_add)
  then have "read_ok ((skip_buffer n s)\<lparr>memory := m\<rparr>)" "position ((skip_buffer n s)\<lparr>memory := m\<rparr>) = position s + n"
    using d assms(2)
    by (simp_all add: read_ok_def Let_def skip_buffer_def bytes_at_def position_def my_b_tell_def deref_pos_def)
  then show ?thesis by (simp add: advances_def same_area_def skip_buffer_def)
qed

lemma reads_file_direct: "reads_file direct_read"
proof -
  have "bytes_at (\<lambda>a. if a - Buffer < Count then disk s ! (position s + unat (a - Buffer)) else memory s a) Buffer (unat Count)
      = take (unat Count) (drop (position s) (disk s))" if "position s + unat Count \<le> length (disk s)" for s Buffer Count
  proof (rule nth_equalityI)
    fix i assume "i < length (bytes_at (\<lambda>a. if a - Buffer < Count then disk s ! (position s + unat (a - Buffer))
      else memory s a) Buffer (unat Count))"
    then have i: "i < unat Count" by simp
    moreover have "unat Count < 2 ^ LENGTH(64)" by (rule unsigned_less)
    ultimately have "unat (of_nat i :: 64 word) = i" by (simp add: unat_of_nat take_bit_nat_eq_self)
    with i that show "bytes_at (\<lambda>a. if a - Buffer < Count then disk s ! (position s + unat (a - Buffer))
      else memory s a) Buffer (unat Count) ! i = take (unat Count) (drop (position s) (disk s)) ! i"
      by (simp add: word_less_nat_alt)
  qed (use that in simp)
  then show ?thesis
    by (auto simp: reads_file_def direct_read_def skip_buffer_advances)
qed

lemma gets_file_direct: "gets_file direct_get"
proof -
  have "advances 1 s (skip_buffer 1 s)" if "read_ok s" "position s < length (disk s)" for s
    using skip_buffer_advances [OF that(1), of 1 "memory s"] that(2) by (simp add: skip_buffer_def)
  then show ?thesis by (auto simp: gets_file_def direct_get_def)
qed

section \<open>A cache that writes\<close>

text \<open>
  A write cache is sound where the area for writing is in order; what has been written is the
  file up to \<open>pos_in_file\<close> and the bytes waiting in the buffer.
\<close>

definition write_ok :: "io \<Rightarrow> bool" where
  "write_ok s \<longleftrightarrow> (let c = cache s in
     current_pos c = To_write \<and> current_end c = To_write
   \<and> request_pos c = write_buffer c \<and> write_buffer c \<le> write_pos c \<and> write_pos c \<le> write_end c
   \<and> unat (pos_in_file c) + (unat (write_end c) - unat (write_buffer c)) < 2 ^ 64
   \<and> unat (pos_in_file c) \<le> length (disk s))"

definition written_so_far :: "io \<Rightarrow> 8 word list" where
  "written_so_far s = take (unat (pos_in_file (cache s))) (disk s)
     @ bytes_at (memory s) (write_buffer (cache s)) (unat (write_pos (cache s) - write_buffer (cache s)))"

text \<open>
  A request may be served: its source and the place it is copied to are apart, and no pointer
  wraps.
\<close>

definition writable :: "io \<Rightarrow> ptr \<Rightarrow> 64 word \<Rightarrow> bool" where
  "writable s Buffer Count \<longleftrightarrow> unat (write_end (cache s)) + unat Count < 2 ^ 64
     \<and> (\<forall>i < unat Count. \<forall>k < unat Count. Buffer + of_nat i \<noteq> write_pos (cache s) + of_nat k)"

text \<open>What is known of \<open>write_function\<close>: where it reports success, the bytes have been added.\<close>

definition writes_file :: "(io \<Rightarrow> ptr \<Rightarrow> 64 word \<Rightarrow> int \<times> io) \<Rightarrow> bool" where
  "writes_file write_function \<longleftrightarrow>
     (\<forall>s Buffer Count. write_ok s \<and> writable s Buffer Count \<and> my_b_bytes_in_cache (cache s) < Count \<longrightarrow>
       (case write_function s Buffer Count of (r, s') \<Rightarrow>
          r = 0 \<longrightarrow> write_ok s' \<and> written_so_far s' = written_so_far s @ bytes_at (memory s) Buffer (unat Count)))"

lemma write_okD:
  assumes "write_ok s"
  shows "current_pos (cache s) = To_write" "current_end (cache s) = To_write"
    "request_pos (cache s) = write_buffer (cache s)"
    "unat (write_buffer (cache s)) \<le> unat (write_pos (cache s))" "unat (write_pos (cache s)) \<le> unat (write_end (cache s))"
    "unat (pos_in_file (cache s)) + (unat (write_end (cache s)) - unat (write_buffer (cache s))) < 2 ^ 64"
    "unat (pos_in_file (cache s)) \<le> length (disk s)"
  using assms unfolding write_ok_def Let_def word_le_nat_alt by blast+

lemma write_tell:
  assumes "write_ok s"
  shows "unat (my_b_tell (cache s)) = length (written_so_far s)"
proof -
  note d = write_okD [OF assms]
  have "unat (write_pos (cache s) - write_buffer (cache s)) = unat (write_pos (cache s)) - unat (write_buffer (cache s))"
    by (rule unat_diff [OF d(4)])
  moreover from this have "unat (pos_in_file (cache s)) + unat (write_pos (cache s) - write_buffer (cache s)) < 2 ^ 64"
    using d(5,6) by linarith
  ultimately show ?thesis using d(1,3,7) unat_plus by (simp add: my_b_tell_def deref_pos_def written_so_far_def)
qed

lemma bytes_at_add: "bytes_at m a (k + n) = bytes_at m a k @ bytes_at m (a + of_nat k) n"
  by (rule nth_equalityI) (auto simp: nth_append add.assoc simp flip: of_nat_add)

lemma my_b_write_fast:
  assumes "write_ok s" "writable s Buffer Count" "unat (write_pos (cache s)) + unat Count \<le> unat (write_end (cache s))"
  shows "\<exists>s'. my_b_write wr s Buffer Count = (0, s') \<and> write_ok s'
    \<and> written_so_far s' = written_so_far s @ bytes_at (memory s) Buffer (unat Count)"
proof -
  note d = write_okD [OF assms(1)]
  let ?m = "memcpy (memory s) (write_pos (cache s)) Buffer Count"
  let ?t = "s\<lparr>memory := ?m, cache := (cache s)\<lparr>write_pos := write_pos (cache s) + Count\<rparr>\<rparr>"
  define k where "k = unat (write_pos (cache s)) - unat (write_buffer (cache s))"
  have small: "unat (write_end (cache s)) < 2 ^ LENGTH(64)" by (rule unsigned_less)
  have sum: "unat (write_pos (cache s) + Count) = unat (write_pos (cache s)) + unat Count"
    using assms(3) small by (intro unat_plus) simp
  have diff: "unat (write_pos (cache s) - write_buffer (cache s)) = k" unfolding k_def by (rule unat_diff [OF d(4)])
  have diff': "unat (write_pos (cache s) + Count - write_buffer (cache s)) = k + unat Count"
    using unat_diff [of "write_buffer (cache s)" "write_pos (cache s) + Count"] sum d(4) by (simp add: k_def)
  have at: "write_buffer (cache s) + of_nat k = write_pos (cache s)" unfolding diff [symmetric] by simp
  have "?m (write_buffer (cache s) + of_nat i) = memory s (write_buffer (cache s) + of_nat i)" if "i < k" for i
  proof (rule memcpy_elsewhere, intro allI impI)
    fix j assume j: "j < unat Count"
    have "unat (write_buffer (cache s) + of_nat i) = unat (write_buffer (cache s)) + i"
      "unat (write_pos (cache s) + of_nat j) = unat (write_pos (cache s)) + j"
      using that j assms(3) small d(4) by (auto simp: k_def intro!: unat_offset)
    with that show "write_buffer (cache s) + of_nat i \<noteq> write_pos (cache s) + of_nat j" by (auto simp: k_def)
  qed
  then have "bytes_at ?m (write_buffer (cache s)) k = bytes_at (memory s) (write_buffer (cache s)) k"
    by (simp add: bytes_at_def)
  then have "written_so_far ?t = written_so_far s @ bytes_at (memory s) Buffer (unat Count)"
    using diff diff' by (simp add: written_so_far_def bytes_at_add at bytes_at_memcpy)
  moreover have "write_ok ?t"
    using d assms(3) sum by (simp add: write_ok_def Let_def word_le_nat_alt)
  moreover have "my_b_write wr s Buffer Count = (0, ?t)"
    using sum assms(3) by (simp add: my_b_write_def Let_def word_le_nat_alt)
  ultimately show ?thesis by blast
qed

lemma my_b_write_correct:
  assumes "write_ok s" "writable s Buffer Count" "writes_file wr" "my_b_write wr s Buffer Count = (0, s')"
  shows "write_ok s'" and "written_so_far s' = written_so_far s @ bytes_at (memory s) Buffer (unat Count)"
proof -
  note d = write_okD [OF assms(1)]
  have "write_ok s' \<and> written_so_far s' = written_so_far s @ bytes_at (memory s) Buffer (unat Count)"
  proof (cases "unat (write_pos (cache s)) + unat Count \<le> unat (write_end (cache s))")
    case True
    from my_b_write_fast [OF assms(1,2) this, of wr] assms(4) show ?thesis by auto
  next
    case False
    have "unat (write_pos (cache s) + Count) = unat (write_pos (cache s)) + unat Count"
      using assms(2) d(5) unfolding writable_def by (intro unat_plus) linarith
    with False have "my_b_write wr s Buffer Count = wr s Buffer Count"
      by (simp add: my_b_write_def Let_def word_le_nat_alt)
    moreover have "unat (write_end (cache s)) - unat (write_pos (cache s)) < unat Count"
      using False d(5) by linarith
    then have "my_b_bytes_in_cache (cache s) < Count"
      using d(1,2) unat_diff [OF d(5)]
      by (simp add: my_b_bytes_in_cache_def deref_pos_def deref_end_def word_less_nat_alt)
    ultimately have "wr s Buffer Count = (0, s')" "my_b_bytes_in_cache (cache s) < Count" using assms(4) by simp_all
    then show ?thesis
      using assms(3) [unfolded writes_file_def, rule_format, of s Buffer Count] assms(1,2) by simp
  qed
  then show "write_ok s'" and "written_so_far s' = written_so_far s @ bytes_at (memory s) Buffer (unat Count)" by auto
qed

section \<open>Properties\<close>

text \<open>C36: Reading through a cache is reading the file. For any sequence of \<open>my_b_read\<close> and
  \<open>my_b_get\<close> on a sound cache, into targets that do not overlap its buffer, whichever requests
  the buffer answers and whichever go to the functions behind it, each request delivers the
  bytes that come next in the file, and the sequence stops at the first request the file
  cannot fill.\<close>

theorem iocache_reads_the_file:
  assumes "reads_file rf" "gets_file gf" "read_ok s" "all_requestable s qs"
  shows "through_cache rf gf qs s = from_file qs (drop (unat (my_b_tell (cache s))) (disk s))"
  using through_cache_from_file [OF assms] by (simp add: position_def)

definition small_cache :: io where
  "small_cache = \<lparr>cache = \<lparr>pos_in_file = 0, end_of_file = 6, read_pos = 100, read_end = 104, buffer = 100,
       request_pos = 100, write_buffer = 0, append_read_pos = 0, write_pos = 0, write_end = 0,
       current_pos = To_read, current_end = To_read, append_buffer_lock = 0, share = 0, read_function_ptr = 8,
       write_function_ptr = 8, ctype = READ_CACHE, pre_read = 0, post_read = 0, pre_close = 0, disk_writes = 0,
       arg = 0, file_name = 0, dir = 0, prefix = 0, cache_file = 3, file_key = 0, seek_not_done = 0, error = 0,
       buffer_length = 4, read_length = 4, myflags = 0, alloced_buffer = True\<rparr>,
     memory = (\<lambda>a. ucast (a - 99)), disk = [1, 2, 3, 4, 5, 6]\<rparr>"

theorem iocache_reads_the_file_witness:
  "through_cache direct_read direct_get [Fetch 1000 2, Fetch_byte, Fetch 1000 3, Fetch_byte] small_cache
    = ([[1, 2], [3], [4, 5, 6]], False)"
proof -
  have ok: "read_ok small_cache"
    by (simp add: read_ok_def small_cache_def bytes_at_def upt_rec)
  have req: "all_requestable small_cache [Fetch 1000 2, Fetch_byte, Fetch 1000 3, Fetch_byte]"
    by (auto simp: all_requestable_def small_cache_def intro!: requestable_above)
  show ?thesis
    using iocache_reads_the_file [OF reads_file_direct gets_file_direct ok req]
    by (simp add: small_cache_def my_b_tell_def deref_pos_def)
qed

end
