(* ===== verification/Mysql_Macros.thy ===== *)
theory Mysql_Macros
  imports "HOL-Library.Word" "HOL-Library.Signed_Division"
begin

text \<open>
  Macros and short inline functions of the MySQL client headers that compute something by
  themselves: alignment and bit tests (my_global.h), character classes and two-byte codes
  (m_ctype.h), field types (binary_log_types.h, mysql.h), session state types (mysql_com.h),
  the wait of \<open>my_sleep\<close>, dynamic arrays and memory roots (my_sys.h), the size of a decimal as a
  string (decimal.h), and the two macros that send a command or create an extension on first
  use (sql_common.h). Tables and functions behind pointers are in the library: parameters.
\<close>

unbundle bit_operations_syntax

section \<open>my_global.h\<close>

definition MY_ALIGN :: "64 word \<Rightarrow> 64 word \<Rightarrow> 64 word" where
  "MY_ALIGN A L = (A + L - 1) AND NOT (L - 1)"

text \<open>\<open>sizeof(double)\<close> is 8.\<close>

definition ALIGN_SIZE :: "64 word \<Rightarrow> 64 word" where
  "ALIGN_SIZE A = MY_ALIGN A 8"

definition test_all_bits :: "64 word \<Rightarrow> 64 word \<Rightarrow> bool" where
  "test_all_bits a b \<longleftrightarrow> a AND b = b"

definition my_container_of :: "64 word \<Rightarrow> 64 word \<Rightarrow> 64 word" where
  "my_container_of p offset = p - offset"

definition set_if_bigger :: "'a :: linorder \<Rightarrow> 'a \<Rightarrow> 'a" where
  "set_if_bigger a b = (if a < b then b else a)"

definition set_if_smaller :: "'a :: linorder \<Rightarrow> 'a \<Rightarrow> 'a" where
  "set_if_smaller a b = (if a > b then b else a)"

text \<open>What \<open>MY_ALIGN\<close> keeps: everything above the bits of the alignment.\<close>

lemma and_not_mask: "w AND NOT (mask k) = push_bit k (drop_bit k w)" for w :: "'a :: len word"
  by (rule bit_word_eqI) (auto simp: bit_and_iff bit_not_iff bit_mask_iff bit_push_bit_iff bit_drop_bit_eq)

lemma unat_push_drop: "unat (push_bit k (drop_bit k w)) = unat w div 2 ^ k * 2 ^ k" for w :: "'a :: len word"
proof -
  have "unat w div 2 ^ k * 2 ^ k \<le> unat w" by simp
  also have "unat w < 2 ^ LENGTH('a)" by (rule unsigned_less)
  finally have "take_bit LENGTH('a) (push_bit k (drop_bit k (unat w))) = unat w div 2 ^ k * 2 ^ k"
    by (simp only: drop_bit_eq_div push_bit_eq_mult take_bit_nat_eq_self)
  moreover have "take_bit LENGTH('a) (unat w) = unat w" by (rule take_bit_nat_eq_self) (rule unsigned_less)
  ultimately show ?thesis by (simp only: unsigned_push_bit_eq unsigned_drop_bit_eq)
qed

lemma unat_mask_64:
  assumes "k < 64"
  shows "unat (mask k :: 64 word) = 2 ^ k - 1"
proof -
  have "unat (mask k :: 64 word) = unat (of_nat (mask k) :: 64 word)" by (simp only: of_nat_mask_eq)
  also have "\<dots> = take_bit LENGTH(64) (mask k)" by (simp only: unsigned_of_nat of_nat_id)
  also have "\<dots> = 2 ^ k - 1"
  proof -
    have "(2 :: nat) ^ k < 2 ^ LENGTH(64)" by (rule power_strict_increasing) (use assms in simp_all)
    then have "(2 :: nat) ^ k - 1 < 2 ^ LENGTH(64)" by linarith
    then show ?thesis by (simp only: mask_eq_exp_minus_1 take_bit_nat_eq_self)
  qed
  finally show ?thesis .
qed

lemma unat_align:
  assumes "k < 64" "unat A + 2 ^ k - 1 < 2 ^ 64"
  shows "unat (MY_ALIGN A (2 ^ k)) = (unat A + 2 ^ k - 1) div 2 ^ k * 2 ^ k"
proof -
  have m: "2 ^ k - 1 = (mask k :: 64 word)" by (simp add: mask_eq_exp_minus_1)
  have "MY_ALIGN A (2 ^ k) = push_bit k (drop_bit k (A + mask k))"
    unfolding MY_ALIGN_def add_diff_eq [symmetric] m by (rule and_not_mask)
  moreover have "unat (A + mask k) = unat A + 2 ^ k - 1"
    using assms by (subst unat_plus_if') (simp add: unat_mask_64)
  ultimately show ?thesis by (simp only: unat_push_drop)
qed

lemma least_multiple:
  fixes a d :: nat
  assumes "0 < d"
  shows "a \<le> (a + d - 1) div d * d" and "(a + d - 1) div d * d < a + d"
    and "d dvd m \<Longrightarrow> a \<le> m \<Longrightarrow> (a + d - 1) div d * d \<le> m"
proof -
  have e: "(a + d - 1) div d * d + (a + d - 1) mod d = a + d - 1" by simp
  have r: "(a + d - 1) mod d < d" using assms by simp
  show "a \<le> (a + d - 1) div d * d" using e r assms by linarith
  show below: "(a + d - 1) div d * d < a + d" using e assms by linarith
  assume "d dvd m" "a \<le> m"
  then obtain q where q: "m = q * d" by (metis dvd_def mult.commute)
  with below \<open>a \<le> m\<close> have "(a + d - 1) div d * d < (q + 1) * d" by (simp add: algebra_simps)
  then have "(a + d - 1) div d < q + 1" by (rule mult_less_cancel2 [THEN iffD1, THEN conjunct2])
  then show "(a + d - 1) div d * d \<le> m" using q by simp
qed

section \<open>m_ctype.h: character classes\<close>

text \<open>What the macros use of a \<open>CHARSET_INFO\<close>: the tables and the length function of \<open>cset\<close>.\<close>

record CHARSET_INFO =
  charset_state :: "32 word"
  ctype :: "8 word list"
  to_lower :: "8 word list"
  to_upper :: "8 word list"
  mbmaxlenlen :: nat
  mbcharlen :: "32 word \<Rightarrow> nat"
  has_ismbchar :: bool

definition MY_U :: "8 word" where "MY_U = 0x01"
definition MY_L :: "8 word" where "MY_L = 0x02"
definition MY_NMR :: "8 word" where "MY_NMR = 0x04"
definition MY_SPC :: "8 word" where "MY_SPC = 0x08"
definition MY_PNT :: "8 word" where "MY_PNT = 0x10"
definition MY_CTR :: "8 word" where "MY_CTR = 0x20"
definition MY_B :: "8 word" where "MY_B = 0x40"
definition MY_X :: "8 word" where "MY_X = 0x80"

definition my_isascii :: "32 word \<Rightarrow> bool" where "my_isascii c \<longleftrightarrow> c AND NOT 0x7F = 0"
definition my_toascii :: "32 word \<Rightarrow> 32 word" where "my_toascii c = c AND 0x7F"
definition my_tocntrl :: "32 word \<Rightarrow> 32 word" where "my_tocntrl c = c AND 31"
definition my_toprint :: "32 word \<Rightarrow> 32 word" where "my_toprint c = c OR 64"

definition as_index :: "32 word \<Rightarrow> nat" where
  "as_index c = unat (ucast c :: 8 word)"

definition my_toupper :: "CHARSET_INFO \<Rightarrow> 32 word \<Rightarrow> 8 word" where
  "my_toupper s c = to_upper s ! as_index c"

definition my_tolower :: "CHARSET_INFO \<Rightarrow> 32 word \<Rightarrow> 8 word" where
  "my_tolower s c = to_lower s ! as_index c"

text \<open>\<open>((s)->ctype+1)[(uchar) (c)]\<close>\<close>

definition char_class :: "CHARSET_INFO \<Rightarrow> 32 word \<Rightarrow> 8 word" where
  "char_class s c = ctype s ! (1 + as_index c)"

definition my_isalpha :: "CHARSET_INFO \<Rightarrow> 32 word \<Rightarrow> 8 word" where
  "my_isalpha s c = char_class s c AND (MY_U OR MY_L)"
definition my_isupper :: "CHARSET_INFO \<Rightarrow> 32 word \<Rightarrow> 8 word" where
  "my_isupper s c = char_class s c AND MY_U"
definition my_islower :: "CHARSET_INFO \<Rightarrow> 32 word \<Rightarrow> 8 word" where
  "my_islower s c = char_class s c AND MY_L"
definition my_isdigit :: "CHARSET_INFO \<Rightarrow> 32 word \<Rightarrow> 8 word" where
  "my_isdigit s c = char_class s c AND MY_NMR"
definition my_isxdigit :: "CHARSET_INFO \<Rightarrow> 32 word \<Rightarrow> 8 word" where
  "my_isxdigit s c = char_class s c AND MY_X"
definition my_isalnum :: "CHARSET_INFO \<Rightarrow> 32 word \<Rightarrow> 8 word" where
  "my_isalnum s c = char_class s c AND (MY_U OR MY_L OR MY_NMR)"
definition my_isspace :: "CHARSET_INFO \<Rightarrow> 32 word \<Rightarrow> 8 word" where
  "my_isspace s c = char_class s c AND MY_SPC"
definition my_ispunct :: "CHARSET_INFO \<Rightarrow> 32 word \<Rightarrow> 8 word" where
  "my_ispunct s c = char_class s c AND MY_PNT"
definition my_isprint :: "CHARSET_INFO \<Rightarrow> 32 word \<Rightarrow> 8 word" where
  "my_isprint s c = char_class s c AND (MY_PNT OR MY_U OR MY_L OR MY_NMR OR MY_B)"
definition my_isgraph :: "CHARSET_INFO \<Rightarrow> 32 word \<Rightarrow> 8 word" where
  "my_isgraph s c = char_class s c AND (MY_PNT OR MY_U OR MY_L OR MY_NMR)"
definition my_iscntrl :: "CHARSET_INFO \<Rightarrow> 32 word \<Rightarrow> 8 word" where
  "my_iscntrl s c = char_class s c AND MY_CTR"

definition my_isvar :: "CHARSET_INFO \<Rightarrow> 32 word \<Rightarrow> bool" where
  "my_isvar s c \<longleftrightarrow> my_isalnum s c \<noteq> 0 \<or> c = 0x5F"
definition my_isvar_start :: "CHARSET_INFO \<Rightarrow> 32 word \<Rightarrow> bool" where
  "my_isvar_start s c \<longleftrightarrow> my_isalpha s c \<noteq> 0 \<or> c = 0x5F"

definition MY_CS_BINSORT :: "32 word" where "MY_CS_BINSORT = 16"
definition MY_CS_STRNXFRM :: "32 word" where "MY_CS_STRNXFRM = 64"
definition my_binary_compare :: "CHARSET_INFO \<Rightarrow> 32 word" where
  "my_binary_compare s = charset_state s AND MY_CS_BINSORT"
definition use_strnxfrm :: "CHARSET_INFO \<Rightarrow> 32 word" where
  "use_strnxfrm s = charset_state s AND MY_CS_STRNXFRM"

lemma and_or_zero: "w AND (a OR b) = 0 \<longleftrightarrow> w AND a = 0 \<and> w AND b = 0" for w :: "'a :: len word"
  by (simp add: bit.conj_disj_distrib or_eq_0_iff)

lemmas class_defs = my_isalpha_def my_isupper_def my_islower_def my_isdigit_def my_isalnum_def my_ispunct_def
  my_isprint_def my_isgraph_def

text \<open>The table has an entry for the end of file and one for each byte; a macro reads one of these.\<close>

lemma as_index_less: "as_index c < 256"
  using unsigned_less [of "ucast c :: 8 word", where 'a = nat] by (simp add: as_index_def)

lemma char_class_in_table: "length (ctype s) = 257 \<Longrightarrow> 1 + as_index c < length (ctype s)"
  using as_index_less [of c] by simp

section \<open>m_ctype.h: several bytes\<close>

definition MB2_i386 :: "32 word \<Rightarrow> 32 word" where
  "MB2_i386 x = drop_bit 8 x + push_bit 8 (x AND 0xFF)"

definition MB2 :: "32 word \<Rightarrow> 32 word" where
  "MB2 x = x"

text \<open>The two bytes at \<open>s\<close>; a \<open>uint16\<close> of the i386 has its low byte first.\<close>

definition MY_PUT_MB2_i386 :: "32 word \<Rightarrow> 8 word list" where
  "MY_PUT_MB2_i386 code = [ucast code, ucast (drop_bit 8 code)]"

definition MY_PUT_MB2 :: "32 word \<Rightarrow> 8 word list" where
  "MY_PUT_MB2 code = [ucast (drop_bit 8 code), ucast (code AND 0xFF)]"

lemma mask_8: "(0xFF :: 32 word) = mask 8"
  by (simp add: mask_eq_exp_minus_1)

lemmas bits_simps = bit_and_iff bit_or_iff bit_push_bit_iff bit_drop_bit_eq bit_mask_iff bit_ucast_iff

lemma swapped_or:
  "drop_bit 8 (ucast x) + push_bit 8 (ucast x AND mask 8) = (drop_bit 8 (ucast x) OR push_bit 8 (ucast x AND mask 8) :: 32 word)"
  for x :: "16 word"
  by (rule disjunctive_add) (auto simp: bits_simps dest: bit_imp_le_length)

lemma swapped_bytes:
  fixes x :: "16 word"
  defines "y \<equiv> (ucast x :: 32 word)"
  shows "(ucast (drop_bit 8 y OR push_bit 8 (y AND mask 8)) :: 8 word) = ucast (drop_bit 8 y)"
    and "(ucast (drop_bit 8 (drop_bit 8 y OR push_bit 8 (y AND mask 8))) :: 8 word) = ucast (y AND mask 8)"
  by (rule bit_word_eqI; auto simp: y_def bits_simps dest: bit_imp_le_length)+

definition MY_CS_TOOSMALLN :: "int \<Rightarrow> int" where
  "MY_CS_TOOSMALLN n = - 100 - n"

definition use_mb :: "CHARSET_INFO \<Rightarrow> bool" where
  "use_mb s \<longleftrightarrow> has_ismbchar s"

definition my_mbcharlen :: "CHARSET_INFO \<Rightarrow> 32 word \<Rightarrow> nat" where
  "my_mbcharlen s a = mbcharlen s a"

definition my_mbcharlen_2 :: "CHARSET_INFO \<Rightarrow> 32 word \<Rightarrow> 32 word \<Rightarrow> nat" where
  "my_mbcharlen_2 s a b = mbcharlen s (push_bit 8 (a AND 0xFF) + (b AND 0xFF))"

definition my_mbmaxlenlen :: "CHARSET_INFO \<Rightarrow> nat" where
  "my_mbmaxlenlen s = mbmaxlenlen s"

definition my_ismb1st :: "CHARSET_INFO \<Rightarrow> 32 word \<Rightarrow> bool" where
  "my_ismb1st s i \<longleftrightarrow> my_mbcharlen s i > 1 \<or> my_mbmaxlenlen s = 2 \<and> my_mbcharlen s i = 0"

section \<open>Fields and sessions (binary_log_types.h, mysql.h, mysql_com.h)\<close>

datatype enum_field_types =
  MYSQL_TYPE_DECIMAL | MYSQL_TYPE_TINY | MYSQL_TYPE_SHORT | MYSQL_TYPE_LONG | MYSQL_TYPE_FLOAT | MYSQL_TYPE_DOUBLE
| MYSQL_TYPE_NULL | MYSQL_TYPE_TIMESTAMP | MYSQL_TYPE_LONGLONG | MYSQL_TYPE_INT24 | MYSQL_TYPE_DATE | MYSQL_TYPE_TIME
| MYSQL_TYPE_DATETIME | MYSQL_TYPE_YEAR | MYSQL_TYPE_NEWDATE | MYSQL_TYPE_VARCHAR | MYSQL_TYPE_BIT
| MYSQL_TYPE_TIMESTAMP2 | MYSQL_TYPE_DATETIME2 | MYSQL_TYPE_TIME2 | MYSQL_TYPE_JSON | MYSQL_TYPE_NEWDECIMAL
| MYSQL_TYPE_ENUM | MYSQL_TYPE_SET | MYSQL_TYPE_TINY_BLOB | MYSQL_TYPE_MEDIUM_BLOB | MYSQL_TYPE_LONG_BLOB
| MYSQL_TYPE_BLOB | MYSQL_TYPE_VAR_STRING | MYSQL_TYPE_STRING | MYSQL_TYPE_GEOMETRY

text \<open>The numbers of the enumeration, which start again at \<open>MYSQL_TYPE_JSON\<close>.\<close>

primrec field_type_number :: "enum_field_types \<Rightarrow> nat" where
  "field_type_number MYSQL_TYPE_DECIMAL = 0"
| "field_type_number MYSQL_TYPE_TINY = 1"
| "field_type_number MYSQL_TYPE_SHORT = 2"
| "field_type_number MYSQL_TYPE_LONG = 3"
| "field_type_number MYSQL_TYPE_FLOAT = 4"
| "field_type_number MYSQL_TYPE_DOUBLE = 5"
| "field_type_number MYSQL_TYPE_NULL = 6"
| "field_type_number MYSQL_TYPE_TIMESTAMP = 7"
| "field_type_number MYSQL_TYPE_LONGLONG = 8"
| "field_type_number MYSQL_TYPE_INT24 = 9"
| "field_type_number MYSQL_TYPE_DATE = 10"
| "field_type_number MYSQL_TYPE_TIME = 11"
| "field_type_number MYSQL_TYPE_DATETIME = 12"
| "field_type_number MYSQL_TYPE_YEAR = 13"
| "field_type_number MYSQL_TYPE_NEWDATE = 14"
| "field_type_number MYSQL_TYPE_VARCHAR = 15"
| "field_type_number MYSQL_TYPE_BIT = 16"
| "field_type_number MYSQL_TYPE_TIMESTAMP2 = 17"
| "field_type_number MYSQL_TYPE_DATETIME2 = 18"
| "field_type_number MYSQL_TYPE_TIME2 = 19"
| "field_type_number MYSQL_TYPE_JSON = 245"
| "field_type_number MYSQL_TYPE_NEWDECIMAL = 246"
| "field_type_number MYSQL_TYPE_ENUM = 247"
| "field_type_number MYSQL_TYPE_SET = 248"
| "field_type_number MYSQL_TYPE_TINY_BLOB = 249"
| "field_type_number MYSQL_TYPE_MEDIUM_BLOB = 250"
| "field_type_number MYSQL_TYPE_LONG_BLOB = 251"
| "field_type_number MYSQL_TYPE_BLOB = 252"
| "field_type_number MYSQL_TYPE_VAR_STRING = 253"
| "field_type_number MYSQL_TYPE_STRING = 254"
| "field_type_number MYSQL_TYPE_GEOMETRY = 255"

definition IS_NUM :: "enum_field_types \<Rightarrow> bool" where
  "IS_NUM t \<longleftrightarrow> field_type_number t \<le> field_type_number MYSQL_TYPE_INT24 \<and> t \<noteq> MYSQL_TYPE_TIMESTAMP
     \<or> t = MYSQL_TYPE_YEAR \<or> t = MYSQL_TYPE_NEWDECIMAL"

definition IS_LONGDATA :: "enum_field_types \<Rightarrow> bool" where
  "IS_LONGDATA t \<longleftrightarrow> field_type_number MYSQL_TYPE_TINY_BLOB \<le> field_type_number t
     \<and> field_type_number t \<le> field_type_number MYSQL_TYPE_STRING"

definition NOT_NULL_FLAG :: "32 word" where "NOT_NULL_FLAG = 1"
definition PRI_KEY_FLAG :: "32 word" where "PRI_KEY_FLAG = 2"
definition BLOB_FLAG :: "32 word" where "BLOB_FLAG = 16"

definition IS_PRI_KEY :: "32 word \<Rightarrow> 32 word" where "IS_PRI_KEY n = n AND PRI_KEY_FLAG"
definition IS_NOT_NULL :: "32 word \<Rightarrow> 32 word" where "IS_NOT_NULL n = n AND NOT_NULL_FLAG"
definition IS_BLOB :: "32 word \<Rightarrow> 32 word" where "IS_BLOB n = n AND BLOB_FLAG"

datatype enum_session_state_type =
  SESSION_TRACK_SYSTEM_VARIABLES | SESSION_TRACK_SCHEMA | SESSION_TRACK_STATE_CHANGE | SESSION_TRACK_GTIDS
| SESSION_TRACK_TRANSACTION_CHARACTERISTICS | SESSION_TRACK_TRANSACTION_STATE

primrec session_type_number :: "enum_session_state_type \<Rightarrow> int" where
  "session_type_number SESSION_TRACK_SYSTEM_VARIABLES = 0"
| "session_type_number SESSION_TRACK_SCHEMA = 1"
| "session_type_number SESSION_TRACK_STATE_CHANGE = 2"
| "session_type_number SESSION_TRACK_GTIDS = 3"
| "session_type_number SESSION_TRACK_TRANSACTION_CHARACTERISTICS = 4"
| "session_type_number SESSION_TRACK_TRANSACTION_STATE = 5"

definition IS_SESSION_STATE_TYPE :: "int \<Rightarrow> bool" where
  "IS_SESSION_STATE_TYPE T \<longleftrightarrow> session_type_number SESSION_TRACK_SYSTEM_VARIABLES \<le> T
     \<and> T \<le> session_type_number SESSION_TRACK_TRANSACTION_STATE"

section \<open>my_sys.h, decimal.h, sql_common.h\<close>

text \<open>Seconds and microseconds for \<open>select\<close>; the division of C rounds to zero.\<close>

definition my_sleep :: "int \<Rightarrow> int \<times> int" where
  "my_sleep m_seconds = (m_seconds sdiv 1000000, m_seconds smod 1000000)"

record DYNAMIC_ARRAY =
  da_buffer :: "64 word"
  elements :: "32 word"
  max_element :: "32 word"
  alloc_increment :: "32 word"
  size_of_element :: "32 word"
  da_psi_key :: "32 word"

definition reset_dynamic :: "DYNAMIC_ARRAY \<Rightarrow> DYNAMIC_ARRAY" where
  "reset_dynamic array = array\<lparr>elements := 0\<rparr>"

text \<open>The address of an element of a type of \<open>n\<close> bytes.\<close>

definition dynamic_element :: "DYNAMIC_ARRAY \<Rightarrow> 64 word \<Rightarrow> 64 word \<Rightarrow> 64 word" where
  "dynamic_element array array_index n = da_buffer array + array_index * n"

text \<open>The members of a \<open>MEM_ROOT\<close> that the macros use, blocks as addresses.\<close>

record MEM_ROOT =
  root_free :: "64 word"
  root_used :: "64 word"
  root_pre_alloc :: "64 word"
  min_malloc :: "64 word"

definition alloc_root_inited :: "MEM_ROOT \<Rightarrow> bool" where
  "alloc_root_inited A \<longleftrightarrow> min_malloc A \<noteq> 0"

definition clear_alloc_root :: "MEM_ROOT \<Rightarrow> MEM_ROOT" where
  "clear_alloc_root A = A\<lparr>root_free := 0, root_used := 0, root_pre_alloc := 0, min_malloc := 0\<rparr>"

definition safe_strdup_root :: "(MEM_ROOT \<Rightarrow> 64 word \<Rightarrow> 64 word \<times> MEM_ROOT) \<Rightarrow> MEM_ROOT \<Rightarrow> 64 word \<Rightarrow> 64 word \<times> MEM_ROOT" where
  "safe_strdup_root strdup_root root str = (if str \<noteq> 0 then strdup_root root str else (0, root))"

record decimal_t =
  intg :: int
  frac :: int
  dec_len :: int
  dec_sign :: bool
  dec_buf :: "int list"

definition decimal_make_zero :: "decimal_t \<Rightarrow> decimal_t" where
  "decimal_make_zero d = d\<lparr>dec_buf := (dec_buf d)[0 := 0], intg := 1, frac := 0, dec_sign := False\<rparr>"

definition decimal_string_size :: "decimal_t \<Rightarrow> int" where
  "decimal_string_size d = (if intg d \<noteq> 0 then intg d else 1) + frac d + (if frac d > 0 then 1 else 0) + 2"

text \<open>
  The connection as the macros see it: the extension (0 when it has none), whether its table
  of methods is set, and the error that \<open>set_mysql_error\<close> stores. \<open>advanced_command\<close> takes the
  command, a header and its length, the argument and its length, whether to skip the check,
  and the statement.
\<close>

record MYSQL =
  extension :: "64 word"
  methods :: bool
  mysql_error :: nat

definition MYSQL_EXTENSION_PTR :: "(MYSQL \<Rightarrow> 64 word) \<Rightarrow> MYSQL \<Rightarrow> 64 word \<times> MYSQL" where
  "MYSQL_EXTENSION_PTR mysql_extension_init H =
     (if extension H \<noteq> 0 then (extension H, H)
      else (let e = mysql_extension_init H in (e, H\<lparr>extension := e\<rparr>)))"

definition CR_COMMANDS_OUT_OF_SYNC :: nat where "CR_COMMANDS_OUT_OF_SYNC = 2014"

type_synonym command_function =
  "MYSQL \<Rightarrow> nat \<Rightarrow> 64 word \<Rightarrow> 64 word \<Rightarrow> 64 word \<Rightarrow> 64 word \<Rightarrow> bool \<Rightarrow> 64 word \<Rightarrow> bool \<times> MYSQL"

definition simple_command ::
    "command_function \<Rightarrow> (MYSQL \<Rightarrow> nat \<Rightarrow> string \<Rightarrow> MYSQL) \<Rightarrow> string \<Rightarrow> MYSQL \<Rightarrow> nat \<Rightarrow> 64 word \<Rightarrow> 64 word \<Rightarrow> bool \<Rightarrow> bool \<times> MYSQL" where
  "simple_command advanced_command set_mysql_error unknown_sqlstate mysql command arg len skip_check =
     (if methods mysql then advanced_command mysql command 0 0 arg len skip_check 0
      else (True, set_mysql_error mysql CR_COMMANDS_OUT_OF_SYNC unknown_sqlstate))"

definition stmt_command ::
    "command_function \<Rightarrow> (MYSQL \<Rightarrow> nat \<Rightarrow> string \<Rightarrow> MYSQL) \<Rightarrow> string \<Rightarrow> MYSQL \<Rightarrow> nat \<Rightarrow> 64 word \<Rightarrow> 64 word \<Rightarrow> 64 word \<Rightarrow> bool \<times> MYSQL" where
  "stmt_command advanced_command set_mysql_error unknown_sqlstate mysql command arg len stmt =
     (if methods mysql then advanced_command mysql command 0 0 arg len True stmt
      else (True, set_mysql_error mysql CR_COMMANDS_OUT_OF_SYNC unknown_sqlstate))"

section \<open>Properties\<close>

text \<open>\<open>MY_ALIGN\<close> rounds up: for an alignment by a power of two and a size that leaves room, the
  result is the least multiple of the alignment that is not below the size.\<close>

theorem MY_ALIGN_least:
  assumes "k < 64" "unat A + 2 ^ k - 1 < 2 ^ 64"
  shows "unat A \<le> unat (MY_ALIGN A (2 ^ k)) \<and> unat (MY_ALIGN A (2 ^ k)) < unat A + 2 ^ k
    \<and> 2 ^ k dvd unat (MY_ALIGN A (2 ^ k))
    \<and> (\<forall>m. 2 ^ k dvd m \<and> unat A \<le> m \<longrightarrow> unat (MY_ALIGN A (2 ^ k)) \<le> m)"
proof -
  have d: "(0 :: nat) < 2 ^ k" by simp
  show ?thesis
    unfolding unat_align [OF assms] using least_multiple(1,2) [OF d, of "unat A"] least_multiple(3) [OF d] by simp
qed

theorem MY_ALIGN_least_witness:
  "unat (ALIGN_SIZE 21) = 24 \<and> (\<forall>m. 8 dvd m \<and> 21 \<le> m \<longrightarrow> unat (ALIGN_SIZE 21) \<le> m)"
proof -
  have "ALIGN_SIZE 21 = 24" by (simp add: ALIGN_SIZE_def MY_ALIGN_def)
  then show ?thesis using MY_ALIGN_least [of 3 21] by (simp add: ALIGN_SIZE_def)
qed

text \<open>The macros for character classes read the table inside its 257 entries and never the
  first, which is that of the end of the file: it counts as the byte 255. The classes of
  several bits are the unions of those of one.\<close>

theorem character_classes:
  assumes "length (ctype s) = 257"
  shows "char_class s c \<in> set (tl (ctype s)) \<and> char_class s (- 1) = ctype s ! 256
    \<and> (my_isalpha s c \<noteq> 0 \<longleftrightarrow> my_isupper s c \<noteq> 0 \<or> my_islower s c \<noteq> 0)
    \<and> (my_isalnum s c \<noteq> 0 \<longleftrightarrow> my_isalpha s c \<noteq> 0 \<or> my_isdigit s c \<noteq> 0)
    \<and> (my_isgraph s c \<noteq> 0 \<longleftrightarrow> my_isalnum s c \<noteq> 0 \<or> my_ispunct s c \<noteq> 0)
    \<and> (my_isprint s c \<noteq> 0 \<longleftrightarrow> my_isgraph s c \<noteq> 0 \<or> char_class s c AND MY_B \<noteq> 0)"
proof -
  have "char_class s c = tl (ctype s) ! as_index c" using assms by (simp add: char_class_def nth_tl as_index_less)
  moreover have "as_index c < length (tl (ctype s))" using assms as_index_less [of c] by simp
  ultimately have "char_class s c \<in> set (tl (ctype s))" by simp
  moreover have "as_index (- 1) = 255" unfolding as_index_def by code_simp
  then have "char_class s (- 1) = ctype s ! 256" by (simp add: char_class_def)
  ultimately show ?thesis by (auto simp: class_defs and_or_zero)
qed

theorem character_classes_witness:
  "char_class \<lparr>charset_state = 0, ctype = replicate 256 0 @ [MY_U], to_lower = [], to_upper = [], mbmaxlenlen = 1,
     mbcharlen = \<lambda>_. 1, has_ismbchar = False\<rparr> (- 1) = MY_U"
  using character_classes [of "\<lparr>charset_state = 0, ctype = replicate 256 0 @ [MY_U], to_lower = [], to_upper = [],
     mbmaxlenlen = 1, mbcharlen = \<lambda>_. 1, has_ismbchar = False\<rparr>"] by (simp add: nth_append)

text \<open>Both versions put the high byte of a two-byte code first.\<close>

theorem put_MB2_agree: "MY_PUT_MB2_i386 (MB2_i386 (ucast x)) = MY_PUT_MB2 (MB2 (ucast (x :: 16 word)))"
  unfolding MB2_i386_def MY_PUT_MB2_i386_def MY_PUT_MB2_def MB2_def mask_8 swapped_or swapped_bytes ..

text \<open>A field is no number and long data at once; \<open>NULL\<close> counts as a number, dates and bits do not.\<close>

theorem field_type_classes:
  "\<not> (IS_NUM t \<and> IS_LONGDATA t)" "IS_NUM MYSQL_TYPE_NULL" "\<not> IS_NUM MYSQL_TYPE_DATE" "\<not> IS_NUM MYSQL_TYPE_BIT"
  by (cases t; simp add: IS_NUM_def IS_LONGDATA_def)+

text \<open>\<open>my_sleep\<close> splits its microseconds without loss.\<close>

theorem my_sleep_exact:
  "case my_sleep m of (s, u) \<Rightarrow> s * 1000000 + u = m \<and> \<bar>u\<bar> < 1000000 \<and> (0 \<le> m \<longrightarrow> 0 \<le> s \<and> 0 \<le> u)"
proof (cases "0 \<le> m")
  case True
  then show ?thesis by (auto simp: my_sleep_def signed_divide_int_def signed_modulo_int_def sgn_if)
next
  case False
  have "(- m) div 1000000 * 1000000 + (- m) mod 1000000 = - m" by (rule div_mult_mod_eq)
  then have "- ((- m) div 1000000) * 1000000 + - ((- m) mod 1000000) = m" by linarith
  with False show ?thesis by (simp add: my_sleep_def signed_divide_int_def signed_modulo_int_def sgn_if)
qed

text \<open>The extension is created once: a second use gives the first result and changes nothing.\<close>

theorem extension_created_once:
  assumes "MYSQL_EXTENSION_PTR ini H = (e, H')" "ini H \<noteq> 0"
  shows "MYSQL_EXTENSION_PTR ini' H' = (e, H')"
  using assms by (auto simp: MYSQL_EXTENSION_PTR_def Let_def split: if_splits)

theorem extension_created_once_witness:
  "MYSQL_EXTENSION_PTR (\<lambda>_. 8) (snd (MYSQL_EXTENSION_PTR (\<lambda>_. 4) \<lparr>extension = 0, methods = True, mysql_error = 0\<rparr>))
   = (4, \<lparr>extension = 4, methods = True, mysql_error = 0\<rparr>)"
  using extension_created_once [of "\<lambda>_. 4" "\<lparr>extension = 0, methods = True, mysql_error = 0\<rparr>" 4 _ "\<lambda>_. 8"]
  by (simp add: MYSQL_EXTENSION_PTR_def)

end
