(* ===== verification/Mysql_Protocol.thy ===== *)
theory Mysql_Protocol
  imports Mysql_Macros
begin

text \<open>
  The vocabulary of the client and server conversation: the flags of columns, of
  \<open>mysql_refresh\<close>, of the handshake and of the server's status (mysql_com.h), the commands
  (my_command.h), and the protocol stages and trace events (plugin_trace.h) with the
  transitions between the stages that the header documents.
\<close>

section \<open>Column flags\<close>

definition UNIQUE_KEY_FLAG :: "32 word" where "UNIQUE_KEY_FLAG = 4"
definition MULTIPLE_KEY_FLAG :: "32 word" where "MULTIPLE_KEY_FLAG = 8"
definition UNSIGNED_FLAG :: "32 word" where "UNSIGNED_FLAG = 32"
definition ZEROFILL_FLAG :: "32 word" where "ZEROFILL_FLAG = 64"
definition BINARY_FLAG :: "32 word" where "BINARY_FLAG = 128"
definition ENUM_FLAG :: "32 word" where "ENUM_FLAG = 256"
definition AUTO_INCREMENT_FLAG :: "32 word" where "AUTO_INCREMENT_FLAG = 512"
definition TIMESTAMP_FLAG :: "32 word" where "TIMESTAMP_FLAG = 1024"
definition SET_FLAG :: "32 word" where "SET_FLAG = 2048"
definition NO_DEFAULT_VALUE_FLAG :: "32 word" where "NO_DEFAULT_VALUE_FLAG = 4096"
definition ON_UPDATE_NOW_FLAG :: "32 word" where "ON_UPDATE_NOW_FLAG = 8192"
definition NUM_FLAG :: "32 word" where "NUM_FLAG = 32768"
definition PART_KEY_FLAG :: "32 word" where "PART_KEY_FLAG = 16384"
definition GROUP_FLAG :: "32 word" where "GROUP_FLAG = 32768"
definition UNIQUE_FLAG :: "32 word" where "UNIQUE_FLAG = 65536"
definition BINCMP_FLAG :: "32 word" where "BINCMP_FLAG = 131072"
definition GET_FIXED_FIELDS_FLAG :: "32 word" where "GET_FIXED_FIELDS_FLAG = push_bit 18 1"
definition FIELD_IN_PART_FUNC_FLAG :: "32 word" where "FIELD_IN_PART_FUNC_FLAG = push_bit 19 1"
definition FIELD_IN_ADD_INDEX :: "32 word" where "FIELD_IN_ADD_INDEX = push_bit 20 1"
definition FIELD_IS_RENAMED :: "32 word" where "FIELD_IS_RENAMED = push_bit 21 1"
definition FIELD_IS_DROPPED :: "32 word" where "FIELD_IS_DROPPED = push_bit 26 1"
definition EXPLICIT_NULL_FLAG :: "32 word" where "EXPLICIT_NULL_FLAG = push_bit 27 1"

definition FIELD_FLAGS_STORAGE_MEDIA :: nat where "FIELD_FLAGS_STORAGE_MEDIA = 22"
definition FIELD_FLAGS_STORAGE_MEDIA_MASK :: "32 word" where
  "FIELD_FLAGS_STORAGE_MEDIA_MASK = push_bit FIELD_FLAGS_STORAGE_MEDIA 3"
definition FIELD_FLAGS_COLUMN_FORMAT :: nat where "FIELD_FLAGS_COLUMN_FORMAT = 24"
definition FIELD_FLAGS_COLUMN_FORMAT_MASK :: "32 word" where
  "FIELD_FLAGS_COLUMN_FORMAT_MASK = push_bit FIELD_FLAGS_COLUMN_FORMAT 3"

section \<open>What \<open>mysql_refresh\<close> refreshes\<close>

definition REFRESH_GRANT :: "64 word" where "REFRESH_GRANT = 1"
definition REFRESH_LOG :: "64 word" where "REFRESH_LOG = 2"
definition REFRESH_TABLES :: "64 word" where "REFRESH_TABLES = 4"
definition REFRESH_HOSTS :: "64 word" where "REFRESH_HOSTS = 8"
definition REFRESH_STATUS :: "64 word" where "REFRESH_STATUS = 16"
definition REFRESH_THREADS :: "64 word" where "REFRESH_THREADS = 32"
definition REFRESH_SLAVE :: "64 word" where "REFRESH_SLAVE = 64"
definition REFRESH_MASTER :: "64 word" where "REFRESH_MASTER = 128"
definition REFRESH_ERROR_LOG :: "64 word" where "REFRESH_ERROR_LOG = 256"
definition REFRESH_ENGINE_LOG :: "64 word" where "REFRESH_ENGINE_LOG = 512"
definition REFRESH_BINARY_LOG :: "64 word" where "REFRESH_BINARY_LOG = 1024"
definition REFRESH_RELAY_LOG :: "64 word" where "REFRESH_RELAY_LOG = 2048"
definition REFRESH_GENERAL_LOG :: "64 word" where "REFRESH_GENERAL_LOG = 4096"
definition REFRESH_SLOW_LOG :: "64 word" where "REFRESH_SLOW_LOG = 8192"
definition REFRESH_READ_LOCK :: "64 word" where "REFRESH_READ_LOCK = 16384"
definition REFRESH_FAST :: "64 word" where "REFRESH_FAST = 32768"
definition REFRESH_QUERY_CACHE :: "64 word" where "REFRESH_QUERY_CACHE = 65536"
definition REFRESH_QUERY_CACHE_FREE :: "64 word" where "REFRESH_QUERY_CACHE_FREE = 0x20000"
definition REFRESH_DES_KEY_FILE :: "64 word" where "REFRESH_DES_KEY_FILE = 0x40000"
definition REFRESH_USER_RESOURCES :: "64 word" where "REFRESH_USER_RESOURCES = 0x80000"
definition REFRESH_FOR_EXPORT :: "64 word" where "REFRESH_FOR_EXPORT = 0x100000"
definition REFRESH_OPTIMIZER_COSTS :: "64 word" where "REFRESH_OPTIMIZER_COSTS = 0x200000"

section \<open>Capabilities of the handshake\<close>

definition CLIENT_LONG_PASSWORD :: "64 word" where "CLIENT_LONG_PASSWORD = 1"
definition CLIENT_FOUND_ROWS :: "64 word" where "CLIENT_FOUND_ROWS = 2"
definition CLIENT_LONG_FLAG :: "64 word" where "CLIENT_LONG_FLAG = 4"
definition CLIENT_CONNECT_WITH_DB :: "64 word" where "CLIENT_CONNECT_WITH_DB = 8"
definition CLIENT_NO_SCHEMA :: "64 word" where "CLIENT_NO_SCHEMA = 16"
definition CLIENT_COMPRESS :: "64 word" where "CLIENT_COMPRESS = 32"
definition CLIENT_ODBC :: "64 word" where "CLIENT_ODBC = 64"
definition CLIENT_LOCAL_FILES :: "64 word" where "CLIENT_LOCAL_FILES = 128"
definition CLIENT_IGNORE_SPACE :: "64 word" where "CLIENT_IGNORE_SPACE = 256"
definition CLIENT_PROTOCOL_41 :: "64 word" where "CLIENT_PROTOCOL_41 = 512"
definition CLIENT_INTERACTIVE :: "64 word" where "CLIENT_INTERACTIVE = 1024"
definition CLIENT_SSL :: "64 word" where "CLIENT_SSL = 2048"
definition CLIENT_IGNORE_SIGPIPE :: "64 word" where "CLIENT_IGNORE_SIGPIPE = 4096"
definition CLIENT_TRANSACTIONS :: "64 word" where "CLIENT_TRANSACTIONS = 8192"
definition CLIENT_RESERVED :: "64 word" where "CLIENT_RESERVED = 16384"
definition CLIENT_RESERVED2 :: "64 word" where "CLIENT_RESERVED2 = 32768"
definition CLIENT_MULTI_STATEMENTS :: "64 word" where "CLIENT_MULTI_STATEMENTS = push_bit 16 1"
definition CLIENT_MULTI_RESULTS :: "64 word" where "CLIENT_MULTI_RESULTS = push_bit 17 1"
definition CLIENT_PS_MULTI_RESULTS :: "64 word" where "CLIENT_PS_MULTI_RESULTS = push_bit 18 1"
definition CLIENT_PLUGIN_AUTH :: "64 word" where "CLIENT_PLUGIN_AUTH = push_bit 19 1"
definition CLIENT_CONNECT_ATTRS :: "64 word" where "CLIENT_CONNECT_ATTRS = push_bit 20 1"
definition CLIENT_PLUGIN_AUTH_LENENC_CLIENT_DATA :: "64 word" where "CLIENT_PLUGIN_AUTH_LENENC_CLIENT_DATA = push_bit 21 1"
definition CLIENT_CAN_HANDLE_EXPIRED_PASSWORDS :: "64 word" where "CLIENT_CAN_HANDLE_EXPIRED_PASSWORDS = push_bit 22 1"
definition CLIENT_SESSION_TRACK :: "64 word" where "CLIENT_SESSION_TRACK = push_bit 23 1"
definition CLIENT_DEPRECATE_EOF :: "64 word" where "CLIENT_DEPRECATE_EOF = push_bit 24 1"
definition CLIENT_SSL_VERIFY_SERVER_CERT :: "64 word" where "CLIENT_SSL_VERIFY_SERVER_CERT = push_bit 30 1"
definition CLIENT_REMEMBER_OPTIONS :: "64 word" where "CLIENT_REMEMBER_OPTIONS = push_bit 31 1"

text \<open>\<open>HAVE_COMPRESS\<close> is defined (my_config.h).\<close>

definition CAN_CLIENT_COMPRESS :: "64 word" where "CAN_CLIENT_COMPRESS = CLIENT_COMPRESS"

definition CLIENT_ALL_FLAGS :: "64 word" where
  "CLIENT_ALL_FLAGS = CLIENT_LONG_PASSWORD OR CLIENT_FOUND_ROWS OR CLIENT_LONG_FLAG OR CLIENT_CONNECT_WITH_DB OR
     CLIENT_NO_SCHEMA OR CLIENT_COMPRESS OR CLIENT_ODBC OR CLIENT_LOCAL_FILES OR
     CLIENT_IGNORE_SPACE OR CLIENT_PROTOCOL_41 OR CLIENT_INTERACTIVE OR CLIENT_SSL OR
     CLIENT_IGNORE_SIGPIPE OR CLIENT_TRANSACTIONS OR CLIENT_RESERVED OR CLIENT_RESERVED2 OR
     CLIENT_MULTI_STATEMENTS OR CLIENT_MULTI_RESULTS OR CLIENT_PS_MULTI_RESULTS OR
     CLIENT_SSL_VERIFY_SERVER_CERT OR CLIENT_REMEMBER_OPTIONS OR CLIENT_PLUGIN_AUTH OR
     CLIENT_CONNECT_ATTRS OR CLIENT_PLUGIN_AUTH_LENENC_CLIENT_DATA OR
     CLIENT_CAN_HANDLE_EXPIRED_PASSWORDS OR CLIENT_SESSION_TRACK OR CLIENT_DEPRECATE_EOF"

definition CLIENT_BASIC_FLAGS :: "64 word" where
  "CLIENT_BASIC_FLAGS =
     ((CLIENT_ALL_FLAGS AND NOT CLIENT_SSL) AND NOT CLIENT_COMPRESS) AND NOT CLIENT_SSL_VERIFY_SERVER_CERT"

section \<open>Status of the server\<close>

definition SERVER_STATUS_IN_TRANS :: "64 word" where "SERVER_STATUS_IN_TRANS = 1"
definition SERVER_STATUS_AUTOCOMMIT :: "64 word" where "SERVER_STATUS_AUTOCOMMIT = 2"
definition SERVER_MORE_RESULTS_EXISTS :: "64 word" where "SERVER_MORE_RESULTS_EXISTS = 8"
definition SERVER_QUERY_NO_GOOD_INDEX_USED :: "64 word" where "SERVER_QUERY_NO_GOOD_INDEX_USED = 16"
definition SERVER_QUERY_NO_INDEX_USED :: "64 word" where "SERVER_QUERY_NO_INDEX_USED = 32"
definition SERVER_STATUS_CURSOR_EXISTS :: "64 word" where "SERVER_STATUS_CURSOR_EXISTS = 64"
definition SERVER_STATUS_LAST_ROW_SENT :: "64 word" where "SERVER_STATUS_LAST_ROW_SENT = 128"
definition SERVER_STATUS_DB_DROPPED :: "64 word" where "SERVER_STATUS_DB_DROPPED = 256"
definition SERVER_STATUS_NO_BACKSLASH_ESCAPES :: "64 word" where "SERVER_STATUS_NO_BACKSLASH_ESCAPES = 512"
definition SERVER_STATUS_METADATA_CHANGED :: "64 word" where "SERVER_STATUS_METADATA_CHANGED = 1024"
definition SERVER_QUERY_WAS_SLOW :: "64 word" where "SERVER_QUERY_WAS_SLOW = 2048"
definition SERVER_PS_OUT_PARAMS :: "64 word" where "SERVER_PS_OUT_PARAMS = 4096"
definition SERVER_STATUS_IN_TRANS_READONLY :: "64 word" where "SERVER_STATUS_IN_TRANS_READONLY = 8192"
definition SERVER_SESSION_STATE_CHANGED :: "64 word" where "SERVER_SESSION_STATE_CHANGED = push_bit 14 1"

definition SERVER_STATUS_CLEAR_SET :: "64 word" where
  "SERVER_STATUS_CLEAR_SET = SERVER_QUERY_NO_GOOD_INDEX_USED OR SERVER_QUERY_NO_INDEX_USED OR SERVER_MORE_RESULTS_EXISTS OR
     SERVER_STATUS_METADATA_CHANGED OR SERVER_QUERY_WAS_SLOW OR SERVER_STATUS_DB_DROPPED OR
     SERVER_STATUS_CURSOR_EXISTS OR SERVER_STATUS_LAST_ROW_SENT OR SERVER_SESSION_STATE_CHANGED"

section \<open>Commands\<close>

datatype enum_server_command =
    COM_SLEEP | COM_QUIT | COM_INIT_DB | COM_QUERY | COM_FIELD_LIST | COM_CREATE_DB | COM_DROP_DB |
    COM_REFRESH | COM_SHUTDOWN | COM_STATISTICS | COM_PROCESS_INFO | COM_CONNECT |
    COM_PROCESS_KILL | COM_DEBUG | COM_PING | COM_TIME | COM_DELAYED_INSERT | COM_CHANGE_USER |
    COM_BINLOG_DUMP | COM_TABLE_DUMP | COM_CONNECT_OUT | COM_REGISTER_SLAVE | COM_STMT_PREPARE |
    COM_STMT_EXECUTE | COM_STMT_SEND_LONG_DATA | COM_STMT_CLOSE | COM_STMT_RESET | COM_SET_OPTION |
    COM_STMT_FETCH | COM_DAEMON | COM_BINLOG_DUMP_GTID | COM_RESET_CONNECTION | COM_END

primrec command_number :: "enum_server_command \<Rightarrow> nat" where
  "command_number COM_SLEEP = 0"
| "command_number COM_QUIT = 1"
| "command_number COM_INIT_DB = 2"
| "command_number COM_QUERY = 3"
| "command_number COM_FIELD_LIST = 4"
| "command_number COM_CREATE_DB = 5"
| "command_number COM_DROP_DB = 6"
| "command_number COM_REFRESH = 7"
| "command_number COM_SHUTDOWN = 8"
| "command_number COM_STATISTICS = 9"
| "command_number COM_PROCESS_INFO = 10"
| "command_number COM_CONNECT = 11"
| "command_number COM_PROCESS_KILL = 12"
| "command_number COM_DEBUG = 13"
| "command_number COM_PING = 14"
| "command_number COM_TIME = 15"
| "command_number COM_DELAYED_INSERT = 16"
| "command_number COM_CHANGE_USER = 17"
| "command_number COM_BINLOG_DUMP = 18"
| "command_number COM_TABLE_DUMP = 19"
| "command_number COM_CONNECT_OUT = 20"
| "command_number COM_REGISTER_SLAVE = 21"
| "command_number COM_STMT_PREPARE = 22"
| "command_number COM_STMT_EXECUTE = 23"
| "command_number COM_STMT_SEND_LONG_DATA = 24"
| "command_number COM_STMT_CLOSE = 25"
| "command_number COM_STMT_RESET = 26"
| "command_number COM_SET_OPTION = 27"
| "command_number COM_STMT_FETCH = 28"
| "command_number COM_DAEMON = 29"
| "command_number COM_BINLOG_DUMP_GTID = 30"
| "command_number COM_RESET_CONNECTION = 31"
| "command_number COM_END = 32"

section \<open>Protocol stages and trace events\<close>

datatype protocol_stage =
    PROTOCOL_STAGE_CONNECTING | PROTOCOL_STAGE_WAIT_FOR_INIT_PACKET | PROTOCOL_STAGE_AUTHENTICATE |
    PROTOCOL_STAGE_SSL_NEGOTIATION | PROTOCOL_STAGE_READY_FOR_COMMAND |
    PROTOCOL_STAGE_WAIT_FOR_PACKET | PROTOCOL_STAGE_WAIT_FOR_RESULT |
    PROTOCOL_STAGE_WAIT_FOR_FIELD_DEF | PROTOCOL_STAGE_WAIT_FOR_ROW | PROTOCOL_STAGE_FILE_REQUEST |
    PROTOCOL_STAGE_WAIT_FOR_PS_DESCRIPTION | PROTOCOL_STAGE_WAIT_FOR_PARAM_DEF |
    PROTOCOL_STAGE_DISCONNECTED | PROTOCOL_STAGE_LAST

primrec stage_number :: "protocol_stage \<Rightarrow> nat" where
  "stage_number PROTOCOL_STAGE_CONNECTING = 0"
| "stage_number PROTOCOL_STAGE_WAIT_FOR_INIT_PACKET = 1"
| "stage_number PROTOCOL_STAGE_AUTHENTICATE = 2"
| "stage_number PROTOCOL_STAGE_SSL_NEGOTIATION = 3"
| "stage_number PROTOCOL_STAGE_READY_FOR_COMMAND = 4"
| "stage_number PROTOCOL_STAGE_WAIT_FOR_PACKET = 5"
| "stage_number PROTOCOL_STAGE_WAIT_FOR_RESULT = 6"
| "stage_number PROTOCOL_STAGE_WAIT_FOR_FIELD_DEF = 7"
| "stage_number PROTOCOL_STAGE_WAIT_FOR_ROW = 8"
| "stage_number PROTOCOL_STAGE_FILE_REQUEST = 9"
| "stage_number PROTOCOL_STAGE_WAIT_FOR_PS_DESCRIPTION = 10"
| "stage_number PROTOCOL_STAGE_WAIT_FOR_PARAM_DEF = 11"
| "stage_number PROTOCOL_STAGE_DISCONNECTED = 12"
| "stage_number PROTOCOL_STAGE_LAST = 13"

datatype trace_event =
    TRACE_EVENT_ERROR | TRACE_EVENT_CONNECTING | TRACE_EVENT_CONNECTED | TRACE_EVENT_DISCONNECTED |
    TRACE_EVENT_SEND_SSL_REQUEST | TRACE_EVENT_SSL_CONNECT | TRACE_EVENT_SSL_CONNECTED |
    TRACE_EVENT_INIT_PACKET_RECEIVED | TRACE_EVENT_AUTH_PLUGIN | TRACE_EVENT_SEND_AUTH_RESPONSE |
    TRACE_EVENT_SEND_AUTH_DATA | TRACE_EVENT_AUTHENTICATED | TRACE_EVENT_SEND_COMMAND |
    TRACE_EVENT_SEND_FILE | TRACE_EVENT_READ_PACKET | TRACE_EVENT_PACKET_RECEIVED |
    TRACE_EVENT_PACKET_SENT | TRACE_EVENT_LAST

primrec event_number :: "trace_event \<Rightarrow> nat" where
  "event_number TRACE_EVENT_ERROR = 0"
| "event_number TRACE_EVENT_CONNECTING = 1"
| "event_number TRACE_EVENT_CONNECTED = 2"
| "event_number TRACE_EVENT_DISCONNECTED = 3"
| "event_number TRACE_EVENT_SEND_SSL_REQUEST = 4"
| "event_number TRACE_EVENT_SSL_CONNECT = 5"
| "event_number TRACE_EVENT_SSL_CONNECTED = 6"
| "event_number TRACE_EVENT_INIT_PACKET_RECEIVED = 7"
| "event_number TRACE_EVENT_AUTH_PLUGIN = 8"
| "event_number TRACE_EVENT_SEND_AUTH_RESPONSE = 9"
| "event_number TRACE_EVENT_SEND_AUTH_DATA = 10"
| "event_number TRACE_EVENT_AUTHENTICATED = 11"
| "event_number TRACE_EVENT_SEND_COMMAND = 12"
| "event_number TRACE_EVENT_SEND_FILE = 13"
| "event_number TRACE_EVENT_READ_PACKET = 14"
| "event_number TRACE_EVENT_PACKET_RECEIVED = 15"
| "event_number TRACE_EVENT_PACKET_SENT = 16"
| "event_number TRACE_EVENT_LAST = 17"

text \<open>
  The transitions of the digraph in the comment of plugin_trace.h, whose
  \<open>READY_FOR_COMAND\<close> is read as \<open>READY_FOR_COMMAND\<close>.
\<close>

inductive stage_step :: "protocol_stage \<Rightarrow> protocol_stage \<Rightarrow> bool" where
  "stage_step PROTOCOL_STAGE_CONNECTING PROTOCOL_STAGE_WAIT_FOR_INIT_PACKET"
| "stage_step PROTOCOL_STAGE_CONNECTING PROTOCOL_STAGE_DISCONNECTED"
| "stage_step PROTOCOL_STAGE_WAIT_FOR_INIT_PACKET PROTOCOL_STAGE_AUTHENTICATE"
| "stage_step PROTOCOL_STAGE_WAIT_FOR_INIT_PACKET PROTOCOL_STAGE_SSL_NEGOTIATION"
| "stage_step PROTOCOL_STAGE_SSL_NEGOTIATION PROTOCOL_STAGE_AUTHENTICATE"
| "stage_step PROTOCOL_STAGE_AUTHENTICATE PROTOCOL_STAGE_READY_FOR_COMMAND"
| "stage_step PROTOCOL_STAGE_AUTHENTICATE PROTOCOL_STAGE_DISCONNECTED"
| "stage_step PROTOCOL_STAGE_READY_FOR_COMMAND PROTOCOL_STAGE_DISCONNECTED"
| "stage_step PROTOCOL_STAGE_READY_FOR_COMMAND PROTOCOL_STAGE_AUTHENTICATE"
| "stage_step PROTOCOL_STAGE_READY_FOR_COMMAND PROTOCOL_STAGE_WAIT_FOR_PACKET"
| "stage_step PROTOCOL_STAGE_READY_FOR_COMMAND PROTOCOL_STAGE_WAIT_FOR_RESULT"
| "stage_step PROTOCOL_STAGE_READY_FOR_COMMAND PROTOCOL_STAGE_WAIT_FOR_PS_DESCRIPTION"
| "stage_step PROTOCOL_STAGE_WAIT_FOR_PACKET PROTOCOL_STAGE_READY_FOR_COMMAND"
| "stage_step PROTOCOL_STAGE_WAIT_FOR_RESULT PROTOCOL_STAGE_READY_FOR_COMMAND"
| "stage_step PROTOCOL_STAGE_WAIT_FOR_RESULT PROTOCOL_STAGE_WAIT_FOR_FIELD_DEF"
| "stage_step PROTOCOL_STAGE_WAIT_FOR_RESULT PROTOCOL_STAGE_FILE_REQUEST"
| "stage_step PROTOCOL_STAGE_WAIT_FOR_FIELD_DEF PROTOCOL_STAGE_WAIT_FOR_ROW"
| "stage_step PROTOCOL_STAGE_WAIT_FOR_FIELD_DEF PROTOCOL_STAGE_READY_FOR_COMMAND"
| "stage_step PROTOCOL_STAGE_WAIT_FOR_ROW PROTOCOL_STAGE_READY_FOR_COMMAND"
| "stage_step PROTOCOL_STAGE_WAIT_FOR_ROW PROTOCOL_STAGE_WAIT_FOR_RESULT"
| "stage_step PROTOCOL_STAGE_WAIT_FOR_PS_DESCRIPTION PROTOCOL_STAGE_WAIT_FOR_PARAM_DEF"
| "stage_step PROTOCOL_STAGE_WAIT_FOR_PS_DESCRIPTION PROTOCOL_STAGE_READY_FOR_COMMAND"
| "stage_step PROTOCOL_STAGE_WAIT_FOR_PS_DESCRIPTION PROTOCOL_STAGE_WAIT_FOR_FIELD_DEF"
| "stage_step PROTOCOL_STAGE_WAIT_FOR_PARAM_DEF PROTOCOL_STAGE_WAIT_FOR_FIELD_DEF"
| "stage_step PROTOCOL_STAGE_WAIT_FOR_PARAM_DEF PROTOCOL_STAGE_READY_FOR_COMMAND"
| "stage_step PROTOCOL_STAGE_FILE_REQUEST PROTOCOL_STAGE_WAIT_FOR_RESULT"

inductive_simps stage_step_simps [simp]:
  "stage_step PROTOCOL_STAGE_CONNECTING t"
  "stage_step PROTOCOL_STAGE_WAIT_FOR_INIT_PACKET t"
  "stage_step PROTOCOL_STAGE_AUTHENTICATE t"
  "stage_step PROTOCOL_STAGE_SSL_NEGOTIATION t"
  "stage_step PROTOCOL_STAGE_READY_FOR_COMMAND t"
  "stage_step PROTOCOL_STAGE_WAIT_FOR_PACKET t"
  "stage_step PROTOCOL_STAGE_WAIT_FOR_RESULT t"
  "stage_step PROTOCOL_STAGE_WAIT_FOR_FIELD_DEF t"
  "stage_step PROTOCOL_STAGE_WAIT_FOR_ROW t"
  "stage_step PROTOCOL_STAGE_FILE_REQUEST t"
  "stage_step PROTOCOL_STAGE_WAIT_FOR_PS_DESCRIPTION t"
  "stage_step PROTOCOL_STAGE_WAIT_FOR_PARAM_DEF t"
  "stage_step PROTOCOL_STAGE_DISCONNECTED t"

section \<open>The flags are bits\<close>

definition client_flags :: "64 word list" where
  "client_flags =
    [CLIENT_LONG_PASSWORD, CLIENT_FOUND_ROWS, CLIENT_LONG_FLAG, CLIENT_CONNECT_WITH_DB,
     CLIENT_NO_SCHEMA, CLIENT_COMPRESS, CLIENT_ODBC, CLIENT_LOCAL_FILES, CLIENT_IGNORE_SPACE,
     CLIENT_PROTOCOL_41, CLIENT_INTERACTIVE, CLIENT_SSL, CLIENT_IGNORE_SIGPIPE,
     CLIENT_TRANSACTIONS, CLIENT_RESERVED, CLIENT_RESERVED2, CLIENT_MULTI_STATEMENTS,
     CLIENT_MULTI_RESULTS, CLIENT_PS_MULTI_RESULTS, CLIENT_PLUGIN_AUTH, CLIENT_CONNECT_ATTRS,
     CLIENT_PLUGIN_AUTH_LENENC_CLIENT_DATA, CLIENT_CAN_HANDLE_EXPIRED_PASSWORDS,
     CLIENT_SESSION_TRACK, CLIENT_DEPRECATE_EOF, CLIENT_SSL_VERIFY_SERVER_CERT,
     CLIENT_REMEMBER_OPTIONS]"

definition refresh_flags :: "64 word list" where
  "refresh_flags =
    [REFRESH_GRANT, REFRESH_LOG, REFRESH_TABLES, REFRESH_HOSTS, REFRESH_STATUS, REFRESH_THREADS,
     REFRESH_SLAVE, REFRESH_MASTER, REFRESH_ERROR_LOG, REFRESH_ENGINE_LOG, REFRESH_BINARY_LOG,
     REFRESH_RELAY_LOG, REFRESH_GENERAL_LOG, REFRESH_SLOW_LOG, REFRESH_READ_LOCK, REFRESH_FAST,
     REFRESH_QUERY_CACHE, REFRESH_QUERY_CACHE_FREE, REFRESH_DES_KEY_FILE, REFRESH_USER_RESOURCES,
     REFRESH_FOR_EXPORT, REFRESH_OPTIMIZER_COSTS]"

definition status_flags :: "64 word list" where
  "status_flags =
    [SERVER_STATUS_IN_TRANS, SERVER_STATUS_AUTOCOMMIT, SERVER_MORE_RESULTS_EXISTS,
     SERVER_QUERY_NO_GOOD_INDEX_USED, SERVER_QUERY_NO_INDEX_USED, SERVER_STATUS_CURSOR_EXISTS,
     SERVER_STATUS_LAST_ROW_SENT, SERVER_STATUS_DB_DROPPED, SERVER_STATUS_NO_BACKSLASH_ESCAPES,
     SERVER_STATUS_METADATA_CHANGED, SERVER_QUERY_WAS_SLOW, SERVER_PS_OUT_PARAMS,
     SERVER_STATUS_IN_TRANS_READONLY, SERVER_SESSION_STATE_CHANGED]"

lemmas client_flag_defs =
  CLIENT_LONG_PASSWORD_def CLIENT_FOUND_ROWS_def CLIENT_LONG_FLAG_def CLIENT_CONNECT_WITH_DB_def
  CLIENT_NO_SCHEMA_def CLIENT_COMPRESS_def CLIENT_ODBC_def CLIENT_LOCAL_FILES_def
  CLIENT_IGNORE_SPACE_def CLIENT_PROTOCOL_41_def CLIENT_INTERACTIVE_def CLIENT_SSL_def
  CLIENT_IGNORE_SIGPIPE_def CLIENT_TRANSACTIONS_def CLIENT_RESERVED_def CLIENT_RESERVED2_def
  CLIENT_MULTI_STATEMENTS_def CLIENT_MULTI_RESULTS_def CLIENT_PS_MULTI_RESULTS_def
  CLIENT_PLUGIN_AUTH_def CLIENT_CONNECT_ATTRS_def CLIENT_PLUGIN_AUTH_LENENC_CLIENT_DATA_def
  CLIENT_CAN_HANDLE_EXPIRED_PASSWORDS_def CLIENT_SESSION_TRACK_def CLIENT_DEPRECATE_EOF_def
  CLIENT_SSL_VERIFY_SERVER_CERT_def CLIENT_REMEMBER_OPTIONS_def

lemmas refresh_flag_defs =
  REFRESH_GRANT_def REFRESH_LOG_def REFRESH_TABLES_def REFRESH_HOSTS_def REFRESH_STATUS_def
  REFRESH_THREADS_def REFRESH_SLAVE_def REFRESH_MASTER_def REFRESH_ERROR_LOG_def
  REFRESH_ENGINE_LOG_def REFRESH_BINARY_LOG_def REFRESH_RELAY_LOG_def REFRESH_GENERAL_LOG_def
  REFRESH_SLOW_LOG_def REFRESH_READ_LOCK_def REFRESH_FAST_def REFRESH_QUERY_CACHE_def
  REFRESH_QUERY_CACHE_FREE_def REFRESH_DES_KEY_FILE_def REFRESH_USER_RESOURCES_def
  REFRESH_FOR_EXPORT_def REFRESH_OPTIMIZER_COSTS_def

lemmas status_flag_defs =
  SERVER_STATUS_IN_TRANS_def SERVER_STATUS_AUTOCOMMIT_def SERVER_MORE_RESULTS_EXISTS_def
  SERVER_QUERY_NO_GOOD_INDEX_USED_def SERVER_QUERY_NO_INDEX_USED_def
  SERVER_STATUS_CURSOR_EXISTS_def SERVER_STATUS_LAST_ROW_SENT_def SERVER_STATUS_DB_DROPPED_def
  SERVER_STATUS_NO_BACKSLASH_ESCAPES_def SERVER_STATUS_METADATA_CHANGED_def
  SERVER_QUERY_WAS_SLOW_def SERVER_PS_OUT_PARAMS_def SERVER_STATUS_IN_TRANS_READONLY_def
  SERVER_SESSION_STATE_CHANGED_def

lemma client_flags_bits: "client_flags = map (\<lambda>k. push_bit k 1) ([0..<25] @ [30, 31])"
  by (simp add: client_flags_def client_flag_defs upt_rec)

lemma refresh_flags_bits: "refresh_flags = map (\<lambda>k. push_bit k 1) [0..<22]"
  by (simp add: refresh_flags_def refresh_flag_defs upt_rec)

lemma status_flags_bits: "status_flags = map (\<lambda>k. push_bit k 1) ([0, 1] @ [3..<15])"
  by (simp add: status_flags_def status_flag_defs upt_rec)

lemma CLIENT_ALL_FLAGS_value: "CLIENT_ALL_FLAGS = 0xC1FFFFFF"
  by (simp add: CLIENT_ALL_FLAGS_def client_flag_defs)

lemma CLIENT_BASIC_FLAGS_value: "CLIENT_BASIC_FLAGS = 0x81FFF7DF"
  by (simp add: CLIENT_BASIC_FLAGS_def CLIENT_ALL_FLAGS_value client_flag_defs)

lemma SERVER_STATUS_CLEAR_SET_value: "SERVER_STATUS_CLEAR_SET = 0x4DF8"
  by (simp add: SERVER_STATUS_CLEAR_SET_def status_flag_defs)

lemma client_flags_distinct: "distinct client_flags"
  by (simp add: client_flags_def client_flag_defs)

lemma basic_flags:
  "\<forall>f \<in> set client_flags. test_all_bits CLIENT_ALL_FLAGS f
     \<and> test_all_bits CLIENT_BASIC_FLAGS f = (f \<notin> {CLIENT_SSL, CLIENT_COMPRESS, CLIENT_SSL_VERIFY_SERVER_CERT})"
  by (simp add: client_flags_def test_all_bits_def CLIENT_ALL_FLAGS_value CLIENT_BASIC_FLAGS_value client_flag_defs)

section \<open>Runs through the stages\<close>

fun stage_path :: "protocol_stage list \<Rightarrow> bool" where
  "stage_path [] = True"
| "stage_path [s] = True"
| "stage_path (s # t # ss) = (stage_step s t \<and> stage_path (t # ss))"

definition before_login :: "protocol_stage set" where
  "before_login = {PROTOCOL_STAGE_CONNECTING, PROTOCOL_STAGE_WAIT_FOR_INIT_PACKET,
     PROTOCOL_STAGE_SSL_NEGOTIATION, PROTOCOL_STAGE_DISCONNECTED}"

lemma before_login_step:
  "s \<in> before_login \<Longrightarrow> stage_step s t \<Longrightarrow> t \<in> before_login \<or> t = PROTOCOL_STAGE_AUTHENTICATE"
  by (auto simp: before_login_def)

lemma path_before_login:
  "stage_path (s # xs @ [t]) \<Longrightarrow> s \<in> before_login \<Longrightarrow> PROTOCOL_STAGE_AUTHENTICATE \<notin> set xs \<Longrightarrow>
    t \<in> before_login \<or> t = PROTOCOL_STAGE_AUTHENTICATE"
proof (induction xs arbitrary: s)
  case (Cons x xs)
  then have "stage_step s x" "stage_path (x # xs @ [t])" "x \<noteq> PROTOCOL_STAGE_AUTHENTICATE" by auto
  with before_login_step [OF Cons.prems(2)] Cons.IH [of x] Cons.prems(3) show ?case by auto
qed (use before_login_step in auto)

lemma stage_path_prefix: "stage_path (ss @ ts) \<Longrightarrow> stage_path ss"
  by (induction ss rule: stage_path.induct) (simp_all split: list.splits)

definition way_out :: "protocol_stage \<Rightarrow> protocol_stage list" where
  "way_out s = (case s of
     PROTOCOL_STAGE_CONNECTING \<Rightarrow> []
   | PROTOCOL_STAGE_WAIT_FOR_INIT_PACKET \<Rightarrow> [PROTOCOL_STAGE_AUTHENTICATE]
   | PROTOCOL_STAGE_AUTHENTICATE \<Rightarrow> []
   | PROTOCOL_STAGE_SSL_NEGOTIATION \<Rightarrow> [PROTOCOL_STAGE_AUTHENTICATE]
   | PROTOCOL_STAGE_READY_FOR_COMMAND \<Rightarrow> []
   | PROTOCOL_STAGE_FILE_REQUEST \<Rightarrow> [PROTOCOL_STAGE_WAIT_FOR_RESULT, PROTOCOL_STAGE_READY_FOR_COMMAND]
   | _ \<Rightarrow> [PROTOCOL_STAGE_READY_FOR_COMMAND])"

section \<open>Properties\<close>

text \<open>The capabilities of the handshake are 27 different bits, \<open>CLIENT_ALL_FLAGS\<close> has all of
  them, and \<open>CLIENT_BASIC_FLAGS\<close> all but SSL, compression and the check of the server's
  certificate.\<close>

theorem capabilities_are_bits:
  "distinct client_flags \<and> client_flags = map (\<lambda>k. push_bit k 1) ([0..<25] @ [30, 31])
   \<and> (\<forall>f \<in> set client_flags. test_all_bits CLIENT_ALL_FLAGS f
       \<and> test_all_bits CLIENT_BASIC_FLAGS f = (f \<notin> {CLIENT_SSL, CLIENT_COMPRESS, CLIENT_SSL_VERIFY_SERVER_CERT}))"
  using client_flags_distinct client_flags_bits basic_flags by blast

text \<open>At the start of a statement, clearing \<open>SERVER_STATUS_CLEAR_SET\<close> keeps exactly the state of the
  transaction, autocommit, the treatment of backslashes and the mark of output parameters.\<close>

theorem clearing_keeps_transaction:
  "filter (\<lambda>f. f AND NOT SERVER_STATUS_CLEAR_SET \<noteq> 0) status_flags =
     [SERVER_STATUS_IN_TRANS, SERVER_STATUS_AUTOCOMMIT, SERVER_STATUS_NO_BACKSLASH_ESCAPES,
      SERVER_PS_OUT_PARAMS, SERVER_STATUS_IN_TRANS_READONLY]"
  by (simp add: status_flags_def SERVER_STATUS_CLEAR_SET_value status_flag_defs)

text \<open>Each thing \<open>mysql_refresh\<close> can refresh has a bit of its own.\<close>

theorem refresh_flags_distinct:
  "distinct refresh_flags \<and> refresh_flags = map (\<lambda>k. push_bit k 1) [0..<22]"
proof
  show "distinct refresh_flags" by (simp add: refresh_flags_def refresh_flag_defs)
qed (rule refresh_flags_bits)

text \<open>A column that is the object of a grouping looks numeric to a client: \<open>GROUP_FLAG\<close> and
  \<open>NUM_FLAG\<close> are the same bit, the other column flags and the two fields of two bits share none.\<close>

theorem column_flags_share_one_bit:
  "NUM_FLAG = GROUP_FLAG
   \<and> distinct [NOT_NULL_FLAG, PRI_KEY_FLAG, BLOB_FLAG,
     UNIQUE_KEY_FLAG, MULTIPLE_KEY_FLAG, UNSIGNED_FLAG, ZEROFILL_FLAG, BINARY_FLAG, ENUM_FLAG,
     AUTO_INCREMENT_FLAG, TIMESTAMP_FLAG, SET_FLAG, NO_DEFAULT_VALUE_FLAG, ON_UPDATE_NOW_FLAG,
     PART_KEY_FLAG, GROUP_FLAG, UNIQUE_FLAG, BINCMP_FLAG, GET_FIXED_FIELDS_FLAG,
     FIELD_IN_PART_FUNC_FLAG, FIELD_IN_ADD_INDEX, FIELD_IS_RENAMED, FIELD_IS_DROPPED,
     EXPLICIT_NULL_FLAG]
   \<and> (\<forall>m \<in> {FIELD_FLAGS_STORAGE_MEDIA_MASK, FIELD_FLAGS_COLUMN_FORMAT_MASK}.
        \<forall>f \<in> set [NOT_NULL_FLAG, PRI_KEY_FLAG, BLOB_FLAG,
     UNIQUE_KEY_FLAG, MULTIPLE_KEY_FLAG, UNSIGNED_FLAG, ZEROFILL_FLAG, BINARY_FLAG, ENUM_FLAG,
     AUTO_INCREMENT_FLAG, TIMESTAMP_FLAG, SET_FLAG, NO_DEFAULT_VALUE_FLAG, ON_UPDATE_NOW_FLAG,
     PART_KEY_FLAG, GROUP_FLAG, UNIQUE_FLAG, BINCMP_FLAG, GET_FIXED_FIELDS_FLAG,
     FIELD_IN_PART_FUNC_FLAG, FIELD_IN_ADD_INDEX, FIELD_IS_RENAMED, FIELD_IS_DROPPED,
     EXPLICIT_NULL_FLAG]. f AND m = 0)"
  by (simp add: NOT_NULL_FLAG_def PRI_KEY_FLAG_def BLOB_FLAG_def FIELD_FLAGS_STORAGE_MEDIA_MASK_def
    FIELD_FLAGS_COLUMN_FORMAT_MASK_def FIELD_FLAGS_STORAGE_MEDIA_def FIELD_FLAGS_COLUMN_FORMAT_def
    UNIQUE_KEY_FLAG_def MULTIPLE_KEY_FLAG_def UNSIGNED_FLAG_def ZEROFILL_FLAG_def BINARY_FLAG_def
  ENUM_FLAG_def AUTO_INCREMENT_FLAG_def TIMESTAMP_FLAG_def SET_FLAG_def NO_DEFAULT_VALUE_FLAG_def
  ON_UPDATE_NOW_FLAG_def NUM_FLAG_def PART_KEY_FLAG_def GROUP_FLAG_def UNIQUE_FLAG_def
  BINCMP_FLAG_def GET_FIXED_FIELDS_FLAG_def FIELD_IN_PART_FUNC_FLAG_def FIELD_IN_ADD_INDEX_def
  FIELD_IS_RENAMED_def FIELD_IS_DROPPED_def EXPLICIT_NULL_FLAG_def)

text \<open>In the documented protocol no command, result, row or file is exchanged before the client has
  authenticated: every run from CONNECTING to one of these stages goes through AUTHENTICATE,
  with or without SSL.\<close>

theorem commands_after_authentication:
  assumes "stage_path (PROTOCOL_STAGE_CONNECTING # xs @ s # ys)"
    and "s \<notin> before_login" "s \<noteq> PROTOCOL_STAGE_AUTHENTICATE"
  shows "PROTOCOL_STAGE_AUTHENTICATE \<in> set xs"
proof (rule ccontr)
  assume "PROTOCOL_STAGE_AUTHENTICATE \<notin> set xs"
  moreover have "stage_path (PROTOCOL_STAGE_CONNECTING # xs @ [s])"
    by (rule stage_path_prefix [of _ ys]) (use assms(1) in simp)
  ultimately show False using path_before_login assms(2,3) by (auto simp: before_login_def)
qed

theorem commands_after_authentication_witness:
  "PROTOCOL_STAGE_AUTHENTICATE \<in> set [PROTOCOL_STAGE_WAIT_FOR_INIT_PACKET, PROTOCOL_STAGE_AUTHENTICATE]
   \<and> stage_path [PROTOCOL_STAGE_CONNECTING, PROTOCOL_STAGE_WAIT_FOR_INIT_PACKET, PROTOCOL_STAGE_AUTHENTICATE,
       PROTOCOL_STAGE_READY_FOR_COMMAND]"
  using commands_after_authentication [of "[PROTOCOL_STAGE_WAIT_FOR_INIT_PACKET, PROTOCOL_STAGE_AUTHENTICATE]"
      PROTOCOL_STAGE_READY_FOR_COMMAND "[]"] by (simp add: before_login_def)

text \<open>The documented protocol has no dead end: from every stage but the last there is a way to
  DISCONNECTED, from which nothing leads on.\<close>

theorem every_stage_can_disconnect:
  assumes "s \<noteq> PROTOCOL_STAGE_DISCONNECTED" "s \<noteq> PROTOCOL_STAGE_LAST"
  shows "stage_path (s # way_out s @ [PROTOCOL_STAGE_DISCONNECTED])
    \<and> (\<forall>t. \<not> stage_step PROTOCOL_STAGE_DISCONNECTED t)"
  using assms by (cases s) (simp_all add: way_out_def)

theorem every_stage_can_disconnect_witness:
  "stage_path [PROTOCOL_STAGE_FILE_REQUEST, PROTOCOL_STAGE_WAIT_FOR_RESULT, PROTOCOL_STAGE_READY_FOR_COMMAND,
     PROTOCOL_STAGE_DISCONNECTED]"
  using every_stage_can_disconnect [of PROTOCOL_STAGE_FILE_REQUEST] by (simp add: way_out_def)

end
