(* ===== verification/Web_Libc.thy ===== *)
theory Web_Libc
  imports Web_Prelude
begin

text \<open>
  The functions of the C and C++ standard libraries that the program uses on strings and
  integers, as the source relies on them (glibc on x86-64, the \<open>C\<close> locale): \<open>int\<close> is the
  32-bit two's complement range of HOL's \<open>int\<close>, kept in range by \<open>int32\<close>; \<open>atoi\<close> is
  glibc's \<open>(int) strtol(s, NULL, 10)\<close>; \<open>to_string\<close> is \<open>std::to_string\<close>.
\<close>

section \<open>Integers\<close>

text \<open>Conversion to \<open>int\<close>: the low 32 bits, read as two's complement.\<close>

definition int32 :: "int \<Rightarrow> int" where
  "int32 n = (n + 2147483648) mod 4294967296 - 2147483648"

definition in_int32 :: "int \<Rightarrow> bool" where
  "in_int32 n \<longleftrightarrow> - 2147483648 \<le> n \<and> n \<le> 2147483647"

lemma int32_id [simp]: "in_int32 n \<Longrightarrow> int32 n = n"
  by (simp add: int32_def in_int32_def mod_pos_pos_trivial)

lemma int32_range [simp]: "in_int32 (int32 n)"
proof -
  have "0 \<le> (n + 2147483648) mod 4294967296" and "(n + 2147483648) mod 4294967296 < 4294967296"
    by simp_all
  then show ?thesis unfolding int32_def in_int32_def by linarith
qed

lemma int32_length: "n < 2147483648 \<Longrightarrow> int32 (int n) = int n"
  by (rule int32_id) (simp add: in_int32_def)

lemma int32_int32_diff [simp]: "int32 (int32 n - m) = int32 (n - m)"
proof -
  have "((n + 2147483648) mod 4294967296 - 2147483648 - m + 2147483648) mod 4294967296
    = ((n + 2147483648) mod 4294967296 - m) mod 4294967296"
    by (simp add: algebra_simps)
  also have "\<dots> = (n + 2147483648 - m) mod 4294967296" by (rule mod_diff_left_eq)
  finally show ?thesis by (simp add: int32_def algebra_simps)
qed

lemma int32_0 [simp]: "int32 0 = 0"
  by (simp add: int32_def)

lemma int32_zero_iff: "int32 n = 0 \<longleftrightarrow> 4294967296 dvd n"
proof -
  have "int32 n = 0 \<longleftrightarrow> (n + 2147483648) mod 4294967296 = 2147483648 mod 4294967296"
    by (simp add: int32_def)
  also have "\<dots> \<longleftrightarrow> 4294967296 dvd n" by (subst mod_eq_dvd_iff) simp
  finally show ?thesis .
qed

lemma int32_nonzero: "- 4294967296 < n \<Longrightarrow> n < 4294967296 \<Longrightarrow> n \<noteq> 0 \<Longrightarrow> int32 n \<noteq> 0"
  unfolding int32_zero_iff by (auto dest: dvd_imp_le_int)

lemma int32_eq_iff: "int32 m = int32 n \<longleftrightarrow> 4294967296 dvd m - n"
proof -
  have "int32 m = int32 n \<longleftrightarrow> (m + 2147483648) mod 4294967296 = (n + 2147483648) mod 4294967296"
    by (simp add: int32_def)
  also have "\<dots> \<longleftrightarrow> 4294967296 dvd m - n" by (subst mod_eq_dvd_iff) simp
  finally show ?thesis .
qed

lemma int32_succ:
  assumes "int32 m = int32 (n - 1)" "in_int32 n"
  shows "int32 (m + 1) = n"
proof -
  have "int32 (m + 1) = int32 n" using assms(1) by (simp add: int32_eq_iff algebra_simps)
  with assms(2) show ?thesis by simp
qed

section \<open>Characters\<close>

definition isspace :: "char \<Rightarrow> bool" where
  "isspace c \<longleftrightarrow> c = CHR '' '' \<or> c \<in> {CHR 0x09, CHR 0x0A, CHR 0x0B, CHR 0x0C, CHR 0x0D}"

definition isdigit :: "char \<Rightarrow> bool" where
  "isdigit c \<longleftrightarrow> 48 \<le> (of_char c :: nat) \<and> (of_char c :: nat) \<le> 57"

definition toupper :: "char \<Rightarrow> char" where
  "toupper c = (if 97 \<le> (of_char c :: nat) \<and> (of_char c :: nat) \<le> 122
                then char_of ((of_char c :: nat) - 32) else c)"

lemma toupper_idem [simp]: "toupper (toupper c) = toupper c"
proof (cases "97 \<le> (of_char c :: nat) \<and> (of_char c :: nat) \<le> 122")
  case True
  then have "(of_char c - 32 :: nat) mod 256 = of_char c - 32" by (intro mod_less) linarith
  with True have "(of_char (toupper c) :: nat) = of_char c - 32"
    by (simp add: toupper_def)
  with True have "\<not> 97 \<le> (of_char (toupper c) :: nat)" by linarith
  then show ?thesis by (simp add: toupper_def [of "toupper c"])
next
  case False
  then have "toupper c = c" unfolding toupper_def by (rule if_not_P)
  then show ?thesis by simp
qed

section \<open>Decimal numbers\<close>

definition digit_char :: "nat \<Rightarrow> char" where
  "digit_char n = char_of (48 + n)"

definition digit_val :: "char \<Rightarrow> nat" where
  "digit_val c = of_char c - 48"

lemma of_char_digit_char: "n < 10 \<Longrightarrow> (of_char (digit_char n) :: nat) = 48 + n"
  by (simp add: digit_char_def)

lemma isdigit_digit_char [simp]: "n < 10 \<Longrightarrow> isdigit (digit_char n)"
  by (simp add: isdigit_def of_char_digit_char)

lemma digit_val_digit_char [simp]: "n < 10 \<Longrightarrow> digit_val (digit_char n) = n"
  by (simp add: digit_val_def of_char_digit_char)

fun nat_str :: "nat \<Rightarrow> string" where
  "nat_str n = (if n < 10 then [digit_char n] else nat_str (n div 10) @ [digit_char (n mod 10)])"

declare nat_str.simps [simp del]

definition to_string :: "int \<Rightarrow> string" where
  "to_string i = (if i < 0 then CHR ''-'' # nat_str (nat (- i)) else nat_str (nat i))"

fun digits_val :: "nat \<Rightarrow> string \<Rightarrow> nat" where
  "digits_val acc [] = acc"
| "digits_val acc (c # cs) =
     (if isdigit c then digits_val (10 * acc + digit_val c) cs else acc)"

definition strtol10 :: "string \<Rightarrow> int" where
  "strtol10 s =
     (let t = dropWhile isspace (c_str s);
          neg = (t \<noteq> [] \<and> hd t = CHR ''-'');
          u = (if t \<noteq> [] \<and> (hd t = CHR ''-'' \<or> hd t = CHR ''+'') then tl t else t);
          v = int (digits_val 0 u)
      in if neg then max (- (2 ^ 63)) (- v) else min (2 ^ 63 - 1) v)"

definition atoi :: "string \<Rightarrow> int" where
  "atoi s = int32 (strtol10 s)"

lemma nat_str_digits: "\<forall>c \<in> set (nat_str n). isdigit c"
proof (induction n rule: nat_str.induct)
  case (1 n)
  then show ?case by (subst nat_str.simps) auto
qed

lemma nat_str_nonempty [simp]: "nat_str n \<noteq> []"
  by (subst nat_str.simps) simp

lemma digits_val_append:
  "\<forall>c \<in> set ds. isdigit c \<Longrightarrow> digits_val acc (ds @ s) = digits_val (digits_val acc ds) s"
  by (induction ds arbitrary: acc) auto

lemma digits_val_nat_str: "digits_val 0 (nat_str n) = n"
proof (induction n rule: nat_str.induct)
  case (1 n)
  show ?case
  proof (cases "n < 10")
    case True
    then show ?thesis by (subst nat_str.simps) simp
  next
    case False
    with "1.IH" show ?thesis
      by (subst nat_str.simps) (simp add: digits_val_append nat_str_digits)
  qed
qed

lemma isdigit_facts: "isdigit c \<Longrightarrow> c \<noteq> NUL \<and> \<not> isspace c \<and> c \<noteq> CHR ''-'' \<and> c \<noteq> CHR ''+''
    \<and> c \<noteq> CR \<and> c \<noteq> LF"
  by (auto simp: isdigit_def isspace_def)

lemma nat_str_hd: "isdigit (hd (nat_str n))"
  using nat_str_digits [of n] nat_str_nonempty [of n] by (cases "nat_str n") simp_all

lemma to_string_NUL_free [simp]: "NUL \<notin> set (to_string i)"
proof -
  have "NUL \<notin> set (nat_str n)" for n
    using bspec [OF nat_str_digits [of n]] isdigit_facts [of NUL] by blast
  then show ?thesis by (simp add: to_string_def)
qed

lemma strtol10_to_string:
  assumes "in_int32 i"
  shows "strtol10 (to_string i) = i"
proof (cases "i < 0")
  case True
  have m: "\<not> isspace (CHR ''-'')" by (simp add: isspace_def)
  have "c_str (to_string i) = to_string i" by simp
  with True m assms show ?thesis
    by (simp add: strtol10_def to_string_def Let_def digits_val_nat_str in_int32_def)
next
  case False
  obtain d ds where d: "nat_str (nat i) = d # ds" by (cases "nat_str (nat i)") auto
  then have "isdigit d" using nat_str_hd [of "nat i"] by simp
  then have ns: "\<not> isspace d" "d \<noteq> CHR ''-''" "d \<noteq> CHR ''+''" by (simp_all add: isdigit_facts)
  have c: "c_str (to_string i) = to_string i" by simp
  from False d have t: "to_string i = d # ds" by (simp add: to_string_def)
  have v: "digits_val 0 (d # ds) = nat i" using digits_val_nat_str [of "nat i"] d by simp
  show ?thesis
    unfolding strtol10_def c using False ns v assms
    by (simp add: t Let_def in_int32_def del: digits_val.simps)
qed

text \<open>What \<open>std::to_string\<close> prints, \<open>atoi\<close> reads back.\<close>

lemma atoi_to_string: "in_int32 i \<Longrightarrow> atoi (to_string i) = i"
  by (simp add: atoi_def strtol10_to_string)

lemma atoi_range [simp]: "in_int32 (atoi s)"
  by (simp add: atoi_def)

text \<open>The rules that evaluate these functions on literals.\<close>

lemmas libc_eval = atoi_def strtol10_def isdigit_def digit_val_def c_str_def isspace_def int32_def
  to_string_def nat_str.simps digit_char_def toupper_def char_of_eq_iff

end
