(* ===== verification/Web_Socket.thy ===== *)
theory Web_Socket
  imports Web_Libc
begin

text \<open>
  The connection as the server reads it: the bytes the peer still delivers and what follows
  the last of them. \<open>Closed\<close> is an orderly shutdown (\<open>recv\<close> returns 0), \<open>Failed\<close> an error
  (\<open>recv\<close> returns -1), \<open>Silent\<close> a peer that sends nothing more and keeps the connection
  open, on which a blocking \<open>recv\<close> does not return. \<open>recv\<close> is the one-byte call
  \<open>recv(sock, &ch, 1, 0)\<close> of the program and \<open>recv_peek\<close> the same with \<open>MSG_PEEK\<close>; their
  result is \<open>None\<close> when the call blocks for ever.
\<close>

datatype ending = Closed | Failed | Silent

record stream =
  inbuf :: string
  ending :: ending

datatype recv_result = Got char | Eof | Err

definition with_bytes :: "string \<Rightarrow> stream \<Rightarrow> stream" where
  "with_bytes bs s = s\<lparr>inbuf := bs\<rparr>"

definition recv :: "stream \<Rightarrow> (recv_result \<times> stream) option" where
  "recv s = (case inbuf s of
       c # cs \<Rightarrow> Some (Got c, with_bytes cs s)
     | [] \<Rightarrow> (case ending s of
           Closed \<Rightarrow> Some (Eof, s)
         | Failed \<Rightarrow> Some (Err, s)
         | Silent \<Rightarrow> None))"

definition recv_peek :: "stream \<Rightarrow> recv_result option" where
  "recv_peek s = map_option fst (recv s)"

lemma with_bytes_sel [simp]:
  "inbuf (with_bytes bs s) = bs" "ending (with_bytes bs s) = ending s"
  "with_bytes bs (with_bytes bs' s) = with_bytes bs s"
  by (simp_all add: with_bytes_def)

lemma with_bytes_inbuf [simp]: "with_bytes (inbuf s) s = s"
  by (simp add: with_bytes_def)

lemma recv_Cons [simp, io_simps]: "inbuf s = c # cs \<Longrightarrow> recv s = Some (Got c, with_bytes cs s)"
  by (simp add: recv_def)

lemma recv_with_bytes [simp, io_simps]:
  "recv (with_bytes (c # cs) s) = Some (Got c, with_bytes cs s)"
  by (simp add: recv_def)

lemma recv_Got: "recv s = Some (Got c, t) \<Longrightarrow> inbuf s = c # inbuf t \<and> ending t = ending s"
  by (auto simp: recv_def split: list.splits ending.splits)

lemma recv_shrinks: "recv s = Some (r, t) \<Longrightarrow> length (inbuf t) \<le> length (inbuf s)"
  by (auto simp: recv_def split: list.splits ending.splits)

lemma recv_other: "recv s = Some (r, t) \<Longrightarrow> r = Eof \<or> r = Err \<Longrightarrow> inbuf s = [] \<and> t = s"
  by (auto simp: recv_def split: list.splits ending.splits)

lemma recv_None: "recv s = None \<longleftrightarrow> inbuf s = [] \<and> ending s = Silent"
  by (auto simp: recv_def split: list.splits ending.splits)

lemma recv_Nil: "inbuf s = [] \<Longrightarrow> recv s = (case ending s of
    Closed \<Rightarrow> Some (Eof, s) | Failed \<Rightarrow> Some (Err, s) | Silent \<Rightarrow> None)"
  by (simp add: recv_def)

lemma recv_peek_Cons [simp, io_simps]: "inbuf s = c # cs \<Longrightarrow> recv_peek s = Some (Got c)"
  by (simp add: recv_peek_def)

lemma recv_peek_None: "recv_peek s = None \<longleftrightarrow> inbuf s = [] \<and> ending s = Silent"
  by (simp add: recv_peek_def recv_None)

end
