(* ===== verification/Web_Util.thy ===== *)
theory Web_Util
  imports Web_Socket
begin

text \<open>
  Util.hpp: \<open>ReadInLine\<close>, which reads one line byte by byte and turns each of the newline
  styles LF, CRLF and CR into LF, and \<open>CutString\<close>, which cuts a string at the first
  occurrence of a separator.
\<close>

section \<open>ReadInLine\<close>

text \<open>
  The loop of \<open>Util::ReadInLine\<close>: \<open>ch\<close> is the loop variable (\<open>'X'\<close> at the start), \<open>out\<close>
  the output parameter. The result is the \<open>int\<close> the function returns, \<open>out\<close>, and what is
  left of the stream; \<open>None\<close> when a \<open>recv\<close> blocks for ever. After a CR the next byte is
  peeked at: an LF is taken from the stream, anything else (or a failed peek, which leaves
  \<open>ch\<close> alone) makes the CR itself the newline.
\<close>

function ReadInLine_loop :: "stream \<Rightarrow> char \<Rightarrow> string \<Rightarrow> (int \<times> string \<times> stream) option" where
  "ReadInLine_loop s ch out =
     (if ch = LF then Some (int32 (int (length out)), out, s)
      else case recv s of
        None \<Rightarrow> None
      | Some (Eof, t) \<Rightarrow> Some (0, out, t)
      | Some (Err, t) \<Rightarrow> Some (-1, out, t)
      | Some (Got c, t) \<Rightarrow>
          if c = CR then
            (case recv_peek t of
               None \<Rightarrow> None
             | Some pk \<Rightarrow>
                 if (case pk of Got d \<Rightarrow> d | _ \<Rightarrow> c) = LF
                 then (case recv t of
                         None \<Rightarrow> None
                       | Some (_, u) \<Rightarrow> ReadInLine_loop u LF (out @ [LF]))
                 else ReadInLine_loop t LF (out @ [LF]))
          else ReadInLine_loop t c (out @ [c]))"
  by pat_completeness auto
termination
  by (relation "measure (\<lambda>(s, ch, out). 2 * length (inbuf s) + (if ch = LF then 0 else 1))")
     (auto dest!: recv_Got dest: recv_shrinks)

declare ReadInLine_loop.simps [simp del]

definition ReadInLine :: "stream \<Rightarrow> string \<Rightarrow> (int \<times> string \<times> stream) option" where
  "ReadInLine s out = ReadInLine_loop s CHR ''X'' out"

text \<open>
  The contract: \<open>take_line\<close> splits a byte sequence at its first newline, of whichever style,
  and \<open>line_outcome\<close> says what the call returns for each way the stream can go on.
\<close>

fun take_line :: "string \<Rightarrow> (string \<times> string) option" where
  "take_line [] = None"
| "take_line (c # cs) =
     (if c = LF then Some ([], cs)
      else if c = CR then Some ([], if cs \<noteq> [] \<and> hd cs = LF then tl cs else cs)
      else map_option (\<lambda>(l, r). (c # l, r)) (take_line cs))"

definition line_outcome :: "stream \<Rightarrow> string \<Rightarrow> (int \<times> string \<times> stream) option" where
  "line_outcome s out =
     (case take_line (inbuf s) of
        Some (l, r) \<Rightarrow>
          if inbuf s = l @ [CR] \<and> ending s = Silent then None
          else Some (int32 (int (length (out @ l @ [LF]))), out @ l @ [LF], with_bytes r s)
      | None \<Rightarrow>
          (case ending s of
             Closed \<Rightarrow> Some (0, out @ inbuf s, with_bytes [] s)
           | Failed \<Rightarrow> Some (-1, out @ inbuf s, with_bytes [] s)
           | Silent \<Rightarrow> None))"

lemma loop_at_newline [simp]: "ReadInLine_loop s LF out = Some (int32 (int (length out)), out, s)"
  by (simp add: ReadInLine_loop.simps [of s LF])

lemma loop_plain:
  assumes "ch \<noteq> LF" "c \<noteq> CR"
  shows "ReadInLine_loop (with_bytes (c # cs) s) ch out
    = ReadInLine_loop (with_bytes cs s) c (out @ [c])"
  using assms by (simp add: ReadInLine_loop.simps [of "with_bytes (c # cs) s" ch])

lemma loop_CR:
  assumes "ch \<noteq> LF"
  shows "ReadInLine_loop (with_bytes (CR # cs) s) ch out =
    (if cs = [] \<and> ending s = Silent then None
     else Some (int32 (int (length (out @ [LF]))), out @ [LF],
       with_bytes (if cs \<noteq> [] \<and> hd cs = LF then tl cs else cs) s))"
proof (cases cs)
  case Nil
  with assms show ?thesis
    by (simp add: ReadInLine_loop.simps [of "with_bytes [CR] s" ch] recv_peek_def
        recv_Nil split: ending.splits)
next
  case (Cons d ds)
  with assms show ?thesis
    by (simp add: ReadInLine_loop.simps [of "with_bytes (CR # d # ds) s" ch])
qed

lemma loop_end:
  assumes "ch \<noteq> LF"
  shows "ReadInLine_loop (with_bytes [] s) ch out = (case ending s of
    Closed \<Rightarrow> Some (0, out, with_bytes [] s)
  | Failed \<Rightarrow> Some (-1, out, with_bytes [] s)
  | Silent \<Rightarrow> None)"
  using assms
  by (simp add: ReadInLine_loop.simps [of "with_bytes [] s" ch] recv_Nil split: ending.splits)

lemma take_line_append: "take_line bs = Some (l, r) \<Longrightarrow> \<exists>nl. bs = l @ nl @ r \<and> nl \<noteq> []"
proof (induction bs arbitrary: l)
  case (Cons c cs)
  show ?case
  proof (cases "c = LF \<or> c = CR")
    case True
    show ?thesis
    proof (cases "c = CR \<and> cs \<noteq> [] \<and> hd cs = LF")
      case True
      with Cons.prems have "c # cs = l @ CRLF @ r" by (auto simp: neq_Nil_conv)
      then show ?thesis by blast
    next
      case False
      with True Cons.prems have "c # cs = l @ [c] @ r" by (auto split: if_splits)
      then show ?thesis by blast
    qed
  next
    case False
    with Cons.prems obtain l' where l': "take_line cs = Some (l', r)" "l = c # l'" by auto
    from Cons.IH [OF l'(1)] obtain nl where "cs = l' @ nl @ r" "nl \<noteq> []" by blast
    with l'(2) have "c # cs = l @ nl @ r" by simp
    with \<open>nl \<noteq> []\<close> show ?thesis by blast
  qed
qed simp

lemma take_line_clean: "take_line bs = Some (l, r) \<Longrightarrow> CR \<notin> set l \<and> LF \<notin> set l"
  by (induction bs arbitrary: l) (auto split: if_splits)

lemma ReadInLine_loop_outcome:
  "ch \<noteq> LF \<Longrightarrow> ReadInLine_loop (with_bytes bs s) ch out = line_outcome (with_bytes bs s) out"
proof (induction bs arbitrary: ch out)
  case Nil
  then show ?case by (simp add: loop_end line_outcome_def split: ending.splits)
next
  case (Cons c cs)
  consider "c = LF" | "c = CR" | "c \<noteq> LF" "c \<noteq> CR" by blast
  then show ?case
  proof cases
    case 1
    with Cons.prems show ?thesis by (simp add: loop_plain line_outcome_def)
  next
    case 2
    with Cons.prems show ?thesis by (simp add: loop_CR line_outcome_def)
  next
    case 3
    with Cons.prems Cons.IH [of c "out @ [c]"] show ?thesis
      by (auto simp: loop_plain line_outcome_def split: option.splits ending.splits)
  qed
qed

lemma ReadInLine_outcome: "ReadInLine s out = line_outcome s out"
  using ReadInLine_loop_outcome [of "CHR ''X''" "inbuf s" s out]
  by (simp add: ReadInLine_def)

text \<open>A line that ends in any newline style is read as the same line.\<close>

lemma take_line_newline:
  assumes "CR \<notin> set l" "LF \<notin> set l" "nl = [LF] \<or> nl = CRLF \<or> nl = [CR] \<and> r \<noteq> [] \<and> hd r \<noteq> LF"
  shows "take_line (l @ nl @ r) = Some (l, r)"
  using assms by (induction l) auto

lemma ReadInLine_newline:
  assumes "CR \<notin> set l" "LF \<notin> set l" "length (out @ l) < 2147483647"
    and "nl = [LF] \<or> nl = CRLF \<or> nl = [CR] \<and> r \<noteq> [] \<and> hd r \<noteq> LF"
  shows "ReadInLine (with_bytes (l @ nl @ r) s) out
    = Some (int (length (out @ l @ [LF])), out @ l @ [LF], with_bytes r s)"
proof -
  have "take_line (l @ nl @ r) = Some (l, r)" using assms(1,2,4) by (rule take_line_newline)
  moreover have "l @ nl @ r \<noteq> l @ [CR]" using assms(4) by auto
  moreover have "int32 (int (length (out @ l @ [LF]))) = int (length (out @ l @ [LF]))"
    using assms(3) by (intro int32_length) simp
  ultimately show ?thesis by (simp add: ReadInLine_outcome line_outcome_def)
qed

lemma ReadInLine_shrinks:
  assumes "ReadInLine s out = Some (n, l, t)" "0 < n"
  shows "length (inbuf t) < length (inbuf s)"
  using assms take_line_append
  by (fastforce simp: ReadInLine_outcome line_outcome_def split: option.splits if_splits ending.splits)

lemma ReadInLine_positive:
  assumes "ReadInLine s out = Some (n, line, t)" "0 < n"
  shows "\<exists>l. take_line (inbuf s) = Some (l, inbuf t) \<and> line = out @ l @ [LF] \<and> CR \<notin> set l
    \<and> LF \<notin> set l \<and> ending t = ending s"
  using assms take_line_clean
  by (fastforce simp: ReadInLine_outcome line_outcome_def split: option.splits if_splits ending.splits)

section \<open>CutString\<close>

text \<open>
  \<open>Util::CutString\<close>: the two output parameters are written only when the separator is
  found, and the \<open>bool\<close> says which; \<open>None\<close> is \<open>false\<close>.
\<close>

definition CutString :: "string \<Rightarrow> string \<Rightarrow> (string \<times> string) option" where
  "CutString target sep =
     (case find_sub sep target of
        Some pos \<Rightarrow> Some (take pos target, drop (pos + length sep) target)
      | None \<Rightarrow> None)"

text \<open>
  The contract of a cutting function, shared by this one and by the one the CGI programs
  carry (comm.hpp): a result cuts the target at the first occurrence of the separator, and
  there is none only where the separator does not occur.
\<close>

locale cutter =
  fixes cut :: "string \<Rightarrow> string \<Rightarrow> (string \<times> string) option"
  assumes cut_join: "cut target sep = Some (a, b) \<Longrightarrow> target = a @ sep @ b"
    and cut_first: "cut target sep = Some (a, b) \<Longrightarrow> j < length a
      \<Longrightarrow> \<not> prefix sep (drop j target)"
    and cut_none: "cut target sep = None \<Longrightarrow> \<not> prefix sep (drop j target)"
begin

lemma cut_exists: "\<exists>r. cut (a @ sep @ b) sep = Some r"
proof (cases "cut (a @ sep @ b) sep")
  case None
  then have "\<not> prefix sep (drop (length a) (a @ sep @ b))" by (rule cut_none)
  then show ?thesis by simp
qed simp

lemma cut_unique:
  assumes "\<forall>j < length a. \<not> prefix sep (drop j (a @ sep @ b))"
  shows "cut (a @ sep @ b) sep = Some (a, b)"
proof -
  obtain a' b' where c: "cut (a @ sep @ b) sep = Some (a', b')" using cut_exists by fastforce
  have j: "a @ sep @ b = a' @ sep @ b'" using c by (rule cut_join)
  have "\<not> length a' < length a"
  proof
    assume "length a' < length a"
    with assms have "\<not> prefix sep (drop (length a') (a @ sep @ b))" by blast
    then show False by (simp add: j)
  qed
  moreover have "\<not> length a < length a'"
  proof
    assume "length a < length a'"
    then have "\<not> prefix sep (drop (length a) (a @ sep @ b))" by (rule cut_first [OF c])
    then show False by simp
  qed
  ultimately have "length a = length a'" by simp
  with j have "a = a'" "b = b'" by auto
  with c show ?thesis by simp
qed

lemma cut_char:
  assumes "x \<notin> set a"
  shows "cut (a @ (x # xs) @ b) (x # xs) = Some (a, b)"
proof (rule cut_unique, intro allI impI)
  fix j assume j: "j < length a"
  then have "drop j a = a ! j # drop (Suc j) a" by (rule Cons_nth_drop_Suc [symmetric])
  moreover have "a ! j \<noteq> x" using assms j nth_mem by metis
  ultimately show "\<not> prefix (x # xs) (drop j (a @ (x # xs) @ b))"
    using j by simp
qed

lemma cut_absent: "x \<notin> set s \<Longrightarrow> cut s (x # xs) = None"
  using cut_join [of s "x # xs"] by (cases "cut s (x # xs)") auto

end

interpretation server_cut: cutter CutString
proof unfold_locales
  fix target sep a b
  assume "CutString target sep = Some (a, b)"
  then obtain pos where pos: "find_sub sep target = Some pos" "a = take pos target"
    "b = drop (pos + length sep) target"
    by (auto simp: CutString_def split: option.splits)
  then show "target = a @ sep @ b" using find_sub_Some(2) [OF pos(1)] by simp
  fix j assume "j < length a"
  with pos have "j < pos" by simp
  with find_sub_Some(3) [OF pos(1)] show "\<not> prefix sep (drop j target)" by blast
next
  fix target sep :: string and j
  assume "CutString target sep = None"
  then have "\<forall>j < Suc (length target). \<not> prefix sep (drop j target)"
    by (simp add: CutString_def find_sub_None split: option.splits)
  then have "\<not> prefix sep (drop (min j (length target)) target)" by simp
  then show "\<not> prefix sep (drop j target)" by (simp add: min_def split: if_splits)
qed

section \<open>Properties\<close>

text \<open>C17: \<open>ReadInLine\<close> meets its contract on every stream: it returns the first line with its
  newline turned into LF and leaves exactly the bytes after that newline; on a stream that
  ends before a newline it returns 0 or -1 and keeps what it read in \<open>out\<close>; and it blocks
  only where the peer falls silent before the line is complete (or right after a CR, where
  the peek waits for one more byte).\<close>

theorem ReadInLine_contract: "ReadInLine s out = line_outcome s out"
  by (rule ReadInLine_outcome)

text \<open>\<open>ReadInLine\<close> reads the same line whether it ends in LF, in CRLF or in a CR that is
  followed by another byte, and leaves the same rest.\<close>

theorem ReadInLine_newline_styles:
  assumes "CR \<notin> set l" "LF \<notin> set l" "length l < 2147483647"
    and "nl = [LF] \<or> nl = CRLF \<or> nl = [CR] \<and> r \<noteq> [] \<and> hd r \<noteq> LF"
  shows "ReadInLine (with_bytes (l @ nl @ r) s) []
    = Some (int (length l) + 1, l @ [LF], with_bytes r s)"
  using ReadInLine_newline [OF assms(1,2) _ assms(4), of "[]" s] assms(3) by simp

theorem ReadInLine_newline_styles_witness:
  "ReadInLine \<lparr>inbuf = ''GET / HTTP/1.0'' @ [CR] @ ''Host: a'', ending = Closed\<rparr> []
     = Some (15, ''GET / HTTP/1.0'' @ [LF], \<lparr>inbuf = ''Host: a'', ending = Closed\<rparr>)"
  using ReadInLine_newline_styles [of "''GET / HTTP/1.0''" "[CR]" "''Host: a''"
      "\<lparr>inbuf = [], ending = Closed\<rparr>"]
  by (simp add: with_bytes_def)

text \<open>\<open>CutString\<close> returns \<open>(a, b)\<close> exactly when the target is \<open>a\<close>, the separator and \<open>b\<close>,
  with no earlier occurrence of the separator; otherwise it returns \<open>false\<close>.\<close>

theorem CutString_first_occurrence:
  "CutString target sep = Some (a, b) \<longleftrightarrow>
     target = a @ sep @ b \<and> (\<forall>j < length a. \<not> prefix sep (drop j target))"
proof
  assume c: "CutString target sep = Some (a, b)"
  then show "target = a @ sep @ b \<and> (\<forall>j < length a. \<not> prefix sep (drop j target))"
    using server_cut.cut_join [OF c] server_cut.cut_first [OF c] by simp
next
  assume r: "target = a @ sep @ b \<and> (\<forall>j < length a. \<not> prefix sep (drop j target))"
  then have t: "target = a @ sep @ b" ..
  from r have "\<forall>j < length a. \<not> prefix sep (drop j target)" ..
  then show "CutString target sep = Some (a, b)" unfolding t by (rule server_cut.cut_unique)
qed

theorem CutString_first_occurrence_witness:
  "CutString ''Host: a: b'' '': '' = Some (''Host'', ''a: b'')"
proof -
  have "\<not> prefix '': '' (drop j ''Host: a: b'')" if "j < 4" for j
    using that by (auto simp: numeral_nat less_Suc_eq prefix_def)
  then show ?thesis
    using CutString_first_occurrence [of "''Host: a: b''" "'': ''" "''Host''" "''a: b''"] by simp
qed

end
