(* ===== verification/Web_Log.thy ===== *)
theory Web_Log
  imports Web_Libc
begin

text \<open>
  Log.hpp: the four severities and the line \<open>log\<close> prints. \<open>LogMessage(level, message)\<close>
  passes the severity as the text of its macro argument (\<open>#level\<close>), the other components
  record it as an \<open>EvLog\<close> event (theory Web_Message).
\<close>

datatype level = INFO | WARNING | ERROR | FATAL

primrec level_num :: "level \<Rightarrow> int" where
  "level_num INFO = 1"
| "level_num WARNING = 2"
| "level_num ERROR = 3"
| "level_num FATAL = 4"

primrec level_name :: "level \<Rightarrow> string" where
  "level_name INFO = ''INFO''"
| "level_name WARNING = ''WARNING''"
| "level_name ERROR = ''ERROR''"
| "level_name FATAL = ''FATAL''"

text \<open>The severities are ordered by the numbers the header gives them.\<close>

instantiation level :: linorder
begin

definition less_eq_level :: "level \<Rightarrow> level \<Rightarrow> bool" where
  "less_eq_level a b \<longleftrightarrow> level_num a \<le> level_num b"

definition less_level :: "level \<Rightarrow> level \<Rightarrow> bool" where
  "less_level a b \<longleftrightarrow> level_num a < level_num b"

instance
proof
  fix x y :: level
  assume "x \<le> y" "y \<le> x"
  then show "x = y" by (cases x; cases y) (simp_all add: less_eq_level_def)
qed (auto simp: less_eq_level_def less_level_def)

end

text \<open>
  \<open>printf("[%s] [%d] [%s] [%s] [%d]\n", ...)\<close>: each string ends at its first zero byte, and
  the time is printed as an \<open>int\<close>.
\<close>

definition log :: "string \<Rightarrow> int \<Rightarrow> string \<Rightarrow> string \<Rightarrow> int \<Rightarrow> string" where
  "log level now message file_name line =
     ''['' @ c_str level @ ''] ['' @ to_string (int32 now) @ ''] ['' @ c_str message @ ''] [''
       @ c_str file_name @ ''] ['' @ to_string line @ '']'' @ [LF]"

lemma to_string_LF_free: "LF \<notin> set (to_string i)"
proof -
  have "LF \<notin> set (nat_str n)" for n
    using bspec [OF nat_str_digits [of n]] isdigit_facts [of LF] by blast
  then show ?thesis by (simp add: to_string_def)
qed

lemma c_str_subset: "set (c_str s) \<subseteq> set s"
  by (auto simp: c_str_def dest: set_takeWhileD)

lemma log_one_line:
  assumes "LF \<notin> set level" "LF \<notin> set message" "LF \<notin> set file_name"
  shows "\<exists>text. log level now message file_name line = text @ [LF] \<and> LF \<notin> set text"
  using assms c_str_subset [of level] c_str_subset [of message] c_str_subset [of file_name]
  by (auto simp: log_def to_string_LF_free)

end
