(* ===== verification/Web_Message.thy ===== *)
theory Web_Message
  imports Web_Util Web_Log
begin

text \<open>
  The data of Protocol.hpp: the status and content-type tables, the request and response
  objects and the \<open>EndPoint\<close> that carries them through one connection. Effects are events:
  every call of the operating system that changes something outside the object appends one
  to the \<open>EndPoint\<close>'s \<open>trace\<close>, in the order the code makes the calls.
\<close>

section \<open>Constants and tables\<close>

definition HTTP_VERSION :: string where "HTTP_VERSION = ''HTTP/1.0''"
definition WEB_ROOT :: string where "WEB_ROOT = ''./wwwroot''"
definition DEFAUTL_PAGE :: string where "DEFAUTL_PAGE = ''index.html''"
definition PAGE_404 :: string where "PAGE_404 = ''404.html''"
definition SEP :: string where "SEP = '': ''"
definition OK :: int where "OK = 200"
definition BAD_REQUSET :: int where "BAD_REQUSET = 400"
definition NOT_FOUND :: int where "NOT_FOUND = 404"
definition SERVER_ERROR :: int where "SERVER_ERROR = 500"

lemmas code_defs = OK_def BAD_REQUSET_def NOT_FOUND_def SERVER_ERROR_def

declare HTTP_VERSION_def [web_defs] WEB_ROOT_def [web_defs] DEFAUTL_PAGE_def [web_defs]
  PAGE_404_def [web_defs] SEP_def [web_defs]

definition Code2Desc :: "int \<Rightarrow> string" where
  "Code2Desc code = (if code = 200 then ''OK'' else if code = 404 then ''Not Found'' else [])"

definition suffix2desc :: "(string \<times> string) list" where
  "suffix2desc =
     [(''.html'', ''text/html''),
      (''.css'', ''text/css''),
      (''.js'', ''application/x-javascript''),
      (''.jpg'', ''image/jpeg''),
      (''.xml'', ''application/xml'')]"

definition Suffix2Desc :: "string \<Rightarrow> string" where
  "Suffix2Desc suff =
     (case map_of suffix2desc suff of Some d \<Rightarrow> d | None \<Rightarrow> ''text/html'')"

section \<open>Effects\<close>

datatype event =
    EvLog level string            \<comment> \<open>\<open>LogMessage(level, message)\<close>\<close>
  | EvOut string                  \<comment> \<open>\<open>std::cout\<close>\<close>
  | EvOpen string int             \<comment> \<open>\<open>open(path)\<close> returned the descriptor\<close>
  | EvPipe int int                \<comment> \<open>\<open>pipe\<close> returned a read and a write end\<close>
  | EvFork int                    \<comment> \<open>\<open>fork\<close> returned the child's pid\<close>
  | EvWrite int string            \<comment> \<open>\<open>write\<close> accepted these bytes\<close>
  | EvWait int                    \<comment> \<open>\<open>waitpid(pid)\<close>\<close>
  | EvSend int string             \<comment> \<open>\<open>send\<close> accepted these bytes\<close>
  | EvSendfile int int int        \<comment> \<open>\<open>sendfile(out, in, nullptr, count)\<close>\<close>
  | EvClose int                   \<comment> \<open>\<open>close(fd)\<close>\<close>

section \<open>Request, response and end point\<close>

record HttpRequest =
  Req_line :: string
  Req_head :: "string list"
  req_blank :: string
  Req_body :: string
  req_method :: string
  uri :: string
  http_version :: string
  content_length :: int
  head_kv :: "string \<Rightarrow> string option"
  path :: string
  query_string :: string
  cgi :: bool
  req_size :: int
  req_suffix :: string

text \<open>
  The constructor sets \<open>content_length\<close> and \<open>cgi\<close>; the strings and containers start empty.
  The member \<open>size\<close> is not initialised: its first value is a parameter.
\<close>

definition HttpRequest_new :: "int \<Rightarrow> HttpRequest" where
  "HttpRequest_new junk = \<lparr>Req_line = [], Req_head = [], req_blank = [], Req_body = [],
     req_method = [], uri = [], http_version = [], content_length = 0, head_kv = Map.empty,
     path = [], query_string = [], cgi = False, req_size = junk, req_suffix = []\<rparr>"

record HttpResponse =
  Status_line :: string
  Resp_head :: "string list"
  resp_blank :: string
  Resp_body :: string
  Status_code :: int
  fd :: int

definition HttpResponse_new :: HttpResponse where
  "HttpResponse_new = \<lparr>Status_line = [], Resp_head = [], resp_blank = CRLF, Resp_body = [],
     Status_code = OK, fd = -1\<rparr>"

text \<open>
  The \<open>EndPoint\<close>: its members, the stream its socket delivers, and the events so far.
\<close>

record EndPoint =
  sock :: int
  request :: HttpRequest
  response :: HttpResponse
  stop :: bool
  conn :: stream
  trace :: "event list"

definition EndPoint_new :: "int \<Rightarrow> int \<Rightarrow> stream \<Rightarrow> EndPoint" where
  "EndPoint_new junk s st = \<lparr>sock = s, request = HttpRequest_new junk,
     response = HttpResponse_new, stop = False, conn = st, trace = []\<rparr>"

definition emit :: "event list \<Rightarrow> EndPoint \<Rightarrow> EndPoint" where
  "emit evs ep = ep\<lparr>trace := trace ep @ evs\<rparr>"

definition IsStop :: "EndPoint \<Rightarrow> bool" where
  "IsStop ep = stop ep"

lemma emit_sel [simp]:
  "sock (emit e ep) = sock ep" "request (emit e ep) = request ep"
  "response (emit e ep) = response ep" "stop (emit e ep) = stop ep"
  "conn (emit e ep) = conn ep" "trace (emit e ep) = trace ep @ e"
  by (simp_all add: emit_def)

lemma emit_emit [simp]: "emit f (emit e ep) = emit (e @ f) ep"
  by (simp add: emit_def)

lemma Suffix2Desc_default: "suff \<notin> fst ` set suffix2desc \<Longrightarrow> Suffix2Desc suff = ''text/html''"
  by (simp add: Suffix2Desc_def map_of_eq_None_iff [THEN iffD2])

section \<open>Reading a trace\<close>

text \<open>The bytes sent to the peer, and the descriptors opened and closed, with multiplicity.\<close>

fun sent :: "event list \<Rightarrow> string" where
  "sent [] = []"
| "sent (EvSend _ s # es) = s @ sent es"
| "sent (_ # es) = sent es"

fun opened1 :: "event \<Rightarrow> int multiset" where
  "opened1 (EvOpen _ f) = (if 0 \<le> f then {#f#} else {#})"
| "opened1 (EvPipe a b) = {#a, b#}"
| "opened1 _ = {#}"

fun closed1 :: "event \<Rightarrow> int multiset" where
  "closed1 (EvClose f) = {#f#}"
| "closed1 _ = {#}"

definition opened :: "event list \<Rightarrow> int multiset" where
  "opened es = sum_list (map opened1 es)"

definition closed :: "event list \<Rightarrow> int multiset" where
  "closed es = sum_list (map closed1 es)"

lemma sent_append [simp]: "sent (xs @ ys) = sent xs @ sent ys"
  by (induction xs rule: sent.induct) simp_all

lemma opened_simps [simp]:
  "opened [] = {#}" "opened (e # es) = opened1 e + opened es" "opened (xs @ ys) = opened xs + opened ys"
  by (simp_all add: opened_def)

lemma closed_simps [simp]:
  "closed [] = {#}" "closed (e # es) = closed1 e + closed es" "closed (xs @ ys) = closed xs + closed ys"
  by (simp_all add: closed_def)

text \<open>Logging and printing touch neither.\<close>

definition quiet :: "event list \<Rightarrow> bool" where
  "quiet es \<longleftrightarrow> sent es = [] \<and> opened es = {#} \<and> closed es = {#}"

lemma quiet_simps [simp]:
  "quiet []" "quiet (EvLog l m # es) = quiet es" "quiet (EvOut t # es) = quiet es"
  "quiet (EvWrite p t # es) = quiet es" "quiet (EvFork q # es) = quiet es"
  "quiet (EvWait q # es) = quiet es"
  by (simp_all add: quiet_def)

lemma quiet_append: "quiet xs \<Longrightarrow> quiet ys \<Longrightarrow> quiet (xs @ ys)"
  by (simp add: quiet_def)

lemma quiet_logs [simp]: "quiet (map (EvLog l) ms)"
  by (induction ms) simp_all

end
