(* ===== verification/Web_Receive.thy ===== *)
theory Web_Receive
  imports Web_Message
begin

text \<open>
  The receiving half of \<open>EndPoint\<close> (Protocol.hpp): the request line, the headers, their
  parsing and the body. A step that can block for ever on the connection returns an option,
  \<open>None\<close> when it does.
\<close>

section \<open>Request line and headers\<close>

text \<open>
  \<open>GetRequestLine\<close> is declared \<open>bool\<close> and has no \<open>return\<close>: what its caller sees is
  indeterminate. The parameter \<open>indet\<close> stands for that value, as an arbitrary function of
  the state at the end of the call.
\<close>

definition GetRequestLine ::
    "(EndPoint \<Rightarrow> bool) \<Rightarrow> EndPoint \<Rightarrow> (bool \<times> EndPoint) option" where
  "GetRequestLine indet ep =
     (case ReadInLine (conn ep) (Req_line (request ep)) of
        None \<Rightarrow> None
      | Some (n, line, t) \<Rightarrow>
          let ep' =
            (if 0 < n then
               emit [EvLog INFO (butlast line)]
                 (ep\<lparr>conn := t, request := (request ep)\<lparr>Req_line := butlast line\<rparr>\<rparr>)
             else ep\<lparr>conn := t, request := (request ep)\<lparr>Req_line := line\<rparr>, stop := True\<rparr>)
          in Some (indet ep', ep'))"

function GetRequestHead_loop :: "string \<Rightarrow> EndPoint \<Rightarrow> EndPoint option" where
  "GetRequestHead_loop line ep =
     (if line = [LF] then Some ep
      else case ReadInLine (conn ep) [] of
        None \<Rightarrow> None
      | Some (n, l, t) \<Rightarrow>
          if n \<le> 0 then Some (ep\<lparr>conn := t, stop := True\<rparr>)
          else if l = [LF] then Some (ep\<lparr>conn := t, request := (request ep)\<lparr>req_blank := l\<rparr>\<rparr>)
          else GetRequestHead_loop (butlast l)
                 (emit [EvLog INFO (butlast l)]
                   (ep\<lparr>conn := t,
                      request := (request ep)\<lparr>Req_head := Req_head (request ep) @ [butlast l]\<rparr>\<rparr>)))"
  by pat_completeness auto
termination
  by (relation "measure (\<lambda>(line, ep). length (inbuf (conn ep)))")
     (auto dest: ReadInLine_shrinks)

declare GetRequestHead_loop.simps [simp del]

definition GetRequestHead :: "EndPoint \<Rightarrow> (bool \<times> EndPoint) option" where
  "GetRequestHead ep = map_option (\<lambda>ep'. (stop ep', ep')) (GetRequestHead_loop [] ep)"

section \<open>Parsing\<close>

text \<open>
  \<open>ss >> x\<close>: skip white space, read up to the next; \<open>x\<close> keeps its value when nothing is left.
\<close>

definition extract_word :: "string \<Rightarrow> string \<Rightarrow> string \<times> string" where
  "extract_word old s =
     (let t = dropWhile isspace s
      in if t = [] then (old, [])
         else (takeWhile (\<lambda>c. \<not> isspace c) t, dropWhile (\<lambda>c. \<not> isspace c) t))"

definition ParseHttpRequestLine :: "EndPoint \<Rightarrow> EndPoint" where
  "ParseHttpRequestLine ep =
     (let r = request ep;
          (m, s1) = extract_word (req_method r) (Req_line r);
          (u, s2) = extract_word (uri r) s1;
          (v, s3) = extract_word (http_version r) s2
      in ep\<lparr>request := r\<lparr>req_method := map toupper m, uri := u, http_version := v\<rparr>\<rparr>)"

text \<open>\<open>std::unordered_map::insert\<close> keeps the entry a key already has.\<close>

definition insert_kv ::
    "string \<Rightarrow> string \<Rightarrow> (string \<Rightarrow> string option) \<Rightarrow> (string \<Rightarrow> string option)" where
  "insert_kv k v m = (case m k of None \<Rightarrow> m(k \<mapsto> v) | Some _ \<Rightarrow> m)"

fun parse_head :: "string list \<Rightarrow> (string \<Rightarrow> string option) \<Rightarrow> (string \<Rightarrow> string option)" where
  "parse_head [] m = m"
| "parse_head (h # hs) m =
     parse_head hs (case CutString h SEP of Some (k, v) \<Rightarrow> insert_kv k v m | None \<Rightarrow> m)"

definition ParseHttpRequestHead :: "EndPoint \<Rightarrow> EndPoint" where
  "ParseHttpRequestHead ep =
     ep\<lparr>request := (request ep)\<lparr>head_kv := parse_head (Req_head (request ep)) (head_kv (request ep))\<rparr>\<rparr>"

section \<open>Body\<close>

definition IsNeedRecvHttpRequestBody :: "EndPoint \<Rightarrow> bool \<times> EndPoint" where
  "IsNeedRecvHttpRequestBody ep =
     (if req_method (request ep) = ''POST'' then
        (case head_kv (request ep) ''Content-Length'' of
           Some v \<Rightarrow> (True, ep\<lparr>request := (request ep)\<lparr>content_length := atoi v\<rparr>\<rparr>)
         | None \<Rightarrow> (False, ep))
      else (False, ep))"

text \<open>
  The loop \<open>while (content_length)\<close>: it stops at zero, so a negative count runs on until the
  stream ends or the count has wrapped round.
\<close>

function body_loop :: "int \<Rightarrow> EndPoint \<Rightarrow> EndPoint option" where
  "body_loop n ep =
     (if n = 0 then Some ep
      else case recv (conn ep) of
        None \<Rightarrow> None
      | Some (Got ch, t) \<Rightarrow>
          body_loop (int32 (n - 1))
            (ep\<lparr>conn := t, request := (request ep)\<lparr>Req_body := Req_body (request ep) @ [ch]\<rparr>\<rparr>)
      | Some (_, t) \<Rightarrow> Some (ep\<lparr>conn := t, stop := True\<rparr>))"
  by pat_completeness auto
termination
  by (relation "measure (\<lambda>(n, ep). length (inbuf (conn ep)))") (auto dest!: recv_Got)

declare body_loop.simps [simp del]

definition RecvHttpRequestBody :: "EndPoint \<Rightarrow> (bool \<times> EndPoint) option" where
  "RecvHttpRequestBody ep =
     (case IsNeedRecvHttpRequestBody ep of
        (True, ep1) \<Rightarrow>
          map_option (\<lambda>ep2. (stop ep2, ep2)) (body_loop (content_length (request ep1)) ep1)
      | (False, ep1) \<Rightarrow> Some (stop ep1, ep1))"

section \<open>The whole receive\<close>

definition RecvHttpRequest :: "(EndPoint \<Rightarrow> bool) \<Rightarrow> EndPoint \<Rightarrow> EndPoint option" where
  "RecvHttpRequest indet ep =
     (case GetRequestLine indet ep of
        None \<Rightarrow> None
      | Some (bad_line, ep1) \<Rightarrow>
          if bad_line then Some ep1
          else case GetRequestHead ep1 of
            None \<Rightarrow> None
          | Some (bad_head, ep2) \<Rightarrow>
              if bad_head then Some ep2
              else map_option snd
                     (RecvHttpRequestBody (ParseHttpRequestHead (ParseHttpRequestLine ep2))))"

section \<open>Reading lines and the body\<close>

lemma ReadInLine_line:
  assumes "CR \<notin> set l" "LF \<notin> set l" "length l < 2147483647" "nl = [LF] \<or> nl = CRLF"
  shows "ReadInLine (with_bytes (l @ nl @ r) s) [] = Some (int (length l) + 1, l @ [LF], with_bytes r s)"
proof -
  have "nl = [LF] \<or> nl = CRLF \<or> nl = [CR] \<and> r \<noteq> [] \<and> hd r \<noteq> LF" using assms(4) by blast
  from ReadInLine_newline [OF assms(1,2) _ this, of "[]" s] assms(3) show ?thesis by simp
qed

lemma GetRequestLine_read:
  assumes "CR \<notin> set l" "LF \<notin> set l" "length l < 2147483647" "nl = [LF] \<or> nl = CRLF"
    and "conn ep = with_bytes (l @ nl @ r) s" "Req_line (request ep) = []"
  shows "GetRequestLine indet ep =
    (let ep' = emit [EvLog INFO l]
       (ep\<lparr>conn := with_bytes r s, request := (request ep)\<lparr>Req_line := l\<rparr>\<rparr>)
     in Some (indet ep', ep'))"
proof -
  have "ReadInLine (conn ep) [] = Some (int (length l) + 1, l @ [LF], with_bytes r s)"
    unfolding assms(5) by (rule ReadInLine_line [OF assms(1-4)])
  then show ?thesis by (simp add: GetRequestLine_def assms(6))
qed

lemma GetRequestHead_loop_step:
  assumes "ReadInLine (conn ep) [] = Some (n, h @ [LF], t)" "0 < n" "h \<noteq> []" "line \<noteq> [LF]"
  shows "GetRequestHead_loop line ep = GetRequestHead_loop h (emit [EvLog INFO h]
    (ep\<lparr>conn := t, request := (request ep)\<lparr>Req_head := Req_head (request ep) @ [h]\<rparr>\<rparr>))"
  using assms by (simp add: GetRequestHead_loop.simps [of line ep])

lemma GetRequestHead_loop_lines:
  assumes nl: "nl = [LF] \<or> nl = CRLF"
    and "\<forall>h \<in> set hs. h \<noteq> [] \<and> CR \<notin> set h \<and> LF \<notin> set h \<and> length h < 2147483647"
    and "conn ep = with_bytes (concat (map (\<lambda>h. h @ nl) hs) @ nl @ r) s" "line \<noteq> [LF]"
  shows "GetRequestHead_loop line ep = Some (emit (map (EvLog INFO) hs)
    (ep\<lparr>conn := with_bytes r s,
       request := (request ep)\<lparr>Req_head := Req_head (request ep) @ hs, req_blank := [LF]\<rparr>\<rparr>))"
  using assms(2-)
proof (induction hs arbitrary: ep line)
  case Nil
  have "ReadInLine (conn ep) [] = Some (1, [LF], with_bytes r s)"
    using ReadInLine_line [of "[]", OF _ _ _ nl] Nil.prems(2) by simp
  with Nil.prems(3) show ?case
    by (simp add: GetRequestHead_loop.simps [of line ep] emit_def)
next
  case (Cons h hs)
  let ?rest = "concat (map (\<lambda>h. h @ nl) hs) @ nl @ r"
  let ?ep = "emit [EvLog INFO h] (ep\<lparr>conn := with_bytes ?rest s,
    request := (request ep)\<lparr>Req_head := Req_head (request ep) @ [h]\<rparr>\<rparr>)"
  have h: "h \<noteq> []" "CR \<notin> set h" "LF \<notin> set h" "length h < 2147483647"
    using Cons.prems(1) by simp_all
  have "conn ep = with_bytes (h @ nl @ ?rest) s" using Cons.prems(2) by simp
  then have "ReadInLine (conn ep) [] = Some (int (length h) + 1, h @ [LF], with_bytes ?rest s)"
    using ReadInLine_line [OF h(2-4) nl] by simp
  then have "GetRequestHead_loop line ep = GetRequestHead_loop h ?ep"
    by (rule GetRequestHead_loop_step) (use h Cons.prems(3) in simp_all)
  moreover have "h \<noteq> [LF]" using h(3) by auto
  ultimately show ?case
    using Cons.IH [of ?ep h] Cons.prems(1) by (simp add: emit_def)
qed

lemma body_loop_run:
  assumes "\<forall>k < length b. int32 (n - int k) \<noteq> 0" "in_int32 n" "conn ep = with_bytes (b @ r) s"
  shows "body_loop n ep = body_loop (int32 (n - int (length b)))
    (ep\<lparr>conn := with_bytes r s, request := (request ep)\<lparr>Req_body := Req_body (request ep) @ b\<rparr>\<rparr>)"
  using assms
proof (induction b arbitrary: n ep)
  case Nil
  then have c: "conn ep = with_bytes r s" by simp
  have "ep\<lparr>conn := with_bytes r s\<rparr> = ep" unfolding c [symmetric] by simp
  with Nil.prems(2) show ?case by simp
next
  case (Cons c b)
  let ?ep = "ep\<lparr>conn := with_bytes (b @ r) s,
    request := (request ep)\<lparr>Req_body := Req_body (request ep) @ [c]\<rparr>\<rparr>"
  have "n \<noteq> 0" using Cons.prems(1,2) by force
  then have "body_loop n ep = body_loop (int32 (n - 1)) ?ep"
    using Cons.prems(3) by (simp add: body_loop.simps [of n ep])
  moreover have "\<forall>k < length b. int32 (int32 (n - 1) - int k) \<noteq> 0"
    using Cons.prems(1) by (auto simp: algebra_simps dest: spec [of _ "Suc _"])
  ultimately show ?case
    using Cons.IH [of "int32 (n - 1)" ?ep] by (simp add: algebra_simps)
qed

lemma body_loop_exact:
  assumes "conn ep = with_bytes (b @ r) s" "length b < 2147483648"
  shows "body_loop (int (length b)) ep = Some
    (ep\<lparr>conn := with_bytes r s, request := (request ep)\<lparr>Req_body := Req_body (request ep) @ b\<rparr>\<rparr>)"
proof -
  have "\<forall>k < length b. int32 (int (length b) - int k) \<noteq> 0"
    using assms(2) by (auto simp: in_int32_def)
  moreover have "in_int32 (int (length b))" using assms(2) by (simp add: in_int32_def)
  ultimately show ?thesis
    using body_loop_run [of b "int (length b)" ep r s] assms(1)
    by (simp add: body_loop.simps [of 0])
qed


section \<open>Parsing lemmas\<close>

text \<open>
  A map whose insertion keeps the first value of a key, as the header table relies on it:
  after inserting a list of pairs the table answers like the list read from the front.
\<close>

locale first_wins =
  fixes emp :: 'm and ins :: "'k \<Rightarrow> 'v \<Rightarrow> 'm \<Rightarrow> 'm" and look :: "'m \<Rightarrow> 'k \<Rightarrow> 'v option"
  assumes look_emp: "look emp k = None"
    and look_ins: "look (ins k v m) k' = (if k' = k then Some (case look m k of None \<Rightarrow> v | Some w \<Rightarrow> w)
      else look m k')"
begin

lemma look_fold:
  "look (fold (\<lambda>(k, v). ins k v) kvs m) k
    = (case look m k of None \<Rightarrow> map_of kvs k | Some w \<Rightarrow> Some w)"
  by (induction kvs arbitrary: m) (auto simp: look_ins split: option.splits)

lemma look_fold_emp: "look (fold (\<lambda>(k, v). ins k v) kvs emp) k = map_of kvs k"
  by (simp add: look_fold look_emp)

end

interpretation header_map: first_wins Map.empty insert_kv "\<lambda>m. m"
  by unfold_locales (auto simp: insert_kv_def split: option.splits)

definition header_line :: "string \<times> string \<Rightarrow> string" where
  "header_line kv = fst kv @ SEP @ snd kv"

lemma CutString_header_line: "CHR '':'' \<notin> set k \<Longrightarrow> CutString (header_line (k, v)) SEP = Some (k, v)"
  using server_cut.cut_char [of "CHR '':''" k "'' ''" v] by (simp add: header_line_def SEP_def)

lemma parse_head_lines:
  "\<forall>(k, v) \<in> set kvs. CHR '':'' \<notin> set k \<Longrightarrow>
    parse_head (map header_line kvs) m = fold (\<lambda>(k, v). insert_kv k v) kvs m"
  by (induction kvs arbitrary: m) (auto simp: CutString_header_line)

lemma parse_head_map_of:
  "\<forall>(k, v) \<in> set kvs. CHR '':'' \<notin> set k \<Longrightarrow> parse_head (map header_line kvs) Map.empty = map_of kvs"
  by (rule ext) (simp add: parse_head_lines header_map.look_fold_emp)

definition token :: "string \<Rightarrow> bool" where
  "token s \<longleftrightarrow> s \<noteq> [] \<and> (\<forall>c \<in> set s. \<not> isspace c)"

lemma token_clean: "token s \<Longrightarrow> CR \<notin> set s \<and> LF \<notin> set s"
  by (auto simp: token_def isspace_def)

lemma extract_word_token:
  assumes "token t" "\<forall>c \<in> set w. isspace c" "r = [] \<or> isspace (hd r)"
  shows "extract_word old (w @ t @ r) = (t, r)"
proof -
  have "dropWhile isspace (w @ t @ r) = t @ r"
    using assms(1,2) by (cases t) (auto simp: token_def)
  moreover have "takeWhile (\<lambda>c. \<not> isspace c) (t @ r) = t"
    "dropWhile (\<lambda>c. \<not> isspace c) (t @ r) = r"
    using assms(1,3) by (cases r; auto simp: token_def takeWhile_append dropWhile_append)+
  moreover have "t \<noteq> []" using assms(1) by (simp add: token_def)
  ultimately show ?thesis by (simp add: extract_word_def Let_def)
qed

definition request_line :: "string \<Rightarrow> string \<Rightarrow> string \<Rightarrow> string" where
  "request_line m u v = m @ '' '' @ u @ '' '' @ v"

lemma ParseHttpRequestLine_tokens:
  assumes "token m" "token u" "token v" "Req_line (request ep) = request_line m u v"
  shows "ParseHttpRequestLine ep =
    ep\<lparr>request := (request ep)\<lparr>req_method := map toupper m, uri := u, http_version := v\<rparr>\<rparr>"
proof -
  have sp: "isspace (CHR '' '')" by (simp add: isspace_def)
  have "extract_word old (m @ '' '' @ u @ '' '' @ v) = (m, '' '' @ u @ '' '' @ v)" for old
    using extract_word_token [OF assms(1), of "[]"] sp by simp
  moreover have "extract_word old ('' '' @ u @ '' '' @ v) = (u, '' '' @ v)" for old
    using extract_word_token [OF assms(2), of "'' ''" "'' '' @ v"] sp by simp
  moreover have "extract_word old ('' '' @ v) = (v, [])" for old
    using extract_word_token [OF assms(3), of "'' ''" "[]"] sp by simp
  ultimately show ?thesis
    by (simp only: ParseHttpRequestLine_def Let_def assms(4) request_line_def prod.case)
qed

section \<open>A well-formed request\<close>

text \<open>
  The bytes of a request: the request line, the header lines and the empty line, each ended
  by \<open>nl\<close>. The body follows.
\<close>

definition request_head_bytes ::
    "string \<Rightarrow> string \<Rightarrow> string \<Rightarrow> string \<Rightarrow> (string \<times> string) list \<Rightarrow> string" where
  "request_head_bytes nl m u v kvs =
     request_line m u v @ nl @ concat (map (\<lambda>h. h @ nl) (map header_line kvs)) @ nl"

definition header_ok :: "string \<times> string \<Rightarrow> bool" where
  "header_ok kv \<longleftrightarrow> CHR '':'' \<notin> set (fst kv) \<and> CR \<notin> set (fst kv @ snd kv)
     \<and> LF \<notin> set (fst kv @ snd kv) \<and> length (fst kv @ snd kv) < 2147483645"

lemma header_ok_line: "header_ok kv \<Longrightarrow> header_line kv \<noteq> [] \<and> CR \<notin> set (header_line kv)
    \<and> LF \<notin> set (header_line kv) \<and> length (header_line kv) < 2147483647"
  by (auto simp: header_ok_def header_line_def SEP_def)

definition request_ok :: "string \<Rightarrow> string \<Rightarrow> string \<Rightarrow> string \<Rightarrow> (string \<times> string) list \<Rightarrow> bool" where
  "request_ok nl m u v kvs \<longleftrightarrow> (nl = [LF] \<or> nl = CRLF) \<and> token m \<and> token u \<and> token v
     \<and> length (request_line m u v) < 2147483647 \<and> (\<forall>kv \<in> set kvs. header_ok kv)"

text \<open>The end point after the header block of such a request has been read and parsed.\<close>

definition parsed ::
    "string \<Rightarrow> string \<Rightarrow> string \<Rightarrow> (string \<times> string) list \<Rightarrow> stream \<Rightarrow> EndPoint \<Rightarrow> EndPoint" where
  "parsed m u v kvs rest ep =
     emit (map (EvLog INFO) (request_line m u v # map header_line kvs))
       (ep\<lparr>conn := rest, request := (request ep)\<lparr>Req_line := request_line m u v,
          Req_head := map header_line kvs, req_blank := [LF], req_method := map toupper m,
          uri := u, http_version := v, head_kv := map_of kvs\<rparr>\<rparr>)"

definition fresh :: "EndPoint \<Rightarrow> bool" where
  "fresh ep \<longleftrightarrow> (\<exists>junk s st. ep = EndPoint_new junk s st)"

lemma fresh_new [simp]: "fresh (EndPoint_new junk s st)"
  by (auto simp: fresh_def)

lemma RecvHttpRequest_head:
  assumes ok: "request_ok nl m u v kvs" and "\<forall>e. \<not> indet e" and "fresh ep"
    and c: "conn ep = with_bytes (request_head_bytes nl m u v kvs @ r) s"
  shows "RecvHttpRequest indet ep
    = map_option snd (RecvHttpRequestBody (parsed m u v kvs (with_bytes r s) ep))"
proof -
  let ?l = "request_line m u v"
  let ?hs = "map header_line kvs"
  let ?ep1 = "emit [EvLog INFO ?l] (ep\<lparr>conn := with_bytes
    (concat (map (\<lambda>h. h @ nl) ?hs) @ nl @ r) s, request := (request ep)\<lparr>Req_line := ?l\<rparr>\<rparr>)"
  let ?ep2 = "emit (map (EvLog INFO) (?l # ?hs)) (ep\<lparr>conn := with_bytes r s,
    request := (request ep)\<lparr>Req_line := ?l, Req_head := ?hs, req_blank := [LF]\<rparr>\<rparr>)"
  have nl: "nl = [LF] \<or> nl = CRLF" and tk: "token m" "token u" "token v"
    and hs: "\<forall>kv \<in> set kvs. header_ok kv" and len: "length ?l < 2147483647"
    using ok by (simp_all add: request_ok_def)
  have clean: "CR \<notin> set ?l" "LF \<notin> set ?l"
    using token_clean [OF tk(1)] token_clean [OF tk(2)] token_clean [OF tk(3)]
    by (simp_all add: request_line_def)
  obtain junk so st where ep: "ep = EndPoint_new junk so st" using assms(3) by (auto simp: fresh_def)
  have e0: "Req_line (request ep) = []" "Req_head (request ep) = []" "stop ep = False"
    "head_kv (request ep) = Map.empty"
    by (simp_all add: ep EndPoint_new_def HttpRequest_new_def)
  have "GetRequestLine indet ep = Some (False, ?ep1)"
    using GetRequestLine_read [OF clean len nl _ e0(1)] c assms(2)
    by (simp add: request_head_bytes_def Let_def)
  moreover have "GetRequestHead_loop [] ?ep1 = Some ?ep2"
    using GetRequestHead_loop_lines [OF nl, of ?hs ?ep1 r s "[]"] hs header_ok_line e0(2)
    by (simp add: emit_def)
  then have "GetRequestHead ?ep1 = Some (False, ?ep2)"
    using e0(3) by (simp add: GetRequestHead_def)
  moreover have "ParseHttpRequestLine ?ep2 = ?ep2\<lparr>request := (request ?ep2)
      \<lparr>req_method := map toupper m, uri := u, http_version := v\<rparr>\<rparr>"
    by (rule ParseHttpRequestLine_tokens [OF tk]) simp
  then have "ParseHttpRequestHead (ParseHttpRequestLine ?ep2) = parsed m u v kvs (with_bytes r s) ep"
    using parse_head_map_of [of kvs] hs e0(4)
    by (simp add: ParseHttpRequestHead_def parsed_def emit_def header_ok_def split_beta)
  ultimately show ?thesis by (simp add: RecvHttpRequest_def)
qed

lemma parsed_request [simp]:
  "req_method (request (parsed m u v kvs st ep)) = map toupper m"
  "uri (request (parsed m u v kvs st ep)) = u"
  "head_kv (request (parsed m u v kvs st ep)) = map_of kvs"
  "Req_body (request (parsed m u v kvs st ep)) = Req_body (request ep)"
  "conn (parsed m u v kvs st ep) = st"
  "stop (parsed m u v kvs st ep) = stop ep"
  by (simp_all add: parsed_def)

lemma fresh_fields:
  assumes "fresh ep"
  shows "Req_body (request ep) = []" "Req_line (request ep) = []" "stop ep = False"
    "cgi (request ep) = False" "trace ep = []" "content_length (request ep) = 0"
    "query_string (request ep) = []" "response ep = HttpResponse_new"
  using assms by (auto simp: fresh_def EndPoint_new_def HttpRequest_new_def)

lemma RecvHttpRequest_no_body:
  assumes "request_ok nl m u v kvs" "\<forall>e. \<not> indet e" "fresh ep"
    and "conn ep = with_bytes (request_head_bytes nl m u v kvs @ r) s"
    and "map toupper m \<noteq> ''POST'' \<or> map_of kvs ''Content-Length'' = None"
  shows "RecvHttpRequest indet ep = Some (parsed m u v kvs (with_bytes r s) ep)"
  using RecvHttpRequest_head [OF assms(1-4)] assms(5)
  by (auto simp: RecvHttpRequestBody_def IsNeedRecvHttpRequestBody_def split: option.splits)

lemma RecvHttpRequest_body:
  assumes "request_ok nl m u v kvs" "\<forall>e. \<not> indet e" "fresh ep"
    and "conn ep = with_bytes (request_head_bytes nl m u v kvs @ r) s"
    and "map toupper m = ''POST''" "map_of kvs ''Content-Length'' = Some cl"
  shows "RecvHttpRequest indet ep =
    (let P = parsed m u v kvs (with_bytes r s) ep
     in body_loop (atoi cl) (P\<lparr>request := (request P)\<lparr>content_length := atoi cl\<rparr>\<rparr>))"
  using RecvHttpRequest_head [OF assms(1-4)] assms(5,6)
  by (simp add: RecvHttpRequestBody_def IsNeedRecvHttpRequestBody_def Let_def
      option.map_comp comp_def option.map_ident)

text \<open>The end point after a body has been read as well.\<close>

definition with_body :: "string \<Rightarrow> stream \<Rightarrow> EndPoint \<Rightarrow> EndPoint" where
  "with_body b rest ep = ep\<lparr>conn := rest,
     request := (request ep)\<lparr>content_length := int (length b), Req_body := b\<rparr>\<rparr>"

lemma RecvHttpRequest_post:
  assumes "request_ok nl m u v kvs" "\<forall>e. \<not> indet e" "fresh ep"
    and "conn ep = with_bytes (request_head_bytes nl m u v kvs @ b @ r) s"
    and "map toupper m = ''POST''" "map_of kvs ''Content-Length'' = Some cl"
    and "atoi cl = int (length b)"
  shows "RecvHttpRequest indet ep
    = Some (with_body b (with_bytes r s) (parsed m u v kvs (with_bytes (b @ r) s) ep))"
proof -
  let ?P = "parsed m u v kvs (with_bytes (b @ r) s) ep"
  let ?ep = "?P\<lparr>request := (request ?P)\<lparr>content_length := int (length b)\<rparr>\<rparr>"
  have "in_int32 (int (length b))" using atoi_range [of cl] assms(7) by simp
  then have "length b < 2147483648" by (simp add: in_int32_def)
  moreover have "conn ?ep = with_bytes (b @ r) s" by simp
  ultimately have "body_loop (int (length b)) ?ep = Some (?ep\<lparr>conn := with_bytes r s,
      request := (request ?ep)\<lparr>Req_body := Req_body (request ?ep) @ b\<rparr>\<rparr>)"
    by (rule body_loop_exact [rotated])
  then show ?thesis
    using RecvHttpRequest_body [OF assms(1-3) _ assms(5,6)] assms(4,7) fresh_fields(1) [OF assms(3)]
    by (simp add: with_body_def Let_def)
qed


section \<open>What receiving leaves alone\<close>

text \<open>
  Receiving writes log lines and nothing else: no descriptor is opened or closed and no byte
  is sent, and the fields of the second half keep their values.
\<close>

definition same_outside :: "EndPoint \<Rightarrow> EndPoint \<Rightarrow> bool" where
  "same_outside ep ep' \<longleftrightarrow> sock ep' = sock ep \<and> response ep' = response ep
     \<and> cgi (request ep') = cgi (request ep) \<and> req_size (request ep') = req_size (request ep)
     \<and> query_string (request ep') = query_string (request ep)
     \<and> (\<exists>ls. trace ep' = trace ep @ map (EvLog INFO) ls \<and> (\<forall>l \<in> set ls. LF \<notin> set l \<and> CR \<notin> set l))"

lemma same_outside_refl [simp]: "same_outside ep ep"
  by (auto simp: same_outside_def intro: exI [of _ "[]"])

lemma same_outside_trans: "same_outside a b \<Longrightarrow> same_outside b c \<Longrightarrow> same_outside a c"
  unfolding same_outside_def by (elim conjE exE, intro conjI exI [of _ "_ @ _"]) auto

lemma same_outside_GetRequestLine:
  assumes "GetRequestLine indet ep = Some (b, ep')" "Req_line (request ep) = []"
  shows "same_outside ep ep'"
proof -
  obtain n line t where rd: "ReadInLine (conn ep) [] = Some (n, line, t)"
    using assms by (auto simp: GetRequestLine_def split: option.splits)
  show ?thesis
  proof (cases "0 < n")
    case True
    obtain l where l: "line = l @ [LF]" "CR \<notin> set l" "LF \<notin> set l"
      using ReadInLine_positive [OF rd True] by auto
    with rd True assms show ?thesis
      by (auto simp: GetRequestLine_def same_outside_def Let_def intro: exI [of _ "[l]"])
  next
    case False
    with rd assms show ?thesis
      by (auto simp: GetRequestLine_def same_outside_def Let_def intro: exI [of _ "[]"])
  qed
qed

lemma same_outside_GetRequestHead_loop:
  "GetRequestHead_loop line ep = Some ep' \<Longrightarrow> same_outside ep ep'"
proof (induction line ep rule: GetRequestHead_loop.induct)
  case (1 line ep)
  show ?case
  proof (cases "line = [LF]")
    case True
    with "1.prems" show ?thesis by (simp add: GetRequestHead_loop.simps [of "[LF]" ep])
  next
    case False
    then obtain n l t where rd: "ReadInLine (conn ep) [] = Some (n, l, t)"
      using "1.prems" by (auto simp: GetRequestHead_loop.simps [of line ep] split: option.splits)
    show ?thesis
    proof (cases "n \<le> 0 \<or> l = [LF]")
      case True
      with False rd "1.prems" show ?thesis
        by (auto simp: GetRequestHead_loop.simps [of line ep] same_outside_def
            intro: exI [of _ "[]"] split: if_splits)
    next
      case go: False
      let ?ep = "emit [EvLog INFO (butlast l)] (ep\<lparr>conn := t,
        request := (request ep)\<lparr>Req_head := Req_head (request ep) @ [butlast l]\<rparr>\<rparr>)"
      have "GetRequestHead_loop (butlast l) ?ep = Some ep'"
        using False rd go "1.prems" by (simp add: GetRequestHead_loop.simps [of line ep])
      then have "same_outside ?ep ep'"
        using "1.IH" [OF False rd refl refl] go by simp
      moreover have "same_outside ep ?ep"
        using ReadInLine_positive [OF rd] go
        by (auto simp: same_outside_def intro!: exI [of _ "[butlast l]"])
      ultimately show ?thesis by (rule same_outside_trans [rotated])
    qed
  qed
qed

lemma same_outside_body_loop: "body_loop n ep = Some ep' \<Longrightarrow> same_outside ep ep'"
proof (induction n ep rule: body_loop.induct)
  case (1 n ep)
  show ?case
  proof (cases "n = 0 \<or> inbuf (conn ep) = []")
    case True
    with "1.prems" show ?thesis
      by (auto simp: body_loop.simps [of n ep] recv_Nil same_outside_def intro: exI [of _ "[]"]
          split: ending.splits if_splits)
  next
    case False
    then obtain c cs where c: "inbuf (conn ep) = c # cs" by (cases "inbuf (conn ep)") auto
    let ?t = "with_bytes cs (conn ep)"
    let ?ep = "ep\<lparr>conn := ?t, request := (request ep)\<lparr>Req_body := Req_body (request ep) @ [c]\<rparr>\<rparr>"
    have n: "n \<noteq> 0" and rc: "recv (conn ep) = Some (Got c, ?t)" using False c by simp_all
    have "body_loop (int32 (n - 1)) ?ep = Some ep'"
      using n c "1.prems" by (simp add: body_loop.simps [of n ep])
    then have "same_outside ?ep ep'" by (rule "1.IH" [OF n rc refl refl])
    moreover have "same_outside ep ?ep" by (auto simp: same_outside_def intro: exI [of _ "[]"])
    ultimately show ?thesis by (rule same_outside_trans [rotated])
  qed
qed

lemma same_outside_request_update:
  "same_outside ep (ep\<lparr>request := r\<rparr>) \<longleftrightarrow> cgi r = cgi (request ep)
    \<and> req_size r = req_size (request ep) \<and> query_string r = query_string (request ep)"
  by (auto simp: same_outside_def intro: exI [of _ "[]"])

lemma same_outside_Parse:
  "same_outside ep (ParseHttpRequestHead (ParseHttpRequestLine ep))"
  by (rule same_outside_trans [of _ "ParseHttpRequestLine ep"])
     (simp_all add: ParseHttpRequestHead_def ParseHttpRequestLine_def Let_def
        same_outside_request_update split: prod.splits)

lemma same_outside_RecvHttpRequestBody:
  assumes "RecvHttpRequestBody ep = Some (b, ep')"
  shows "same_outside ep ep'"
proof (cases "IsNeedRecvHttpRequestBody ep")
  case (Pair need ep1)
  then have "same_outside ep ep1"
    by (auto simp: IsNeedRecvHttpRequestBody_def same_outside_request_update
        split: if_splits option.splits)
  moreover have "same_outside ep1 ep'"
    using assms Pair
    by (cases need) (auto simp: RecvHttpRequestBody_def dest: same_outside_body_loop)
  ultimately show ?thesis by (rule same_outside_trans)
qed

lemma same_outside_RecvHttpRequest:
  assumes "RecvHttpRequest indet ep = Some ep'" "Req_line (request ep) = []"
  shows "same_outside ep ep'"
proof -
  obtain b1 ep1 where g1: "GetRequestLine indet ep = Some (b1, ep1)"
    using assms by (auto simp: RecvHttpRequest_def split: option.splits)
  have s1: "same_outside ep ep1" by (rule same_outside_GetRequestLine [OF g1 assms(2)])
  show ?thesis
  proof (cases b1)
    case True
    with g1 s1 assms(1) show ?thesis by (simp add: RecvHttpRequest_def)
  next
    case False
    obtain ep2 where g2: "GetRequestHead_loop [] ep1 = Some ep2"
      using g1 False assms(1)
      by (auto simp: RecvHttpRequest_def GetRequestHead_def split: option.splits)
    have s2: "same_outside ep ep2"
      by (rule same_outside_trans [OF s1 same_outside_GetRequestHead_loop [OF g2]])
    show ?thesis
    proof (cases "stop ep2")
      case True
      with g1 g2 False assms(1) s2 show ?thesis by (simp add: RecvHttpRequest_def GetRequestHead_def)
    next
      case go: False
      then obtain b3 where "RecvHttpRequestBody (ParseHttpRequestHead (ParseHttpRequestLine ep2))
          = Some (b3, ep')"
        using g1 g2 False assms(1) by (auto simp: RecvHttpRequest_def GetRequestHead_def)
      then have "same_outside (ParseHttpRequestHead (ParseHttpRequestLine ep2)) ep'"
        by (rule same_outside_RecvHttpRequestBody)
      with s2 same_outside_Parse show ?thesis by (blast intro: same_outside_trans)
    qed
  qed
qed

section \<open>When receiving returns\<close>

text \<open>Receiving blocks for ever only on a peer that keeps the connection open and silent.\<close>

lemma ReadInLine_returns: "ending s \<noteq> Silent \<Longrightarrow> \<exists>n l t. ReadInLine s out = Some (n, l, t) \<and> ending t = ending s"
  by (auto simp: ReadInLine_outcome line_outcome_def split: option.splits ending.splits)

lemma GetRequestHead_loop_returns:
  "ending (conn ep) \<noteq> Silent \<Longrightarrow> \<exists>ep'. GetRequestHead_loop line ep = Some ep' \<and> ending (conn ep') \<noteq> Silent"
proof (induction line ep rule: GetRequestHead_loop.induct)
  case (1 line ep)
  obtain n l t where rd: "ReadInLine (conn ep) [] = Some (n, l, t)" "ending t = ending (conn ep)"
    using ReadInLine_returns [OF "1.prems"] by blast
  show ?case
  proof (cases "line = [LF] \<or> n \<le> 0 \<or> l = [LF]")
    case True
    with rd "1.prems" show ?thesis by (subst GetRequestHead_loop.simps) auto
  next
    case False
    with rd "1.prems" "1.IH" [OF _ rd(1) refl refl] show ?thesis
      by (subst GetRequestHead_loop.simps) simp
  qed
qed

lemma body_loop_returns: "ending (conn ep) \<noteq> Silent \<Longrightarrow> \<exists>ep'. body_loop n ep = Some ep'"
proof (induction n ep rule: body_loop.induct)
  case (1 n ep)
  show ?case
  proof (cases "n = 0 \<or> inbuf (conn ep) = []")
    case True
    with "1.prems" show ?thesis by (subst body_loop.simps) (auto simp: recv_Nil split: ending.splits)
  next
    case False
    then obtain c cs where c: "inbuf (conn ep) = c # cs" by (cases "inbuf (conn ep)") auto
    have n: "n \<noteq> 0" and rc: "recv (conn ep) = Some (Got c, with_bytes cs (conn ep))"
      using False c by simp_all
    show ?thesis using "1.IH" [OF n rc refl refl] n c "1.prems" by (subst body_loop.simps) simp
  qed
qed

lemma RecvHttpRequest_returns:
  assumes "ending (conn ep) \<noteq> Silent"
  shows "\<exists>ep'. RecvHttpRequest indet ep = Some ep'"
proof -
  obtain n l t where rd: "ReadInLine (conn ep) (Req_line (request ep)) = Some (n, l, t)"
    "ending t = ending (conn ep)" using ReadInLine_returns [OF assms] by blast
  then obtain b ep1 where g1: "GetRequestLine indet ep = Some (b, ep1)" and e1: "ending (conn ep1) \<noteq> Silent"
    using assms by (auto simp: GetRequestLine_def Let_def)
  obtain ep2 where g2: "GetRequestHead_loop [] ep1 = Some ep2" and e2: "ending (conn ep2) \<noteq> Silent"
    using GetRequestHead_loop_returns [OF e1] by blast
  let ?ep3 = "ParseHttpRequestHead (ParseHttpRequestLine ep2)"
  have "ending (conn (snd (IsNeedRecvHttpRequestBody ?ep3))) \<noteq> Silent"
    using e2 by (simp add: IsNeedRecvHttpRequestBody_def ParseHttpRequestHead_def
        ParseHttpRequestLine_def Let_def split: option.splits prod.splits)
  then have "\<exists>r. RecvHttpRequestBody ?ep3 = Some r"
    using body_loop_returns by (force simp: RecvHttpRequestBody_def split: prod.splits bool.splits)
  with g1 g2 show ?thesis by (auto simp: RecvHttpRequest_def GetRequestHead_def)
qed

section \<open>The declared length and the body agree\<close>

lemma GetRequestLine_no_body:
  assumes "GetRequestLine indet ep = Some (b, ep')"
  shows "content_length (request ep') = content_length (request ep)"
    "Req_body (request ep') = Req_body (request ep)"
  using assms by (auto simp: GetRequestLine_def Let_def split: option.splits if_splits)

lemma GetRequestHead_loop_no_body:
  "GetRequestHead_loop line ep = Some ep' \<Longrightarrow>
    content_length (request ep') = content_length (request ep) \<and> Req_body (request ep') = Req_body (request ep)"
proof (induction line ep rule: GetRequestHead_loop.induct)
  case (1 line ep)
  show ?case
  proof (cases "line = [LF]")
    case True
    with "1.prems" show ?thesis by (simp add: GetRequestHead_loop.simps [of "[LF]" ep])
  next
    case False
    then obtain n l t where rd: "ReadInLine (conn ep) [] = Some (n, l, t)"
      using "1.prems" by (auto simp: GetRequestHead_loop.simps [of line ep] split: option.splits)
    show ?thesis
    proof (cases "n \<le> 0 \<or> l = [LF]")
      case True
      with False rd "1.prems" show ?thesis
        by (auto simp: GetRequestHead_loop.simps [of line ep] split: if_splits)
    next
      case go: False
      let ?ep = "emit [EvLog INFO (butlast l)] (ep\<lparr>conn := t,
        request := (request ep)\<lparr>Req_head := Req_head (request ep) @ [butlast l]\<rparr>\<rparr>)"
      have "GetRequestHead_loop (butlast l) ?ep = Some ep'"
        using False rd go "1.prems" by (simp add: GetRequestHead_loop.simps [of line ep])
      then show ?thesis using "1.IH" [OF False rd refl refl] go by simp
    qed
  qed
qed

lemma body_loop_length:
  "body_loop n ep = Some ep' \<Longrightarrow> in_int32 n \<Longrightarrow>
    content_length (request ep') = content_length (request ep)
    \<and> req_method (request ep') = req_method (request ep)
    \<and> (\<exists>b. Req_body (request ep') = Req_body (request ep) @ b \<and> (\<not> stop ep' \<longrightarrow> int32 (int (length b)) = n))"
proof (induction n ep rule: body_loop.induct)
  case (1 n ep)
  show ?case
  proof (cases "n = 0 \<or> inbuf (conn ep) = []")
    case True
    with "1.prems" show ?thesis
      by (auto simp: body_loop.simps [of n ep] recv_Nil split: ending.splits if_splits)
  next
    case False
    then obtain c cs where c: "inbuf (conn ep) = c # cs" by (cases "inbuf (conn ep)") auto
    let ?t = "with_bytes cs (conn ep)"
    let ?ep = "ep\<lparr>conn := ?t, request := (request ep)\<lparr>Req_body := Req_body (request ep) @ [c]\<rparr>\<rparr>"
    have n: "n \<noteq> 0" and rc: "recv (conn ep) = Some (Got c, ?t)" using False c by simp_all
    have "body_loop (int32 (n - 1)) ?ep = Some ep'"
      using n c "1.prems" by (simp add: body_loop.simps [of n ep])
    from "1.IH" [OF n rc refl refl this int32_range] obtain b where
      b: "content_length (request ep') = content_length (request ep)"
        "req_method (request ep') = req_method (request ep)"
        "Req_body (request ep') = Req_body (request ep) @ c # b"
        "\<not> stop ep' \<longrightarrow> int32 (int (length b)) = int32 (n - 1)" by auto
    have "int32 (int (length b)) = int32 (n - 1) \<Longrightarrow> int32 (int (length (c # b))) = n"
      using int32_succ [of "int (length b)" n] "1.prems"(2) by (simp add: add.commute)
    with b show ?thesis by auto
  qed
qed

lemma RecvHttpRequest_length:
  assumes "RecvHttpRequest indet ep = Some ep'" "fresh ep" "\<not> stop ep'"
  shows "int32 (int (length (Req_body (request ep')))) = content_length (request ep')"
proof -
  note e0 = fresh_fields [OF assms(2)]
  obtain b1 ep1 where g1: "GetRequestLine indet ep = Some (b1, ep1)"
    using assms by (auto simp: RecvHttpRequest_def split: option.splits)
  note l1 = GetRequestLine_no_body [OF g1]
  show ?thesis
  proof (cases b1)
    case True
    with g1 assms(1) l1 e0 show ?thesis by (simp add: RecvHttpRequest_def)
  next
    case b1: False
    obtain ep2 where g2: "GetRequestHead_loop [] ep1 = Some ep2"
      using g1 b1 assms(1)
      by (auto simp: RecvHttpRequest_def GetRequestHead_def split: option.splits)
    note l2 = GetRequestHead_loop_no_body [OF g2]
    have ns: "\<not> stop ep2"
      using g1 g2 b1 assms(1,3) by (auto simp: RecvHttpRequest_def GetRequestHead_def split: if_splits)
    let ?ep3 = "ParseHttpRequestHead (ParseHttpRequestLine ep2)"
    have e3: "content_length (request ?ep3) = 0" "Req_body (request ?ep3) = []"
      using l1 l2 e0 by (simp_all add: ParseHttpRequestHead_def ParseHttpRequestLine_def Let_def split_beta)
    obtain b3 where r3: "RecvHttpRequestBody ?ep3 = Some (b3, ep')"
      using g1 g2 b1 ns assms(1) by (auto simp: RecvHttpRequest_def GetRequestHead_def)
    show ?thesis
    proof (cases "fst (IsNeedRecvHttpRequestBody ?ep3)")
      case False
      then have "ep' = ?ep3"
        using r3 by (auto simp: RecvHttpRequestBody_def IsNeedRecvHttpRequestBody_def
            split: option.splits if_splits)
      with e3 show ?thesis by simp
    next
      case True
      then obtain v where v: "IsNeedRecvHttpRequestBody ?ep3
          = (True, ?ep3\<lparr>request := (request ?ep3)\<lparr>content_length := atoi v\<rparr>\<rparr>)"
        by (auto simp: IsNeedRecvHttpRequestBody_def split: option.splits if_splits)
      then have "body_loop (atoi v) (?ep3\<lparr>request := (request ?ep3)\<lparr>content_length := atoi v\<rparr>\<rparr>) = Some ep'"
        using r3 by (auto simp: RecvHttpRequestBody_def)
      from body_loop_length [OF this atoi_range] e3 assms(3) show ?thesis by auto
    qed
  qed
qed

section \<open>The body is no longer than what arrived\<close>

lemma ReadInLine_length:
  assumes "ReadInLine s out = Some (n, l, t)"
  shows "length (inbuf t) \<le> length (inbuf s)"
proof (cases "take_line (inbuf s)")
  case None
  with assms show ?thesis
    by (auto simp: ReadInLine_outcome line_outcome_def split: ending.splits)
next
  case (Some p)
  then obtain a b where p: "take_line (inbuf s) = Some (a, b)" by (cases p) auto
  with assms have "inbuf t = b"
    by (auto simp: ReadInLine_outcome line_outcome_def split: if_splits)
  with take_line_append [OF p] show ?thesis by auto
qed

definition unread :: "EndPoint \<Rightarrow> nat" where
  "unread ep = length (Req_body (request ep)) + length (inbuf (conn ep))"

lemma GetRequestLine_unread: "GetRequestLine indet ep = Some (b, ep') \<Longrightarrow> unread ep' \<le> unread ep"
  by (auto simp: GetRequestLine_def Let_def unread_def split: option.splits if_splits dest: ReadInLine_length)

lemma GetRequestHead_loop_unread:
  "GetRequestHead_loop line ep = Some ep' \<Longrightarrow> unread ep' \<le> unread ep"
proof (induction line ep rule: GetRequestHead_loop.induct)
  case (1 line ep)
  show ?case
  proof (cases "line = [LF]")
    case True
    with "1.prems" show ?thesis by (simp add: GetRequestHead_loop.simps [of "[LF]" ep])
  next
    case False
    then obtain n l t where rd: "ReadInLine (conn ep) [] = Some (n, l, t)"
      using "1.prems" by (auto simp: GetRequestHead_loop.simps [of line ep] split: option.splits)
    note len = ReadInLine_length [OF rd]
    show ?thesis
    proof (cases "n \<le> 0 \<or> l = [LF]")
      case True
      with False rd len "1.prems" show ?thesis
        by (auto simp: GetRequestHead_loop.simps [of line ep] unread_def split: if_splits)
    next
      case go: False
      let ?ep = "emit [EvLog INFO (butlast l)] (ep\<lparr>conn := t,
        request := (request ep)\<lparr>Req_head := Req_head (request ep) @ [butlast l]\<rparr>\<rparr>)"
      have "GetRequestHead_loop (butlast l) ?ep = Some ep'"
        using False rd go "1.prems" by (simp add: GetRequestHead_loop.simps [of line ep])
      then have "unread ep' \<le> unread ?ep" using "1.IH" [OF False rd refl refl] go by simp
      with len show ?thesis by (simp add: unread_def)
    qed
  qed
qed

lemma body_loop_unread: "body_loop n ep = Some ep' \<Longrightarrow> unread ep' \<le> unread ep"
proof (induction n ep rule: body_loop.induct)
  case (1 n ep)
  show ?case
  proof (cases "n = 0 \<or> inbuf (conn ep) = []")
    case True
    with "1.prems" show ?thesis
      by (auto simp: body_loop.simps [of n ep] recv_Nil unread_def split: ending.splits if_splits)
  next
    case False
    then obtain c cs where c: "inbuf (conn ep) = c # cs" by (cases "inbuf (conn ep)") auto
    let ?t = "with_bytes cs (conn ep)"
    let ?ep = "ep\<lparr>conn := ?t, request := (request ep)\<lparr>Req_body := Req_body (request ep) @ [c]\<rparr>\<rparr>"
    have n: "n \<noteq> 0" and rc: "recv (conn ep) = Some (Got c, ?t)" using False c by simp_all
    have "body_loop (int32 (n - 1)) ?ep = Some ep'"
      using n c "1.prems" by (simp add: body_loop.simps [of n ep])
    from "1.IH" [OF n rc refl refl this] c show ?thesis by (simp add: unread_def)
  qed
qed

lemma RecvHttpRequest_unread:
  assumes "RecvHttpRequest indet ep = Some ep'"
  shows "unread ep' \<le> unread ep"
proof -
  obtain b1 ep1 where g1: "GetRequestLine indet ep = Some (b1, ep1)"
    using assms by (auto simp: RecvHttpRequest_def split: option.splits)
  note l1 = GetRequestLine_unread [OF g1]
  show ?thesis
  proof (cases b1)
    case True
    with g1 assms l1 show ?thesis by (simp add: RecvHttpRequest_def)
  next
    case False
    obtain ep2 where g2: "GetRequestHead_loop [] ep1 = Some ep2"
      using g1 False assms
      by (auto simp: RecvHttpRequest_def GetRequestHead_def split: option.splits)
    note l2 = GetRequestHead_loop_unread [OF g2]
    let ?ep3 = "ParseHttpRequestHead (ParseHttpRequestLine ep2)"
    have l3: "unread ?ep3 = unread ep2"
      by (simp add: unread_def ParseHttpRequestHead_def ParseHttpRequestLine_def Let_def split_beta)
    show ?thesis
    proof (cases "stop ep2")
      case True
      with g1 g2 False assms l1 l2 show ?thesis
        by (simp add: RecvHttpRequest_def GetRequestHead_def)
    next
      case ns: False
      obtain b3 where "RecvHttpRequestBody ?ep3 = Some (b3, ep')"
        using g1 g2 False ns assms by (auto simp: RecvHttpRequest_def GetRequestHead_def)
      then have "unread ep' \<le> unread ?ep3"
        by (auto simp: RecvHttpRequestBody_def IsNeedRecvHttpRequestBody_def unread_def [of ?ep3]
            split: option.splits if_splits dest!: body_loop_unread) (simp_all add: unread_def)
      with l1 l2 l3 show ?thesis by simp
    qed
  qed
qed

section \<open>Properties\<close>

text \<open>C10: A well-formed POST request is received as it was sent: whatever newline style its
  lines use, the end point holds its method in upper case, its target and version, the map
  of its headers and exactly the bytes of its body; the bytes after the body stay in the
  connection, nothing is sent and the end point does not stop.\<close>

theorem recv_post_request:
  assumes "request_ok nl m u v kvs" "\<forall>e. \<not> indet e"
    and "map toupper m = ''POST''" "map_of kvs ''Content-Length'' = Some cl" "atoi cl = int (length b)"
  shows "\<exists>ep. RecvHttpRequest indet
      (EndPoint_new junk s (with_bytes (request_head_bytes nl m u v kvs @ b @ r) st)) = Some ep
    \<and> req_method (request ep) = ''POST'' \<and> uri (request ep) = u \<and> http_version (request ep) = v
    \<and> head_kv (request ep) = map_of kvs \<and> Req_body (request ep) = b
    \<and> content_length (request ep) = int (length b) \<and> conn ep = with_bytes r st
    \<and> \<not> stop ep \<and> sent (trace ep) = []"
proof -
  let ?ep = "EndPoint_new junk s (with_bytes (request_head_bytes nl m u v kvs @ b @ r) st)"
  have c: "conn ?ep = with_bytes (request_head_bytes nl m u v kvs @ b @ r) st"
    by (simp add: EndPoint_new_def)
  have q: "sent (map (EvLog INFO) ls) = []" for ls using quiet_logs unfolding quiet_def by blast
  show ?thesis
    using RecvHttpRequest_post [OF assms(1,2) fresh_new c assms(3-5)] assms(3)
      q [of "request_line m u v # map header_line kvs"]
    by (simp add: with_body_def parsed_def EndPoint_new_def)
qed

theorem recv_post_request_witness:
  "\<exists>ep. RecvHttpRequest (\<lambda>_. False) (EndPoint_new 0 4 \<lparr>inbuf =
      ''post /exe_cgi HTTP/1.1'' @ CRLF @ ''Content-Length: 7'' @ CRLF @ CRLF @ ''a=1&b=2'' @ ''GET'',
      ending = Closed\<rparr>) = Some ep
    \<and> req_method (request ep) = ''POST'' \<and> Req_body (request ep) = ''a=1&b=2''
    \<and> inbuf (conn ep) = ''GET''"
proof -
  have "request_ok CRLF ''post'' ''/exe_cgi'' ''HTTP/1.1'' [(''Content-Length'', ''7'')]"
    by (simp add: request_ok_def token_def isspace_def request_line_def header_ok_def)
  from recv_post_request [OF this, of "\<lambda>_. False" "''7''" "''a=1&b=2''" 0 4 "''GET''"
      "\<lparr>inbuf = [], ending = Closed\<rparr>"]
  show ?thesis
    by (auto simp: libc_eval request_head_bytes_def request_line_def header_line_def with_bytes_def
        SEP_def)
qed

text \<open>A request that announces no body (its method is not POST, or it has no
  Content-Length) is complete after its empty line: the body stays empty and everything
  after the empty line stays in the connection.\<close>

theorem recv_request_without_body:
  assumes "request_ok nl m u v kvs" "\<forall>e. \<not> indet e"
    and "map toupper m \<noteq> ''POST'' \<or> map_of kvs ''Content-Length'' = None"
  shows "\<exists>ep. RecvHttpRequest indet
      (EndPoint_new junk s (with_bytes (request_head_bytes nl m u v kvs @ r) st)) = Some ep
    \<and> req_method (request ep) = map toupper m \<and> uri (request ep) = u \<and> http_version (request ep) = v
    \<and> head_kv (request ep) = map_of kvs \<and> Req_body (request ep) = []
    \<and> content_length (request ep) = 0 \<and> conn ep = with_bytes r st \<and> \<not> stop ep"
proof -
  let ?ep = "EndPoint_new junk s (with_bytes (request_head_bytes nl m u v kvs @ r) st)"
  have c: "conn ?ep = with_bytes (request_head_bytes nl m u v kvs @ r) st"
    by (simp add: EndPoint_new_def)
  show ?thesis
    using RecvHttpRequest_no_body [OF assms(1,2) fresh_new c assms(3)]
    by (simp add: parsed_def EndPoint_new_def HttpRequest_new_def)
qed

theorem recv_request_without_body_witness:
  "\<exists>ep. RecvHttpRequest (\<lambda>_. False) (EndPoint_new 0 4 \<lparr>inbuf =
      ''get / HTTP/1.0'' @ [LF] @ ''Host: a'' @ [LF] @ [LF] @ ''x'', ending = Silent\<rparr>) = Some ep
    \<and> req_method (request ep) = ''GET'' \<and> inbuf (conn ep) = ''x''"
proof -
  have "request_ok [LF] ''get'' ''/'' ''HTTP/1.0'' [(''Host'', ''a'')]"
    by (simp add: request_ok_def token_def isspace_def request_line_def header_ok_def)
  from recv_request_without_body [OF this, of "\<lambda>_. False" 0 4 "''x''" "\<lparr>inbuf = [], ending = Silent\<rparr>"]
  show ?thesis
    by (auto simp: libc_eval request_head_bytes_def request_line_def header_line_def with_bytes_def
        SEP_def)
qed



text \<open>Whatever bytes arrive, a request whose receive did not stop has a body of exactly
  \<open>content_length\<close> bytes (as a 32-bit \<open>int\<close>), so the length announced to a CGI program is
  the length of what it is sent.\<close>

theorem recv_length_agrees:
  assumes "RecvHttpRequest indet (EndPoint_new junk s st) = Some ep" "\<not> stop ep"
  shows "content_length (request ep) = int32 (int (length (Req_body (request ep))))"
  using RecvHttpRequest_length [OF assms(1) fresh_new assms(2)] by simp

theorem recv_length_agrees_witness:
  "\<exists>ep. RecvHttpRequest (\<lambda>_. False) (EndPoint_new 0 4
      \<lparr>inbuf = ''POST / HTTP/1.0'' @ [LF] @ ''Content-Length: 2'' @ [LF] @ [LF] @ ''ab'', ending = Closed\<rparr>) = Some ep
    \<and> content_length (request ep) = int32 (int (length (Req_body (request ep))))"
proof -
  let ?st = "\<lparr>inbuf = ''POST / HTTP/1.0'' @ [LF] @ ''Content-Length: 2'' @ [LF] @ [LF] @ ''ab'', ending = Closed\<rparr>"
  have ok: "request_ok [LF] ''POST'' ''/'' ''HTTP/1.0'' [(''Content-Length'', ''2'')]"
    by (simp add: request_ok_def token_def isspace_def request_line_def header_ok_def)
  have c: "conn (EndPoint_new 0 4 ?st) = with_bytes
      (request_head_bytes [LF] ''POST'' ''/'' ''HTTP/1.0'' [(''Content-Length'', ''2'')] @ ''ab'' @ []) ?st"
    by (simp add: EndPoint_new_def request_head_bytes_def request_line_def header_line_def with_bytes_def SEP_def)
  have "\<exists>ep. RecvHttpRequest (\<lambda>_. False) (EndPoint_new 0 4 ?st) = Some ep \<and> \<not> stop ep"
    using RecvHttpRequest_post [OF ok _ fresh_new c, of "\<lambda>_. False" "''2''"]
    by (simp add: libc_eval with_body_def EndPoint_new_def)
  then obtain ep where "RecvHttpRequest (\<lambda>_. False) (EndPoint_new 0 4 ?st) = Some ep" "\<not> stop ep" by blast
  with recv_length_agrees [OF this] show ?thesis by blast
qed

text \<open>C19: Receiving comes to an end on every connection that the peer closes or that fails,
  whatever bytes it carries and whatever \<open>GetRequestLine\<close> returns: only a silent peer can
  hold the thread.\<close>

theorem recv_terminates:
  assumes "ending st \<noteq> Silent"
  shows "\<exists>ep. RecvHttpRequest indet (EndPoint_new junk s st) = Some ep"
  by (rule RecvHttpRequest_returns) (simp add: EndPoint_new_def assms)

theorem recv_terminates_witness:
  "\<exists>ep. RecvHttpRequest (\<lambda>_. True) (EndPoint_new 0 4 \<lparr>inbuf = ''POST'', ending = Failed\<rparr>) = Some ep"
  by (rule recv_terminates) simp

text \<open>The header table answers every key with the value of the first line that has it;
  lines without the separator are left out.\<close>

theorem header_table_first_line:
  "parse_head hs Map.empty k = map_of (List.map_filter (\<lambda>h. CutString h SEP) hs) k"
proof -
  have "parse_head hs m = fold (\<lambda>(k, v). insert_kv k v) (List.map_filter (\<lambda>h. CutString h SEP) hs) m" for m
    by (induction hs arbitrary: m) (auto simp: List.map_filter_simps split: option.splits)
  then show ?thesis by (simp add: header_map.look_fold_emp)
qed

text \<open>C31: no byte is made up or counted twice: the body an end point has received and the bytes
  it has left in the connection are together no more than the bytes that arrived, for every
  request, well formed or not.\<close>

theorem recv_within_arrived:
  assumes "RecvHttpRequest indet (EndPoint_new junk s st) = Some ep"
  shows "length (Req_body (request ep)) + length (inbuf (conn ep)) \<le> length (inbuf st)"
  using RecvHttpRequest_unread [OF assms] by (simp add: unread_def EndPoint_new_def HttpRequest_new_def)

theorem recv_within_arrived_witness:
  "\<exists>ep. RecvHttpRequest (\<lambda>_. False) (EndPoint_new 0 4 \<lparr>inbuf = ''POST'', ending = Failed\<rparr>) = Some ep
    \<and> length (Req_body (request ep)) + length (inbuf (conn ep)) \<le> 4"
proof -
  let ?st = "\<lparr>inbuf = ''POST'', ending = Failed\<rparr>"
  obtain ep where r: "RecvHttpRequest (\<lambda>_. False) (EndPoint_new 0 4 ?st) = Some ep"
    using RecvHttpRequest_returns [of "EndPoint_new 0 4 ?st"] by (auto simp: EndPoint_new_def)
  show ?thesis using r recv_within_arrived [OF r] by simp
qed

end
