(* ===== verification/Web_Process.thy ===== *)
theory Web_Process
  imports Web_Message
begin

text \<open>
  Processes and the operating system as the CGI half of the server uses them. A CGI program
  is the sequence of its effects on its standard descriptors, \<open>proc\<close>; \<open>run_proc\<close> runs one
  whose standard input is a pipe that holds some bytes and whose write end stays open, as the
  server's end of the pipe does while it waits. The record \<open>os_env\<close> collects what the server
  observes of the system: each field is the result of one system call, a parameter of the
  model.
\<close>

section \<open>CGI programs\<close>

datatype wstatus = Exited int | Signaled int

datatype proc =
    PExit int                        \<comment> \<open>\<open>exit(code)\<close> or return from \<open>main\<close>\<close>
  | PKilled int                      \<comment> \<open>the process dies of a signal\<close>
  | PWrite string proc               \<comment> \<open>output on descriptor 1\<close>
  | PErr string proc                 \<comment> \<open>output on descriptor 2\<close>
  | PRead "char option \<Rightarrow> proc"      \<comment> \<open>\<open>read(0, &c, 1)\<close>; \<open>None\<close> when it stores nothing\<close>

text \<open>
  The exit status keeps the low eight bits of the code. A read from the empty pipe waits for
  its writer, which is waiting for the program: the run does not end, \<open>None\<close>.
\<close>

primrec run_proc :: "proc \<Rightarrow> string \<Rightarrow> (string \<times> wstatus) option" where
  "run_proc (PExit n) inp = Some ([], Exited (n mod 256))"
| "run_proc (PKilled sig) inp = Some ([], Signaled sig)"
| "run_proc (PWrite out p) inp = map_option (\<lambda>(o', st). (out @ o', st)) (run_proc p inp)"
| "run_proc (PErr out p) inp = run_proc p inp"
| "run_proc (PRead k) inp = (case inp of [] \<Rightarrow> None | c # cs \<Rightarrow> run_proc (k (Some c)) cs)"

declare run_proc.simps [io_simps]

section \<open>The system as the server sees it\<close>

record file_stat =
  st_isdir :: bool
  st_exec :: bool          \<comment> \<open>one of the three execute bits of \<open>st_mode\<close> is set\<close>
  st_size :: int

record os_env =
  os_stat :: "string \<Rightarrow> file_stat option"            \<comment> \<open>\<open>stat(path)\<close>, \<open>None\<close> on failure\<close>
  os_open :: "string \<Rightarrow> int"                         \<comment> \<open>\<open>open(path, O_RDONLY)\<close>\<close>
  os_pipe_in :: "(int \<times> int) option"                \<comment> \<open>\<open>pipe(input)\<close>\<close>
  os_pipe_out :: "(int \<times> int) option"               \<comment> \<open>\<open>pipe(output)\<close>\<close>
  os_fork :: int                                       \<comment> \<open>\<open>fork()\<close> in the parent\<close>
  os_exec :: "string \<Rightarrow> ((string \<Rightarrow> string option) \<Rightarrow> proc) option"
                                                       \<comment> \<open>the program at a path, given its environment\<close>
  os_environ :: "string \<Rightarrow> string option"            \<comment> \<open>the server's environment\<close>
  os_write :: "nat \<Rightarrow> int"                           \<comment> \<open>\<open>write\<close> of so many bytes to the pipe\<close>
  os_waitpid_ok :: bool                                \<comment> \<open>\<open>waitpid\<close> returned the pid\<close>
  os_send :: "nat \<Rightarrow> int"                            \<comment> \<open>\<open>send\<close> of so many bytes\<close>
  os_unflushed :: string       \<comment> \<open>what the forked child's stdio buffer holds when it calls \<open>exit\<close>\<close>
  os_stack_stat :: file_stat   \<comment> \<open>what an uninitialised \<open>struct stat\<close> holds\<close>

text \<open>
  \<open>putenv("NAME=value")\<close> stores a C string: the value ends at its first zero byte.
\<close>

definition putenv ::
    "string \<Rightarrow> string \<Rightarrow> (string \<Rightarrow> string option) \<Rightarrow> (string \<Rightarrow> string option)" where
  "putenv name val e = e(name \<mapsto> c_str val)"

end
