(* ===== verification/Web_Build.thy ===== *)
theory Web_Build
  imports Web_Receive Web_Process
begin

text \<open>
  The building half of \<open>EndPoint\<close> (Protocol.hpp): which file or program a request names, the
  static file (\<open>ProcessNonCIG\<close>), the CGI program (\<open>ProcessCIG\<close>), and the status line and
  headers of the response.
\<close>

section \<open>Static files\<close>

definition ProcessNonCIG :: "os_env \<Rightarrow> EndPoint \<Rightarrow> int \<times> EndPoint" where
  "ProcessNonCIG env ep =
     (let f = os_open env (c_str (path (request ep)));
          ep' = emit [EvOpen (path (request ep)) f] (ep\<lparr>response := (response ep)\<lparr>fd := f\<rparr>\<rparr>)
      in (if 0 \<le> f then OK else NOT_FOUND, ep'))"

section \<open>CGI programs\<close>

text \<open>
  The child after \<open>fork\<close>: it hands the method and the query string or the content length
  over in its environment and replaces itself by the program. Where \<open>execl\<close> fails it calls
  \<open>exit(1)\<close>, which flushes its copy of the stdio buffer.
\<close>

definition cgi_environment :: "os_env \<Rightarrow> HttpRequest \<Rightarrow> (string \<Rightarrow> string option)" where
  "cgi_environment env r =
     (let e = putenv ''METHOD'' (req_method r) (os_environ env)
      in if req_method r = ''GET'' then putenv ''QUERY_STRING'' (query_string r) e
         else if req_method r = ''POST''
           then putenv ''CONTENT_LENGTH'' (to_string (content_length r)) e
         else e)"

definition cgi_child :: "os_env \<Rightarrow> HttpRequest \<Rightarrow> proc" where
  "cgi_child env r =
     (case os_exec env (c_str (path r)) of
        Some prog \<Rightarrow> prog (cgi_environment env r)
      | None \<Rightarrow> PWrite (os_unflushed env) (PExit 1))"

text \<open>The loop that writes the body into the pipe: the events of the calls that succeed.\<close>

function write_loop :: "os_env \<Rightarrow> int \<Rightarrow> int \<Rightarrow> string \<Rightarrow> int \<Rightarrow> event list" where
  "write_loop env pfd len body tot =
     (if tot < len then
        (let size = os_write env (length body - nat tot)
         in if 0 < size
            then EvWrite pfd (take (nat size) (drop (nat tot) body))
                   # write_loop env pfd len body (tot + size)
            else [])
      else [])"
  by pat_completeness auto
termination
  by (relation "measure (\<lambda>(env, pfd, len, body, tot). nat (len - tot))") auto

declare write_loop.simps [simp del]

fun written :: "event list \<Rightarrow> string" where
  "written [] = []"
| "written (EvWrite _ s # es) = s @ written es"
| "written (_ # es) = written es"

definition parent_writes :: "os_env \<Rightarrow> int \<Rightarrow> HttpRequest \<Rightarrow> event list" where
  "parent_writes env pfd r =
     (if req_method r = ''POST'' then
        [EvOut ((if Req_body r = [] then [NUL] else [hd (Req_body r)]) @ [LF]),
         EvOut (Req_body r @ [LF])]
        @ write_loop env pfd (content_length r) (Req_body r) 0
        @ [EvOut (Req_body r @ [LF])]
      else [])"

definition exit_code :: "os_env \<Rightarrow> wstatus \<Rightarrow> int" where
  "exit_code env st =
     (if os_waitpid_ok env then
        (case st of Exited n \<Rightarrow> if n = 0 then OK else BAD_REQUSET | Signaled _ \<Rightarrow> SERVER_ERROR)
      else OK)"

text \<open>
  \<open>ProcessCIG\<close>, from the server's side. \<open>None\<close>: the program waits for more input than the
  server wrote, and the server, which keeps its end of the pipe open, for the program.
\<close>

definition ProcessCIG :: "os_env \<Rightarrow> EndPoint \<Rightarrow> (int \<times> EndPoint) option" where
  "ProcessCIG env ep =
     (case os_pipe_in env of
        None \<Rightarrow> Some (SERVER_ERROR, emit [EvLog ERROR ''pipe input error ...''] ep)
      | Some (in0, in1) \<Rightarrow>
     (case os_pipe_out env of
        None \<Rightarrow> Some (SERVER_ERROR,
                  emit [EvPipe in0 in1, EvLog ERROR ''pipe output error ...''] ep)
      | Some (out0, out1) \<Rightarrow>
          if 0 < os_fork env then
            (let ws = parent_writes env out1 (request ep);
                 ep1 = emit ([EvPipe in0 in1, EvPipe out0 out1, EvFork (os_fork env),
                              EvClose out0, EvClose in1, EvOut [LF]] @ ws) ep
             in case run_proc (cgi_child env (request ep)) (written ws) of
                  None \<Rightarrow> None
                | Some (out, st) \<Rightarrow>
                    Some (exit_code env st,
                      emit [EvWait (os_fork env), EvClose in0, EvClose out1]
                        (ep1\<lparr>response :=
                           (response ep1)\<lparr>Resp_body := Resp_body (response ep1) @ out\<rparr>\<rparr>)))
          else Some (404, emit [EvPipe in0 in1, EvPipe out0 out1, EvLog ERROR ''fork error''] ep)))"

section \<open>Status line and headers\<close>

definition BuildOkResponse :: "EndPoint \<Rightarrow> EndPoint" where
  "BuildOkResponse ep =
     (let len = (if cgi (request ep) then int (length (Resp_body (response ep)))
                 else req_size (request ep))
      in ep\<lparr>response := (response ep)\<lparr>Resp_head := Resp_head (response ep) @
           [''Content-Type: '' @ Suffix2Desc (req_suffix (request ep)) @ CRLF,
            ''Content-Length: '' @ to_string len @ CRLF]\<rparr>\<rparr>)"

definition HandlerError :: "os_env \<Rightarrow> string \<Rightarrow> EndPoint \<Rightarrow> EndPoint" where
  "HandlerError env page ep =
     (let f = os_open env (c_str page);
          ep1 = emit [EvOpen page f]
            (ep\<lparr>request := (request ep)\<lparr>cgi := False\<rparr>, response := (response ep)\<lparr>fd := f\<rparr>\<rparr>)
      in if 0 < f then
           (let st = (case os_stat env (c_str page) of Some st \<Rightarrow> st | None \<Rightarrow> os_stack_stat env)
            in ep1\<lparr>request := (request ep1)\<lparr>req_size := int32 (st_size st)\<rparr>,
                 response := (response ep1)\<lparr>Resp_head := Resp_head (response ep1) @
                   [''Content-Type: text/html'' @ CRLF,
                    ''Content-Length: '' @ to_string (st_size st) @ CRLF]\<rparr>\<rparr>)
         else ep1)"

definition BuildHttpResponseHelper :: "os_env \<Rightarrow> EndPoint \<Rightarrow> EndPoint" where
  "BuildHttpResponseHelper env ep =
     (let code = Status_code (response ep);
          ep1 = ep\<lparr>response := (response ep)\<lparr>Status_line := Status_line (response ep)
                  @ HTTP_VERSION @ '' '' @ to_string code @ '' '' @ Code2Desc code @ CRLF\<rparr>\<rparr>;
          page = WEB_ROOT @ ''/'' @ PAGE_404
      in if code = OK then BuildOkResponse ep1
         else if code = NOT_FOUND then HandlerError env page ep1
         else if code = SERVER_ERROR then HandlerError env page ep1
         else if code = BAD_REQUSET then HandlerError env page ep1
         else ep1)"

section \<open>Which resource\<close>

text \<open>Method and URI give the path below the web root and the query string.\<close>

definition choose_path :: "HttpRequest \<Rightarrow> HttpRequest" where
  "choose_path r =
     (let r1 = (if req_method r = ''GET'' then
                  (if find_sub ''?'' (uri r) \<noteq> None then
                     (case CutString (uri r) ''?'' of
                        Some (p, q) \<Rightarrow> r\<lparr>path := p, query_string := q, cgi := True\<rparr>
                      | None \<Rightarrow> r\<lparr>cgi := True\<rparr>)
                   else r\<lparr>path := uri r\<rparr>)
                else if req_method r = ''POST'' then r\<lparr>cgi := True, path := uri r\<rparr>
                else r);
          p1 = WEB_ROOT @ path r1
      in r1\<lparr>path := (if last p1 = CHR ''/'' then p1 @ DEFAUTL_PAGE else p1)\<rparr>)"

text \<open>
  \<open>stat\<close> on the path, once more with the default page below a directory. The second call's
  result is not looked at: where it fails, the entry of the directory stays in \<open>st\<close>.
\<close>

definition stat_path :: "os_env \<Rightarrow> HttpRequest \<Rightarrow> HttpRequest option" where
  "stat_path env r =
     (case os_stat env (c_str (path r)) of
        None \<Rightarrow> None
      | Some st \<Rightarrow>
          (let p = (if st_isdir st then path r @ ''/'' @ DEFAUTL_PAGE else path r);
               st1 = (if st_isdir st
                      then (case os_stat env (c_str p) of Some s \<Rightarrow> s | None \<Rightarrow> st)
                      else st)
           in Some (r\<lparr>path := p, cgi := (cgi r \<or> st_exec st1), req_size := int32 (st_size st1)\<rparr>)))"

definition find_suffix :: "HttpRequest \<Rightarrow> HttpRequest" where
  "find_suffix r =
     (case rfind_sub ''.'' (path r) of
        None \<Rightarrow> r\<lparr>req_suffix := ''.html''\<rparr>
      | Some found \<Rightarrow> r\<lparr>req_suffix := drop found (path r)\<rparr>)"

definition set_code :: "int \<Rightarrow> EndPoint \<Rightarrow> EndPoint" where
  "set_code code ep = ep\<lparr>response := (response ep)\<lparr>Status_code := code\<rparr>\<rparr>"

definition BuildHttpResponse :: "os_env \<Rightarrow> EndPoint \<Rightarrow> EndPoint option" where
  "BuildHttpResponse env ep =
     (if req_method (request ep) \<noteq> ''POST'' \<and> req_method (request ep) \<noteq> ''GET'' then
        Some (BuildHttpResponseHelper env (set_code BAD_REQUSET
          (emit [EvLog WARNING ''Requesting method is not right ...''] ep)))
      else
        (let r = choose_path (request ep)
         in case stat_path env r of
              None \<Rightarrow>
                Some (BuildHttpResponseHelper env (set_code NOT_FOUND
                  (emit [EvLog WARNING (path r @ '' Not Found'')] (ep\<lparr>request := r\<rparr>))))
            | Some r1 \<Rightarrow>
                (let ep1 = ep\<lparr>request := find_suffix r1\<rparr>
                 in if cgi (request ep1) then
                      map_option (\<lambda>(code, ep2). BuildHttpResponseHelper env (set_code code ep2))
                        (ProcessCIG env ep1)
                    else
                      (case ProcessNonCIG env ep1 of
                         (code, ep2) \<Rightarrow> Some (BuildHttpResponseHelper env (set_code code ep2))))))"

section \<open>The pipe to the program\<close>

text \<open>
  What POSIX promises of a blocking \<open>write\<close> to a pipe that is being read: it accepts at least
  one byte and at most those it was given.
\<close>

definition write_progress :: "os_env \<Rightarrow> bool" where
  "write_progress env \<longleftrightarrow> (\<forall>n > 0. 0 < os_write env n \<and> os_write env n \<le> int n)"

lemma written_append [simp]: "written (xs @ ys) = written xs @ written ys"
  by (induction xs rule: written.induct) simp_all

lemma quiet_write_loop [simp]: "quiet (write_loop env pfd len body tot)"
proof (induction env pfd len body tot rule: write_loop.induct)
  case (1 env pfd len body tot)
  then show ?case by (subst write_loop.simps) (simp add: Let_def)
qed

lemma written_write_loop:
  assumes "write_progress env" "0 \<le> tot" "tot \<le> int (length body)"
  shows "written (write_loop env pfd (int (length body)) body tot) = drop (nat tot) body"
  using assms(2,3)
proof (induction "length body - nat tot" arbitrary: tot rule: less_induct)
  case less
  show ?case
  proof (cases "tot < int (length body)")
    case True
    let ?n = "length body - nat tot"
    let ?size = "os_write env ?n"
    have n: "0 < ?n" using True less.prems by linarith
    then have sz: "0 < ?size" "?size \<le> int ?n" using assms(1) unfolding write_progress_def by blast+
    have step: "write_loop env pfd (int (length body)) body tot =
      EvWrite pfd (take (nat ?size) (drop (nat tot) body))
        # write_loop env pfd (int (length body)) body (tot + ?size)"
      using True sz by (subst write_loop.simps) (simp add: Let_def)
    have bounds: "0 \<le> tot + ?size" "tot + ?size \<le> int (length body)" using sz less.prems n by linarith+
    have "length body - nat (tot + ?size) < ?n" using sz less.prems n by linarith
    from less.hyps [OF this bounds]
    have "written (write_loop env pfd (int (length body)) body (tot + ?size))
      = drop (nat ?size) (drop (nat tot) body)"
      using sz less.prems by (simp add: nat_add_distrib add.commute)
    then show ?thesis by (simp only: step written.simps append_take_drop_id)
  next
    case False
    with less.prems show ?thesis by (subst write_loop.simps) simp
  qed
qed

lemma quiet_parent_writes [simp]: "quiet (parent_writes env pfd r)"
  by (auto simp: parent_writes_def intro!: quiet_append)

lemma written_parent_writes:
  assumes "write_progress env" "content_length r = int (length (Req_body r))"
  shows "written (parent_writes env pfd r) = (if req_method r = ''POST'' then Req_body r else [])"
  using written_write_loop [OF assms(1), of 0 "Req_body r" pfd] assms(2)
  by (simp add: parent_writes_def)

lemma written_parent_writes_GET:
  "req_method r = ''GET'' \<Longrightarrow> written (parent_writes env pfd r) = []"
  by (simp add: parent_writes_def)

section \<open>What building does to the descriptors\<close>

text \<open>
  The calls of \<open>ProcessCIG\<close> that its error paths do not undo: the second \<open>pipe\<close> and \<open>fork\<close>.
\<close>

definition pipes_ok :: "os_env \<Rightarrow> bool" where
  "pipes_ok env \<longleftrightarrow> os_pipe_in env = None \<or> (os_pipe_out env \<noteq> None \<and> 0 < os_fork env)"

text \<open>The descriptor a response still holds open: that of its file, where it has one.\<close>

definition held :: "EndPoint \<Rightarrow> int multiset" where
  "held ep = (if cgi (request ep) then {#}
              else if 0 \<le> fd (response ep) then {#fd (response ep)#} else {#})"

text \<open>
  \<open>builds ep ep'\<close>: the events between the two send nothing and close every descriptor they
  open, but for the file of the response; the socket and the fixed parts are untouched.
\<close>

definition builds :: "EndPoint \<Rightarrow> EndPoint \<Rightarrow> bool" where
  "builds ep ep' \<longleftrightarrow> sock ep' = sock ep \<and> stop ep' = stop ep \<and> resp_blank (response ep') = resp_blank (response ep)
     \<and> (\<exists>evs. trace ep' = trace ep @ evs \<and> sent evs = [] \<and> opened evs = closed evs + held ep')"

lemma ProcessCIG_frame:
  assumes "ProcessCIG env ep = Some (code, ep')"
  shows "request ep' = request ep" "sock ep' = sock ep" "stop ep' = stop ep"
    "fd (response ep') = fd (response ep)" "Resp_head (response ep') = Resp_head (response ep)"
    "resp_blank (response ep') = resp_blank (response ep)"
    "Status_line (response ep') = Status_line (response ep)"
    "code \<in> {OK, BAD_REQUSET, NOT_FOUND, SERVER_ERROR}"
  using assms
  by (auto simp: ProcessCIG_def Let_def exit_code_def code_defs split: option.splits if_splits wstatus.splits)

lemma ProcessCIG_events:
  assumes "ProcessCIG env ep = Some (code, ep')" "pipes_ok env"
  shows "\<exists>evs. trace ep' = trace ep @ evs \<and> sent evs = [] \<and> opened evs = closed evs"
proof (cases "os_pipe_in env")
  case None
  with assms(1) show ?thesis by (auto simp: ProcessCIG_def)
next
  case (Some p)
  then obtain in0 in1 where i: "os_pipe_in env = Some (in0, in1)" by (cases p) auto
  with assms(2) obtain out0 out1 where o: "os_pipe_out env = Some (out0, out1)" and f: "0 < os_fork env"
    by (auto simp: pipes_ok_def)
  let ?ws = "parent_writes env out1 (request ep)"
  have q: "sent ?ws = []" "opened ?ws = {#}" "closed ?ws = {#}"
    using quiet_parent_writes [of env out1 "request ep"] by (simp_all only: quiet_def)
  have "trace ep' = trace ep @ ([EvPipe in0 in1, EvPipe out0 out1, EvFork (os_fork env),
      EvClose out0, EvClose in1, EvOut [LF]] @ ?ws @ [EvWait (os_fork env), EvClose in0, EvClose out1])"
    using assms(1) i o f by (auto simp: ProcessCIG_def Let_def split: option.splits)
  with q show ?thesis by (intro exI conjI) (assumption, simp_all)
qed

lemma HandlerError_builds:
  assumes "trace ep = trace ep0 @ evs" "sent evs = []" "opened evs = closed evs"
    and "sock ep = sock ep0" "stop ep = stop ep0" "resp_blank (response ep) = resp_blank (response ep0)"
  shows "builds ep0 (HandlerError env page ep)"
  using assms
  by (auto simp: builds_def HandlerError_def Let_def held_def
      intro!: exI [of _ "evs @ [EvOpen page (os_open env (c_str page))]"])

lemma Helper_frame:
  "resp_blank (response (BuildHttpResponseHelper env ep)) = resp_blank (response ep)"
  by (simp add: BuildHttpResponseHelper_def BuildOkResponse_def HandlerError_def Let_def)

lemma set_code_sel [simp]:
  "request (set_code c ep) = request ep" "sock (set_code c ep) = sock ep" "stop (set_code c ep) = stop ep"
  "trace (set_code c ep) = trace ep" "Status_code (response (set_code c ep)) = c"
  "fd (response (set_code c ep)) = fd (response ep)"
  "Resp_body (response (set_code c ep)) = Resp_body (response ep)"
  "Resp_head (response (set_code c ep)) = Resp_head (response ep)"
  "Status_line (response (set_code c ep)) = Status_line (response ep)"
  "resp_blank (response (set_code c ep)) = resp_blank (response ep)"
  "conn (set_code c ep) = conn ep"
  by (simp_all add: set_code_def)

lemma Helper_error_builds:
  assumes "c \<in> {BAD_REQUSET, NOT_FOUND, SERVER_ERROR}"
    and "trace ep = trace ep0 @ evs" "sent evs = []" "opened evs = closed evs"
    and "sock ep = sock ep0" "stop ep = stop ep0" "resp_blank (response ep) = resp_blank (response ep0)"
  shows "builds ep0 (BuildHttpResponseHelper env (set_code c ep))"
  using assms
  by (auto simp: BuildHttpResponseHelper_def Let_def code_defs
      intro!: HandlerError_builds [of _ ep0 evs])

lemma Helper_ok_builds:
  assumes "trace ep = trace ep0 @ evs" "sent evs = []" "opened evs = closed evs + held ep"
    and "sock ep = sock ep0" "stop ep = stop ep0" "resp_blank (response ep) = resp_blank (response ep0)"
  shows "builds ep0 (BuildHttpResponseHelper env (set_code OK ep))"
  using assms by (auto simp: BuildHttpResponseHelper_def BuildOkResponse_def Let_def builds_def held_def)

lemma BuildHttpResponse_builds:
  assumes "BuildHttpResponse env ep = Some ep'" "pipes_ok env"
  shows "builds ep ep'"
proof (cases "req_method (request ep) \<noteq> ''POST'' \<and> req_method (request ep) \<noteq> ''GET''")
  case True
  let ?ep = "emit [EvLog WARNING ''Requesting method is not right ...''] ep"
  have "ep' = BuildHttpResponseHelper env (set_code BAD_REQUSET ?ep)"
    using assms(1) True by (simp add: BuildHttpResponse_def)
  moreover have "builds ep (BuildHttpResponseHelper env (set_code BAD_REQUSET ?ep))"
    by (rule Helper_error_builds
          [of _ _ _ "[EvLog WARNING ''Requesting method is not right ...'']"]) (simp_all add: code_defs)
  ultimately show ?thesis by simp
next
  case meth: False
  let ?r = "choose_path (request ep)"
  show ?thesis
  proof (cases "stat_path env ?r")
    case None
    let ?ep = "emit [EvLog WARNING (path ?r @ '' Not Found'')] (ep\<lparr>request := ?r\<rparr>)"
    have "ep' = BuildHttpResponseHelper env (set_code NOT_FOUND ?ep)"
      using assms(1) meth None by (simp add: BuildHttpResponse_def Let_def)
    moreover have "builds ep (BuildHttpResponseHelper env (set_code NOT_FOUND ?ep))"
      by (rule Helper_error_builds [of _ _ _ "[EvLog WARNING (path ?r @ '' Not Found'')]"])
         (simp_all add: code_defs)
    ultimately show ?thesis by simp
  next
    case (Some r1)
    let ?ep = "ep\<lparr>request := find_suffix r1\<rparr>"
    show ?thesis
    proof (cases "cgi (request ?ep)")
      case True
      then obtain code ep2 where p: "ProcessCIG env ?ep = Some (code, ep2)"
        and e: "ep' = BuildHttpResponseHelper env (set_code code ep2)"
        using assms(1) meth Some by (auto simp: BuildHttpResponse_def Let_def split: if_splits)
      obtain evs where evs: "trace ep2 = trace ep @ evs" "sent evs = []" "opened evs = closed evs"
        using ProcessCIG_events [OF p assms(2)] by auto
      note fr = ProcessCIG_frame [OF p]
      show ?thesis
      proof (cases "code = OK")
        case ok: True
        have "held ep2 = {#}" using fr(1) True by (simp add: held_def)
        with e ok evs fr show ?thesis by (auto intro!: Helper_ok_builds)
      next
        case False
        then have "code \<in> {BAD_REQUSET, NOT_FOUND, SERVER_ERROR}" using fr(8) by blast
        with e evs fr show ?thesis by (auto intro!: Helper_error_builds)
      qed
    next
      case static: False
      let ?f = "os_open env (c_str (path (request ?ep)))"
      let ?ep2 = "emit [EvOpen (path (request ?ep)) ?f]
        (?ep\<lparr>response := (response ?ep)\<lparr>fd := ?f\<rparr>\<rparr>)"
      have e: "ep' = BuildHttpResponseHelper env (set_code (if 0 \<le> ?f then OK else NOT_FOUND) ?ep2)"
        using assms(1) meth Some static
        by (simp add: BuildHttpResponse_def ProcessNonCIG_def Let_def)
      show ?thesis
      proof (cases "0 \<le> ?f")
        case True
        then have "held ?ep2 = {#?f#}" using static by (simp add: held_def)
        moreover have "builds ep (BuildHttpResponseHelper env (set_code OK ?ep2))"
          by (rule Helper_ok_builds [of _ _ "[EvOpen (path (request ?ep)) ?f]"])
             (use True static in \<open>simp_all add: held_def\<close>)
        ultimately show ?thesis using e True by simp
      next
        case False
        have "builds ep (BuildHttpResponseHelper env (set_code NOT_FOUND ?ep2))"
          by (rule Helper_error_builds [of _ _ _ "[EvOpen (path (request ?ep)) ?f]"])
             (use False in \<open>simp_all add: code_defs\<close>)
        with e False show ?thesis by simp
      qed
    qed
  qed
qed

section \<open>Resources and their paths\<close>

text \<open>The path of a target below the web root, as \<open>choose_path\<close> makes it, and its extension.\<close>

definition root_path :: "string \<Rightarrow> string" where
  "root_path u = (let p = WEB_ROOT @ u in if last p = CHR ''/'' then p @ DEFAUTL_PAGE else p)"

definition extension :: "string \<Rightarrow> string" where
  "extension p = (case rfind_sub ''.'' p of None \<Rightarrow> ''.html'' | Some i \<Rightarrow> drop i p)"

lemma find_suffix_extension: "find_suffix r = r\<lparr>req_suffix := extension (path r)\<rparr>"
  by (simp add: find_suffix_def extension_def split: option.splits)

lemma choose_path_plain:
  assumes "req_method r = ''GET''" "CHR ''?'' \<notin> set (uri r)"
  shows "choose_path r = r\<lparr>path := root_path (uri r)\<rparr>"
  using assms find_sub_char [of "CHR ''?''" "uri r"] by (simp add: choose_path_def root_path_def Let_def)

lemma choose_path_query:
  assumes "req_method r = ''GET''" "uri r = p @ ''?'' @ q" "CHR ''?'' \<notin> set p"
  shows "choose_path r = r\<lparr>path := root_path p, query_string := q, cgi := True\<rparr>"
proof -
  have "find_sub ''?'' (uri r) \<noteq> None" using assms(2) by (simp add: find_sub_char)
  moreover have "CutString (uri r) ''?'' = Some (p, q)"
    using server_cut.cut_char [OF assms(3), of "[]" q] assms(2) by simp
  ultimately show ?thesis using assms(1) by (simp add: choose_path_def root_path_def Let_def)
qed

lemma choose_path_post:
  "req_method r = ''POST'' \<Longrightarrow> choose_path r = r\<lparr>path := root_path (uri r), cgi := True\<rparr>"
  by (simp add: choose_path_def root_path_def Let_def)

lemma choose_path_root: "\<exists>u. path (choose_path r) = root_path u"
  by (simp add: choose_path_def root_path_def Let_def) blast

lemma root_path_dot: "\<exists>cs. root_path u = CHR ''.'' # cs"
  by (auto simp: root_path_def WEB_ROOT_def Let_def)

lemma stat_path_file:
  assumes "os_stat env (c_str (path r)) = Some st" "\<not> st_isdir st"
  shows "stat_path env r = Some (r\<lparr>cgi := cgi r \<or> st_exec st, req_size := int32 (st_size st)\<rparr>)"
  using assms by (simp add: stat_path_def Let_def)

lemma stat_path_suffix_found:
  assumes "stat_path env (choose_path r) = Some r1"
  shows "rfind_sub ''.'' (path r1) \<noteq> None"
proof -
  obtain u cs where "path (choose_path r) = CHR ''.'' # cs"
    using choose_path_root root_path_dot by metis
  then obtain ds where "path r1 = CHR ''.'' # ds"
    using assms by (auto simp: stat_path_def Let_def split: option.splits if_splits)
  then show ?thesis using rfind_sub_head [of "''.''" "CHR ''.''" ds] by (auto simp: prefix_def)
qed

section \<open>Building each kind of response\<close>

lemma Build_method:
  assumes "req_method (request ep) \<noteq> ''POST''" "req_method (request ep) \<noteq> ''GET''"
  shows "BuildHttpResponse env ep = Some (BuildHttpResponseHelper env (set_code BAD_REQUSET
    (emit [EvLog WARNING ''Requesting method is not right ...''] ep)))"
  using assms by (simp add: BuildHttpResponse_def)

lemma Build_missing:
  assumes "req_method (request ep) = ''POST'' \<or> req_method (request ep) = ''GET''"
    and "os_stat env (c_str (path (choose_path (request ep)))) = None"
  shows "BuildHttpResponse env ep = Some (BuildHttpResponseHelper env (set_code NOT_FOUND
    (emit [EvLog WARNING (path (choose_path (request ep)) @ '' Not Found'')]
      (ep\<lparr>request := choose_path (request ep)\<rparr>))))"
  using assms by (auto simp: BuildHttpResponse_def stat_path_def Let_def)

lemma Build_static:
  assumes "req_method (request ep) = ''GET''" "CHR ''?'' \<notin> set (uri (request ep))"
    and "\<not> cgi (request ep)" "os_stat env (c_str (root_path (uri (request ep)))) = Some st"
    and "\<not> st_isdir st" "\<not> st_exec st" "os_open env (c_str (root_path (uri (request ep)))) = f" "0 \<le> f"
  shows "BuildHttpResponse env ep = Some (BuildHttpResponseHelper env (set_code OK
    (emit [EvOpen (root_path (uri (request ep))) f]
      (ep\<lparr>request := (request ep)\<lparr>path := root_path (uri (request ep)), cgi := False,
           req_size := int32 (st_size st), req_suffix := extension (root_path (uri (request ep)))\<rparr>,
         response := (response ep)\<lparr>fd := f\<rparr>\<rparr>))))"
proof -
  let ?p = "root_path (uri (request ep))"
  have "stat_path env (choose_path (request ep)) = Some ((request ep)\<lparr>path := ?p, cgi := False,
      req_size := int32 (st_size st)\<rparr>)"
    using stat_path_file [of env "(request ep)\<lparr>path := ?p\<rparr>" st] assms(3-6)
    by (simp add: choose_path_plain [OF assms(1,2)])
  with assms show ?thesis
    by (simp add: BuildHttpResponse_def Let_def find_suffix_extension ProcessNonCIG_def)
qed

text \<open>
  A request for a program: \<open>R\<close> is the request as \<open>ProcessCIG\<close> sees it.
\<close>

lemma Build_cgi:
  assumes "req_method (request ep) = ''POST'' \<or> req_method (request ep) = ''GET''"
    and "stat_path env (choose_path (request ep)) = Some r1" "cgi r1"
  shows "BuildHttpResponse env ep =
    map_option (\<lambda>(code, ep2). BuildHttpResponseHelper env (set_code code ep2))
      (ProcessCIG env (ep\<lparr>request := r1\<lparr>req_suffix := extension (path r1)\<rparr>\<rparr>))"
  using assms by (auto simp: BuildHttpResponse_def Let_def find_suffix_extension)

text \<open>The run of a program: its input, its output and the code its status gives.\<close>

definition cgi_events :: "os_env \<Rightarrow> int \<Rightarrow> int \<Rightarrow> int \<Rightarrow> int \<Rightarrow> HttpRequest \<Rightarrow> event list" where
  "cgi_events env in0 in1 out0 out1 r =
     [EvPipe in0 in1, EvPipe out0 out1, EvFork (os_fork env), EvClose out0, EvClose in1, EvOut [LF]]
       @ parent_writes env out1 r @ [EvWait (os_fork env), EvClose in0, EvClose out1]"

lemma ProcessCIG_run:
  assumes "os_pipe_in env = Some (in0, in1)" "os_pipe_out env = Some (out0, out1)" "0 < os_fork env"
    and "run_proc (cgi_child env (request ep)) (written (parent_writes env out1 (request ep)))
      = Some (out, st)"
  shows "ProcessCIG env ep = Some (exit_code env st,
    emit (cgi_events env in0 in1 out0 out1 (request ep))
      (ep\<lparr>response := (response ep)\<lparr>Resp_body := Resp_body (response ep) @ out\<rparr>\<rparr>))"
  using assms by (simp add: ProcessCIG_def Let_def cgi_events_def emit_def)

lemma ProcessCIG_blocked:
  assumes "os_pipe_in env = Some (in0, in1)" "os_pipe_out env = Some (out0, out1)" "0 < os_fork env"
    and "run_proc (cgi_child env (request ep)) (written (parent_writes env out1 (request ep))) = None"
  shows "ProcessCIG env ep = None"
  using assms by (simp add: ProcessCIG_def Let_def)

lemma stat_path_below_root:
  assumes "stat_path env (choose_path r) = Some r1"
  shows "prefix WEB_ROOT (path r1)"
proof -
  obtain u where "path (choose_path r) = root_path u" using choose_path_root by blast
  moreover have "prefix WEB_ROOT (root_path u)" by (simp add: root_path_def Let_def)
  ultimately show ?thesis
    using assms by (auto simp: stat_path_def Let_def split: option.splits if_splits)
qed

section \<open>Properties\<close>

text \<open>The parent's write loop delivers the whole body of a POST request to the program, in
  order and nothing else, however few bytes each \<open>write\<close> to the pipe takes; a GET request
  sends the program nothing.\<close>

theorem body_reaches_program:
  assumes "write_progress env" "content_length r = int (length (Req_body r))"
  shows "written (parent_writes env pfd r) = (if req_method r = ''POST'' then Req_body r else [])"
  by (rule written_parent_writes [OF assms])

definition slow_env :: os_env where
  "slow_env = \<lparr>os_stat = \<lambda>_. None, os_open = \<lambda>_. -1, os_pipe_in = Some (5, 6), os_pipe_out = Some (7, 8),
     os_fork = -1, os_exec = \<lambda>_. None, os_environ = Map.empty, os_write = \<lambda>n. if n = 0 then 0 else 1,
     os_waitpid_ok = True, os_send = int, os_unflushed = [],
     os_stack_stat = \<lparr>st_isdir = False, st_exec = False, st_size = 0\<rparr>\<rparr>"

theorem body_reaches_program_witness:
  "written (parent_writes slow_env 8 ((HttpRequest_new 0)\<lparr>req_method := ''POST'', Req_body := ''a=1&b=2'',
      content_length := 7\<rparr>)) = ''a=1&b=2''"
proof -
  have "write_progress slow_env" by (simp add: write_progress_def slow_env_def)
  from body_reaches_program [OF this, of "(HttpRequest_new 0)\<lparr>req_method := ''POST'',
      Req_body := ''a=1&b=2'', content_length := 7\<rparr>" 8]
  show ?thesis by simp
qed

text \<open>C20: What becomes of a program's run: its output is appended to the response body, and the
  status is 200 for exit code 0, 400 for any other exit code and 500 where a signal killed
  it; a program that cannot be executed counts as exit code 1, so as 400.\<close>

theorem cgi_result:
  assumes "os_pipe_in env = Some (in0, in1)" "os_pipe_out env = Some (out0, out1)" "0 < os_fork env"
    and "os_waitpid_ok env"
    and "case os_exec env (c_str (path (request ep))) of
           Some prog \<Rightarrow> run_proc (prog (cgi_environment env (request ep)))
             (written (parent_writes env out1 (request ep))) = Some (out, status)
         | None \<Rightarrow> out = os_unflushed env \<and> status = Exited 1"
  shows "\<exists>ep'. ProcessCIG env ep = Some (case status of Signaled _ \<Rightarrow> 500 | Exited n \<Rightarrow> if n = 0 then 200 else 400, ep')
    \<and> Resp_body (response ep') = Resp_body (response ep) @ out \<and> request ep' = request ep
    \<and> fd (response ep') = fd (response ep)"
proof -
  have "run_proc (cgi_child env (request ep)) (written (parent_writes env out1 (request ep))) = Some (out, status)"
    using assms(5) by (simp add: cgi_child_def split: option.splits)
  from ProcessCIG_run [OF assms(1-3) this] assms(4) show ?thesis
    by (auto simp: exit_code_def code_defs split: wstatus.splits)
qed

theorem cgi_result_witness:
  "\<exists>ep'. ProcessCIG (slow_env\<lparr>os_fork := 9, os_exec := \<lambda>_. Some (\<lambda>e. PWrite ''x'' (PKilled 8))\<rparr>)
      (EndPoint_new 0 4 \<lparr>inbuf = [], ending = Closed\<rparr>) = Some (500, ep') \<and> Resp_body (response ep') = ''x''"
  using cgi_result [where env = "slow_env\<lparr>os_fork := 9, os_exec := \<lambda>_. Some (\<lambda>e. PWrite ''x'' (PKilled 8))\<rparr>"
      and ?in0.0 = 5 and ?in1.0 = 6 and ?out0.0 = 7 and ?out1.0 = 8
      and ep = "EndPoint_new 0 4 \<lparr>inbuf = [], ending = Closed\<rparr>" and out = "''x''" and status = "Signaled 8"]
  by (auto simp: slow_env_def EndPoint_new_def HttpResponse_new_def)

text \<open>When \<open>fork\<close> fails, \<open>ProcessCIG\<close> returns 404 and leaves all four ends of its two
  pipes open: every such request costs the server four descriptors.\<close>

theorem fork_failure_leaks:
  assumes "os_pipe_in env = Some (in0, in1)" "os_pipe_out env = Some (out0, out1)" "os_fork env < 0"
  shows "\<exists>ep'. ProcessCIG env ep = Some (404, ep')
    \<and> opened (trace ep') = opened (trace ep) + {#in0, in1, out0, out1#}
    \<and> closed (trace ep') = closed (trace ep)"
proof -
  have "\<not> 0 < os_fork env" using assms(3) by simp
  then have "ProcessCIG env ep = Some (404,
      emit [EvPipe in0 in1, EvPipe out0 out1, EvLog ERROR ''fork error''] ep)"
    by (simp add: ProcessCIG_def assms(1,2))
  then show ?thesis by simp
qed

theorem fork_failure_leaks_witness:
  "\<exists>ep'. ProcessCIG slow_env (EndPoint_new 0 4 \<lparr>inbuf = [], ending = Closed\<rparr>) = Some (404, ep')
    \<and> opened (trace ep') = {#5, 6, 7, 8#} \<and> closed (trace ep') = {#}"
  using fork_failure_leaks [of slow_env 5 6 7 8 "EndPoint_new 0 4 \<lparr>inbuf = [], ending = Closed\<rparr>"]
  by (simp add: slow_env_def EndPoint_new_def)

text \<open>Every resource path begins with the dot of \<open>./wwwroot\<close>, so the search for the last
  dot always succeeds: the default suffix is never chosen, and a target without a dot gets
  the whole path from \<open>./wwwroot\<close> on as its suffix and \<open>text/html\<close> by the fallback of
  \<open>Suffix2Desc\<close> instead.\<close>

theorem suffix_always_found:
  assumes "stat_path env (choose_path r) = Some r1"
  shows "rfind_sub ''.'' (path r1) \<noteq> None
    \<and> (CHR ''.'' \<notin> set (tl (path r1)) \<longrightarrow> req_suffix (find_suffix r1) = path r1
          \<and> Suffix2Desc (req_suffix (find_suffix r1)) = ''text/html'')"
proof (intro conjI impI)
  show "rfind_sub ''.'' (path r1) \<noteq> None" by (rule stat_path_suffix_found [OF assms])
  assume nd: "CHR ''.'' \<notin> set (tl (path r1))"
  obtain p where p: "path r1 = WEB_ROOT @ p" using stat_path_below_root [OF assms] by (auto simp: prefix_def)
  then have c: "path r1 = CHR ''.'' # tl (path r1)" by (simp add: WEB_ROOT_def)
  with rfind_sub_last [OF nd, of "[]"] have "rfind_sub ''.'' (path r1) = Some 0" by simp
  then show s: "req_suffix (find_suffix r1) = path r1" by (simp add: find_suffix_def)
  have "path r1 \<notin> fst ` set suffix2desc" using p by (auto simp: suffix2desc_def WEB_ROOT_def)
  then show "Suffix2Desc (req_suffix (find_suffix r1)) = ''text/html''"
    unfolding s by (rule Suffix2Desc_default)
qed

definition plain_env :: os_env where
  "plain_env = slow_env\<lparr>os_stat := \<lambda>_. Some \<lparr>st_isdir = False, st_exec = False, st_size = 3\<rparr>\<rparr>"

theorem suffix_always_found_witness:
  "\<exists>r1. stat_path plain_env (choose_path ((HttpRequest_new 0)\<lparr>req_method := ''GET'', uri := ''/README''\<rparr>)) = Some r1
    \<and> req_suffix (find_suffix r1) = ''./wwwroot/README''"
proof -
  let ?r = "(HttpRequest_new 0)\<lparr>req_method := ''GET'', uri := ''/README''\<rparr>"
  have "choose_path ?r = ?r\<lparr>path := ''./wwwroot/README''\<rparr>"
    by (subst choose_path_plain) (simp_all add: root_path_def WEB_ROOT_def Let_def)
  then have s: "stat_path plain_env (choose_path ?r)
      = Some (?r\<lparr>path := ''./wwwroot/README'', cgi := False, req_size := 3\<rparr>)"
    by (simp add: stat_path_def plain_env_def Let_def HttpRequest_new_def int32_def)
  from suffix_always_found [OF s] s show ?thesis by simp
qed

text \<open>
  What makes a response well formed: a status of the protocol, the status line that announces
  it, header lines and a blank line that end in CRLF.
\<close>

definition wf_response :: "HttpResponse \<Rightarrow> bool" where
  "wf_response r \<longleftrightarrow>
     Status_code r \<in> {OK, BAD_REQUSET, NOT_FOUND, SERVER_ERROR}
   \<and> Status_line r = HTTP_VERSION @ '' '' @ to_string (Status_code r) @ '' '' @ Code2Desc (Status_code r) @ CRLF
   \<and> list_all (\<lambda>h. drop (length h - 2) h = CRLF) (Resp_head r) \<and> resp_blank r = CRLF"

lemma CRLF_end: "drop (length (a @ CRLF) - 2) (a @ CRLF) = CRLF"
  by simp

lemma CRLF_ends: "list_all (\<lambda>h. drop (length h - 2) h = CRLF) [a @ b @ CRLF, c @ d @ CRLF]"
  using CRLF_end [of "a @ b"] CRLF_end [of "c @ d"] by (simp only: append_assoc list.pred_inject simp_thms)

lemma Helper_wf:
  assumes "c \<in> {OK, BAD_REQUSET, NOT_FOUND, SERVER_ERROR}" "Status_line (response ep) = []"
    "Resp_head (response ep) = []" "resp_blank (response ep) = CRLF"
  shows "wf_response (response (BuildHttpResponseHelper env (set_code c ep)))"
proof -
  have code: "Status_code (response (BuildHttpResponseHelper env (set_code c ep))) = c"
    by (simp add: BuildHttpResponseHelper_def BuildOkResponse_def HandlerError_def Let_def)
  have line: "Status_line (response (BuildHttpResponseHelper env (set_code c ep)))
      = HTTP_VERSION @ '' '' @ to_string c @ '' '' @ Code2Desc c @ CRLF"
    using assms(2) by (simp add: BuildHttpResponseHelper_def BuildOkResponse_def HandlerError_def Let_def)
  have "Resp_head (response (BuildHttpResponseHelper env (set_code c ep))) = []
    \<or> (\<exists>a b x d. Resp_head (response (BuildHttpResponseHelper env (set_code c ep))) = [a @ b @ CRLF, x @ d @ CRLF])"
    using assms(3) by (auto simp: BuildHttpResponseHelper_def BuildOkResponse_def HandlerError_def Let_def)
  then have "list_all (\<lambda>h. drop (length h - 2) h = CRLF)
      (Resp_head (response (BuildHttpResponseHelper env (set_code c ep))))"
    using CRLF_ends by (elim disjE exE) simp_all
  then show ?thesis
    using assms(1,4) unfolding wf_response_def code line by (simp add: Helper_frame)
qed

text \<open>Every way through \<open>BuildHttpResponse\<close> ends in the helper, with one of the four codes.\<close>

lemma BuildHttpResponse_by_helper:
  assumes "BuildHttpResponse env ep = Some ep'"
  obtains c ep2 where "ep' = BuildHttpResponseHelper env (set_code c ep2)"
    "c \<in> {OK, BAD_REQUSET, NOT_FOUND, SERVER_ERROR}"
    "Status_line (response ep2) = Status_line (response ep)" "Resp_head (response ep2) = Resp_head (response ep)"
    "resp_blank (response ep2) = resp_blank (response ep)"
proof (cases "req_method (request ep) \<noteq> ''POST'' \<and> req_method (request ep) \<noteq> ''GET''")
  case True
  show ?thesis
    by (rule that [of BAD_REQUSET "emit [EvLog WARNING ''Requesting method is not right ...''] ep"]) (use assms True in \<open>auto simp: BuildHttpResponse_def\<close>)
next
  case meth: False
  let ?r = "choose_path (request ep)"
  show ?thesis
  proof (cases "stat_path env ?r")
    case None
    show ?thesis
      by (rule that [of NOT_FOUND "emit [EvLog WARNING (path ?r @ '' Not Found'')] (ep\<lparr>request := ?r\<rparr>)"]) (use assms meth None in \<open>auto simp: BuildHttpResponse_def Let_def\<close>)
  next
    case (Some r1)
    let ?ep = "ep\<lparr>request := find_suffix r1\<rparr>"
    show ?thesis
    proof (cases "cgi (request ?ep)")
      case True
      then obtain code ep2 where p: "ProcessCIG env ?ep = Some (code, ep2)"
        and e: "ep' = BuildHttpResponseHelper env (set_code code ep2)"
        using assms meth Some by (auto simp: BuildHttpResponse_def Let_def split: if_splits)
      show ?thesis by (rule that [OF e]) (use ProcessCIG_frame [OF p] in simp_all)
    next
      case False
      obtain code ep2 where p: "ProcessNonCIG env ?ep = (code, ep2)" by force
      show ?thesis
        by (rule that [of code ep2])
          (use assms meth Some False p in \<open>auto simp: BuildHttpResponse_def ProcessNonCIG_def Let_def split: if_splits\<close>)
    qed
  qed
qed

text \<open>C30: every response that is built from a new one is well formed: its status is one of the
  four of the protocol, its status line announces it with its description and ends in CRLF,
  as do its header lines and the blank line, whatever the request, the file system and the
  program.\<close>

theorem response_wellformed:
  assumes "response ep = HttpResponse_new" and "BuildHttpResponse env ep = Some ep'"
  shows "wf_response (response ep')"
  using assms(2)
proof (rule BuildHttpResponse_by_helper)
  fix c ep2
  assume "ep' = BuildHttpResponseHelper env (set_code c ep2)" "c \<in> {OK, BAD_REQUSET, NOT_FOUND, SERVER_ERROR}"
    "Status_line (response ep2) = Status_line (response ep)" "Resp_head (response ep2) = Resp_head (response ep)"
    "resp_blank (response ep2) = resp_blank (response ep)"
  then show ?thesis using Helper_wf [of c ep2 env] assms(1) by (simp add: HttpResponse_new_def)
qed

theorem response_wellformed_witness:
  "\<exists>ep'. BuildHttpResponse plain_env (EndPoint_new 0 4 \<lparr>inbuf = [], ending = Closed\<rparr>) = Some ep'
    \<and> wf_response (response ep')"
proof -
  let ?ep = "EndPoint_new 0 4 \<lparr>inbuf = [], ending = Closed\<rparr>"
  obtain ep' where b: "BuildHttpResponse plain_env ?ep = Some ep'"
    by (simp add: BuildHttpResponse_def EndPoint_new_def HttpRequest_new_def)
  moreover have "response ?ep = HttpResponse_new" by (simp add: EndPoint_new_def)
  ultimately show ?thesis using response_wellformed by blast
qed

end
