(* ===== verification/Web_Send.thy ===== *)
theory Web_Send
  imports Web_Build
begin

text \<open>
  The sending half of \<open>EndPoint\<close> and the handler that runs a connection from its first byte
  to its close (\<open>CallBack\<close> of Protocol.hpp, \<open>Task\<close> of Task.hpp).
\<close>

section \<open>Sending\<close>

text \<open>One call of \<open>send\<close>: the bytes the system takes, nothing on an error.\<close>

definition sys_send :: "os_env \<Rightarrow> int \<Rightarrow> string \<Rightarrow> event" where
  "sys_send env s str = EvSend s (take (nat (os_send env (length str))) str)"

text \<open>
  The loop over the body of a CGI response. Its condition assigns
  \<open>size = send(...) > 0\<close>, that is the truth value of the comparison, so \<open>total\<close> advances by
  one however many bytes were sent.
\<close>

function send_body :: "os_env \<Rightarrow> int \<Rightarrow> string \<Rightarrow> nat \<Rightarrow> event list" where
  "send_body env s body tot =
     (if tot < length body then
        (let size = (if 0 < os_send env (length body - tot) then 1 else 0)
         in if size \<noteq> 0
            then sys_send env s (drop tot body) # send_body env s body (tot + size)
            else [])
      else [])"
  by pat_completeness auto
termination
  by (relation "measure (\<lambda>(env, s, body, tot). length body - tot)") (auto split: if_splits)

declare send_body.simps [simp del]

definition SendHttpResquese :: "os_env \<Rightarrow> EndPoint \<Rightarrow> EndPoint" where
  "SendHttpResquese env ep =
     emit (sys_send env (sock ep) (Status_line (response ep))
           # map (sys_send env (sock ep)) (Resp_head (response ep))
           @ [sys_send env (sock ep) (resp_blank (response ep))]
           @ (if cgi (request ep) then send_body env (sock ep) (Resp_body (response ep)) 0
              else [EvSendfile (sock ep) (fd (response ep)) (req_size (request ep)),
                    EvClose (fd (response ep))])) ep"

section \<open>The handler\<close>

text \<open>
  \<open>HandlerRequest\<close> for a connection that delivers \<open>st\<close>: the trace of everything it did,
  \<open>None\<close> when it never comes to an end.
\<close>

definition HandlerRequest ::
    "os_env \<Rightarrow> (EndPoint \<Rightarrow> bool) \<Rightarrow> int \<Rightarrow> int \<Rightarrow> stream \<Rightarrow> event list option" where
  "HandlerRequest env indet junk s st =
     (case RecvHttpRequest indet (EndPoint_new junk s st) of
        None \<Rightarrow> None
      | Some ep \<Rightarrow>
          map_option (\<lambda>ep'. trace (emit [EvLog INFO ''Handler request end ...'', EvClose s] ep'))
            (if \<not> IsStop ep then
               map_option (SendHttpResquese env)
                 (BuildHttpResponse env
                   (emit [EvLog INFO ''Recv No Error, Begin Build And Send ...''] ep))
             else Some (emit [EvLog WARNING ''Recv Error ,Delete Build And Send ...''] ep)))"

record Task =
  task_sock :: int

definition ProcessOn ::
    "os_env \<Rightarrow> (EndPoint \<Rightarrow> bool) \<Rightarrow> int \<Rightarrow> Task \<Rightarrow> stream \<Rightarrow> event list option" where
  "ProcessOn env indet junk t st = HandlerRequest env indet junk (task_sock t) st"

section \<open>What sending puts on the wire\<close>

text \<open>A system that takes every message whole, as \<open>send\<close> on a blocking socket does in general.\<close>

definition full_send :: "os_env \<Rightarrow> bool" where
  "full_send env \<longleftrightarrow> (\<forall>n. os_send env n = int n)"

lemma sys_send_full: "full_send env \<Longrightarrow> sys_send env s str = EvSend s str"
  by (simp add: sys_send_def full_send_def)

lemma opened_sys_send [simp]: "opened1 (sys_send env s str) = {#}" "closed1 (sys_send env s str) = {#}"
  by (simp_all add: sys_send_def)

lemma fds_send_body [simp]: "opened (send_body env s body tot) = {#} \<and> closed (send_body env s body tot) = {#}"
proof (induction env s body tot rule: send_body.induct)
  case (1 env s body tot)
  then show ?case by (subst (1 2) send_body.simps) (simp add: Let_def)
qed

lemma send_body_full:
  assumes "full_send env"
  shows "send_body env s body tot = map (\<lambda>i. EvSend s (drop i body)) [tot..<length body]"
proof (induction "length body - tot" arbitrary: tot)
  case 0
  then show ?case by (subst send_body.simps) simp
next
  case (Suc n)
  then have lt: "tot < length body" by simp
  then have "0 < os_send env (length body - tot)" using assms by (simp add: full_send_def)
  then have "send_body env s body tot = EvSend s (drop tot body) # send_body env s body (tot + 1)"
    using lt sys_send_full [OF assms] by (subst send_body.simps) simp
  moreover have "send_body env s body (tot + 1) = map (\<lambda>i. EvSend s (drop i body)) [tot + 1..<length body]"
    using Suc.hyps(2) by (intro Suc.hyps(1)) simp
  ultimately show ?case using lt by (simp add: upt_conv_Cons)
qed

lemma sent_map_EvSend [simp]: "sent (map (\<lambda>x. EvSend s (f x)) xs) = concat (map f xs)"
  by (induction xs) simp_all

lemma SendHttpResquese_frame [simp]:
  "sock (SendHttpResquese env ep) = sock ep" "request (SendHttpResquese env ep) = request ep"
  "response (SendHttpResquese env ep) = response ep"
  by (simp_all add: SendHttpResquese_def)

lemma opened_map_sys_send [simp]:
  "opened (map (sys_send env s) xs) = {#}" "closed (map (sys_send env s) xs) = {#}"
  by (induction xs) simp_all

lemma SendHttpResquese_fds:
  "\<exists>evs bad. trace (SendHttpResquese env ep) = trace ep @ evs \<and> opened evs = {#} \<and> closed evs = held ep + bad
    \<and> (\<forall>f \<in># bad. f < 0)"
  by (auto simp: SendHttpResquese_def held_def)

section \<open>The handler\<close>

lemma EndPoint_new_sel [simp]:
  "sock (EndPoint_new junk s st) = s" "stop (EndPoint_new junk s st) = False"
  "conn (EndPoint_new junk s st) = st" "trace (EndPoint_new junk s st) = []"
  "response (EndPoint_new junk s st) = HttpResponse_new"
  "request (EndPoint_new junk s st) = HttpRequest_new junk"
  by (simp_all add: EndPoint_new_def)

lemma HandlerRequest_stop:
  assumes "RecvHttpRequest indet (EndPoint_new junk s st) = Some ep" "stop ep"
  shows "HandlerRequest env indet junk s st = Some (trace ep @
    [EvLog WARNING ''Recv Error ,Delete Build And Send ...'',
     EvLog INFO ''Handler request end ...'', EvClose s])"
  using assms by (simp add: HandlerRequest_def IsStop_def)

lemma HandlerRequest_go:
  assumes "RecvHttpRequest indet (EndPoint_new junk s st) = Some ep" "\<not> stop ep"
  shows "HandlerRequest env indet junk s st =
    map_option (\<lambda>ep'. trace (SendHttpResquese env ep') @ [EvLog INFO ''Handler request end ...'', EvClose s])
      (BuildHttpResponse env (emit [EvLog INFO ''Recv No Error, Begin Build And Send ...''] ep))"
  using assms by (simp add: HandlerRequest_def IsStop_def option.map_comp comp_def)

lemma recv_new:
  assumes "RecvHttpRequest indet (EndPoint_new junk s st) = Some ep"
  shows "sock ep = s" "response ep = HttpResponse_new" "quiet (trace ep)" "cgi (request ep) = False"
    and "query_string (request ep) = []"
  using same_outside_RecvHttpRequest [OF assms]
  by (auto simp: same_outside_def HttpRequest_new_def)

lemma HandlerRequest_fds:
  assumes "HandlerRequest env indet junk s st = Some tr" "pipes_ok env"
  shows "\<exists>bad. closed tr = opened tr + {#s#} + bad \<and> (\<forall>f \<in># bad. f < 0)"
proof -
  obtain ep where r: "RecvHttpRequest indet (EndPoint_new junk s st) = Some ep"
    using assms(1) by (auto simp: HandlerRequest_def split: option.splits)
  have q: "opened (trace ep) = {#}" "closed (trace ep) = {#}"
    using recv_new(3) [OF r] by (simp_all add: quiet_def)
  show ?thesis
  proof (cases "stop ep")
    case True
    with HandlerRequest_stop [OF r] assms(1) q have "closed tr = opened tr + {#s#} + {#}" by auto
    then show ?thesis by (metis empty_iff set_mset_empty)
  next
    case False
    obtain ep' where b: "BuildHttpResponse env
        (emit [EvLog INFO ''Recv No Error, Begin Build And Send ...''] ep) = Some ep'"
      and tr: "tr = trace (SendHttpResquese env ep') @ [EvLog INFO ''Handler request end ...'', EvClose s]"
      using HandlerRequest_go [OF r False] assms(1) by auto
    obtain evs where evs: "trace ep' = (trace ep @ [EvLog INFO ''Recv No Error, Begin Build And Send ...'']) @ evs"
      "opened evs = closed evs + held ep'"
      using BuildHttpResponse_builds [OF b assms(2)] by (auto simp: builds_def)
    obtain evs' bad where evs': "trace (SendHttpResquese env ep') = trace ep' @ evs'" "opened evs' = {#}"
      "closed evs' = held ep' + bad" "\<forall>f \<in># bad. f < 0" using SendHttpResquese_fds by blast
    from tr evs evs'(1-3) q have "closed tr = opened tr + {#s#} + bad" by simp
    with evs'(4) show ?thesis by blast
  qed
qed

section \<open>Responses\<close>

definition status_text :: "int \<Rightarrow> string" where
  "status_text code = HTTP_VERSION @ '' '' @ to_string code @ '' '' @ Code2Desc code @ CRLF"

definition header_texts :: "string \<Rightarrow> int \<Rightarrow> string list" where
  "header_texts ctype len =
     [''Content-Type: '' @ ctype @ CRLF, ''Content-Length: '' @ to_string len @ CRLF]"

definition error_page :: string where
  "error_page = WEB_ROOT @ ''/'' @ PAGE_404"

lemma error_page_NUL: "c_str error_page = error_page"
  by (rule c_str_id) (simp add: error_page_def web_defs)

text \<open>What the peer receives for an error, when the error page can be opened.\<close>

definition error_events :: "int \<Rightarrow> int \<Rightarrow> int \<Rightarrow> int \<Rightarrow> event list" where
  "error_events s code f len =
     EvOpen error_page f
       # map (EvSend s) (status_text code # header_texts ''text/html'' len @ [CRLF])
       @ [EvSendfile s f (int32 len), EvClose f]"

definition page_ok :: "os_env \<Rightarrow> int \<Rightarrow> int \<Rightarrow> bool" where
  "page_ok env f len \<longleftrightarrow> os_open env error_page = f \<and> 0 < f
     \<and> (\<exists>st. os_stat env error_page = Some st \<and> st_size st = len)"

lemma Send_Helper_error:
  assumes "full_send env" "page_ok env f len" "c \<in> {BAD_REQUSET, NOT_FOUND, SERVER_ERROR}"
    and "Status_line (response ep) = []" "Resp_head (response ep) = []" "resp_blank (response ep) = CRLF"
  shows "trace (SendHttpResquese env (BuildHttpResponseHelper env (set_code c ep)))
    = trace ep @ error_events (sock ep) c f len"
proof -
  have "BuildHttpResponseHelper env (set_code c ep) = HandlerError env error_page
      (ep\<lparr>response := (response ep)\<lparr>Status_code := c, Status_line := status_text c\<rparr>\<rparr>)"
    using assms(3,4)
    by (auto simp: BuildHttpResponseHelper_def Let_def code_defs status_text_def error_page_def set_code_def)
  then show ?thesis
    using assms(2,5,6) sys_send_full [OF assms(1)]
    by (auto simp: HandlerError_def error_page_NUL page_ok_def Let_def SendHttpResquese_def
        error_events_def header_texts_def)
qed

lemma Send_Helper_static:
  assumes "full_send env" "\<not> cgi (request ep)"
    and "Status_line (response ep) = []" "Resp_head (response ep) = []" "resp_blank (response ep) = CRLF"
  shows "trace (SendHttpResquese env (BuildHttpResponseHelper env (set_code OK ep)))
    = trace ep @ map (EvSend (sock ep)) (status_text OK
        # header_texts (Suffix2Desc (req_suffix (request ep))) (req_size (request ep)) @ [CRLF])
      @ [EvSendfile (sock ep) (fd (response ep)) (req_size (request ep)), EvClose (fd (response ep))]"
  using assms sys_send_full [OF assms(1)]
  by (simp add: BuildHttpResponseHelper_def BuildOkResponse_def Let_def SendHttpResquese_def
      status_text_def header_texts_def code_defs)

lemma Send_Helper_cgi:
  assumes "full_send env" "cgi (request ep)"
    and "Status_line (response ep) = []" "Resp_head (response ep) = []" "resp_blank (response ep) = CRLF"
  shows "trace (SendHttpResquese env (BuildHttpResponseHelper env (set_code OK ep)))
    = trace ep @ map (EvSend (sock ep)) (status_text OK
        # header_texts (Suffix2Desc (req_suffix (request ep))) (int (length (Resp_body (response ep)))) @ [CRLF])
      @ map (\<lambda>i. EvSend (sock ep) (drop i (Resp_body (response ep)))) [0..<length (Resp_body (response ep))]"
  using assms sys_send_full [OF assms(1)] send_body_full [OF assms(1)]
  by (simp add: BuildHttpResponseHelper_def BuildOkResponse_def Let_def SendHttpResquese_def
      status_text_def header_texts_def code_defs)

section \<open>Whole requests\<close>

lemma HttpResponse_new_sel [simp]:
  "Status_line HttpResponse_new = []" "Resp_head HttpResponse_new = []" "resp_blank HttpResponse_new = CRLF"
  "Resp_body HttpResponse_new = []" "fd HttpResponse_new = -1"
  by (simp_all add: HttpResponse_new_def)

definition request_logs :: "string \<Rightarrow> string \<Rightarrow> string \<Rightarrow> (string \<times> string) list \<Rightarrow> event list" where
  "request_logs m u v kvs = map (EvLog INFO) (request_line m u v # map header_line kvs)
     @ [EvLog INFO ''Recv No Error, Begin Build And Send ...'']"

definition closing :: "int \<Rightarrow> event list" where
  "closing s = [EvLog INFO ''Handler request end ...'', EvClose s]"

lemma parsed_new [simp]:
  "sock (parsed m u v kvs st ep) = sock ep" "response (parsed m u v kvs st ep) = response ep"
  "cgi (request (parsed m u v kvs st ep)) = cgi (request ep)"
  "trace (parsed m u v kvs st ep) = trace ep @ map (EvLog INFO) (request_line m u v # map header_line kvs)"
  by (simp_all add: parsed_def)

lemma HttpRequest_new_sel [simp]:
  "cgi (HttpRequest_new junk) = False" "Req_body (HttpRequest_new junk) = []"
  "query_string (HttpRequest_new junk) = []" "content_length (HttpRequest_new junk) = 0"
  "req_method (HttpRequest_new junk) = []"
  by (simp_all add: HttpRequest_new_def)

text \<open>The end point when building starts, for a request without and with a body.\<close>

definition to_build :: "string \<Rightarrow> string \<Rightarrow> string \<Rightarrow> (string \<times> string) list \<Rightarrow> stream \<Rightarrow> EndPoint \<Rightarrow> EndPoint" where
  "to_build m u v kvs st ep =
     emit [EvLog INFO ''Recv No Error, Begin Build And Send ...''] (parsed m u v kvs st ep)"

definition arrives :: "string \<Rightarrow> ending \<Rightarrow> stream" where
  "arrives bs e = \<lparr>inbuf = bs, ending = e\<rparr>"

lemma with_bytes_arrives [simp]: "with_bytes bs (arrives bs' e) = arrives bs e"
  by (simp add: arrives_def with_bytes_def)

lemma Handler_no_body:
  assumes "request_ok nl m u v kvs" "\<forall>e. \<not> indet e"
    and "map toupper m \<noteq> ''POST'' \<or> map_of kvs ''Content-Length'' = None"
  shows "HandlerRequest env indet junk s (arrives (request_head_bytes nl m u v kvs @ r) e) =
    map_option (\<lambda>ep'. trace (SendHttpResquese env ep') @ closing s)
      (BuildHttpResponse env (to_build m u v kvs (arrives r e)
        (EndPoint_new junk s (arrives (request_head_bytes nl m u v kvs @ r) e))))"
proof -
  let ?ep = "EndPoint_new junk s (arrives (request_head_bytes nl m u v kvs @ r) e)"
  have c: "conn ?ep = with_bytes (request_head_bytes nl m u v kvs @ r) (arrives [] e)" by simp
  have "RecvHttpRequest indet ?ep = Some (parsed m u v kvs (arrives r e) ?ep)"
    using RecvHttpRequest_no_body [OF assms(1,2) fresh_new c assms(3)] by simp
  from HandlerRequest_go [OF this] show ?thesis by (simp add: to_build_def closing_def)
qed

lemma with_body_sel [simp]:
  "sock (with_body b st ep) = sock ep" "response (with_body b st ep) = response ep"
  "stop (with_body b st ep) = stop ep" "trace (with_body b st ep) = trace ep" "conn (with_body b st ep) = st"
  "request (with_body b st ep) = (request ep)\<lparr>content_length := int (length b), Req_body := b\<rparr>"
  "emit l (with_body b st ep) = with_body b st (emit l ep)"
  by (simp_all add: with_body_def emit_def)

lemma Handler_body:
  assumes "request_ok nl m u v kvs" "\<forall>e. \<not> indet e"
    and "map toupper m = ''POST''" "map_of kvs ''Content-Length'' = Some cl" "atoi cl = int (length b)"
  shows "HandlerRequest env indet junk s (arrives (request_head_bytes nl m u v kvs @ b @ r) e) =
    map_option (\<lambda>ep'. trace (SendHttpResquese env ep') @ closing s)
      (BuildHttpResponse env (with_body b (arrives r e) (to_build m u v kvs (arrives (b @ r) e)
        (EndPoint_new junk s (arrives (request_head_bytes nl m u v kvs @ b @ r) e)))))"
proof -
  let ?ep = "EndPoint_new junk s (arrives (request_head_bytes nl m u v kvs @ b @ r) e)"
  have c: "conn ?ep = with_bytes (request_head_bytes nl m u v kvs @ b @ r) (arrives [] e)" by simp
  have r: "RecvHttpRequest indet ?ep = Some (with_body b (arrives r e) (parsed m u v kvs (arrives (b @ r) e) ?ep))"
    using RecvHttpRequest_post [OF assms(1,2) fresh_new c assms(3-5)] by simp
  from HandlerRequest_go [OF r] show ?thesis by (simp add: to_build_def closing_def)
qed

lemma to_build_new [simp]:
  "sock (to_build m u v kvs st ep) = sock ep" "response (to_build m u v kvs st ep) = response ep"
  "cgi (request (to_build m u v kvs st ep)) = cgi (request ep)"
  "req_method (request (to_build m u v kvs st ep)) = map toupper m"
  "uri (request (to_build m u v kvs st ep)) = u"
  "trace (to_build m u v kvs st ep) = trace ep @ request_logs m u v kvs"
  "Req_body (request (to_build m u v kvs st ep)) = Req_body (request ep)"
  by (simp_all add: to_build_def request_logs_def)

lemma Handler_static:
  assumes env: "full_send env" and req: "request_ok nl m u v kvs" "\<forall>e. \<not> indet e"
    and meth: "map toupper m = ''GET''" "CHR ''?'' \<notin> set u"
    and res: "os_stat env (c_str (root_path u)) = Some st" "\<not> st_isdir st" "\<not> st_exec st"
      "os_open env (c_str (root_path u)) = f" "0 \<le> f"
  shows "HandlerRequest env indet junk s (arrives (request_head_bytes nl m u v kvs @ r) e) = Some
    (request_logs m u v kvs @ [EvOpen (root_path u) f]
     @ map (EvSend s) (status_text OK
         # header_texts (Suffix2Desc (extension (root_path u))) (int32 (st_size st)) @ [CRLF])
     @ [EvSendfile s f (int32 (st_size st)), EvClose f] @ closing s)"
proof -
  let ?ep = "to_build m u v kvs (arrives r e)
    (EndPoint_new junk s (arrives (request_head_bytes nl m u v kvs @ r) e))"
  let ?ep1 = "emit [EvOpen (root_path u) f]
    (?ep\<lparr>request := (request ?ep)\<lparr>path := root_path u, cgi := False,
       req_size := int32 (st_size st), req_suffix := extension (root_path u)\<rparr>,
     response := (response ?ep)\<lparr>fd := f\<rparr>\<rparr>)"
  have "BuildHttpResponse env ?ep = Some (BuildHttpResponseHelper env (set_code OK ?ep1))"
    using Build_static [of ?ep env st f] meth res by simp
  moreover have "trace (SendHttpResquese env (BuildHttpResponseHelper env (set_code OK ?ep1)))
    = trace ?ep1 @ map (EvSend s) (status_text OK
         # header_texts (Suffix2Desc (extension (root_path u))) (int32 (st_size st)) @ [CRLF])
     @ [EvSendfile s f (int32 (st_size st)), EvClose f]"
    by (subst Send_Helper_static [OF env]) simp_all
  moreover have "map toupper m \<noteq> ''POST''" using meth(1) by simp
  ultimately show ?thesis
    using Handler_no_body [OF req, of env junk s r e] by simp
qed

lemma Handler_missing:
  assumes env: "full_send env" "page_ok env f len" and req: "request_ok nl m u v kvs" "\<forall>e. \<not> indet e"
    and meth: "map toupper m = ''GET''" "CHR ''?'' \<notin> set u" and "os_stat env (c_str (root_path u)) = None"
  shows "HandlerRequest env indet junk s (arrives (request_head_bytes nl m u v kvs @ r) e) = Some
    (request_logs m u v kvs @ [EvLog WARNING (root_path u @ '' Not Found'')]
      @ error_events s NOT_FOUND f len @ closing s)"
proof -
  let ?ep = "to_build m u v kvs (arrives r e)
    (EndPoint_new junk s (arrives (request_head_bytes nl m u v kvs @ r) e))"
  let ?ep1 = "emit [EvLog WARNING (root_path u @ '' Not Found'')]
    (?ep\<lparr>request := (request ?ep)\<lparr>path := root_path u\<rparr>\<rparr>)"
  have "choose_path (request ?ep) = (request ?ep)\<lparr>path := root_path u\<rparr>"
    using choose_path_plain [of "request ?ep"] meth by simp
  then have "BuildHttpResponse env ?ep = Some (BuildHttpResponseHelper env (set_code NOT_FOUND ?ep1))"
    using Build_missing [of ?ep env] meth assms(7) by simp
  moreover have "trace (SendHttpResquese env (BuildHttpResponseHelper env (set_code NOT_FOUND ?ep1)))
    = trace ?ep1 @ error_events s NOT_FOUND f len"
    by (subst Send_Helper_error [OF env]) simp_all
  moreover have "map toupper m \<noteq> ''POST''" using meth(1) by simp
  ultimately show ?thesis
    using Handler_no_body [OF req, of env junk s r e] by simp
qed

lemma Handler_method:
  assumes env: "full_send env" "page_ok env f len" and req: "request_ok nl m u v kvs" "\<forall>e. \<not> indet e"
    and meth: "map toupper m \<noteq> ''GET''" "map toupper m \<noteq> ''POST''"
  shows "HandlerRequest env indet junk s (arrives (request_head_bytes nl m u v kvs @ r) e) = Some
    (request_logs m u v kvs @ [EvLog WARNING ''Requesting method is not right ...'']
      @ error_events s BAD_REQUSET f len @ closing s)"
proof -
  let ?ep = "to_build m u v kvs (arrives r e)
    (EndPoint_new junk s (arrives (request_head_bytes nl m u v kvs @ r) e))"
  let ?ep1 = "emit [EvLog WARNING ''Requesting method is not right ...''] ?ep"
  have "BuildHttpResponse env ?ep = Some (BuildHttpResponseHelper env (set_code BAD_REQUSET ?ep1))"
    using Build_method [of ?ep env] meth by simp
  moreover have "trace (SendHttpResquese env (BuildHttpResponseHelper env (set_code BAD_REQUSET ?ep1)))
    = trace ?ep1 @ error_events s BAD_REQUSET f len"
    by (subst Send_Helper_error [OF env]) simp_all
  ultimately show ?thesis
    using Handler_no_body [OF req, of env junk s r e] meth by simp
qed

section \<open>Requests for programs\<close>

text \<open>What the peer receives besides the bytes of a file, for a program's output and an error.\<close>

definition ok_wire :: "string \<Rightarrow> string \<Rightarrow> string" where
  "ok_wire ctype out = concat (status_text OK # header_texts ctype (int (length out)) @ [CRLF])
     @ concat (map (\<lambda>i. drop i out) [0..<length out])"

definition error_wire :: "int \<Rightarrow> int \<Rightarrow> string" where
  "error_wire code len = concat (status_text code # header_texts ''text/html'' len @ [CRLF])"

lemma sent_EvSends [simp]: "sent (map (EvSend s) xs) = concat xs"
  by (induction xs) simp_all

lemma sent_error_events [simp]: "sent (error_events s code f len) = error_wire code len"
  by (simp add: error_events_def error_wire_def)

lemma sent_cgi_events [simp]: "sent (cgi_events env in0 in1 out0 out1 r) = []"
  using quiet_parent_writes [of env out1 r] by (simp add: cgi_events_def quiet_def)

lemma sent_request_logs [simp]: "sent (request_logs m u v kvs) = []"
proof -
  have "quiet (map (EvLog INFO) (request_line m u v # map header_line kvs))" by (rule quiet_logs)
  then have "sent (map (EvLog INFO) (request_line m u v # map header_line kvs)) = []"
    unfolding quiet_def by blast
  then show ?thesis unfolding request_logs_def sent_append by simp
qed

lemma sent_closing [simp]: "sent (closing s) = []"
  by (simp add: closing_def)

definition cgi_wire :: "string \<Rightarrow> int \<Rightarrow> string \<Rightarrow> int \<Rightarrow> string" where
  "cgi_wire ctype code out len = (if code = OK then ok_wire ctype out else error_wire code len)"

lemma Send_cgi:
  assumes env: "full_send env" "page_ok env f len"
    and p: "ProcessCIG env ep = Some (code, emit evs
      (ep\<lparr>response := (response ep)\<lparr>Resp_body := Resp_body (response ep) @ out\<rparr>\<rparr>))"
    and new: "response ep = HttpResponse_new" and cgi: "cgi (request ep)" and quiet: "sent evs = []"
  shows "sent (trace (SendHttpResquese env (BuildHttpResponseHelper env (set_code code
      (emit evs (ep\<lparr>response := (response ep)\<lparr>Resp_body := Resp_body (response ep) @ out\<rparr>\<rparr>))))))
    = sent (trace ep) @ cgi_wire (Suffix2Desc (req_suffix (request ep))) code out len"
proof -
  let ?ep = "emit evs (ep\<lparr>response := (response ep)\<lparr>Resp_body := Resp_body (response ep) @ out\<rparr>\<rparr>)"
  note h = new cgi quiet
  show ?thesis
  proof (cases "code = OK")
    case True
    have "trace (SendHttpResquese env (BuildHttpResponseHelper env (set_code OK ?ep)))
      = trace ?ep @ map (EvSend (sock ?ep)) (status_text OK
        # header_texts (Suffix2Desc (req_suffix (request ?ep))) (int (length (Resp_body (response ?ep)))) @ [CRLF])
      @ map (\<lambda>i. EvSend (sock ?ep) (drop i (Resp_body (response ?ep)))) [0..<length (Resp_body (response ?ep))]"
      by (rule Send_Helper_cgi [OF env(1)]) (simp_all add: h)
    with True h show ?thesis by (simp add: cgi_wire_def ok_wire_def)
  next
    case False
    then have "code \<in> {BAD_REQUSET, NOT_FOUND, SERVER_ERROR}" using ProcessCIG_frame(8) [OF p] by blast
    then have "trace (SendHttpResquese env (BuildHttpResponseHelper env (set_code code ?ep)))
      = trace ?ep @ error_events (sock ?ep) code f len"
      by (rule Send_Helper_error [OF env]) (simp_all add: h)
    with False h show ?thesis by (simp add: cgi_wire_def)
  qed
qed

text \<open>The system a CGI request needs: pipes, \<open>fork\<close> and \<open>waitpid\<close> that work.\<close>

definition cgi_ready :: "os_env \<Rightarrow> bool" where
  "cgi_ready env \<longleftrightarrow> os_pipe_in env \<noteq> None \<and> os_pipe_out env \<noteq> None \<and> 0 < os_fork env
     \<and> os_waitpid_ok env \<and> write_progress env \<and> full_send env"

text \<open>The environments a program finds itself in.\<close>

definition post_env :: "os_env \<Rightarrow> nat \<Rightarrow> (string \<Rightarrow> string option)" where
  "post_env env n = (os_environ env)(''METHOD'' \<mapsto> ''POST'', ''CONTENT_LENGTH'' \<mapsto> to_string (int n))"

definition get_env :: "os_env \<Rightarrow> string \<Rightarrow> (string \<Rightarrow> string option)" where
  "get_env env q = (os_environ env)(''METHOD'' \<mapsto> ''GET'', ''QUERY_STRING'' \<mapsto> c_str q)"

lemma cgi_environment_post:
  "req_method r = ''POST'' \<Longrightarrow> content_length r = int n \<Longrightarrow> cgi_environment env r = post_env env n"
  by (simp add: cgi_environment_def post_env_def putenv_def Let_def)

lemma cgi_environment_get:
  "req_method r = ''GET'' \<Longrightarrow> cgi_environment env r = get_env env (query_string r)"
  by (simp add: cgi_environment_def get_env_def putenv_def Let_def)

lemma Handler_cgi_post:
  assumes env: "cgi_ready env" "page_ok env f len" and req: "request_ok nl m u v kvs" "\<forall>e. \<not> indet e"
    and meth: "map toupper m = ''POST''" "map_of kvs ''Content-Length'' = Some cl" "atoi cl = int (length b)"
    and res: "os_stat env (c_str (root_path u)) = Some st" "\<not> st_isdir st"
    and prog: "os_exec env (c_str (root_path u)) = Some prog"
      "run_proc (prog (post_env env (length b))) b = Some (out, status)"
  shows "\<exists>tr. HandlerRequest env indet junk s (arrives (request_head_bytes nl m u v kvs @ b @ r) e) = Some tr
    \<and> sent tr = cgi_wire (Suffix2Desc (extension (root_path u))) (exit_code env status) out len"
proof -
  obtain in0 in1 out0 out1 where pipes: "os_pipe_in env = Some (in0, in1)" "os_pipe_out env = Some (out0, out1)"
    and sys: "0 < os_fork env" "write_progress env" "full_send env"
    using env(1) by (auto simp: cgi_ready_def)
  let ?ep = "with_body b (arrives r e) (to_build m u v kvs (arrives (b @ r) e)
        (EndPoint_new junk s (arrives (request_head_bytes nl m u v kvs @ b @ r) e)))"
  let ?r = "(request ?ep)\<lparr>path := root_path u, cgi := True, req_size := int32 (st_size st)\<rparr>"
  let ?ep1 = "?ep\<lparr>request := ?r\<lparr>req_suffix := extension (path ?r)\<rparr>\<rparr>"
  have "choose_path (request ?ep) = (request ?ep)\<lparr>path := root_path u, cgi := True\<rparr>"
    using choose_path_post [of "request ?ep"] meth(1) by simp
  then have "stat_path env (choose_path (request ?ep)) = Some ?r"
    using stat_path_file [of env "(request ?ep)\<lparr>path := root_path u, cgi := True\<rparr>" st] res by simp
  then have b: "BuildHttpResponse env ?ep =
    map_option (\<lambda>(code, ep2). BuildHttpResponseHelper env (set_code code ep2)) (ProcessCIG env ?ep1)"
    using meth(1) by (intro Build_cgi) simp_all
  have "cgi_child env (request ?ep1) = prog (post_env env (length b))"
    using prog(1) cgi_environment_post [of "request ?ep1" "length b" env] meth(1) by (simp add: cgi_child_def)
  moreover have "written (parent_writes env out1 (request ?ep1)) = b"
    using written_parent_writes [OF sys(2), of "request ?ep1" out1] meth(1) by simp
  ultimately have p: "ProcessCIG env ?ep1 = Some (exit_code env status,
    emit (cgi_events env in0 in1 out0 out1 (request ?ep1))
      (?ep1\<lparr>response := (response ?ep1)\<lparr>Resp_body := Resp_body (response ?ep1) @ out\<rparr>\<rparr>))"
    using prog(2) by (intro ProcessCIG_run [OF pipes sys(1)]) simp
  have "HandlerRequest env indet junk s (arrives (request_head_bytes nl m u v kvs @ b @ r) e) =
    map_option (\<lambda>ep'. trace (SendHttpResquese env ep') @ closing s) (BuildHttpResponse env ?ep)"
    by (rule Handler_body [OF req meth])
  then show ?thesis unfolding b p
    using Send_cgi [OF sys(3) env(2) p] by simp
qed

text \<open>A GET request with a query for a program: what is left is the run of the program.\<close>

lemma Handler_cgi_get_process:
  assumes req: "request_ok nl m (p @ ''?'' @ q) v kvs" "\<forall>e. \<not> indet e"
    and meth: "map toupper m = ''GET''" "CHR ''?'' \<notin> set p"
    and res: "os_stat env (c_str (root_path p)) = Some st" "\<not> st_isdir st"
    and prog: "os_exec env (c_str (root_path p)) = Some prog"
  obtains ep where
    "HandlerRequest env indet junk s (arrives (request_head_bytes nl m (p @ ''?'' @ q) v kvs @ r) e) =
      map_option (\<lambda>(code, ep'). trace (SendHttpResquese env (BuildHttpResponseHelper env (set_code code ep'))) @ closing s)
        (ProcessCIG env ep)"
    "\<And>out1. run_proc (cgi_child env (request ep)) (written (parent_writes env out1 (request ep)))
      = run_proc (prog (get_env env q)) []"
    "response ep = HttpResponse_new" "cgi (request ep)" "req_suffix (request ep) = extension (root_path p)"
    "sent (trace ep) = []"
proof -
  let ?u = "p @ ''?'' @ q"
  let ?ep = "to_build m ?u v kvs (arrives r e)
        (EndPoint_new junk s (arrives (request_head_bytes nl m ?u v kvs @ r) e))"
  let ?r = "(request ?ep)\<lparr>path := root_path p, query_string := q, cgi := True, req_size := int32 (st_size st)\<rparr>"
  let ?ep1 = "?ep\<lparr>request := ?r\<lparr>req_suffix := extension (path ?r)\<rparr>\<rparr>"
  have "choose_path (request ?ep) = (request ?ep)\<lparr>path := root_path p, query_string := q, cgi := True\<rparr>"
    by (rule choose_path_query) (use meth in simp_all)
  then have "stat_path env (choose_path (request ?ep)) = Some ?r"
    using stat_path_file [of env "(request ?ep)\<lparr>path := root_path p, query_string := q, cgi := True\<rparr>" st] res
    by simp
  then have b: "BuildHttpResponse env ?ep =
    map_option (\<lambda>(code, ep2). BuildHttpResponseHelper env (set_code code ep2)) (ProcessCIG env ?ep1)"
    using meth(1) by (intro Build_cgi) simp_all
  have "map toupper m \<noteq> ''POST''" using meth(1) by simp
  then have "HandlerRequest env indet junk s (arrives (request_head_bytes nl m ?u v kvs @ r) e) =
    map_option (\<lambda>ep'. trace (SendHttpResquese env ep') @ closing s) (BuildHttpResponse env ?ep)"
    by (intro Handler_no_body [OF req]) simp
  then have h: "HandlerRequest env indet junk s (arrives (request_head_bytes nl m ?u v kvs @ r) e) =
      map_option (\<lambda>(code, ep'). trace (SendHttpResquese env (BuildHttpResponseHelper env (set_code code ep'))) @ closing s)
        (ProcessCIG env ?ep1)"
    unfolding b by (simp add: option.map_comp comp_def case_prod_unfold)
  have "cgi_child env (request ?ep1) = prog (get_env env q)"
    using prog(1) cgi_environment_get [of "request ?ep1" env] meth(1) by (simp add: cgi_child_def)
  moreover have "written (parent_writes env out1 (request ?ep1)) = []" for out1
    using meth(1) by (intro written_parent_writes_GET) simp
  ultimately have "run_proc (cgi_child env (request ?ep1)) (written (parent_writes env out1 (request ?ep1)))
      = run_proc (prog (get_env env q)) []" for out1 by simp
  then show thesis by (rule that [OF h]) simp_all
qed

lemma Handler_cgi_get:
  assumes env: "cgi_ready env" "page_ok env f len" and req: "request_ok nl m (p @ ''?'' @ q) v kvs" "\<forall>e. \<not> indet e"
    and meth: "map toupper m = ''GET''" "CHR ''?'' \<notin> set p"
    and res: "os_stat env (c_str (root_path p)) = Some st" "\<not> st_isdir st"
    and prog: "os_exec env (c_str (root_path p)) = Some prog"
      "run_proc (prog (get_env env q)) [] = Some (out, status)"
  shows "\<exists>tr. HandlerRequest env indet junk s (arrives (request_head_bytes nl m (p @ ''?'' @ q) v kvs @ r) e) = Some tr
    \<and> sent tr = cgi_wire (Suffix2Desc (extension (root_path p))) (exit_code env status) out len"
proof -
  obtain in0 in1 out0 out1 where pipes: "os_pipe_in env = Some (in0, in1)" "os_pipe_out env = Some (out0, out1)"
    and sys: "0 < os_fork env" "full_send env"
    using env(1) by (auto simp: cgi_ready_def)
  from Handler_cgi_get_process [OF req meth res prog(1), of junk s r e] obtain ep where
    h: "HandlerRequest env indet junk s (arrives (request_head_bytes nl m (p @ ''?'' @ q) v kvs @ r) e) =
      map_option (\<lambda>(code, ep'). trace (SendHttpResquese env (BuildHttpResponseHelper env (set_code code ep'))) @ closing s)
        (ProcessCIG env ep)"
    and run: "\<And>out1. run_proc (cgi_child env (request ep)) (written (parent_writes env out1 (request ep)))
      = run_proc (prog (get_env env q)) []"
    and ep: "response ep = HttpResponse_new" "cgi (request ep)" "req_suffix (request ep) = extension (root_path p)"
      "sent (trace ep) = []" by metis
  have p: "ProcessCIG env ep = Some (exit_code env status,
    emit (cgi_events env in0 in1 out0 out1 (request ep))
      (ep\<lparr>response := (response ep)\<lparr>Resp_body := Resp_body (response ep) @ out\<rparr>\<rparr>))"
    by (rule ProcessCIG_run [OF pipes sys(1)]) (simp only: run prog(2))
  show ?thesis unfolding h p
    using Send_cgi [OF sys(2) env(2) p ep(1,2)] by (simp add: ep(3,4))
qed

text \<open>A program that waits for input although there is none: the request is never answered.\<close>

lemma Handler_cgi_get_blocked:
  assumes env: "cgi_ready env" and req: "request_ok nl m (p @ ''?'' @ q) v kvs" "\<forall>e. \<not> indet e"
    and meth: "map toupper m = ''GET''" "CHR ''?'' \<notin> set p"
    and res: "os_stat env (c_str (root_path p)) = Some st" "\<not> st_isdir st"
    and prog: "os_exec env (c_str (root_path p)) = Some prog" "run_proc (prog (get_env env q)) [] = None"
  shows "HandlerRequest env indet junk s (arrives (request_head_bytes nl m (p @ ''?'' @ q) v kvs @ r) e) = None"
proof -
  obtain in0 in1 out0 out1 where pipes: "os_pipe_in env = Some (in0, in1)" "os_pipe_out env = Some (out0, out1)"
    and sys: "0 < os_fork env"
    using env by (auto simp: cgi_ready_def)
  from Handler_cgi_get_process [OF req meth res prog(1), of junk s r e] obtain ep where
    h: "HandlerRequest env indet junk s (arrives (request_head_bytes nl m (p @ ''?'' @ q) v kvs @ r) e) =
      map_option (\<lambda>(code, ep'). trace (SendHttpResquese env (BuildHttpResponseHelper env (set_code code ep'))) @ closing s)
        (ProcessCIG env ep)"
    and run: "\<And>out1. run_proc (cgi_child env (request ep)) (written (parent_writes env out1 (request ep)))
      = run_proc (prog (get_env env q)) []" by metis
  have "ProcessCIG env ep = None"
    by (rule ProcessCIG_blocked [OF pipes sys]) (simp only: run prog(2))
  then show ?thesis unfolding h by simp
qed

section \<open>Where the code departs from its purpose\<close>

text \<open>
  \<open>GetRequestLine\<close> without its \<open>return\<close>: where the caller happens to see \<open>true\<close>, the
  request is answered before it is parsed, with its method still empty.
\<close>

lemma Handler_line_only:
  assumes env: "full_send env" "page_ok env f len" and bad: "\<forall>e. indet e"
    and line: "CR \<notin> set l" "LF \<notin> set l" "length l < 2147483647" "nl = [LF] \<or> nl = CRLF"
  shows "HandlerRequest env indet junk s (arrives (l @ nl @ r) e) = Some
    ([EvLog INFO l, EvLog INFO ''Recv No Error, Begin Build And Send ...'',
      EvLog WARNING ''Requesting method is not right ...''] @ error_events s BAD_REQUSET f len @ closing s)"
proof -
  let ?ep = "EndPoint_new junk s (arrives (l @ nl @ r) e)"
  let ?ep1 = "emit [EvLog INFO l] (?ep\<lparr>conn := arrives r e, request := (request ?ep)\<lparr>Req_line := l\<rparr>\<rparr>)"
  have "GetRequestLine indet ?ep = Some (True, ?ep1)"
    using GetRequestLine_read [OF line, of ?ep r "arrives [] e" indet] bad
    by (simp add: Let_def HttpRequest_new_def)
  then have r: "RecvHttpRequest indet ?ep = Some ?ep1" by (simp add: RecvHttpRequest_def)
  have ns: "\<not> stop ?ep1" by simp
  let ?ep2 = "emit [EvLog INFO ''Recv No Error, Begin Build And Send ...''] ?ep1"
  let ?ep3 = "emit [EvLog WARNING ''Requesting method is not right ...''] ?ep2"
  have "BuildHttpResponse env ?ep2 = Some (BuildHttpResponseHelper env (set_code BAD_REQUSET ?ep3))"
    by (rule Build_method) simp_all
  moreover have "trace (SendHttpResquese env (BuildHttpResponseHelper env (set_code BAD_REQUSET ?ep3)))
    = trace ?ep3 @ error_events s BAD_REQUSET f len"
    by (subst Send_Helper_error [OF env]) simp_all
  ultimately show ?thesis using HandlerRequest_go [OF r ns, of env] by (simp add: closing_def)
qed

text \<open>
  A directory without a default page keeps the execute bits of the directory in \<open>st\<close>, so
  its missing page is run as a program.
\<close>

lemma Handler_directory:
  assumes env: "cgi_ready env" "page_ok env f len" and req: "request_ok nl m u v kvs" "\<forall>e. \<not> indet e"
    and meth: "map toupper m = ''GET''" "CHR ''?'' \<notin> set u"
    and res: "os_stat env (c_str (root_path u)) = Some st" "st_isdir st" "st_exec st"
      "os_stat env (c_str (root_path u @ ''/'' @ DEFAUTL_PAGE)) = None"
      "os_exec env (c_str (root_path u @ ''/'' @ DEFAUTL_PAGE)) = None"
  shows "\<exists>tr. HandlerRequest env indet junk s (arrives (request_head_bytes nl m u v kvs @ r) e) = Some tr
    \<and> sent tr = error_wire BAD_REQUSET len"
proof -
  obtain in0 in1 out0 out1 where pipes: "os_pipe_in env = Some (in0, in1)" "os_pipe_out env = Some (out0, out1)"
    and sys: "0 < os_fork env" "full_send env" "os_waitpid_ok env"
    using env(1) by (auto simp: cgi_ready_def)
  let ?ep = "to_build m u v kvs (arrives r e)
        (EndPoint_new junk s (arrives (request_head_bytes nl m u v kvs @ r) e))"
  let ?r = "(request ?ep)\<lparr>path := root_path u @ ''/'' @ DEFAUTL_PAGE, cgi := True, req_size := int32 (st_size st)\<rparr>"
  let ?ep1 = "?ep\<lparr>request := ?r\<lparr>req_suffix := extension (path ?r)\<rparr>\<rparr>"
  have "choose_path (request ?ep) = (request ?ep)\<lparr>path := root_path u\<rparr>"
    using choose_path_plain [of "request ?ep"] meth by simp
  then have "stat_path env (choose_path (request ?ep)) = Some ?r"
    using res by (simp add: stat_path_def Let_def)
  then have b: "BuildHttpResponse env ?ep =
    map_option (\<lambda>(code, ep2). BuildHttpResponseHelper env (set_code code ep2)) (ProcessCIG env ?ep1)"
    using meth(1) by (intro Build_cgi) simp_all
  have "cgi_child env (request ?ep1) = PWrite (os_unflushed env) (PExit 1)"
    using res(5) by (simp add: cgi_child_def)
  then have p: "ProcessCIG env ?ep1 = Some (exit_code env (Exited 1),
    emit (cgi_events env in0 in1 out0 out1 (request ?ep1))
      (?ep1\<lparr>response := (response ?ep1)\<lparr>Resp_body := Resp_body (response ?ep1) @ os_unflushed env\<rparr>\<rparr>))"
    by (intro ProcessCIG_run [OF pipes sys(1)]) simp
  have c: "exit_code env (Exited 1) = BAD_REQUSET" using sys(3) by (simp add: exit_code_def)
  have "map toupper m \<noteq> ''POST''" using meth(1) by simp
  then have "HandlerRequest env indet junk s (arrives (request_head_bytes nl m u v kvs @ r) e) =
    map_option (\<lambda>ep'. trace (SendHttpResquese env ep') @ closing s) (BuildHttpResponse env ?ep)"
    by (intro Handler_no_body [OF req]) simp
  then show ?thesis unfolding b p
    using Send_cgi [OF sys(2) env(2) p] c by (simp add: cgi_wire_def code_defs)
qed

lemma sum_lengths: "length (concat (map (\<lambda>i. drop i body) [0..<length body]))
    = length body * (length body + 1) div 2"
proof -
  have "length (concat (map (\<lambda>i. drop i body) [0..<length body])) = (\<Sum>i\<leftarrow>[0..<length body]. length body - i)"
    by (simp add: length_concat comp_def)
  also have "\<dots> = (\<Sum>i = 0..<length body. length body - i)"
    by (simp add: interv_sum_list_conv_sum_set_nat)
  also have "\<dots> = (\<Sum>i = 0..<length body. Suc i)"
    by (rule sum.reindex_bij_witness [where i = "\<lambda>i. length body - Suc i" and j = "\<lambda>i. length body - Suc i"]) auto
  also have "\<dots> = length body * (length body + 1) div 2"
    by (induction body) simp_all
  finally show ?thesis .
qed

section \<open>Properties\<close>

text \<open>A small site: a page of five bytes, the error page and a directory without a page.\<close>

definition site_env :: os_env where
  "site_env = slow_env\<lparr>os_fork := 9,
     os_stat := (\<lambda>p. if p = ''./wwwroot/index.html'' then Some \<lparr>st_isdir = False, st_exec = False, st_size = 5\<rparr>
       else if p = ''./wwwroot/404.html'' then Some \<lparr>st_isdir = False, st_exec = False, st_size = 7\<rparr>
       else if p = ''./wwwroot/img'' then Some \<lparr>st_isdir = True, st_exec = True, st_size = 64\<rparr> else None),
     os_open := (\<lambda>p. if p = ''./wwwroot/index.html'' then 5 else if p = ''./wwwroot/404.html'' then 6 else -1)\<rparr>"

lemma site_env_ok: "full_send site_env" "page_ok site_env 6 7" "cgi_ready site_env"
  by (simp_all add: site_env_def slow_env_def full_send_def page_ok_def error_page_def web_defs cgi_ready_def
      write_progress_def)

lemma plain_request_ok:
  "request_ok [LF] ''GET'' ''/'' ''HTTP/1.0'' []" "request_ok [LF] ''GET'' ''/img'' ''HTTP/1.0'' []"
  "request_ok [LF] ''GET'' ''/none'' ''HTTP/1.0'' []" "request_ok [LF] ''PUT'' ''/'' ''HTTP/1.0'' []"
  by (simp_all add: request_ok_def token_def isspace_def request_line_def)

text \<open>C12: A GET request for a file that exists and is not executable, by a target without \<open>?\<close>,
  is served in full: the server opens the file at the path made of the web root and the
  target, sends the status line \<open>HTTP/1.0 200 OK\<close>, the content type of the suffix, the file's
  size as Content-Length, the empty line and the file itself, and closes the file and the
  socket. Nothing keeps the target below the web root:
  the path is the root and the target, \<open>..\<close> and all.\<close>

theorem serve_static_file:
  assumes "full_send env" and "request_ok nl m u v kvs" "\<forall>e. \<not> indet e"
    and "map toupper m = ''GET''" "CHR ''?'' \<notin> set u"
    and "os_stat env (c_str (root_path u)) = Some st" "\<not> st_isdir st" "\<not> st_exec st"
      "os_open env (c_str (root_path u)) = f" "0 \<le> f"
  shows "HandlerRequest env indet junk s (arrives (request_head_bytes nl m u v kvs @ r) e) = Some
    (request_logs m u v kvs @ [EvOpen (root_path u) f]
     @ map (EvSend s) (status_text OK
         # header_texts (Suffix2Desc (extension (root_path u))) (int32 (st_size st)) @ [CRLF])
     @ [EvSendfile s f (int32 (st_size st)), EvClose f] @ closing s)"
  by (rule Handler_static [OF assms])

theorem serve_static_file_witness:
  "HandlerRequest site_env (\<lambda>_. False) 0 4 (arrives (''GET / HTTP/1.0'' @ [LF] @ [LF]) Closed) = Some
    [EvLog INFO ''GET / HTTP/1.0'', EvLog INFO ''Recv No Error, Begin Build And Send ...'',
     EvOpen ''./wwwroot/index.html'' 5, EvSend 4 (''HTTP/1.0 200 OK'' @ CRLF),
     EvSend 4 (''Content-Type: text/html'' @ CRLF), EvSend 4 (''Content-Length: 5'' @ CRLF), EvSend 4 CRLF,
     EvSendfile 4 5 5, EvClose 5, EvLog INFO ''Handler request end ...'', EvClose 4]"
proof -
  have p: "root_path ''/'' = ''./wwwroot/index.html''" by (simp add: root_path_def web_defs Let_def)
  have x: "extension ''./wwwroot/index.html'' = ''.html''" by (simp add: extension_def prefix_def)
  have st: "os_stat site_env ''./wwwroot/index.html'' = Some \<lparr>st_isdir = False, st_exec = False, st_size = 5\<rparr>"
    "os_open site_env ''./wwwroot/index.html'' = 5" by (simp_all add: site_env_def)
  have n: "to_string 200 = ''200''" "to_string 5 = ''5''" by (simp_all add: libc_eval)
  show ?thesis
    using serve_static_file [OF site_env_ok(1) plain_request_ok(1), of "\<lambda>_. False"
        "\<lparr>st_isdir = False, st_exec = False, st_size = 5\<rparr>" 5 0 4 "[]" Closed]
    by (simp add: p x st toupper_def request_logs_def request_head_bytes_def request_line_def closing_def
        status_text_def header_texts_def OK_def HTTP_VERSION_def Code2Desc_def Suffix2Desc_def suffix2desc_def
        int32_def n)
qed

text \<open>A GET request for a path that \<open>stat\<close> does not find is answered with status 404 and
  the error page, and the log names the missing path.\<close>

theorem serve_missing:
  assumes "full_send env" "page_ok env f len" and "request_ok nl m u v kvs" "\<forall>e. \<not> indet e"
    and "map toupper m = ''GET''" "CHR ''?'' \<notin> set u" and "os_stat env (c_str (root_path u)) = None"
  shows "HandlerRequest env indet junk s (arrives (request_head_bytes nl m u v kvs @ r) e) = Some
    (request_logs m u v kvs @ [EvLog WARNING (root_path u @ '' Not Found'')]
      @ error_events s NOT_FOUND f len @ closing s)"
  by (rule Handler_missing [OF assms])

theorem serve_missing_witness:
  "\<exists>tr. HandlerRequest site_env (\<lambda>_. False) 0 4 (arrives (''GET /none HTTP/1.0'' @ [LF] @ [LF]) Closed)
      = Some (tr @ [EvSendfile 4 6 7, EvClose 6, EvLog INFO ''Handler request end ...'', EvClose 4])"
proof -
  have p: "os_stat site_env (c_str (root_path ''/none'')) = None"
    by (simp add: root_path_def web_defs Let_def site_env_def c_str_def)
  show ?thesis
    using serve_missing [OF site_env_ok(1,2) plain_request_ok(3), of "\<lambda>_. False" 0 4 "[]" Closed] p
    by (simp add: toupper_def request_head_bytes_def request_line_def closing_def error_events_def int32_def)
qed

text \<open>A request with any method but GET and POST is answered with status 400 and the error
  page, and neither its target nor its headers are looked at.\<close>

theorem serve_bad_method:
  assumes "full_send env" "page_ok env f len" and "request_ok nl m u v kvs" "\<forall>e. \<not> indet e"
    and "map toupper m \<noteq> ''GET''" "map toupper m \<noteq> ''POST''"
  shows "HandlerRequest env indet junk s (arrives (request_head_bytes nl m u v kvs @ r) e) = Some
    (request_logs m u v kvs @ [EvLog WARNING ''Requesting method is not right ...'']
      @ error_events s BAD_REQUSET f len @ closing s)"
  by (rule Handler_method [OF assms])

theorem serve_bad_method_witness:
  "\<exists>tr. HandlerRequest site_env (\<lambda>_. False) 0 4 (arrives (''PUT / HTTP/1.0'' @ [LF] @ [LF]) Closed)
      = Some (tr @ [EvSendfile 4 6 7, EvClose 6, EvLog INFO ''Handler request end ...'', EvClose 4])"
  using serve_bad_method [OF site_env_ok(1,2) plain_request_ok(4), of "\<lambda>_. False" 0 4 "[]" Closed]
  by (simp add: toupper_def request_head_bytes_def request_line_def closing_def error_events_def int32_def)

text \<open>A request whose receive fails is dropped without an answer: no byte is sent, nothing
  is opened, and the socket is the one descriptor closed.\<close>

theorem failed_receive_sends_nothing:
  assumes "RecvHttpRequest indet (EndPoint_new junk s st) = Some ep" "stop ep"
  shows "\<exists>tr. HandlerRequest env indet junk s st = Some tr
    \<and> sent tr = [] \<and> opened tr = {#} \<and> closed tr = {#s#}"
  using HandlerRequest_stop [OF assms] recv_new(3) [OF assms(1)] by (simp add: quiet_def)

theorem failed_receive_sends_nothing_witness:
  "\<exists>tr. HandlerRequest site_env (\<lambda>_. False) 0 4 (arrives [] Closed) = Some tr \<and> sent tr = [] \<and> closed tr = {#4#}"
proof -
  have "line_outcome (arrives [] Closed) [] = Some (0, [], arrives [] Closed)"
    by (simp add: line_outcome_def arrives_def with_bytes_def)
  then have g: "GetRequestLine (\<lambda>_. False) (EndPoint_new 0 4 (arrives [] Closed))
      = Some (False, (EndPoint_new 0 4 (arrives [] Closed))\<lparr>stop := True\<rparr>)"
    by (simp add: GetRequestLine_def ReadInLine_outcome EndPoint_new_def HttpRequest_new_def)
  have "GetRequestHead_loop [] ((EndPoint_new 0 4 (arrives [] Closed))\<lparr>stop := True\<rparr>)
      = Some ((EndPoint_new 0 4 (arrives [] Closed))\<lparr>stop := True\<rparr>)"
    by (subst GetRequestHead_loop.simps)
       (simp add: ReadInLine_outcome line_outcome_def arrives_def with_bytes_def EndPoint_new_def)
  then have r: "RecvHttpRequest (\<lambda>_. False) (EndPoint_new 0 4 (arrives [] Closed))
      = Some ((EndPoint_new 0 4 (arrives [] Closed))\<lparr>stop := True\<rparr>)"
    using g by (simp add: RecvHttpRequest_def GetRequestHead_def)
  show ?thesis using failed_receive_sends_nothing [OF r, of site_env] by auto
qed

text \<open>C5: No request leaks a descriptor on a system whose \<open>pipe\<close> and \<open>fork\<close> calls succeed:
  every descriptor the handler opens, and the socket, is closed when it returns, whatever
  the bytes of the request and on every path; and it closes each of them once and no other
  (but for the -1 of a call that failed), so that it cannot close a descriptor which another
  worker has got in the meantime.\<close>

theorem handler_closes_descriptors:
  assumes "HandlerRequest env indet junk s st = Some tr" "pipes_ok env"
  shows "\<exists>bad. closed tr = opened tr + {#s#} + bad \<and> (\<forall>f \<in># bad. f < 0)"
  by (rule HandlerRequest_fds [OF assms])

theorem handler_closes_descriptors_witness:
  "\<exists>tr. HandlerRequest site_env (\<lambda>_. False) 0 4 (arrives (''PUT / HTTP/1.0'' @ [LF] @ [LF]) Closed) = Some tr
    \<and> (\<exists>bad. closed tr = opened tr + {#4#} + bad \<and> (\<forall>f \<in># bad. f < 0))"
proof -
  have "\<exists>tr. HandlerRequest site_env (\<lambda>_. False) 0 4 (arrives (''PUT / HTTP/1.0'' @ [LF] @ [LF]) Closed) = Some tr"
    using Handler_method [OF site_env_ok(1,2) plain_request_ok(4), of "\<lambda>_. False" 0 4 "[]" Closed]
    by (simp add: toupper_def request_head_bytes_def request_line_def)
  moreover have "pipes_ok site_env" by (simp add: pipes_ok_def site_env_def slow_env_def)
  ultimately show ?thesis using handler_closes_descriptors by blast
qed

text \<open>C21: The send loop of a CGI response is wrong where \<open>send\<close> takes whole messages: it sends
  every suffix of the body, n(n+1)/2 bytes for a body of n, while the header announces n.\<close>

theorem cgi_body_sent_repeatedly:
  assumes "full_send env"
  shows "sent (send_body env s body 0) = concat (map (\<lambda>i. drop i body) [0..<length body])
    \<and> length (sent (send_body env s body 0)) = length body * (length body + 1) div 2"
  by (simp add: send_body_full [OF assms] sum_lengths del: length_concat)

theorem cgi_body_sent_repeatedly_witness:
  "sent (send_body site_env 4 ''abc'' 0) = ''abcbcc''"
  using cgi_body_sent_repeatedly [OF site_env_ok(1), of 4 "''abc''"] by (simp add: upt_rec)

text \<open>C22: \<open>GetRequestLine\<close> returns no value. Where its caller finds \<open>true\<close>, every request,
  however well formed, is answered with status 400: its headers and body are not read.\<close>

theorem missing_return_answers_400:
  assumes "full_send env" "page_ok env f len" and "\<forall>e. indet e"
    and "CR \<notin> set l" "LF \<notin> set l" "length l < 2147483647" "nl = [LF] \<or> nl = CRLF"
  shows "HandlerRequest env indet junk s (arrives (l @ nl @ r) e) = Some
    ([EvLog INFO l, EvLog INFO ''Recv No Error, Begin Build And Send ...'',
      EvLog WARNING ''Requesting method is not right ...''] @ error_events s BAD_REQUSET f len @ closing s)"
  by (rule Handler_line_only [OF assms])

theorem missing_return_answers_400_witness:
  "HandlerRequest site_env (\<lambda>_. True) 0 4 (arrives (''GET / HTTP/1.0'' @ [LF] @ [LF]) Closed) = Some
    ([EvLog INFO ''GET / HTTP/1.0'', EvLog INFO ''Recv No Error, Begin Build And Send ...'',
      EvLog WARNING ''Requesting method is not right ...''] @ error_events 4 BAD_REQUSET 6 7 @ closing 4)"
  using missing_return_answers_400 [OF site_env_ok(1,2), of "\<lambda>_. True" "''GET / HTTP/1.0''" "[LF]" 0 4 "[LF]" Closed]
  by simp

text \<open>A GET request for a directory that has no default page is not answered with 404: the
  directory's own execute bits make the missing page a program, a child is forked, its
  \<open>execl\<close> fails, and the answer is 400.\<close>

theorem directory_without_page:
  assumes "cgi_ready env" "page_ok env f len" and "request_ok nl m u v kvs" "\<forall>e. \<not> indet e"
    and "map toupper m = ''GET''" "CHR ''?'' \<notin> set u"
    and "os_stat env (c_str (root_path u)) = Some st" "st_isdir st" "st_exec st"
      "os_stat env (c_str (root_path u @ ''/'' @ DEFAUTL_PAGE)) = None"
      "os_exec env (c_str (root_path u @ ''/'' @ DEFAUTL_PAGE)) = None"
  shows "\<exists>tr. HandlerRequest env indet junk s (arrives (request_head_bytes nl m u v kvs @ r) e) = Some tr
    \<and> sent tr = error_wire BAD_REQUSET len"
  by (rule Handler_directory [OF assms])

theorem directory_without_page_witness:
  "\<exists>tr. HandlerRequest site_env (\<lambda>_. False) 0 4 (arrives (''GET /img HTTP/1.0'' @ [LF] @ [LF]) Closed) = Some tr
    \<and> sent tr = error_wire 400 7"
proof -
  have p: "root_path ''/img'' = ''./wwwroot/img''" by (simp add: root_path_def web_defs Let_def)
  have st: "os_stat site_env ''./wwwroot/img'' = Some \<lparr>st_isdir = True, st_exec = True, st_size = 64\<rparr>"
    "os_stat site_env ''./wwwroot/img/index.html'' = None" "os_exec site_env q = None" for q
    by (simp_all add: site_env_def slow_env_def)
  show ?thesis
    using directory_without_page [OF site_env_ok(3,2) plain_request_ok(2), of "\<lambda>_. False"
        "\<lparr>st_isdir = True, st_exec = True, st_size = 64\<rparr>" 0 4 "[]" Closed]
    by (simp add: p st DEFAUTL_PAGE_def toupper_def request_head_bytes_def request_line_def OK_def BAD_REQUSET_def)
qed

end
