(* ===== verification/Cgi_Comm.thy ===== *)
theory Cgi_Comm
  imports Web_Process
begin

text \<open>
  comm.hpp, the part the CGI programs share: \<open>GetQueryString\<close> fetches the parameters the
  server passed on, from the environment for GET and from standard input for POST, and
  \<open>CutString\<close> splits them. A function that reads is written over its continuation, since
  what a \<open>proc\<close> does next depends on what it has read.
\<close>

section \<open>GetQueryString\<close>

text \<open>
  The loop \<open>while (content_length)\<close>: it ignores the result of \<open>read\<close> and appends \<open>c\<close>
  whether or not a byte was stored in it.
\<close>

function read_loop :: "32 word \<Rightarrow> char \<Rightarrow> string \<Rightarrow> (string \<Rightarrow> proc) \<Rightarrow> proc" where
  "read_loop n c acc k =
     (if n = 0 then k acc
      else PRead (\<lambda>r. let c' = (case r of Some d \<Rightarrow> d | None \<Rightarrow> c)
                      in read_loop (n - 1) c' (acc @ [c']) k))"
  by pat_completeness auto
termination
proof (relation "measure (\<lambda>(n, c, acc, k). unat n)", goal_cases)
  case (2 n c acc k r x)
  then show ?case by (simp add: measure_unat)
qed simp

declare read_loop.simps [simp del]

text \<open>
  \<open>getenv\<close> returns a null pointer for a variable that is not set. Building a
  \<open>std::string\<close> from it aborts the program (signal 6); assigning it to one, or reading it
  with \<open>atoi\<close>, is a segmentation fault (signal 11).
\<close>

definition GetQueryString ::
    "(string \<Rightarrow> string option) \<Rightarrow> (bool \<Rightarrow> string \<Rightarrow> proc) \<Rightarrow> proc" where
  "GetQueryString env k =
     (case env ''METHOD'' of
        None \<Rightarrow> PKilled 6
      | Some meth \<Rightarrow>
          if meth = ''GET'' then
            (case env ''QUERY_STRING'' of None \<Rightarrow> PKilled 11 | Some q \<Rightarrow> k True q)
          else if meth = ''POST'' then
            (case env ''CONTENT_LENGTH'' of
               None \<Rightarrow> PKilled 11
             | Some n \<Rightarrow> read_loop (word_of_int (atoi n)) NUL [] (k True))
          else k False [])"

lemma word32_nonzero: "0 < n \<Longrightarrow> n < 2 ^ 32 \<Longrightarrow> (of_nat n :: 32 word) \<noteq> 0"
  by (auto simp: word_of_nat_eq_0_iff dest: dvd_imp_le)

lemma run_read_loop_Cons:
  assumes "Suc n < 2 ^ 32"
  shows "run_proc (read_loop (of_nat (Suc n)) c acc k) (d # b)
    = run_proc (read_loop (of_nat n) d (acc @ [d]) k) b"
  using word32_nonzero [of "Suc n"] assms by (subst read_loop.simps) simp

lemma run_read_loop:
  assumes "length b < 2 ^ 32"
  shows "run_proc (read_loop (of_nat (length b)) c acc k) (b @ r) = run_proc (k (acc @ b)) r"
  using assms
proof (induction b arbitrary: c acc)
  case Nil
  then show ?case by (simp add: read_loop.simps [of 0])
next
  case (Cons d b)
  then show ?case
    using run_read_loop_Cons [of "length b" c acc k d "b @ r"] by (simp del: of_nat_Suc)
qed

text \<open>A program that expects more bytes than it was sent waits for ever.\<close>

lemma run_read_loop_short:
  assumes "length b < n" "n < 2 ^ 32"
  shows "run_proc (read_loop (of_nat n) c acc k) b = None"
  using assms
proof (induction b arbitrary: n c acc)
  case Nil
  with word32_nonzero [of n] show ?case by (simp add: read_loop.simps [of "of_nat n"])
next
  case (Cons d b)
  then obtain m where "n = Suc m" by (cases n) auto
  with Cons show ?case
    using run_read_loop_Cons [of m c acc k d b] by (simp del: of_nat_Suc)
qed

section \<open>CutString\<close>

text \<open>This \<open>CutString\<close> says nothing about success: the outputs keep their old values.\<close>

definition CutString_comm :: "string \<Rightarrow> string \<Rightarrow> string \<times> string \<Rightarrow> string \<times> string" where
  "CutString_comm inp sep outs =
     (case find_sub sep inp of
        Some pos \<Rightarrow> (take pos inp, drop (pos + length sep) inp)
      | None \<Rightarrow> outs)"

lemma CutString_comm_eq:
  "CutString_comm inp sep outs = (case CutString inp sep of Some r \<Rightarrow> r | None \<Rightarrow> outs)"
  by (simp add: CutString_comm_def CutString_def split: option.splits)

text \<open>It meets the contract of the server's \<open>CutString\<close>, read off its outputs.\<close>

interpretation comm_cut: cutter
  "\<lambda>inp sep. if find_sub sep inp = None then None else Some (CutString_comm inp sep ([], []))"
proof (unfold_locales, goal_cases)
  case (1 target sep a b)
  then show ?case
    using server_cut.cut_join [of target sep a b]
    by (auto simp: CutString_comm_def CutString_def split: if_splits option.splits)
next
  case (2 target sep a b j)
  then show ?case
    using server_cut.cut_first [of target sep a b j]
    by (auto simp: CutString_comm_def CutString_def split: if_splits option.splits)
next
  case (3 target sep j)
  then show ?case
    using server_cut.cut_none [of target sep j] by (auto simp: CutString_def split: if_splits)
qed

end
