(* ===== verification/Cgi_Calc.thy ===== *)
theory Cgi_Calc
  imports Cgi_Comm
begin

text \<open>
  cgi.cc (the program \<open>exe_cgi\<close>): it takes the two values out of \<open>a=100&b=200\<close>, prints them
  and a page with their sum, difference, product and quotient. \<open>int\<close> arithmetic is that of
  32-bit two's complement, and division by zero, or of the least \<open>int\<close> by -1, raises SIGFPE
  (signal 8). The two lines that end in \<open>std::endl\<close> are flushed as they are printed; the page
  stays in the buffer of \<open>std::cout\<close> until the program ends.
\<close>

definition trunc_div :: "int \<Rightarrow> int \<Rightarrow> int" where
  "trunc_div x y = sgn x * sgn y * (\<bar>x\<bar> div \<bar>y\<bar>)"

definition calc_page :: "string \<Rightarrow> string \<Rightarrow> int \<Rightarrow> int \<Rightarrow> string" where
  "calc_page value1 value2 x y =
     ''<html>'' @ ''<head><meta charset=\"utf-8\"></head>'' @ ''<body>''
     @ ''<h3> '' @ value1 @ '' + '' @ value2 @ '' = '' @ to_string (int32 (x + y)) @ ''</h3>''
     @ ''<h3> '' @ value1 @ '' - '' @ value2 @ '' = '' @ to_string (int32 (x - y)) @ ''</h3>''
     @ ''<h3> '' @ value1 @ '' * '' @ value2 @ '' = '' @ to_string (int32 (x * y)) @ ''</h3>''
     @ ''<h3> '' @ value1 @ '' / '' @ value2 @ '' = '' @ to_string (trunc_div x y) @ ''</h3>''
     @ ''</body>'' @ ''</html>''"

definition calc_lines :: "string \<Rightarrow> string \<Rightarrow> string \<Rightarrow> string \<Rightarrow> string" where
  "calc_lines name1 value1 name2 value2 =
     name1 @ '' : '' @ value1 @ [LF] @ name2 @ '' : '' @ value2 @ [LF]"

definition calc_body :: "string \<Rightarrow> proc" where
  "calc_body qs =
     (let (str1, str2) = CutString_comm qs ''&'' ([], []);
          (name1, value1) = CutString_comm str1 ''='' ([], []);
          (name2, value2) = CutString_comm str2 ''='' ([], []);
          x = atoi value1;
          y = atoi value2
      in PWrite (calc_lines name1 value1 name2 value2)
           (PErr (calc_lines name1 value1 name2 value2)
             (if y = 0 \<or> x = - 2147483648 \<and> y = - 1 then PKilled 8
              else PWrite (calc_page value1 value2 x y) (PExit 0))))"

definition calc_main :: "(string \<Rightarrow> string option) \<Rightarrow> proc" where
  "calc_main env = GetQueryString env (\<lambda>ok qs. calc_body qs)"

text \<open>A query string of two named values.\<close>

definition two_values :: "string \<Rightarrow> string \<Rightarrow> string \<Rightarrow> string \<Rightarrow> string" where
  "two_values n1 v1 n2 v2 = n1 @ ''='' @ v1 @ ''&'' @ n2 @ ''='' @ v2"

definition clean_value :: "string \<Rightarrow> bool" where
  "clean_value s \<longleftrightarrow> CHR ''&'' \<notin> set s \<and> CHR ''='' \<notin> set s"

lemma CutString_comm_char:
  "x \<notin> set a \<Longrightarrow> CutString_comm (a @ [x] @ b) [x] outs = (a, b)"
  using server_cut.cut_char [of x a "[]" b] by (simp add: CutString_comm_eq)

lemma cut_two_values:
  assumes "clean_value n1" "clean_value v1" "clean_value n2"
  shows "CutString_comm (two_values n1 v1 n2 v2) ''&'' outs = (n1 @ ''='' @ v1, n2 @ ''='' @ v2)"
    and "CutString_comm (n1 @ ''='' @ v1) ''='' outs = (n1, v1)"
    and "CutString_comm (n2 @ ''='' @ v2) ''='' outs = (n2, v2)"
proof -
  have "CHR ''&'' \<notin> set (n1 @ ''='' @ v1)" using assms by (simp add: clean_value_def)
  from CutString_comm_char [OF this, of "n2 @ ''='' @ v2" outs]
  show "CutString_comm (two_values n1 v1 n2 v2) ''&'' outs = (n1 @ ''='' @ v1, n2 @ ''='' @ v2)"
    by (simp add: two_values_def)
  show "CutString_comm (n1 @ ''='' @ v1) ''='' outs = (n1, v1)"
    and "CutString_comm (n2 @ ''='' @ v2) ''='' outs = (n2, v2)"
    using assms by (intro CutString_comm_char; simp add: clean_value_def)+
qed

lemma run_calc_body:
  assumes "clean_value n1" "clean_value v1" "clean_value n2"
  shows "run_proc (calc_body (two_values n1 v1 n2 v2)) inp =
    (if atoi v2 = 0 \<or> atoi v1 = - 2147483648 \<and> atoi v2 = - 1
     then Some (calc_lines n1 v1 n2 v2, Signaled 8)
     else Some (calc_lines n1 v1 n2 v2 @ calc_page v1 v2 (atoi v1) (atoi v2), Exited 0))"
  by (simp add: calc_body_def Let_def cut_two_values(1) [OF assms]
      cut_two_values(2,3) [OF assms, simplified])

end
