(* ===== verification/Cgi_Register.thy ===== *)
theory Cgi_Register
  imports Cgi_Comm
begin

text \<open>
  mysql_connect.cc (the program \<open>mysql_cgi\<close>): it builds an SQL statement from the two form
  fields and runs it. The MySQL client library is a parameter: whether
  \<open>mysql_real_connect\<close> succeeds and what \<open>mysql_query\<close> returns for a statement, which it gets as a C string.
\<close>

record mysql_client =
  mysql_connects :: bool
  mysql_query :: "string \<Rightarrow> int"

text \<open>
  The result of \<open>InsertSql\<close> and what it prints on standard error. On a failed connection the
  source says \<open>return 1\<close>, which as a \<open>bool\<close> is \<open>true\<close>.
\<close>

definition InsertSql :: "mysql_client \<Rightarrow> string \<Rightarrow> bool \<times> string" where
  "InsertSql db sql =
     (if \<not> mysql_connects db then (True, ''connect error!'' @ [LF])
      else (True, ''connect success'' @ [LF] @ ''query : '' @ sql @ [LF]
                    @ ''result: '' @ to_string (mysql_query db (c_str sql)) @ [LF]))"

definition insert_statement :: "string \<Rightarrow> string \<Rightarrow> string" where
  "insert_statement sql_name sql_passwd =
     ''insert into user(name, password) values ('' @ [CHR 0x27] @ sql_name
       @ [CHR 0x27] @ '','' @ [CHR 0x27] @ sql_passwd @ [CHR 0x27] @ '')''"

text \<open>The page of a successful registration; its heading is UTF-8 text.\<close>

definition success_page :: string where
  "success_page =
     ''<html>'' @ ''<head><meta charset=\"utf-8\"></head>'' @ ''<body><h1>''
     @ [CHR 0xE6, CHR 0xB3, CHR 0xA8, CHR 0xE5, CHR 0x86, CHR 0x8C,
        CHR 0xE6, CHR 0x88, CHR 0x90, CHR 0xE5, CHR 0x8A, CHR 0x9F]
     @ ''!</h1></body>''"

definition form_statement :: "string \<Rightarrow> string" where
  "form_statement qs =
     (let (name, passwd) = CutString_comm qs ''&'' ([], []);
          (name_key, sql_name) = CutString_comm name ''='' ([], []);
          (passwd_key, sql_passwd) = CutString_comm passwd ''='' ([], [])
      in insert_statement sql_name sql_passwd)"

definition register_main :: "mysql_client \<Rightarrow> (string \<Rightarrow> string option) \<Rightarrow> proc" where
  "register_main db env =
     GetQueryString env (\<lambda>ok qs.
       if ok then
         PErr (qs @ [LF])
           (case InsertSql db (form_statement qs) of
              (inserted, err) \<Rightarrow>
                PErr err (if inserted then PWrite success_page (PExit 0) else PExit 0))
       else PExit 0)"

end
