(* ===== verification/Web_Programs.thy ===== *)
theory Web_Programs
  imports Web_Send Cgi_Calc Cgi_Register
begin

text \<open>
  The server and its CGI programs together: what \<open>GetQueryString\<close> makes of the environment
  and the pipe that \<open>ProcessCIG\<close> prepares, and when the handler of a connection returns.
\<close>

section \<open>GetQueryString on what the server hands over\<close>

lemma run_query_post:
  assumes "length b < 2147483648"
  shows "run_proc (GetQueryString (post_env env (length b)) k) (b @ r) = run_proc (k True b) r"
proof -
  have "atoi (to_string (int (length b))) = int (length b)"
    by (rule atoi_to_string) (use assms in \<open>simp add: in_int32_def\<close>)
  moreover have "run_proc (read_loop (of_nat (length b)) NUL [] (k True)) (b @ r) = run_proc (k True b) r"
    using run_read_loop [of b NUL "[]" "k True" r] assms by simp
  ultimately show ?thesis by (simp add: GetQueryString_def post_env_def)
qed

lemma run_query_get:
  assumes "NUL \<notin> set q"
  shows "run_proc (GetQueryString (get_env env q) k) inp = run_proc (k True q) inp"
  using c_str_id [OF assms] by (simp add: GetQueryString_def get_env_def)

text \<open>
  A program of this kind takes its parameters with \<open>GetQueryString\<close>, reads nothing more, and
  ends whatever they are.
\<close>

definition parameter_program :: "((string \<Rightarrow> string option) \<Rightarrow> proc) \<Rightarrow> bool" where
  "parameter_program prog \<longleftrightarrow>
     (\<exists>k. prog = (\<lambda>e. GetQueryString e k) \<and> (\<forall>ok qs inp. run_proc (k ok qs) inp \<noteq> None))"

lemma calc_parameter_program: "parameter_program calc_main"
  unfolding parameter_program_def
proof (intro exI conjI)
  show "calc_main = (\<lambda>e. GetQueryString e (\<lambda>ok. calc_body))" by (simp add: calc_main_def fun_eq_iff)
  show "\<forall>ok qs inp. run_proc (calc_body qs) inp \<noteq> None"
    by (auto simp: calc_body_def Let_def split: prod.splits)
qed

lemma register_parameter_program: "parameter_program (register_main db)"
  unfolding parameter_program_def
  by (rule exI [of _ "\<lambda>ok qs. if ok then PErr (qs @ [LF]) (case InsertSql db (form_statement qs) of
              (inserted, err) \<Rightarrow>
                PErr err (if inserted then PWrite success_page (PExit 0) else PExit 0)) else PExit 0"])
     (auto simp: register_main_def fun_eq_iff split: prod.splits)

lemma parameter_program_returns:
  assumes "parameter_program prog" "write_progress env"
    and "content_length r = int (length (Req_body r))" "length (Req_body r) < 2147483648"
    and "req_method r = ''POST'' \<or> req_method r = ''GET''"
  shows "run_proc (prog (cgi_environment env r)) (written (parent_writes env pfd r)) \<noteq> None"
proof -
  obtain k where k: "prog = (\<lambda>e. GetQueryString e k)" "\<forall>ok qs inp. run_proc (k ok qs) inp \<noteq> None"
    using assms(1) unfolding parameter_program_def by blast
  show ?thesis
  proof (cases "req_method r = ''POST''")
    case True
    have "run_proc (GetQueryString (post_env env (length (Req_body r))) k) (Req_body r) \<noteq> None"
      using run_query_post [OF assms(4), of env k "[]"] k(2) by simp
    then show ?thesis
      using k(1) True written_parent_writes [OF assms(2,3)] cgi_environment_post [OF True assms(3)] by simp
  next
    case False
    then have g: "req_method r = ''GET''" using assms(5) by blast
    then show ?thesis
      using k written_parent_writes_GET [OF g] cgi_environment_get [OF g]
      by (simp add: GetQueryString_def get_env_def)
  qed
qed

section \<open>When the handler returns\<close>

lemma choose_path_keeps [simp]:
  "req_method (choose_path r) = req_method r" "content_length (choose_path r) = content_length r"
  "Req_body (choose_path r) = Req_body r"
  by (simp_all add: choose_path_def Let_def split: option.splits)

lemma stat_path_keeps:
  "stat_path env r = Some r1 \<Longrightarrow> req_method r1 = req_method r \<and> content_length r1 = content_length r
    \<and> Req_body r1 = Req_body r"
  by (auto simp: stat_path_def Let_def split: option.splits)

lemma find_suffix_keeps [simp]:
  "req_method (find_suffix r) = req_method r" "content_length (find_suffix r) = content_length r"
  "Req_body (find_suffix r) = Req_body r" "path (find_suffix r) = path r"
  by (simp_all add: find_suffix_extension)

lemma ProcessCIG_returns:
  assumes "\<forall>p prog. os_exec env p = Some prog \<longrightarrow> parameter_program prog" "write_progress env"
    and "content_length (request ep) = int (length (Req_body (request ep)))"
      "length (Req_body (request ep)) < 2147483648"
    and "req_method (request ep) = ''POST'' \<or> req_method (request ep) = ''GET''"
  shows "ProcessCIG env ep \<noteq> None"
proof -
  have "run_proc (cgi_child env (request ep)) (written (parent_writes env pfd (request ep))) \<noteq> None" for pfd
    using parameter_program_returns [OF _ assms(2-5)] assms(1)
    by (simp add: cgi_child_def split: option.splits)
  then show ?thesis
    by (auto simp: ProcessCIG_def Let_def simp del: not_None_eq split: option.splits)
qed

lemma BuildHttpResponse_returns:
  assumes "\<forall>p prog. os_exec env p = Some prog \<longrightarrow> parameter_program prog" "write_progress env"
    and "content_length (request ep) = int (length (Req_body (request ep)))"
      "length (Req_body (request ep)) < 2147483648"
  shows "BuildHttpResponse env ep \<noteq> None"
proof (cases "req_method (request ep) = ''POST'' \<or> req_method (request ep) = ''GET''")
  case True
  show ?thesis
  proof (cases "stat_path env (choose_path (request ep))")
    case None
    with True show ?thesis by (auto simp: BuildHttpResponse_def Let_def)
  next
    case (Some r1)
    have "ProcessCIG env (ep\<lparr>request := find_suffix r1\<rparr>) \<noteq> None"
      by (rule ProcessCIG_returns [OF assms(1,2)])
         (use stat_path_keeps [OF Some] assms(3,4) True in simp_all)
    with True Some show ?thesis by (auto simp: BuildHttpResponse_def Let_def split: prod.splits)
  qed
qed (simp add: BuildHttpResponse_def)

lemma HandlerRequest_returns:
  assumes "ending st \<noteq> Silent" "length (inbuf st) < 2147483648"
    and "\<forall>p prog. os_exec env p = Some prog \<longrightarrow> parameter_program prog" "write_progress env"
  shows "HandlerRequest env indet junk s st \<noteq> None"
proof -
  let ?ep = "EndPoint_new junk s st"
  obtain ep where r: "RecvHttpRequest indet ?ep = Some ep"
    using RecvHttpRequest_returns [of ?ep indet] assms(1) by auto
  show ?thesis
  proof (cases "stop ep")
    case True
    with HandlerRequest_stop [OF r] show ?thesis by simp
  next
    case False
    have "length (Req_body (request ep)) < 2147483648"
      using RecvHttpRequest_unread [OF r] assms(2) by (simp add: unread_def)
    then have "BuildHttpResponse env (emit [EvLog INFO ''Recv No Error, Begin Build And Send ...''] ep) \<noteq> None"
      using RecvHttpRequest_length [OF r fresh_new False] int32_length
      by (intro BuildHttpResponse_returns [OF assms(3,4)]) simp_all
    with HandlerRequest_go [OF r False] show ?thesis by simp
  qed
qed

section \<open>A body too long for an int\<close>

text \<open>
  The bound of 2^31 bytes is needed. \<open>content_length\<close> is an \<open>int\<close>: a body of between 2^31 and
  2^32 bytes is announced by a negative number (or one that \<open>atoi\<close> makes negative), which the
  loop counts down, past the least \<open>int\<close>, to 0, so that the whole body is received. But then
  the write loop of \<open>ProcessCIG\<close> sees that 0 is not below the length and writes nothing, while
  \<open>GetQueryString\<close> counts the same number as an unsigned one and waits for all of it.
\<close>

lemma word_of_int32: "word_of_int (int32 x) = (word_of_int x :: 32 word)"
proof -
  have "4294967296 dvd int32 x - x" unfolding int32_eq_iff [symmetric] by simp
  then show ?thesis by (simp add: word_of_int_eq_iff take_bit_eq_mod mod_eq_dvd_iff)
qed

lemma body_loop_wraps:
  assumes "length b < 4294967296" "conn ep = with_bytes (b @ r) s"
  shows "body_loop (int32 (int (length b))) ep = Some
    (ep\<lparr>conn := with_bytes r s, request := (request ep)\<lparr>Req_body := Req_body (request ep) @ b\<rparr>\<rparr>)"
proof -
  have "int32 (int32 (int (length b)) - int k) \<noteq> 0" if "k < length b" for k
    unfolding int32_int32_diff using assms(1) that by (intro int32_nonzero) linarith+
  then show ?thesis
    using body_loop_run [of b "int32 (int (length b))" ep r s] assms(2) by (simp add: body_loop.simps [of 0])
qed

lemma large_body_blocks:
  assumes "parameter_program prog" "req_method r = ''POST''" "content_length r = int32 (int n)"
    and "2147483648 \<le> n" "n < 4294967296"
  shows "run_proc (prog (cgi_environment env r)) (written (parent_writes env pfd r)) = None"
proof -
  obtain k where k: "prog = (\<lambda>e. GetQueryString e k)" using assms(1) unfolding parameter_program_def by blast
  have "(int n + 2147483648) mod 4294967296 = (int n - 2147483648 + 4294967296) mod 4294967296"
    by (simp add: add.commute)
  also have "\<dots> = (int n - 2147483648) mod 4294967296" by (rule mod_add_self2)
  also have "\<dots> = int n - 2147483648" using assms(4,5) by (intro mod_pos_pos_trivial) simp_all
  finally have "content_length r \<le> 0" using assms(3,5) by (simp add: int32_def)
  then have "written (parent_writes env pfd r) = []"
    by (simp add: parent_writes_def write_loop.simps)
  moreover have "atoi (to_string (content_length r)) = content_length r"
    by (rule atoi_to_string) (simp add: assms(3))
  moreover have "(word_of_int (content_length r) :: 32 word) = of_nat n"
    by (simp add: assms(3) word_of_int32)
  moreover have "run_proc (read_loop (of_nat n) NUL [] (k True)) [] = None"
    by (rule run_read_loop_short) (use assms(4,5) in simp_all)
  ultimately show ?thesis
    by (simp add: k GetQueryString_def cgi_environment_def putenv_def assms(2) Let_def)
qed

theorem large_post_hangs:
  assumes env: "os_pipe_in env = Some (in0, in1)" "os_pipe_out env = Some (out0, out1)" "0 < os_fork env"
    and req: "request_ok nl m u v kvs" "\<forall>e. \<not> indet e"
    and meth: "map toupper m = ''POST''" "map_of kvs ''Content-Length'' = Some cl"
      "atoi cl = int32 (int (length b))" "2147483648 \<le> length b" "length b < 4294967296"
    and res: "os_stat env (c_str (root_path u)) = Some st" "\<not> st_isdir st"
    and prog: "os_exec env (c_str (root_path u)) = Some prog" "parameter_program prog"
  shows "HandlerRequest env indet junk s (arrives (request_head_bytes nl m u v kvs @ b @ r) e) = None"
proof -
  let ?new = "EndPoint_new junk s (arrives (request_head_bytes nl m u v kvs @ b @ r) e)"
  let ?ep = "parsed m u v kvs (arrives (b @ r) e) ?new"
  let ?received = "?ep\<lparr>conn := arrives r e, request := (request ?ep)\<lparr>content_length := atoi cl, Req_body := b\<rparr>\<rparr>"
  have c: "conn ?new = with_bytes (request_head_bytes nl m u v kvs @ b @ r) (arrives [] e)" by simp
  have "body_loop (int32 (int (length b))) (?ep\<lparr>request := (request ?ep)\<lparr>content_length := atoi cl\<rparr>\<rparr>) = Some ?received"
    using body_loop_wraps [OF meth(5), of "?ep\<lparr>request := (request ?ep)\<lparr>content_length := atoi cl\<rparr>\<rparr>" r "arrives [] e"]
    by simp
  then have r: "RecvHttpRequest indet ?new = Some ?received"
    using RecvHttpRequest_body [OF req fresh_new c meth(1,2)] meth(3) by (simp add: Let_def)
  let ?building = "emit [EvLog INFO ''Recv No Error, Begin Build And Send ...''] ?received"
  let ?r = "(request ?building)\<lparr>path := root_path u, cgi := True, req_size := int32 (st_size st)\<rparr>"
  let ?processed = "?building\<lparr>request := ?r\<lparr>req_suffix := extension (path ?r)\<rparr>\<rparr>"
  have "choose_path (request ?building) = (request ?building)\<lparr>path := root_path u, cgi := True\<rparr>"
    using choose_path_post [of "request ?building"] meth(1) by simp
  then have "stat_path env (choose_path (request ?building)) = Some ?r"
    using stat_path_file [of env "(request ?building)\<lparr>path := root_path u, cgi := True\<rparr>" st] res by simp
  then have b: "BuildHttpResponse env ?building =
    map_option (\<lambda>(code, ep). BuildHttpResponseHelper env (set_code code ep)) (ProcessCIG env ?processed)"
    using meth(1) by (intro Build_cgi) simp_all
  have "cgi_child env (request ?processed) = prog (cgi_environment env (request ?processed))"
    using prog(1) by (simp add: cgi_child_def)
  moreover have "run_proc (prog (cgi_environment env (request ?processed))) (written (parent_writes env out1 (request ?processed))) = None"
    by (rule large_body_blocks [OF prog(2) _ _ meth(4,5)]) (simp_all add: meth(1,3))
  ultimately have "run_proc (cgi_child env (request ?processed)) (written (parent_writes env out1 (request ?processed))) = None"
    by simp
  then have "ProcessCIG env ?processed = None" by (rule ProcessCIG_blocked [OF env])
  then have "BuildHttpResponse env ?building = None" unfolding b by (simp only: option.map)
  moreover have "\<not> stop ?received" by simp
  ultimately show ?thesis using HandlerRequest_go [OF r] by simp
qed

end
