(* ===== verification/Web_Pool.thy ===== *)
theory Web_Pool
  imports Web_Send
begin

text \<open>
  ThreadPool.hpp: the task queue, the worker routine and \<open>PushTask\<close>, as a step relation over
  the workers and the one thread that pushes (the accept loop of HttpServer.hpp). A step is
  one call on the mutex, the condition variable or the queue, so that every interleaving of
  the calls is a run.
\<close>

section \<open>The queue\<close>

text \<open>\<open>std::queue<Task>\<close>: \<open>front\<close> and \<open>pop\<close> together, and \<open>push\<close>.\<close>

definition queue_push :: "Task \<Rightarrow> Task list \<Rightarrow> Task list" where
  "queue_push t q = q @ [t]"

definition queue_pop :: "Task list \<Rightarrow> (Task \<times> Task list) option" where
  "queue_pop q = (case q of [] \<Rightarrow> None | t # q' \<Rightarrow> Some (t, q'))"

text \<open>
  What the pool relies on in its queue: first in, first out. The client's log of what went in
  and what came out stays in step with the contents.
\<close>

locale fifo =
  fixes emp :: 'q and push :: "'a \<Rightarrow> 'q \<Rightarrow> 'q" and pop :: "'q \<Rightarrow> ('a \<times> 'q) option"
    and elems :: "'q \<Rightarrow> 'a list"
  assumes elems_emp: "elems emp = []"
    and elems_push: "elems (push x q) = elems q @ [x]"
    and pop_None: "pop q = None \<longleftrightarrow> elems q = []"
    and pop_Some: "pop q = Some (x, q') \<Longrightarrow> elems q = x # elems q'"
begin

lemma log_emp: "[] = [] @ elems emp"
  by (simp add: elems_emp)

lemma log_push: "ins = outs @ elems q \<Longrightarrow> ins @ [x] = outs @ elems (push x q)"
  by (simp add: elems_push)

lemma log_pop: "ins = outs @ elems q \<Longrightarrow> pop q = Some (x, q') \<Longrightarrow> ins = (outs @ [x]) @ elems q'"
  by (simp add: pop_Some)

end

interpretation task_fifo: fifo "[]" queue_push queue_pop "\<lambda>q. q"
  by unfold_locales (auto simp: queue_push_def queue_pop_def split: list.splits)

section \<open>The pool\<close>

text \<open>
  Where a worker is in \<open>ThreadRoutine\<close>: at \<open>Lock\<close>; at the test of the inner loop; inside
  \<open>pthread_cond_wait\<close>, asleep or woken and waiting for the mutex; at \<open>PopTask\<close>; at \<open>UnLock\<close>;
  in \<open>ProcessOn\<close>.
\<close>

datatype wpc = WLock | WTest | WSleep | WWake | WPop | WUnlock Task | WRun Task

text \<open>Where the pushing thread is in \<open>PushTask\<close>; \<open>PIdle\<close> is outside.\<close>

datatype ppc = PIdle | PLock Task | PPush Task | PUnlock | PSignal

datatype agent = Main | Worker nat

text \<open>
  \<open>pushed\<close>, \<open>popped\<close> and \<open>served\<close> record the tasks that went into the queue, came out of it and
  have been processed, in this order.
\<close>

record pool =
  task_queue :: "Task list"
  mutex :: "agent option"
  wpcs :: "nat \<Rightarrow> wpc"
  main_pc :: ppc
  pushed :: "Task list"
  popped :: "Task list"
  served :: "Task list"

definition pool_start :: pool where
  "pool_start = \<lparr>task_queue = [], mutex = None, wpcs = (\<lambda>_. WLock), main_pc = PIdle,
     pushed = [], popped = [], served = []\<rparr>"

definition TaskQueueIsEmpty :: "pool \<Rightarrow> bool" where
  "TaskQueueIsEmpty s \<longleftrightarrow> task_queue s = []"

definition wgoto :: "nat \<Rightarrow> wpc \<Rightarrow> pool \<Rightarrow> pool" where
  "wgoto i p s = s\<lparr>wpcs := (wpcs s)(i := p)\<rparr>"

text \<open>
  The internal steps of a pool with \<open>n\<close> workers. \<open>hangs\<close> says which tasks' handlers never
  return. \<open>signal\<close> wakes one sleeping worker if there is one.
\<close>

inductive pool_internal :: "nat \<Rightarrow> (Task \<Rightarrow> bool) \<Rightarrow> pool \<Rightarrow> pool \<Rightarrow> bool"
  for n :: nat and hangs :: "Task \<Rightarrow> bool" where
  w_lock: "i < n \<Longrightarrow> wpcs s i = WLock \<Longrightarrow> mutex s = None \<Longrightarrow>
    pool_internal n hangs s (wgoto i WTest (s\<lparr>mutex := Some (Worker i)\<rparr>))"
| w_wait: "i < n \<Longrightarrow> wpcs s i = WTest \<Longrightarrow> TaskQueueIsEmpty s \<Longrightarrow>
    pool_internal n hangs s (wgoto i WSleep (s\<lparr>mutex := None\<rparr>))"
| w_found: "i < n \<Longrightarrow> wpcs s i = WTest \<Longrightarrow> \<not> TaskQueueIsEmpty s \<Longrightarrow>
    pool_internal n hangs s (wgoto i WPop s)"
| w_pop: "i < n \<Longrightarrow> wpcs s i = WPop \<Longrightarrow> queue_pop (task_queue s) = Some (t, q) \<Longrightarrow>
    pool_internal n hangs s (wgoto i (WUnlock t) (s\<lparr>task_queue := q, popped := popped s @ [t]\<rparr>))"
| w_unlock: "i < n \<Longrightarrow> wpcs s i = WUnlock t \<Longrightarrow>
    pool_internal n hangs s (wgoto i (WRun t) (s\<lparr>mutex := None\<rparr>))"
| w_done: "i < n \<Longrightarrow> wpcs s i = WRun t \<Longrightarrow> \<not> hangs t \<Longrightarrow>
    pool_internal n hangs s (wgoto i WLock (s\<lparr>served := served s @ [t]\<rparr>))"
| w_relock: "i < n \<Longrightarrow> wpcs s i = WWake \<Longrightarrow> mutex s = None \<Longrightarrow>
    pool_internal n hangs s (wgoto i WTest (s\<lparr>mutex := Some (Worker i)\<rparr>))"
| p_lock: "main_pc s = PLock t \<Longrightarrow> mutex s = None \<Longrightarrow>
    pool_internal n hangs s (s\<lparr>main_pc := PPush t, mutex := Some Main\<rparr>)"
| p_push: "main_pc s = PPush t \<Longrightarrow>
    pool_internal n hangs s (s\<lparr>main_pc := PUnlock, task_queue := queue_push t (task_queue s),
      pushed := pushed s @ [t]\<rparr>)"
| p_unlock: "main_pc s = PUnlock \<Longrightarrow>
    pool_internal n hangs s (s\<lparr>main_pc := PSignal, mutex := None\<rparr>)"
| p_signal: "main_pc s = PSignal \<Longrightarrow> i < n \<Longrightarrow> wpcs s i = WSleep \<Longrightarrow>
    pool_internal n hangs s (wgoto i WWake (s\<lparr>main_pc := PIdle\<rparr>))"
| p_signal_none: "main_pc s = PSignal \<Longrightarrow> (\<forall>i < n. wpcs s i \<noteq> WSleep) \<Longrightarrow>
    pool_internal n hangs s (s\<lparr>main_pc := PIdle\<rparr>)"

text \<open>
  The environment's steps: the accept loop calls \<open>PushTask\<close>, and a sleeping worker wakes
  without a signal (which POSIX allows).
\<close>

inductive pool_step :: "nat \<Rightarrow> (Task \<Rightarrow> bool) \<Rightarrow> pool \<Rightarrow> pool \<Rightarrow> bool"
  for n :: nat and hangs :: "Task \<Rightarrow> bool" where
  internal: "pool_internal n hangs s s' \<Longrightarrow> pool_step n hangs s s'"
| p_call: "main_pc s = PIdle \<Longrightarrow> pool_step n hangs s (s\<lparr>main_pc := PLock t\<rparr>)"
| w_spurious: "i < n \<Longrightarrow> wpcs s i = WSleep \<Longrightarrow> pool_step n hangs s (wgoto i WWake s)"

inductive_cases pool_stepE: "pool_step n hangs s s'"

lemma wgoto_sel [simp]:
  "task_queue (wgoto i p s) = task_queue s" "mutex (wgoto i p s) = mutex s"
  "wpcs (wgoto i p s) = (wpcs s)(i := p)" "main_pc (wgoto i p s) = main_pc s"
  "pushed (wgoto i p s) = pushed s" "popped (wgoto i p s) = popped s"
  "served (wgoto i p s) = served s"
  by (simp_all add: wgoto_def)

section \<open>Invariants\<close>

primrec wholds :: "wpc \<Rightarrow> bool" where
  "wholds WLock = False"
| "wholds WTest = True"
| "wholds WSleep = False"
| "wholds WWake = False"
| "wholds WPop = True"
| "wholds (WUnlock t) = True"
| "wholds (WRun t) = False"

primrec pholds :: "ppc \<Rightarrow> bool" where
  "pholds PIdle = False"
| "pholds (PLock t) = False"
| "pholds (PPush t) = True"
| "pholds PUnlock = True"
| "pholds PSignal = False"

text \<open>The mutex belongs to whoever is between \<open>Lock\<close> and \<open>UnLock\<close>.\<close>

definition lock_inv :: "pool \<Rightarrow> bool" where
  "lock_inv s \<longleftrightarrow> (\<forall>i. wholds (wpcs s i) \<longleftrightarrow> mutex s = Some (Worker i))
     \<and> (pholds (main_pc s) \<longleftrightarrow> mutex s = Some Main)"

text \<open>A worker at \<open>PopTask\<close> has a task to pop, and the queue is what was pushed and not popped.\<close>

definition queue_inv :: "pool \<Rightarrow> bool" where
  "queue_inv s \<longleftrightarrow> (\<forall>i. wpcs s i = WPop \<longrightarrow> task_queue s \<noteq> []) \<and> pushed s = popped s @ task_queue s"

text \<open>A popped task is in the hands of one worker or has been served.\<close>

primrec whand :: "wpc \<Rightarrow> Task multiset" where
  "whand WLock = {#}"
| "whand WTest = {#}"
| "whand WSleep = {#}"
| "whand WWake = {#}"
| "whand WPop = {#}"
| "whand (WUnlock t) = {#t#}"
| "whand (WRun t) = {#t#}"

definition hand_inv :: "nat \<Rightarrow> pool \<Rightarrow> bool" where
  "hand_inv n s \<longleftrightarrow> mset (popped s) = mset (served s) + (\<Sum>i<n. whand (wpcs s i))"

text \<open>While a task waits, a worker is up or a signal is on its way.\<close>

definition wake_inv :: "nat \<Rightarrow> pool \<Rightarrow> bool" where
  "wake_inv n s \<longleftrightarrow> (task_queue s \<noteq> [] \<longrightarrow>
     (\<exists>i<n. wpcs s i \<noteq> WSleep) \<or> main_pc s = PUnlock \<or> main_pc s = PSignal)"

definition pool_inv :: "nat \<Rightarrow> pool \<Rightarrow> bool" where
  "pool_inv n s \<longleftrightarrow> lock_inv s \<and> queue_inv s \<and> hand_inv n s \<and> wake_inv n s"

lemma lock_inv_worker: "lock_inv s \<Longrightarrow> wholds (wpcs s i) \<longleftrightarrow> mutex s = Some (Worker i)"
  by (simp add: lock_inv_def)

lemma lock_inv_main: "lock_inv s \<Longrightarrow> pholds (main_pc s) \<longleftrightarrow> mutex s = Some Main"
  by (simp add: lock_inv_def)

lemma lock_inv_internal:
  assumes inv: "lock_inv s" and "pool_internal n hangs s s'"
  shows "lock_inv s'"
  using assms(2)
proof cases
  case (w_lock j)
  with inv lock_inv_main [OF inv] lock_inv_worker [OF inv, of j] show ?thesis
    by (auto simp: lock_inv_def)
next
  case (w_wait j)
  with inv lock_inv_main [OF inv] lock_inv_worker [OF inv, of j] show ?thesis
    by (auto simp: lock_inv_def)
next
  case (w_found j)
  with inv lock_inv_main [OF inv] lock_inv_worker [OF inv, of j] show ?thesis
    by (auto simp: lock_inv_def)
next
  case (w_pop j t q)
  with inv lock_inv_main [OF inv] lock_inv_worker [OF inv, of j] show ?thesis
    by (auto simp: lock_inv_def)
next
  case (w_unlock j t)
  with inv lock_inv_main [OF inv] lock_inv_worker [OF inv, of j] show ?thesis
    by (auto simp: lock_inv_def)
next
  case (w_done j t)
  with inv lock_inv_main [OF inv] lock_inv_worker [OF inv, of j] show ?thesis
    by (auto simp: lock_inv_def)
next
  case (w_relock j)
  with inv lock_inv_main [OF inv] lock_inv_worker [OF inv, of j] show ?thesis
    by (auto simp: lock_inv_def)
next
  case (p_signal j)
  with inv lock_inv_main [OF inv] lock_inv_worker [OF inv, of j] show ?thesis
    by (auto simp: lock_inv_def)
next
  case (p_lock t)
  with inv lock_inv_main [OF inv] show ?thesis by (auto simp: lock_inv_def)
next
  case (p_push t)
  with inv lock_inv_main [OF inv] show ?thesis by (auto simp: lock_inv_def)
next
  case p_unlock
  with inv lock_inv_main [OF inv] show ?thesis by (auto simp: lock_inv_def)
next
  case p_signal_none
  with inv lock_inv_main [OF inv] show ?thesis by (auto simp: lock_inv_def)
qed

lemma lock_inv_step:
  assumes inv: "lock_inv s" and "pool_step n hangs s s'"
  shows "lock_inv s'"
  using assms(2)
proof cases
  case internal
  with inv show ?thesis by (rule lock_inv_internal)
next
  case (p_call t)
  with inv lock_inv_main [OF inv] show ?thesis by (auto simp: lock_inv_def)
next
  case (w_spurious j)
  with inv lock_inv_worker [OF inv, of j] show ?thesis by (auto simp: lock_inv_def)
qed

lemma queue_inv_pop_alone:
  assumes "lock_inv s" "wpcs s j = WPop" "k \<noteq> j"
  shows "wpcs s k \<noteq> WPop"
proof
  assume "wpcs s k = WPop"
  then have "mutex s = Some (Worker k)" using lock_inv_worker [OF assms(1), of k] by simp
  moreover have "mutex s = Some (Worker j)" using lock_inv_worker [OF assms(1), of j] assms(2) by simp
  ultimately show False using assms(3) by simp
qed

lemma queue_inv_step:
  assumes "lock_inv s" and inv: "queue_inv s" and "pool_step n hangs s s'"
  shows "queue_inv s'"
  using assms(3)
proof cases
  case internal
  then show ?thesis
  proof cases
    case (w_pop j t q)
    then have "task_queue s = t # q" by (simp add: task_fifo.pop_Some)
    with w_pop inv queue_inv_pop_alone [OF assms(1) w_pop(3)] show ?thesis
      by (auto simp: queue_inv_def)
  next
    case (w_found j)
    with inv show ?thesis by (auto simp: queue_inv_def TaskQueueIsEmpty_def)
  next
    case (p_push t)
    with inv show ?thesis by (auto simp: queue_inv_def task_fifo.elems_push)
  qed (use inv in \<open>auto simp: queue_inv_def\<close>)
qed (use inv in \<open>auto simp: queue_inv_def\<close>)

lemma hand_inv_step:
  assumes inv: "hand_inv n s" and "pool_step n hangs s s'"
  shows "hand_inv n s'"
  using assms(2)
proof cases
  case internal
  then show ?thesis
  proof cases
    case (w_lock j)
    with inv show ?thesis by (simp add: hand_inv_def sum_thread [OF w_lock(2), of whand])
  next
    case (w_wait j)
    with inv show ?thesis by (simp add: hand_inv_def sum_thread [OF w_wait(2), of whand])
  next
    case (w_found j)
    with inv show ?thesis by (simp add: hand_inv_def sum_thread [OF w_found(2), of whand])
  next
    case (w_pop j t q)
    with inv show ?thesis by (simp add: hand_inv_def sum_thread [OF w_pop(2), of whand])
  next
    case (w_unlock j t)
    with inv show ?thesis by (simp add: hand_inv_def sum_thread [OF w_unlock(2), of whand])
  next
    case (w_done j t)
    with inv show ?thesis by (simp add: hand_inv_def sum_thread [OF w_done(2), of whand])
  next
    case (w_relock j)
    with inv show ?thesis by (simp add: hand_inv_def sum_thread [OF w_relock(2), of whand])
  next
    case (p_signal j)
    with inv show ?thesis by (simp add: hand_inv_def sum_thread [OF p_signal(3), of whand])
  qed (use inv in \<open>simp_all add: hand_inv_def\<close>)
next
  case (p_call t)
  with inv show ?thesis by (simp add: hand_inv_def)
next
  case (w_spurious j)
  with inv show ?thesis by (simp add: hand_inv_def sum_thread [OF w_spurious(2), of whand])
qed

lemma wake_inv_step:
  assumes "0 < n" and inv: "wake_inv n s" and "pool_step n hangs s s'"
  shows "wake_inv n s'"
  using assms(3)
proof cases
  case internal
  then show ?thesis
  proof cases
    case (w_wait j)
    then show ?thesis by (simp add: wake_inv_def TaskQueueIsEmpty_def)
  next
    case (p_lock t)
    with inv show ?thesis by (auto simp: wake_inv_def)
  next
    case (p_push t)
    then show ?thesis by (simp add: wake_inv_def)
  next
    case (p_unlock)
    then show ?thesis by (simp add: wake_inv_def)
  next
    case (p_signal_none)
    with assms(1) show ?thesis by (auto simp: wake_inv_def)
  qed (auto simp: wake_inv_def)
next
  case (p_call t)
  with inv show ?thesis by (auto simp: wake_inv_def)
next
  case (w_spurious j)
  then show ?thesis by (auto simp: wake_inv_def)
qed

text \<open>The pool starts with at least one worker: \<open>NUM\<close> is 6.\<close>

definition NUM :: nat where "NUM = 6"

lemma pool_inv_start: "pool_inv n pool_start"
  by (simp add: pool_inv_def pool_start_def lock_inv_def queue_inv_def hand_inv_def wake_inv_def)

lemma pool_inv_step: "0 < n \<Longrightarrow> pool_inv n s \<Longrightarrow> pool_step n hangs s s' \<Longrightarrow> pool_inv n s'"
  unfolding pool_inv_def
  using lock_inv_step queue_inv_step hand_inv_step wake_inv_step by blast

interpretation pool: invariant_system "\<lambda>s. s = pool_start" "pool_step (Suc m) hangs" "pool_inv (Suc m)"
    for m hangs
  by unfold_locales (auto intro: pool_inv_start pool_inv_step)

lemma pool_reachable_inv:
  assumes "reach (\<lambda>s. s = pool_start) (pool_step n hangs) s" "0 < n"
  shows "pool_inv n s"
proof -
  obtain m where "n = Suc m" using assms(2) by (cases n) auto
  with assms(1) show ?thesis using pool.reachable_inv by blast
qed

section \<open>Progress\<close>

text \<open>
  Left alone, the pool comes to rest: every internal step lowers a weight in which a queued
  task counts for all that its worker does with it.
\<close>

primrec wrank :: "wpc \<Rightarrow> nat" where
  "wrank WLock = 3"
| "wrank WTest = 2"
| "wrank WSleep = 0"
| "wrank WWake = 3"
| "wrank WPop = 1"
| "wrank (WUnlock t) = 5"
| "wrank (WRun t) = 4"

primrec prank :: "ppc \<Rightarrow> nat" where
  "prank PIdle = 0"
| "prank (PLock t) = 17"
| "prank (PPush t) = 16"
| "prank PUnlock = 5"
| "prank PSignal = 4"

definition weight :: "nat \<Rightarrow> pool \<Rightarrow> nat" where
  "weight n s = (\<Sum>i<n. wrank (wpcs s i)) + prank (main_pc s) + 10 * length (task_queue s)"

lemma weight_decreases:
  assumes "pool_internal n hangs s s'"
  shows "weight n s' < weight n s"
  using assms
proof cases
  case (w_lock j)
  then show ?thesis by (simp add: weight_def sum_thread [OF w_lock(2), of wrank])
next
  case (w_wait j)
  then show ?thesis by (simp add: weight_def sum_thread [OF w_wait(2), of wrank])
next
  case (w_found j)
  then show ?thesis by (simp add: weight_def sum_thread [OF w_found(2), of wrank])
next
  case (w_pop j t q)
  then have "task_queue s = t # q" by (simp add: task_fifo.pop_Some)
  with w_pop show ?thesis by (simp add: weight_def sum_thread [OF w_pop(2), of wrank])
next
  case (w_unlock j t)
  then show ?thesis by (simp add: weight_def sum_thread [OF w_unlock(2), of wrank])
next
  case (w_done j t)
  then show ?thesis by (simp add: weight_def sum_thread [OF w_done(2), of wrank])
next
  case (w_relock j)
  then show ?thesis by (simp add: weight_def sum_thread [OF w_relock(2), of wrank])
next
  case (p_signal j)
  then show ?thesis by (simp add: weight_def sum_thread [OF p_signal(3), of wrank])
next
  case (p_push t)
  then show ?thesis by (simp add: weight_def queue_push_def)
qed (simp_all add: weight_def)

text \<open>
  A state in which nothing can move: all workers asleep, the queue empty and no call of
  \<open>PushTask\<close> under way, provided that every handler returns.
\<close>

definition at_rest :: "nat \<Rightarrow> pool \<Rightarrow> bool" where
  "at_rest n s \<longleftrightarrow> (\<forall>i < n. wpcs s i = WSleep) \<and> main_pc s = PIdle \<and> task_queue s = []"

lemma free_mutex_or_step:
  assumes inv: "pool_inv n s" and "mutex s \<noteq> None" and w: "\<forall>i \<ge> n. wpcs s i = WLock"
  shows "\<exists>s'. pool_internal n hangs s s'"
proof (cases "mutex s")
  case None
  with assms(2) show ?thesis by simp
next
  case (Some a)
  have li: "lock_inv s" and qi: "queue_inv s" using inv by (simp_all add: pool_inv_def)
  show ?thesis
  proof (cases a)
    case Main
    with Some lock_inv_main [OF li] have "pholds (main_pc s)" by simp
    then show ?thesis by (cases "main_pc s") (auto intro: pool_internal.p_push pool_internal.p_unlock)
  next
    case (Worker i)
    with Some lock_inv_worker [OF li, of i] have h: "wholds (wpcs s i)" by simp
    with w have i: "i < n" by (cases "i < n") auto
    show ?thesis
    proof (cases "wpcs s i")
      case WTest
      with i show ?thesis
        by (cases "TaskQueueIsEmpty s") (auto intro: pool_internal.w_wait pool_internal.w_found)
    next
      case WPop
      with qi have "task_queue s \<noteq> []" by (auto simp: queue_inv_def)
      then obtain t q where "queue_pop (task_queue s) = Some (t, q)"
        by (cases "queue_pop (task_queue s)") (auto simp: task_fifo.pop_None)
      with i WPop show ?thesis by (blast intro: pool_internal.w_pop)
    next
      case (WUnlock t)
      with i show ?thesis by (blast intro: pool_internal.w_unlock)
    qed (use h in simp_all)
  qed
qed

lemma workers_above:
  assumes "pool_step n hangs s s'" "\<forall>i \<ge> n. wpcs s i = WLock"
  shows "\<forall>i \<ge> n. wpcs s' i = WLock"
  using assms(1)
proof cases
  case internal
  then show ?thesis using assms(2) by cases auto
qed (use assms(2) in auto)

interpretation idle_slots: invariant_system "\<lambda>s. s = pool_start" "pool_step n hangs"
    "\<lambda>s. \<forall>i \<ge> n. wpcs s i = WLock" for n hangs
proof unfold_locales
  show "s = pool_start \<Longrightarrow> \<forall>i \<ge> n. wpcs s i = WLock" for s by (simp add: pool_start_def)
  show "\<forall>i \<ge> n. wpcs s i = WLock \<Longrightarrow> pool_step n hangs s t \<Longrightarrow> \<forall>i \<ge> n. wpcs t i = WLock" for s t
    using workers_above by blast
qed

lemma stuck_at_rest:
  assumes inv: "pool_inv n s" and w: "\<forall>i \<ge> n. wpcs s i = WLock" and "0 < n"
    and h: "\<And>t. \<not> hangs t" and stuck: "\<And>s'. \<not> pool_internal n hangs s s'"
  shows "at_rest n s"
proof -
  have m: "mutex s = None" using free_mutex_or_step [OF inv _ w] stuck by blast
  have li: "lock_inv s" using inv by (simp add: pool_inv_def)
  have "wpcs s i = WSleep" if "i < n" for i
  proof (cases "wpcs s i")
    case WLock
    with that m stuck show ?thesis by (blast intro: pool_internal.w_lock)
  next
    case WWake
    with that m stuck show ?thesis by (blast intro: pool_internal.w_relock)
  next
    case (WRun t)
    with that h stuck show ?thesis by (blast intro: pool_internal.w_done)
  qed (use lock_inv_worker [OF li, of i] m in simp_all)
  then have sl: "\<forall>i < n. wpcs s i = WSleep" by blast
  have p: "main_pc s = PIdle"
  proof (cases "main_pc s")
    case (PLock t)
    with m stuck show ?thesis by (blast intro: pool_internal.p_lock)
  next
    case PSignal
    with sl \<open>0 < n\<close> stuck show ?thesis by (blast intro: pool_internal.p_signal)
  qed (use lock_inv_main [OF li] m in simp_all)
  have "wake_inv n s" using inv by (simp add: pool_inv_def)
  with sl p have "task_queue s = []" by (auto simp: wake_inv_def)
  with sl p show ?thesis by (simp add: at_rest_def)
qed

lemma at_rest_served:
  assumes "pool_inv n s" "at_rest n s"
  shows "mset (served s) = mset (pushed s)"
  using assms by (simp add: pool_inv_def at_rest_def hand_inv_def queue_inv_def)

lemma comes_to_rest:
  assumes "pool_inv n s" "\<forall>i \<ge> n. wpcs s i = WLock" "0 < n" "\<And>t. \<not> hangs t"
  shows "\<exists>s'. (pool_internal n hangs)\<^sup>*\<^sup>* s s' \<and> pool_inv n s' \<and> at_rest n s'"
  using assms(1,2)
proof (induction s rule: measure_induct_rule [where f = "weight n"])
  case (less s)
  show ?case
  proof (cases "\<exists>s'. pool_internal n hangs s s'")
    case True
    then obtain u where u: "pool_internal n hangs s u" by blast
    then have st: "pool_step n hangs s u" by (rule pool_step.internal)
    have "pool_inv n u" by (rule pool_inv_step [OF assms(3) less.prems(1) st])
    moreover have "\<forall>i \<ge> n. wpcs u i = WLock" by (rule workers_above [OF st less.prems(2)])
    ultimately obtain s' where "(pool_internal n hangs)\<^sup>*\<^sup>* u s'" "pool_inv n s'" "at_rest n s'"
      using less.IH [OF weight_decreases [OF u]] by blast
    with u show ?thesis by (blast intro: converse_rtranclp_into_rtranclp)
  next
    case False
    then have "at_rest n s" using stuck_at_rest [OF less.prems assms(3), of hangs] assms(4) by blast
    with less.prems(1) show ?thesis by blast
  qed
qed

section \<open>Running a schedule\<close>

datatype choice = CWorker nat | CWake nat | CCall Task | CMain | CSignal nat

definition worker_exec :: "(Task \<Rightarrow> bool) \<Rightarrow> nat \<Rightarrow> pool \<Rightarrow> pool option" where
  "worker_exec hangs i s =
     (case wpcs s i of
        WLock \<Rightarrow> if mutex s = None then Some (wgoto i WTest (s\<lparr>mutex := Some (Worker i)\<rparr>)) else None
      | WTest \<Rightarrow> if TaskQueueIsEmpty s then Some (wgoto i WSleep (s\<lparr>mutex := None\<rparr>))
                 else Some (wgoto i WPop s)
      | WSleep \<Rightarrow> None
      | WWake \<Rightarrow> if mutex s = None then Some (wgoto i WTest (s\<lparr>mutex := Some (Worker i)\<rparr>)) else None
      | WPop \<Rightarrow> (case queue_pop (task_queue s) of
                   None \<Rightarrow> None
                 | Some (t, q) \<Rightarrow>
                     Some (wgoto i (WUnlock t) (s\<lparr>task_queue := q, popped := popped s @ [t]\<rparr>)))
      | WUnlock t \<Rightarrow> Some (wgoto i (WRun t) (s\<lparr>mutex := None\<rparr>))
      | WRun t \<Rightarrow> if hangs t then None
                  else Some (wgoto i WLock (s\<lparr>served := served s @ [t]\<rparr>)))"

definition main_exec :: "nat \<Rightarrow> pool \<Rightarrow> pool option" where
  "main_exec n s =
     (case main_pc s of
        PIdle \<Rightarrow> None
      | PLock t \<Rightarrow> if mutex s = None then Some (s\<lparr>main_pc := PPush t, mutex := Some Main\<rparr>) else None
      | PPush t \<Rightarrow> Some (s\<lparr>main_pc := PUnlock, task_queue := queue_push t (task_queue s),
                     pushed := pushed s @ [t]\<rparr>)
      | PUnlock \<Rightarrow> Some (s\<lparr>main_pc := PSignal, mutex := None\<rparr>)
      | PSignal \<Rightarrow> if list_all (\<lambda>i. wpcs s i \<noteq> WSleep) [0..<n]
                   then Some (s\<lparr>main_pc := PIdle\<rparr>) else None)"

primrec pool_exec :: "nat \<Rightarrow> (Task \<Rightarrow> bool) \<Rightarrow> choice \<Rightarrow> pool \<Rightarrow> pool option" where
  "pool_exec n hangs (CWorker i) s = (if i < n then worker_exec hangs i s else None)"
| "pool_exec n hangs (CWake i) s =
     (if i < n \<and> wpcs s i = WSleep then Some (wgoto i WWake s) else None)"
| "pool_exec n hangs (CCall t) s =
     (if main_pc s = PIdle then Some (s\<lparr>main_pc := PLock t\<rparr>) else None)"
| "pool_exec n hangs CMain s = main_exec n s"
| "pool_exec n hangs (CSignal i) s =
     (if main_pc s = PSignal \<and> i < n \<and> wpcs s i = WSleep
      then Some (wgoto i WWake (s\<lparr>main_pc := PIdle\<rparr>)) else None)"

lemma worker_exec_step:
  assumes "worker_exec hangs i s = Some s'" "i < n"
  shows "pool_internal n hangs s s'"
proof (cases "wpcs s i")
  case WPop
  with assms show ?thesis
    by (auto simp: worker_exec_def split: option.splits intro: pool_internal.w_pop)
qed (use assms in \<open>auto simp: worker_exec_def split: if_splits
      intro: pool_internal.w_lock pool_internal.w_wait pool_internal.w_found
        pool_internal.w_unlock pool_internal.w_done pool_internal.w_relock\<close>)

lemma main_exec_step: "main_exec n s = Some s' \<Longrightarrow> pool_internal n hangs s s'"
  by (cases "main_pc s")
     (auto simp: main_exec_def list_all_iff split: if_splits
       intro: pool_internal.p_lock pool_internal.p_push pool_internal.p_unlock
         pool_internal.p_signal_none)

lemma pool_exec_step: "pool_exec n hangs c s = Some s' \<Longrightarrow> pool_step n hangs s s'"
  by (cases c)
     (auto split: if_splits intro: pool_step.internal worker_exec_step main_exec_step
       pool_internal.p_signal pool_step.p_call pool_step.w_spurious)

lemma pool_sched_reach:
  assumes "run_sched (pool_exec n hangs) cs pool_start = Some s"
  shows "reach (\<lambda>s. s = pool_start) (pool_step n hangs) s"
proof -
  have "(pool_step n hangs)\<^sup>*\<^sup>* pool_start s"
    by (rule run_sched_rtranclp [OF _ assms]) (rule pool_exec_step)
  moreover have "reach (\<lambda>s. s = pool_start) (pool_step n hangs) pool_start"
    by (rule reach_init) simp
  ultimately show ?thesis by (blast intro: reach_rtranclp)
qed

lemmas pool_eval = worker_exec_def main_exec_def pool_start_def queue_push_def queue_pop_def
  TaskQueueIsEmpty_def

text \<open>The schedule in which the main thread pushes a task and worker \<open>i\<close> takes it.\<close>

definition take_task :: "nat \<Rightarrow> Task \<Rightarrow> choice list" where
  "take_task i t = [CCall t, CMain, CMain, CMain, CMain, CWorker i, CWorker i, CWorker i, CWorker i]"

lemma run_take_task:
  assumes "main_pc s = PIdle" "mutex s = None" "task_queue s = []" "i < n" "wpcs s i = WLock"
    and "\<forall>j < n. wpcs s j \<noteq> WSleep"
  shows "\<exists>s'. run_sched (pool_exec n hangs) (take_task i t) s = Some s' \<and> main_pc s' = PIdle
    \<and> mutex s' = None \<and> task_queue s' = [] \<and> wpcs s' = (wpcs s)(i := WRun t)
    \<and> pushed s' = pushed s @ [t] \<and> popped s' = popped s @ [t] \<and> served s' = served s"
  using assms by (simp add: take_task_def pool_eval list_all_iff)

text \<open>From the start, \<open>k\<close> such rounds put the first \<open>k\<close> workers to work.\<close>

lemma run_take_tasks:
  assumes "k \<le> n"
  shows "\<exists>cs s. run_sched (pool_exec n hangs) cs pool_start = Some s \<and> main_pc s = PIdle
    \<and> mutex s = None \<and> task_queue s = [] \<and> wpcs s = (\<lambda>i. if i < k then WRun t else WLock)
    \<and> pushed s = replicate k t \<and> popped s = replicate k t \<and> served s = []"
  using assms
proof (induction k)
  case 0
  show ?case by (intro exI [of _ "[]"] exI [of _ pool_start]) (simp add: pool_start_def)
next
  case (Suc k)
  then obtain cs s where s: "run_sched (pool_exec n hangs) cs pool_start = Some s"
    "main_pc s = PIdle" "mutex s = None" "task_queue s = []" "served s = []"
    "wpcs s = (\<lambda>i. if i < k then WRun t else WLock)" "pushed s = replicate k t" "popped s = replicate k t"
    by auto
  have "\<exists>s'. run_sched (pool_exec n hangs) (take_task k t) s = Some s' \<and> main_pc s' = PIdle
    \<and> mutex s' = None \<and> task_queue s' = [] \<and> wpcs s' = (wpcs s)(k := WRun t)
    \<and> pushed s' = pushed s @ [t] \<and> popped s' = popped s @ [t] \<and> served s' = served s"
    by (rule run_take_task) (use s Suc.prems in auto)
  then obtain s' where s': "run_sched (pool_exec n hangs) (take_task k t) s = Some s'"
    "main_pc s' = PIdle" "mutex s' = None" "task_queue s' = []" "wpcs s' = (wpcs s)(k := WRun t)"
    "pushed s' = pushed s @ [t]" "popped s' = popped s @ [t]" "served s' = served s" by blast
  have "wpcs s' = (\<lambda>i. if i < Suc k then WRun t else WLock)" using s'(5) s(6) by auto
  moreover have "run_sched (pool_exec n hangs) (cs @ take_task k t) pool_start = Some s'"
    using s(1) s'(1) by (simp add: run_sched_append)
  ultimately show ?case using s s' by (metis replicate_append_same replicate_Suc)
qed

section \<open>Starvation\<close>

text \<open>When every worker is in a handler that never returns, no task is ever popped again.\<close>

definition all_stuck :: "nat \<Rightarrow> (Task \<Rightarrow> bool) \<Rightarrow> pool \<Rightarrow> bool" where
  "all_stuck n hangs s \<longleftrightarrow> (\<forall>i < n. \<exists>t. wpcs s i = WRun t \<and> hangs t)"

lemma all_stuck_step:
  assumes "pool_step n hangs s s'" "all_stuck n hangs s"
  shows "all_stuck n hangs s' \<and> popped s' = popped s \<and> served s' = served s"
  using assms(1)
proof cases
  case internal
  then show ?thesis using assms(2) by cases (auto simp: all_stuck_def)
qed (use assms(2) in \<open>auto simp: all_stuck_def\<close>)

lemma all_stuck_steps:
  assumes "(pool_step n hangs)\<^sup>*\<^sup>* s s'" "all_stuck n hangs s"
  shows "all_stuck n hangs s' \<and> popped s' = popped s \<and> served s' = served s"
  using assms by (induction rule: rtranclp_induct) (auto dest: all_stuck_step)

lemma starvation_run:
  assumes "hangs t"
  shows "\<exists>s. reach (\<lambda>s. s = pool_start) (pool_step n hangs) s \<and> all_stuck n hangs s
    \<and> task_queue s = [u] \<and> popped s = replicate n t"
proof -
  obtain cs s where s: "run_sched (pool_exec n hangs) cs pool_start = Some s" "main_pc s = PIdle"
    "mutex s = None" "task_queue s = []" "wpcs s = (\<lambda>i. if i < n then WRun t else WLock)"
    "popped s = replicate n t"
    using run_take_tasks [of n n hangs t] by blast
  define s' where "s' = s\<lparr>main_pc := PIdle, mutex := None, task_queue := [u], pushed := pushed s @ [u]\<rparr>"
  have "run_sched (pool_exec n hangs) (cs @ [CCall u, CMain, CMain, CMain, CMain]) pool_start = Some s'"
    using s by (simp add: run_sched_append pool_eval list_all_iff s'_def)
  from pool_sched_reach [OF this] have "reach (\<lambda>s. s = pool_start) (pool_step n hangs) s'" .
  moreover have "all_stuck n hangs s'" "task_queue s' = [u]" "popped s' = replicate n t"
    using s assms by (simp_all add: s'_def all_stuck_def)
  ultimately show ?thesis by blast
qed

section \<open>Creating the workers\<close>

text \<open>
  \<open>InitThreadPool\<close>: \<open>ok i\<close> says whether the \<open>i\<close>-th \<open>pthread_create\<close> succeeds. The result is
  the number of threads it leaves running and the \<open>bool\<close> it returns, which \<open>GetInstance\<close>
  does not look at.
\<close>

function init_threads :: "(nat \<Rightarrow> bool) \<Rightarrow> nat \<Rightarrow> nat \<Rightarrow> nat \<times> bool \<times> event" where
  "init_threads ok num i =
     (if i < num then
        (if \<not> ok i then (i, False, EvLog FATAL ''Create ThreadPool Fail'')
         else init_threads ok num (Suc i))
      else (i, True, EvLog INFO ''Create ThreadPool Success''))"
  by pat_completeness auto
termination
  by (relation "measure (\<lambda>(ok, num, i). num - i)") auto

declare init_threads.simps [simp del]

definition InitThreadPool :: "(nat \<Rightarrow> bool) \<Rightarrow> nat \<Rightarrow> nat \<times> bool \<times> event" where
  "InitThreadPool ok num = init_threads ok num 0"

lemma init_threads_result:
  "i \<le> num \<Longrightarrow> case init_threads ok num i of (k, b, e) \<Rightarrow>
     i \<le> k \<and> k \<le> num \<and> (\<forall>j. i \<le> j \<and> j < k \<longrightarrow> ok j) \<and> (b \<longleftrightarrow> k = num) \<and> (k < num \<longrightarrow> \<not> ok k)"
proof (induction ok num i rule: init_threads.induct)
  case (1 ok num i)
  consider "i < num" "ok i" | "i < num" "\<not> ok i" | "i = num" using "1.prems" by linarith
  then show ?case
  proof cases
    case 1
    obtain k b e where r: "init_threads ok num (Suc i) = (k, b, e)" by (cases "init_threads ok num (Suc i)")
    with "1.IH" 1 have "Suc i \<le> k \<and> k \<le> num \<and> (\<forall>j. Suc i \<le> j \<and> j < k \<longrightarrow> ok j) \<and> (b \<longleftrightarrow> k = num)
      \<and> (k < num \<longrightarrow> \<not> ok k)" by simp
    with 1 r show ?thesis
      by (simp add: init_threads.simps [of ok num i]) (metis Suc_leI le_neq_implies_less)
  next
    case 2
    then show ?thesis by (auto simp: init_threads.simps [of ok num i])
  next
    case 3
    then show ?thesis by (auto simp: init_threads.simps [of ok num num])
  qed
qed

section \<open>Properties\<close>

text \<open>C8: in every reachable state of the pool, at most one of the workers and the pushing
  thread is between \<open>Lock\<close> and \<open>UnLock\<close>: the queue is never touched by two threads at once.\<close>

theorem pool_mutual_exclusion:
  assumes "reach (\<lambda>s. s = pool_start) (pool_step n hangs) s" "0 < n"
    and "wholds (wpcs s i)"
  shows "\<not> pholds (main_pc s) \<and> (wholds (wpcs s j) \<longrightarrow> j = i)"
proof -
  have "lock_inv s" using pool_reachable_inv [OF assms(1,2)] by (simp add: pool_inv_def)
  with assms(3) show ?thesis by (simp add: lock_inv_def)
qed

theorem pool_mutual_exclusion_witness:
  "\<exists>s :: pool. wholds (wpcs s 1) \<and> \<not> pholds (main_pc s) \<and> \<not> wholds (wpcs s 0)"
proof -
  obtain s where s: "run_sched (pool_exec NUM (\<lambda>_. False)) [CWorker 0, CWorker 0, CWorker 1] pool_start
      = Some s" and w: "wholds (wpcs s 1)"
    by (simp add: pool_eval NUM_def)
  have "reach (\<lambda>s. s = pool_start) (pool_step NUM (\<lambda>_. False)) s" by (rule pool_sched_reach [OF s])
  note p = pool_mutual_exclusion [OF this _ w, of 0]
  show ?thesis by (rule exI [of _ s]) (use p w in \<open>simp add: NUM_def\<close>)
qed

text \<open>the queue is first in, first out, and \<open>front()\<close> is never called on an empty one: the
  tasks pushed are the tasks popped followed by the queue, in order, and a worker at
  \<open>PopTask\<close> finds a task.\<close>

theorem pool_fifo:
  assumes "reach (\<lambda>s. s = pool_start) (pool_step n hangs) s" "0 < n"
  shows "pushed s = popped s @ task_queue s \<and> (wpcs s i = WPop \<longrightarrow> task_queue s \<noteq> [])"
  using pool_reachable_inv [OF assms] by (auto simp: pool_inv_def queue_inv_def)

theorem pool_fifo_witness:
  "\<exists>s :: pool. task_queue s = [\<lparr>task_sock = 4\<rparr>] \<and> wpcs s 2 = WPop \<and> pushed s = popped s @ task_queue s"
proof -
  obtain s where s: "run_sched (pool_exec NUM (\<lambda>_. False))
      ([CWorker 2, CWorker 2, CCall \<lparr>task_sock = 4\<rparr>, CMain, CMain, CMain, CSignal 2, CWorker 2, CWorker 2])
      pool_start = Some s" and w: "wpcs s 2 = WPop" "task_queue s = [\<lparr>task_sock = 4\<rparr>]"
    by (simp add: pool_eval NUM_def)
  have "reach (\<lambda>s. s = pool_start) (pool_step NUM (\<lambda>_. False)) s" by (rule pool_sched_reach [OF s])
  note p = pool_fifo [OF this, of 2]
  show ?thesis by (rule exI [of _ s]) (use p w in \<open>simp add: NUM_def\<close>)
qed

text \<open>no task is lost or served twice: counted with multiplicity, the tasks pushed are the
  tasks served, those in the hands of a worker and those in the queue.\<close>

theorem pool_exactly_once:
  assumes "reach (\<lambda>s. s = pool_start) (pool_step n hangs) s" "0 < n"
  shows "mset (pushed s) = mset (served s) + (\<Sum>i<n. whand (wpcs s i)) + mset (task_queue s)"
  using pool_reachable_inv [OF assms] by (simp add: pool_inv_def queue_inv_def hand_inv_def)

theorem pool_exactly_once_witness:
  "\<exists>s :: pool. pushed s = [\<lparr>task_sock = 4\<rparr>] \<and> served s = [\<lparr>task_sock = 4\<rparr>] \<and>
     mset (pushed s) = mset (served s) + (\<Sum>i<1. whand (wpcs s i)) + mset (task_queue s)"
proof -
  obtain s where s: "run_sched (pool_exec 1 (\<lambda>_. False)) (take_task 0 \<lparr>task_sock = 4\<rparr> @ [CWorker 0])
      pool_start = Some s" and w: "served s = [\<lparr>task_sock = 4\<rparr>]" "pushed s = [\<lparr>task_sock = 4\<rparr>]"
    by (simp add: pool_eval take_task_def)
  have "reach (\<lambda>s. s = pool_start) (pool_step 1 (\<lambda>_. False)) s" by (rule pool_sched_reach [OF s])
  note p = pool_exactly_once [OF this]
  show ?thesis by (rule exI [of _ s]) (use p w in simp)
qed

text \<open>C7: no wakeup is lost. If handlers return, then from every reachable state the pool, left
  alone, comes to rest, and in every state in which nothing can move, all tasks pushed have
  been served, all workers sleep and the queue is empty.\<close>

theorem pool_drains:
  assumes "reach (\<lambda>s. s = pool_start) (pool_step n hangs) s" "0 < n" "\<And>t. \<not> hangs t"
  shows "(\<exists>s'. (pool_internal n hangs)\<^sup>*\<^sup>* s s' \<and> at_rest n s' \<and> mset (served s') = mset (pushed s'))
    \<and> ((\<forall>s'. \<not> pool_internal n hangs s s') \<longrightarrow> at_rest n s \<and> mset (served s) = mset (pushed s))"
proof -
  have inv: "pool_inv n s" by (rule pool_reachable_inv [OF assms(1,2)])
  have w: "\<forall>i \<ge> n. wpcs s i = WLock" by (rule idle_slots.reachable_inv [OF assms(1)])
  have "at_rest n s \<and> mset (served s) = mset (pushed s)" if "\<forall>s'. \<not> pool_internal n hangs s s'"
    using stuck_at_rest [OF inv w assms(2), of hangs] assms(3) that at_rest_served [OF inv] by blast
  with comes_to_rest [OF inv w assms(2), of hangs] assms(3) at_rest_served show ?thesis by blast
qed

theorem pool_drains_witness:
  "\<exists>s s'. task_queue s = [\<lparr>task_sock = 4\<rparr>] \<and> (pool_internal NUM (\<lambda>_. False))\<^sup>*\<^sup>* s s'
     \<and> at_rest NUM s' \<and> mset (served s') = mset (pushed s')"
proof -
  obtain s where s: "run_sched (pool_exec NUM (\<lambda>_. False))
      [CWorker 2, CWorker 2, CCall \<lparr>task_sock = 4\<rparr>, CMain, CMain] pool_start = Some s"
    and w: "task_queue s = [\<lparr>task_sock = 4\<rparr>]"
    by (simp add: pool_eval NUM_def)
  have "reach (\<lambda>s. s = pool_start) (pool_step NUM (\<lambda>_. False)) s" by (rule pool_sched_reach [OF s])
  from pool_drains [OF this] w show ?thesis by (simp add: NUM_def) blast
qed

text \<open>C26: as many handlers that never return as there are workers starve the pool: it can reach
  a state in which a task waits and from which no step, of any kind, ever takes it.\<close>

theorem pool_starvation:
  assumes "hangs t"
  shows "\<exists>s. reach (\<lambda>s. s = pool_start) (pool_step n hangs) s \<and> task_queue s = [u]
    \<and> (\<forall>s'. (pool_step n hangs)\<^sup>*\<^sup>* s s' \<longrightarrow> popped s' = replicate n t \<and> served s' = served s)"
  using starvation_run [of hangs t n u] assms all_stuck_steps [of n hangs] by (metis (no_types, lifting))

theorem pool_starvation_witness:
  "\<exists>s. task_queue s = [\<lparr>task_sock = 9\<rparr>]
    \<and> (\<forall>s'. (pool_step NUM (\<lambda>t. task_sock t = 4))\<^sup>*\<^sup>* s s' \<longrightarrow> length (popped s') = 6)"
  using pool_starvation [of "\<lambda>t. task_sock t = 4" "\<lparr>task_sock = 4\<rparr>" NUM "\<lparr>task_sock = 9\<rparr>"]
  by (fastforce simp: NUM_def)

text \<open>\<open>InitThreadPool\<close> stops at the first thread it cannot create and leaves the earlier ones
  running; it returns true exactly when all \<open>num\<close> threads run.\<close>

theorem InitThreadPool_result:
  "case InitThreadPool ok num of (k, b, e) \<Rightarrow>
     k \<le> num \<and> (\<forall>j < k. ok j) \<and> (b \<longleftrightarrow> k = num) \<and> (k < num \<longrightarrow> \<not> ok k)"
  using init_threads_result [of 0 num ok] by (simp add: InitThreadPool_def split: prod.splits)

theorem InitThreadPool_result_witness:
  "InitThreadPool (\<lambda>i. i < 4) 6 = (4, False, EvLog FATAL ''Create ThreadPool Fail'')"
  using InitThreadPool_result [of 6 "\<lambda>i. i < 4"]
  by (simp add: InitThreadPool_def init_threads.simps)

end
