(* ===== verification/Web_Server.thy ===== *)
theory Web_Server
  imports Web_Pool
begin

text \<open>
  TcpServer.hpp, HttpServer.hpp and main.cpp: creating, binding and listening on the socket,
  the accept loop that turns connections into tasks, and the program's entry with its exit
  codes. The results of the system calls are parameters.
\<close>

section \<open>TcpServer\<close>

record tcp_env =
  t_socket :: int
  t_bind :: int
  t_listen :: int
  t_thread :: "nat \<Rightarrow> bool"         \<comment> \<open>whether the \<open>i\<close>-th \<open>pthread_create\<close> succeeds\<close>

record TcpServer =
  tcp_port :: "16 word"
  listensock :: int

definition BACKLOG :: int where "BACKLOG = 5"

definition TcpServer_new :: "16 word \<Rightarrow> TcpServer" where
  "TcpServer_new port = \<lparr>tcp_port = port, listensock = -1\<rparr>"

datatype tcp_event =
    TLog level string
  | TSocket int
  | TReuse int                     \<comment> \<open>\<open>setsockopt(SO_REUSEADDR)\<close>\<close>
  | TBind int "16 word" int        \<comment> \<open>socket, \<open>sin_port\<close>, \<open>sin_addr\<close>\<close>
  | TListen int int
  | TIgnore int                    \<comment> \<open>\<open>signal(sig, SIG_IGN)\<close>\<close>
  | TAccept int
  | TPool event                    \<comment> \<open>what \<open>InitThreadPool\<close> logs\<close>

text \<open>The bytes of a 16-bit value in network order.\<close>

definition htons :: "16 word \<Rightarrow> 16 word" where
  "htons w = or (push_bit 8 w) (drop_bit 8 w)"

text \<open>
  Each step ends the process with its code on failure (\<open>Inl\<close>) or returns (\<open>Inr\<close>), with the
  events so far.
\<close>

definition Socket :: "tcp_env \<Rightarrow> TcpServer \<Rightarrow> tcp_event list \<times> (int + TcpServer)" where
  "Socket env srv =
     (let srv' = srv\<lparr>listensock := t_socket env\<rparr>
      in if listensock srv' < 0 then
           ([TSocket (t_socket env), TLog FATAL ''Create socket error!''], Inl 1)
         else
           ([TSocket (t_socket env), TReuse (listensock srv'), TLog INFO ''Create socket success!''],
            Inr srv'))"

definition Bind :: "tcp_env \<Rightarrow> TcpServer \<Rightarrow> tcp_event list \<times> (int + TcpServer)" where
  "Bind env srv =
     (let ev = TBind (listensock srv) (htons (tcp_port srv)) 0
      in if t_bind env < 0 then ([ev, TLog FATAL ''Bind socket error!''], Inl 2)
         else ([ev, TLog INFO ''Bind socket success!''], Inr srv))"

definition Listen :: "tcp_env \<Rightarrow> TcpServer \<Rightarrow> tcp_event list \<times> (int + TcpServer)" where
  "Listen env srv =
     (let ev = TListen (listensock srv) BACKLOG
      in if t_listen env < 0 then ([ev, TLog FATAL ''Listen socket error!''], Inl 3)
         else ([ev, TLog INFO ''Listen socket success!''], Inr srv))"

definition seq_step ::
    "tcp_event list \<times> (int + TcpServer) \<Rightarrow>
     (TcpServer \<Rightarrow> tcp_event list \<times> (int + TcpServer)) \<Rightarrow> tcp_event list \<times> (int + TcpServer)" where
  "seq_step r f =
     (case r of
        (evs, Inl code) \<Rightarrow> (evs, Inl code)
      | (evs, Inr srv) \<Rightarrow> (case f srv of (evs', res) \<Rightarrow> (evs @ evs', res)))"

definition InitServer :: "tcp_env \<Rightarrow> TcpServer \<Rightarrow> tcp_event list \<times> (int + TcpServer)" where
  "InitServer env srv =
     seq_step (seq_step (seq_step (Socket env srv) (Bind env)) (Listen env))
       (\<lambda>s. ([TLog INFO ''TcpServer init success ...''], Inr s))"

section \<open>HttpServer\<close>

text \<open>
  The constructor, \<open>InitHttpServer\<close> (which ignores SIGPIPE, signal 13) and one turn of the
  accept loop for each result of \<open>accept\<close>: the code tests \<open>sock < 0\<close> and goes on all the
  same. The first push creates the pool; \<open>workers\<close> is the number of its threads, \<open>None\<close>
  before. The loop runs until \<open>_stop\<close>, which nothing sets, so that the list of results is a
  prefix of an endless run.
\<close>

definition PORT :: "16 word" where "PORT = 8080"

record HttpServer =
  http_port :: "16 word"
  http_stop :: bool

definition HttpServer_new :: "16 word \<Rightarrow> HttpServer" where
  "HttpServer_new port = \<lparr>http_port = port, http_stop = False\<rparr>"

definition InitHttpServer :: "tcp_event list" where
  "InitHttpServer = [TIgnore 13]"

definition pool_instance :: "tcp_env \<Rightarrow> nat option \<Rightarrow> tcp_event list \<times> nat" where
  "pool_instance env workers =
     (case workers of
        Some k \<Rightarrow> ([], k)
      | None \<Rightarrow> (case InitThreadPool (t_thread env) NUM of (k, _, e) \<Rightarrow> ([TPool e], k)))"

fun accept_loop ::
    "tcp_env \<Rightarrow> HttpServer \<Rightarrow> nat option \<Rightarrow> int list \<Rightarrow> tcp_event list \<times> nat option \<times> Task list" where
  "accept_loop env srv workers [] = ([], workers, [])"
| "accept_loop env srv workers (sk # sks) =
     (if \<not> http_stop srv then
        (case pool_instance env workers of
           (pevs, k) \<Rightarrow>
             (case accept_loop env srv (Some k) sks of
                (evs, w, tasks) \<Rightarrow>
                  (TAccept sk # TLog INFO ''Get a new link ...'' # pevs @ evs, w, \<lparr>task_sock = sk\<rparr> # tasks)))
      else ([], workers, []))"

definition Loop ::
    "tcp_env \<Rightarrow> HttpServer \<Rightarrow> int list \<Rightarrow> tcp_event list \<times> (int + (nat option \<times> Task list))" where
  "Loop env srv accepts =
     (case InitServer env (TcpServer_new (http_port srv)) of
        (evs, Inl code) \<Rightarrow> (evs, Inl code)
      | (evs, Inr tcp) \<Rightarrow>
          (case accept_loop env srv None accepts of
             (evs', res) \<Rightarrow> (evs @ TLog INFO ''TcpServer launch ...'' # evs', Inr res)))"

section \<open>main\<close>

definition Usage :: "string \<Rightarrow> string" where
  "Usage proc = ''Usage =>'' @ [CHR 0x09] @ proc @ '' port'' @ [LF]"

datatype outcome =
    Exit int                       \<comment> \<open>the process ended with this code\<close>
  | Serving "nat option" "Task list"  \<comment> \<open>it runs, with so many workers, having pushed these tasks\<close>

text \<open>\<open>argv\<close> is the list of arguments, the program's name first; its length is \<open>argc\<close>.\<close>

definition main :: "tcp_env \<Rightarrow> string list \<Rightarrow> int list \<Rightarrow> string \<times> tcp_event list \<times> outcome" where
  "main env argv accepts =
     (if length argv \<noteq> 2 then
        ((case argv of [] \<Rightarrow> [] | a # _ \<Rightarrow> Usage a), [], Exit 4)
      else
        (case Loop env (HttpServer_new (word_of_int (atoi (argv ! 1)))) accepts of
           (evs, Inl code) \<Rightarrow> ([], InitHttpServer @ evs, Exit code)
         | (evs, Inr (w, tasks)) \<Rightarrow> ([], InitHttpServer @ evs, Serving w tasks)))"

text \<open>The number of workers once the pool exists: the first thread that cannot be created.\<close>

definition worker_count :: "tcp_env \<Rightarrow> nat" where
  "worker_count env = length (takeWhile (t_thread env) [0..<NUM])"

lemma init_threads_count:
  "i \<le> num \<Longrightarrow> fst (init_threads ok num i) = i + length (takeWhile ok [i..<num])"
proof (induction ok num i rule: init_threads.induct)
  case (1 ok num i)
  then show ?case by (subst init_threads.simps) (simp add: upt_conv_Cons)
qed

lemma pool_instance_count: "snd (pool_instance env None) = worker_count env"
  using init_threads_count [of 0 NUM "t_thread env"]
  by (cases "init_threads (t_thread env) NUM 0") (simp add: pool_instance_def InitThreadPool_def worker_count_def)

lemma accept_loop_Some:
  "\<not> http_stop srv \<Longrightarrow> accept_loop env srv (Some k) sks =
    (concat (map (\<lambda>sk. [TAccept sk, TLog INFO ''Get a new link ...'']) sks), Some k,
     map (\<lambda>sk. \<lparr>task_sock = sk\<rparr>) sks)"
  by (induction sks) (auto simp: pool_instance_def)

lemma accept_loop_result:
  "\<not> http_stop srv \<Longrightarrow> snd (accept_loop env srv None sks) =
    (if sks = [] then None else Some (worker_count env), map (\<lambda>sk. \<lparr>task_sock = sk\<rparr>) sks)"
  using pool_instance_count [of env]
  by (cases sks) (auto simp: accept_loop_Some split: prod.splits)

lemmas init_defs = InitServer_def seq_step_def Socket_def Bind_def Listen_def TcpServer_new_def

lemma InitServer_result:
  "snd (InitServer env (TcpServer_new port)) =
    (if t_socket env < 0 then Inl 1
     else if t_bind env < 0 then Inl 2
     else if t_listen env < 0 then Inl 3
     else Inr \<lparr>tcp_port = port, listensock = t_socket env\<rparr>)"
  by (simp add: init_defs Let_def)


lemma htons_htons: "htons (htons w) = w"
  by (rule bit_word_eqI) (auto simp: htons_def bit_or_iff bit_push_bit_iff bit_drop_bit_eq)

lemma main_ports:
  "unat (word_of_int (atoi s) :: 16 word) = nat (atoi s mod 65536)"
  by (simp add: unat_eq_nat_uint uint_word_of_int)

section \<open>Properties\<close>

text \<open>start-up fails with exit code 1, 2 or 3 at the first of \<open>socket\<close>, \<open>bind\<close> and
  \<open>listen\<close> that fails; only when all succeed is the server returned, listening on the socket
  it created and with the port it was given.\<close>

theorem InitServer_exit_codes:
  "snd (InitServer env (TcpServer_new port)) =
    (if t_socket env < 0 then Inl 1
     else if t_bind env < 0 then Inl 2
     else if t_listen env < 0 then Inl 3
     else Inr \<lparr>tcp_port = port, listensock = t_socket env\<rparr>)"
  by (rule InitServer_result)

text \<open>a successful start makes its system calls in order on one socket: it is created, made
  reusable, bound to the port in network byte order and to any address, and listened on.\<close>

theorem InitServer_trace:
  assumes "0 \<le> t_socket env" "0 \<le> t_bind env" "0 \<le> t_listen env"
  shows "filter (\<lambda>e. \<not> (\<exists>l m. e = TLog l m)) (fst (InitServer env (TcpServer_new port)))
      = [TSocket (t_socket env), TReuse (t_socket env), TBind (t_socket env) (htons port) 0,
         TListen (t_socket env) 5]
    \<and> htons (htons port) = port"
  using assms by (simp add: init_defs Let_def BACKLOG_def htons_htons)

theorem InitServer_trace_witness:
  "filter (\<lambda>e. \<not> (\<exists>l m. e = TLog l m))
     (fst (InitServer \<lparr>t_socket = 3, t_bind = 0, t_listen = 0, t_thread = \<lambda>_. True\<rparr> (TcpServer_new 8080)))
   = [TSocket 3, TReuse 3, TBind 3 36895 0, TListen 3 5]"
proof -
  have "htons 8080 = 36895" by (simp add: htons_def)
  then show ?thesis
    using InitServer_trace [of "\<lparr>t_socket = 3, t_bind = 0, t_listen = 0, t_thread = \<lambda>_. True\<rparr>" 8080] by simp
qed

text \<open>C29: The port of the command line is taken modulo 65536, without a check: every argument is
  accepted, and where the system grants the calls the server binds that port and pushes one
  task for each result of \<open>accept\<close>, in order, failed ones (-1) included, to a pool of as many
  workers as \<open>pthread_create\<close> gave it, at most six and possibly none.\<close>

theorem main_serves:
  assumes "0 \<le> t_socket env" "0 \<le> t_bind env" "0 \<le> t_listen env" "accepts \<noteq> []"
  shows "\<exists>evs p. main env [proc, arg] accepts
      = ([], evs, Serving (Some (length (takeWhile (t_thread env) [0..<6]))) (map (\<lambda>sk. \<lparr>task_sock = sk\<rparr>) accepts))
    \<and> TBind (t_socket env) (htons p) 0 \<in> set evs \<and> unat p = nat (atoi arg mod 65536)"
proof -
  let ?p = "word_of_int (atoi arg) :: 16 word"
  let ?srv = "HttpServer_new ?p"
  obtain evs' where a: "accept_loop env ?srv None accepts
      = (evs', Some (worker_count env), map (\<lambda>sk. \<lparr>task_sock = sk\<rparr>) accepts)"
    using accept_loop_result [of ?srv env accepts] assms(4)
    by (cases "accept_loop env ?srv None accepts") (simp add: HttpServer_new_def)
  have "\<exists>evs. main env [proc, arg] accepts
      = ([], evs, Serving (Some (worker_count env)) (map (\<lambda>sk. \<lparr>task_sock = sk\<rparr>) accepts))
    \<and> TBind (t_socket env) (htons ?p) 0 \<in> set evs"
    using assms a by (simp add: main_def Loop_def init_defs Let_def HttpServer_new_def)
  with main_ports [of arg] show ?thesis unfolding worker_count_def NUM_def by blast
qed

theorem main_serves_witness:
  "\<exists>evs p. main \<lparr>t_socket = 3, t_bind = 0, t_listen = 0, t_thread = \<lambda>i. i < 2\<rparr> [''httpserver'', ''73616''] [4, -1]
      = ([], evs, Serving (Some 2) [\<lparr>task_sock = 4\<rparr>, \<lparr>task_sock = -1\<rparr>]) \<and> unat p = 8080
      \<and> TBind 3 (htons p) 0 \<in> set evs"
proof -
  let ?env = "\<lparr>t_socket = 3, t_bind = 0, t_listen = 0, t_thread = \<lambda>i. i < 2\<rparr>"
  have h: "0 \<le> t_socket ?env" "0 \<le> t_bind ?env" "0 \<le> t_listen ?env" "[4, -1] \<noteq> ([] :: int list)" by simp_all
  obtain evs p where m: "main ?env [''httpserver'', ''73616''] [4, -1]
      = ([], evs, Serving (Some (length (takeWhile (t_thread ?env) [0..<6]))) (map (\<lambda>sk. \<lparr>task_sock = sk\<rparr>) [4, -1]))"
    and p: "unat p = nat (atoi ''73616'' mod 65536)"
    and e: "TBind (t_socket ?env) (htons p) 0 \<in> set evs"
    using main_serves [OF h, of "''httpserver''" "''73616''"] by blast
  have "atoi ''73616'' = 73616" by (simp add: libc_eval)
  with p have "unat p = 8080" by simp
  moreover have "length (takeWhile (t_thread ?env) [0..<6]) = 2" by (simp add: upt_rec)
  ultimately show ?thesis using m e by (intro exI [of _ evs] exI [of _ p]) simp
qed

text \<open>without exactly one argument the program prints its usage and exits with code 4,
  before it touches the network.\<close>

theorem main_usage:
  assumes "length argv \<noteq> 2" "argv \<noteq> []"
  shows "main env argv accepts = (Usage (hd argv), [], Exit 4)"
  using assms by (cases argv) (auto simp: main_def)

theorem main_usage_witness:
  "main \<lparr>t_socket = 3, t_bind = 0, t_listen = 0, t_thread = \<lambda>_. True\<rparr> [''httpserver''] [] = (Usage ''httpserver'', [], Exit 4)"
  using main_usage [of "[''httpserver'']" "\<lparr>t_socket = 3, t_bind = 0, t_listen = 0, t_thread = \<lambda>_. True\<rparr>" "[]"] by simp

end
