(* ===== verification/Web_Whole.thy ===== *)
theory Web_Whole
  imports Web_Programs Web_Server
begin

text \<open>
  The running server (HttpServer.hpp, ThreadPool.hpp, Task.hpp and the handler of Protocol.hpp
  together): the accept loop hands each connection to the pool as a task that holds the
  number of its descriptor, a worker runs the handler on it, and the handler closes it, after
  which the system may give the number to another connection. Tasks and workers only know
  numbers; the properties are about connections.
\<close>

section \<open>Steps\<close>

text \<open>
  What comes from outside: for the \<open>c\<close>-th connection accepted, what its peer delivers, the
  results of the system calls of its handler and the uninitialised value; and what the
  missing \<open>return\<close> of \<open>GetRequestLine\<close> gives.
\<close>

record outside =
  peers :: "nat \<Rightarrow> stream"
  systems :: "nat \<Rightarrow> os_env"
  junks :: "nat \<Rightarrow> int"
  returned :: "EndPoint \<Rightarrow> bool"

text \<open>
  \<open>link f\<close> is the connection that descriptor \<open>f\<close> stands for, \<open>links\<close> how many have been
  accepted, \<open>finished i\<close> whether worker \<open>i\<close> is back from the handler of its task, and \<open>answers\<close>
  what handlers did, connection by connection.
\<close>

record server_state =
  thread_pool :: pool
  link :: "int \<Rightarrow> nat option"
  links :: nat
  finished :: "nat \<Rightarrow> bool"
  answers :: "(nat \<times> event list) list"

definition server_start :: server_state where
  "server_start = \<lparr>thread_pool = pool_start, link = \<lambda>_. None, links = 0, finished = \<lambda>_. False, answers = []\<rparr>"

definition serve :: "outside \<Rightarrow> nat \<Rightarrow> Task \<Rightarrow> event list option" where
  "serve w c t = ProcessOn (systems w c) (returned w) (junks w c) t (peers w c)"

text \<open>Every call on the -1 of a failed \<open>accept\<close> fails.\<close>

definition serve_nobody :: "outside \<Rightarrow> nat \<Rightarrow> Task \<Rightarrow> event list option" where
  "serve_nobody w c t = ProcessOn (systems w c) (returned w) (junks w c) t \<lparr>inbuf = [], ending = Failed\<rparr>"

text \<open>
  The moves of the server's own threads: those of the pool but for the end of a handler, the
  run of a handler to its \<open>close\<close>, and the return from it.
\<close>

inductive running_move :: "nat \<Rightarrow> outside \<Rightarrow> server_state \<Rightarrow> server_state \<Rightarrow> bool" for n w where
  pool_moves: "pool_internal n (\<lambda>_. True) (thread_pool s) p \<Longrightarrow> running_move n w s (s\<lparr>thread_pool := p\<rparr>)"
| handles: "i < n \<Longrightarrow> wpcs (thread_pool s) i = WRun t \<Longrightarrow> \<not> finished s i \<Longrightarrow> link s (task_sock t) = Some c \<Longrightarrow>
    serve w c t = Some tr \<Longrightarrow>
    running_move n w s (s\<lparr>finished := (finished s)(i := True), link := (link s)(task_sock t := None),
      answers := answers s @ [(c, tr)]\<rparr>)"
| handles_nobody: "i < n \<Longrightarrow> wpcs (thread_pool s) i = WRun t \<Longrightarrow> \<not> finished s i \<Longrightarrow> link s (task_sock t) = None \<Longrightarrow>
    serve_nobody w c t = Some tr \<Longrightarrow>
    running_move n w s (s\<lparr>finished := (finished s)(i := True)\<rparr>)"
| returns: "i < n \<Longrightarrow> wpcs (thread_pool s) i = WRun t \<Longrightarrow> finished s i \<Longrightarrow>
    running_move n w s (s\<lparr>finished := (finished s)(i := False),
      thread_pool := wgoto i WLock ((thread_pool s)\<lparr>served := served (thread_pool s) @ [t]\<rparr>)\<rparr>)"

text \<open>
  With those from outside: \<open>accept\<close> gives a new connection under a number that no open one
  has, or fails; and a sleeping worker wakes by itself.
\<close>

inductive running_step :: "nat \<Rightarrow> outside \<Rightarrow> server_state \<Rightarrow> server_state \<Rightarrow> bool" for n w where
  moves: "running_move n w s t \<Longrightarrow> running_step n w s t"
| accepts: "main_pc (thread_pool s) = PIdle \<Longrightarrow> 0 \<le> f \<Longrightarrow> link s f = None \<Longrightarrow>
    running_step n w s (s\<lparr>thread_pool := (thread_pool s)\<lparr>main_pc := PLock \<lparr>task_sock = f\<rparr>\<rparr>,
      link := (link s)(f \<mapsto> links s), links := Suc (links s)\<rparr>)"
| accept_fails: "main_pc (thread_pool s) = PIdle \<Longrightarrow>
    running_step n w s (s\<lparr>thread_pool := (thread_pool s)\<lparr>main_pc := PLock \<lparr>task_sock = -1\<rparr>\<rparr>\<rparr>)"
| wakes: "i < n \<Longrightarrow> wpcs (thread_pool s) i = WSleep \<Longrightarrow>
    running_step n w s (s\<lparr>thread_pool := wgoto i WWake (thread_pool s)\<rparr>)"

inductive_cases running_moveE: "running_move n w s t"
inductive_cases running_stepE: "running_step n w s t"

section \<open>The pool in the server\<close>

lemma pool_internal_mono: "pool_internal n (\<lambda>_. True) s t \<Longrightarrow> pool_internal n (\<lambda>_. False) s t"
  by (erule pool_internal.cases) (auto intro: pool_internal.intros)

lemma running_move_pool:
  assumes "running_move n w s t"
  shows "thread_pool t = thread_pool s \<or> pool_internal n (\<lambda>_. False) (thread_pool s) (thread_pool t)"
  using assms by (elim running_moveE) (auto intro: pool_internal_mono pool_internal.w_done)

lemma server_step_pool:
  assumes "running_step n w s t"
  shows "thread_pool t = thread_pool s \<or> pool_step n (\<lambda>_. False) (thread_pool s) (thread_pool t)"
  using assms
proof (elim running_stepE)
  assume "running_move n w s t"
  then show ?thesis using running_move_pool pool_step.internal by blast
qed (auto intro: pool_step.p_call pool_step.w_spurious)

abbreviation pool_reached :: "nat \<Rightarrow> pool \<Rightarrow> bool" where
  "pool_reached n \<equiv> reach (\<lambda>p. p = pool_start) (pool_step n (\<lambda>_. False))"

text \<open>A worker that is back from a handler has not gone on yet.\<close>

definition still_running :: "server_state \<Rightarrow> bool" where
  "still_running s \<longleftrightarrow> (\<forall>i. finished s i \<longrightarrow> (\<exists>t. wpcs (thread_pool s) i = WRun t))"

lemma pool_internal_running:
  "pool_internal n (\<lambda>_. True) p q \<Longrightarrow> wpcs p i = WRun t \<Longrightarrow> wpcs q i = WRun t"
  by (erule pool_internal.cases) auto

lemma still_running_step: "still_running s \<Longrightarrow> running_step n w s t \<Longrightarrow> still_running t"
  by (elim running_stepE running_moveE) (auto simp: still_running_def dest: pool_internal_running)

section \<open>Tasks that have still to be handled\<close>

primrec main_hand :: "ppc \<Rightarrow> Task multiset" where
  "main_hand PIdle = {#}"
| "main_hand (PLock t) = {#t#}"
| "main_hand (PPush t) = {#t#}"
| "main_hand PUnlock = {#}"
| "main_hand PSignal = {#}"

definition in_hand :: "bool \<times> wpc \<Rightarrow> Task multiset" where
  "in_hand x = (if fst x then {#} else whand (snd x))"

definition slot :: "server_state \<Rightarrow> nat \<Rightarrow> bool \<times> wpc" where
  "slot s i = (finished s i, wpcs (thread_pool s) i)"

definition unhandled :: "nat \<Rightarrow> server_state \<Rightarrow> Task multiset" where
  "unhandled n s = main_hand (main_pc (thread_pool s)) + mset (task_queue (thread_pool s)) + (\<Sum>i<n. in_hand (slot s i))"

text \<open>When one worker moves, the sum changes by what it holds.\<close>

lemma in_hands_moved:
  assumes "i < n" "slot t = (slot s)(i := x)"
  shows "(\<Sum>j<n. in_hand (slot t j)) + in_hand (slot s i) = (\<Sum>j<n. in_hand (slot s j)) + in_hand x"
  unfolding assms(2) sum_thread(1) [OF assms(1), of in_hand "slot s"] sum_thread(2) [OF assms(1), of in_hand "slot s"]
  by simp

lemma in_hands_same:
  assumes "i < n" "slot t = (slot s)(i := x)" "in_hand x = in_hand (slot s i)"
  shows "(\<Sum>j<n. in_hand (slot t j)) = (\<Sum>j<n. in_hand (slot s j))"
  using in_hands_moved [OF assms(1,2)] assms(3) by simp

lemmas slot_simps = slot_def in_hand_def fun_eq_iff

lemma unhandled_pool:
  assumes "pool_internal n (\<lambda>_. True) (thread_pool s) p" "still_running s"
  shows "unhandled n (s\<lparr>thread_pool := p\<rparr>) = unhandled n s"
proof -
  have not_fin: "\<not> finished s i" if "\<forall>t. wpcs (thread_pool s) i \<noteq> WRun t" for i
    using assms(2) that by (auto simp: still_running_def)
  let ?t = "s\<lparr>thread_pool := p\<rparr>"
  have same: "(\<Sum>j<n. in_hand (slot ?t j)) = (\<Sum>j<n. in_hand (slot s j))"
    if "i < n" "wpcs p = (wpcs (thread_pool s))(i := pc)" "whand pc = whand (wpcs (thread_pool s) i)" for i pc
    by (rule in_hands_same [OF that(1), of _ _ "(finished s i, pc)"]) (use that in \<open>auto simp: slot_simps\<close>)
  have unmoved: "(\<Sum>j<n. in_hand (slot ?t j)) = (\<Sum>j<n. in_hand (slot s j))"
    if "wpcs p = wpcs (thread_pool s)" using that by (simp add: slot_def)
  from assms(1) show ?thesis
  proof cases
    case (w_pop i t q)
    then have q: "task_queue (thread_pool s) = t # q" by (simp add: task_fifo.pop_Some)
    have "(\<Sum>j<n. in_hand (slot ?t j)) + in_hand (slot s i) = (\<Sum>j<n. in_hand (slot s j)) + in_hand (finished s i, WUnlock t)"
      by (rule in_hands_moved) (use w_pop in \<open>auto simp: slot_simps\<close>)
    moreover have "in_hand (slot s i) = {#}" "in_hand (finished s i, WUnlock t) = {#t#}"
      using w_pop not_fin [of i] by (simp_all add: slot_simps)
    ultimately show ?thesis using w_pop q by (simp add: unhandled_def)
  next
    case (p_push t)
    then show ?thesis using unmoved by (simp add: unhandled_def queue_push_def)
  next
    case (w_lock i)
    then show ?thesis using same [of i WTest] by (simp add: unhandled_def)
  next
    case (w_wait i)
    then show ?thesis using same [of i WSleep] by (simp add: unhandled_def)
  next
    case (w_found i)
    then show ?thesis using same [of i WPop] by (simp add: unhandled_def)
  next
    case (w_unlock i t)
    then show ?thesis using same [of i "WRun t"] by (simp add: unhandled_def)
  next
    case (w_relock i)
    then show ?thesis using same [of i WTest] by (simp add: unhandled_def)
  next
    case (p_signal i)
    then show ?thesis using same [of i WWake] by (simp add: unhandled_def)
  qed (use unmoved in \<open>simp_all add: unhandled_def\<close>)
qed

lemma unhandled_finish:
  assumes "i < n" "wpcs (thread_pool s) i = WRun t" "\<not> finished s i"
    and "thread_pool s' = thread_pool s" "finished s' = (finished s)(i := True)"
  shows "unhandled n s = add_mset t (unhandled n s')"
proof -
  have "(\<Sum>j<n. in_hand (slot s' j)) + in_hand (slot s i) = (\<Sum>j<n. in_hand (slot s j)) + in_hand (True, WRun t)"
    by (rule in_hands_moved) (use assms in \<open>auto simp: slot_simps\<close>)
  moreover have "in_hand (slot s i) = {#t#}" "in_hand (True, WRun t) = {#}" using assms by (simp_all add: slot_simps)
  ultimately show ?thesis using assms by (simp add: unhandled_def)
qed

lemma unhandled_return:
  assumes "i < n" "wpcs (thread_pool s) i = WRun t" "finished s i"
  shows "unhandled n (s\<lparr>finished := (finished s)(i := False),
      thread_pool := wgoto i WLock ((thread_pool s)\<lparr>served := xs\<rparr>)\<rparr>) = unhandled n s" (is "unhandled n ?t = _")
proof -
  have "(\<Sum>j<n. in_hand (slot ?t j)) = (\<Sum>j<n. in_hand (slot s j))"
    by (rule in_hands_same [OF assms(1), of _ _ "(False, WLock)"]) (use assms in \<open>auto simp: slot_simps\<close>)
  then show ?thesis by (simp add: unhandled_def)
qed

lemma unhandled_wake:
  assumes "i < n" "wpcs (thread_pool s) i = WSleep"
  shows "unhandled n (s\<lparr>thread_pool := wgoto i WWake (thread_pool s)\<rparr>) = unhandled n s" (is "unhandled n ?t = _")
proof -
  have "(\<Sum>j<n. in_hand (slot ?t j)) = (\<Sum>j<n. in_hand (slot s j))"
    by (rule in_hands_same [OF assms(1), of _ _ "(finished s i, WWake)"]) (use assms in \<open>auto simp: slot_simps\<close>)
  then show ?thesis by (simp add: unhandled_def)
qed

lemma unhandled_accept:
  assumes "main_pc (thread_pool s) = PIdle" "finished s' = finished s"
    and "thread_pool s' = (thread_pool s)\<lparr>main_pc := PLock t\<rparr>"
  shows "unhandled n s' = add_mset t (unhandled n s)"
  using assms by (simp add: unhandled_def slot_def [abs_def])

section \<open>Invariants\<close>

text \<open>Every open descriptor is that of exactly one task still to be handled, and conversely.\<close>

definition one_task_each :: "nat \<Rightarrow> server_state \<Rightarrow> bool" where
  "one_task_each n s \<longleftrightarrow> (\<forall>f. f < 0 \<longrightarrow> link s f = None)
     \<and> (\<forall>t. 0 \<le> task_sock t \<longrightarrow> count (unhandled n s) t = (if link s (task_sock t) = None then 0 else 1))"

lemma Task_eq: "t = u \<longleftrightarrow> task_sock t = task_sock u" for t u :: Task
  by (cases t; cases u) simp

lemma one_task_each_step:
  assumes "one_task_each n s" "still_running s" "running_step n w s s'"
  shows "one_task_each n s'"
  using assms(3)
proof cases
  case moves
  then show ?thesis
  proof cases
    case (pool_moves p)
    with assms(1) unhandled_pool [OF pool_moves(2) assms(2)] show ?thesis by (simp add: one_task_each_def)
  next
    case (handles i t c tr)
    then have u: "unhandled n s = add_mset t (unhandled n s')" by (intro unhandled_finish) simp_all
    from assms(1) handles(5) have "0 \<le> task_sock t" unfolding one_task_each_def by (metis linorder_not_le option.distinct(1))
    moreover have l: "link s' = (link s)(task_sock t := None)" using handles(1) by simp
    moreover have "count (unhandled n s') v = (if link s' (task_sock v) = None then 0 else 1)" if "0 \<le> task_sock v" for v
    proof -
      have "count (unhandled n s) v = (if link s (task_sock v) = None then 0 else 1)"
        using assms(1) that by (simp add: one_task_each_def)
      moreover have "v \<noteq> t \<Longrightarrow> task_sock v \<noteq> task_sock t" by (simp add: Task_eq)
      ultimately show ?thesis using u l handles(5) by (cases "v = t") simp_all
    qed
    ultimately show ?thesis using assms(1) by (simp add: one_task_each_def)
  next
    case (handles_nobody i t c tr)
    then have u: "unhandled n s = add_mset t (unhandled n s')" by (intro unhandled_finish) simp_all
    have "task_sock t < 0"
    proof (rule ccontr)
      assume "\<not> task_sock t < 0"
      with assms(1) handles_nobody(5) have "count (unhandled n s) t = 0" by (simp add: one_task_each_def)
      with u show False by simp
    qed
    moreover have l: "link s' = link s" using handles_nobody(1) by simp
    moreover have "count (unhandled n s') v = (if link s' (task_sock v) = None then 0 else 1)" if "0 \<le> task_sock v" for v
    proof -
      have "v \<noteq> t" using that \<open>task_sock t < 0\<close> by auto
      with u have "count (unhandled n s') v = count (unhandled n s) v" by simp
      with assms(1) that show ?thesis by (simp add: one_task_each_def l)
    qed
    ultimately show ?thesis using assms(1) by (simp add: one_task_each_def)
  next
    case (returns i t)
    with assms(1) unhandled_return [OF returns(2-4)] show ?thesis by (simp add: one_task_each_def)
  qed
next
  case (accepts f)
  then have u: "unhandled n s' = add_mset \<lparr>task_sock = f\<rparr> (unhandled n s)" by (intro unhandled_accept) simp_all
  with assms(1) accepts show ?thesis by (auto simp: one_task_each_def Task_eq split: if_splits)
next
  case accept_fails
  then have u: "unhandled n s' = add_mset \<lparr>task_sock = -1\<rparr> (unhandled n s)" by (intro unhandled_accept) simp_all
  with assms(1) accept_fails show ?thesis by (auto simp: one_task_each_def Task_eq)
next
  case (wakes i)
  with assms(1) unhandled_wake [OF wakes(2,3)] show ?thesis by (simp add: one_task_each_def)
qed

text \<open>A connection is open under one descriptor or has been answered, never both, and never twice.\<close>

definition answered :: "server_state \<Rightarrow> nat list" where
  "answered s = map fst (answers s)"

definition open_links :: "server_state \<Rightarrow> nat set" where
  "open_links s = {c. \<exists>f. link s f = Some c}"

definition open_or_answered :: "server_state \<Rightarrow> bool" where
  "open_or_answered s \<longleftrightarrow> distinct (answered s) \<and> open_links s \<inter> set (answered s) = {}
     \<and> open_links s \<union> set (answered s) = {..<links s} \<and> (\<forall>f g c. link s f = Some c \<and> link s g = Some c \<longrightarrow> f = g)"

lemma open_or_answeredI:
  assumes "distinct (answered s)" "open_links s \<inter> set (answered s) = {}" "open_links s \<union> set (answered s) = {..<links s}"
    and "\<And>f g c. link s f = Some c \<Longrightarrow> link s g = Some c \<Longrightarrow> f = g"
  shows "open_or_answered s"
  unfolding open_or_answered_def using assms by blast

lemma open_or_answered_same:
  "open_or_answered s \<Longrightarrow> link t = link s \<Longrightarrow> links t = links s \<Longrightarrow> answers t = answers s \<Longrightarrow> open_or_answered t"
  unfolding open_or_answered_def open_links_def answered_def by simp

lemma open_or_answered_step:
  assumes "open_or_answered s" "running_step n w s s'"
  shows "open_or_answered s'"
proof -
  from assms(1) have d: "distinct (answered s)" and e: "open_links s \<inter> set (answered s) = {}"
    and u: "open_links s \<union> set (answered s) = {..<links s}"
    unfolding open_or_answered_def by blast+
  have inj: "\<And>f g c. link s f = Some c \<Longrightarrow> link s g = Some c \<Longrightarrow> f = g"
    using assms(1) unfolding open_or_answered_def by blast
  from assms(2) show ?thesis
  proof cases
    case moves
    then show ?thesis
    proof cases
      case (handles i t c tr)
      have l: "link s' = (link s)(task_sock t := None)" and a: "answered s' = answered s @ [c]"
        and k: "links s' = links s" using handles(1) by (simp_all add: answered_def)
      have one: "f = task_sock t" if "link s f = Some c" for f by (rule inj [OF that handles(5)])
      have "open_links s' = open_links s - {c}"
      proof (rule set_eqI)
        fix d
        have "(\<exists>f. link s' f = Some d) \<longleftrightarrow> (\<exists>f. link s f = Some d) \<and> d \<noteq> c"
          using one handles(5) by (metis fun_upd_apply l option.distinct(1) option.inject)
        then show "d \<in> open_links s' \<longleftrightarrow> d \<in> open_links s - {c}" by (simp add: open_links_def)
      qed
      moreover have "c \<in> open_links s" using handles(5) by (auto simp: open_links_def)
      ultimately show ?thesis using d e u
        by (intro open_or_answeredI) (auto simp: a k l split: if_splits intro: inj)
    qed (use open_or_answered_same [OF assms(1)] in simp_all)
  next
    case (accepts f)
    have l: "link s' = (link s)(f \<mapsto> links s)" and a: "answered s' = answered s"
      and k: "links s' = Suc (links s)" using accepts(1) by (simp_all add: answered_def)
    have fresh: "links s \<notin> open_links s" "links s \<notin> set (answered s)" using u by blast+
    have "open_links s' = insert (links s) (open_links s)"
    proof (rule set_eqI)
      fix d
      have "(\<exists>g. link s' g = Some d) \<longleftrightarrow> (\<exists>g. link s g = Some d) \<or> d = links s"
        using accepts(4) by (metis fun_upd_apply l option.distinct(1) option.inject)
      then show "d \<in> open_links s' \<longleftrightarrow> d \<in> insert (links s) (open_links s)" by (auto simp: open_links_def)
    qed
    moreover have "link s g \<noteq> Some (links s)" for g using fresh(1) by (auto simp: open_links_def)
    moreover have "insert (links s) (open_links s \<union> set (answered s)) = {..<Suc (links s)}" unfolding u by auto
    ultimately show ?thesis using d e fresh
      by (intro open_or_answeredI) (auto simp: a k l split: if_splits intro: inj)
  qed (use open_or_answered_same [OF assms(1)] in simp_all)
qed

text \<open>What has been answered is what the handler does with that connection.\<close>

definition answers_right :: "outside \<Rightarrow> server_state \<Rightarrow> bool" where
  "answers_right w s \<longleftrightarrow> (\<forall>(c, tr) \<in> set (answers s). \<exists>t. 0 \<le> task_sock t \<and> serve w c t = Some tr)"

lemma answers_right_step:
  assumes "answers_right w s" "one_task_each n s" "running_step n w s s'"
  shows "answers_right w s'"
  using assms(3)
proof cases
  case moves
  then show ?thesis
  proof cases
    case (handles i t c tr)
    from assms(2) handles(5) have "0 \<le> task_sock t" unfolding one_task_each_def by (metis linorder_not_le option.distinct(1))
    with assms(1) handles show ?thesis by (auto simp: answers_right_def)
  qed (use assms(1) in \<open>simp_all add: answers_right_def\<close>)
qed (use assms(1) in \<open>simp_all add: answers_right_def\<close>)

definition server_inv :: "nat \<Rightarrow> outside \<Rightarrow> server_state \<Rightarrow> bool" where
  "server_inv n w s \<longleftrightarrow> pool_reached n (thread_pool s) \<and> still_running s \<and> one_task_each n s \<and> open_or_answered s
     \<and> answers_right w s"

interpretation server: invariant_system "\<lambda>s. s = server_start" "running_step n w" "server_inv n w" for n w
proof
  fix s assume "s = server_start"
  then show "server_inv n w s"
    by (auto simp: server_inv_def server_start_def still_running_def one_task_each_def open_or_answered_def
        answers_right_def unhandled_def slot_def in_hand_def pool_start_def open_links_def answered_def intro: reach_init)
next
  fix s t assume inv: "server_inv n w s" and step: "running_step n w s t"
  then have "pool_reached n (thread_pool t)"
    using server_step_pool [OF step] by (auto simp: server_inv_def intro: reach_step)
  with inv step show "server_inv n w t"
    using still_running_step one_task_each_step open_or_answered_step answers_right_step
    unfolding server_inv_def by blast
qed

lemmas server_invD = server_inv_def [THEN iffD1, THEN conjunct1]
  server_inv_def [THEN iffD1, THEN conjunct2, THEN conjunct1]
  server_inv_def [THEN iffD1, THEN conjunct2, THEN conjunct2, THEN conjunct1]
  server_inv_def [THEN iffD1, THEN conjunct2, THEN conjunct2, THEN conjunct2, THEN conjunct1]
  server_inv_def [THEN iffD1, THEN conjunct2, THEN conjunct2, THEN conjunct2, THEN conjunct2]

section \<open>Two workers on one descriptor\<close>

lemma two_in_hand:
  fixes n :: nat
  assumes "i < n" "j < n" "i \<noteq> j" "in_hand (f i) = {#t#}" "in_hand (f j) = {#t#}"
  shows "2 \<le> count (\<Sum>k<n. in_hand (f k)) t"
proof -
  have "(\<Sum>k<n. in_hand (f k)) = {#t#} + ({#t#} + (\<Sum>k \<in> {..<n} - {i} - {j}. in_hand (f k)))"
    using assms by (simp add: sum_thread(1) [OF assms(1)] sum.remove [of "{..<n} - {i}" j])
  then show ?thesis by simp
qed

lemma own_descriptor:
  assumes "one_task_each n s" "i < n" "wpcs (thread_pool s) i = WRun t" "\<not> finished s i" "0 \<le> task_sock t"
  shows "link s (task_sock t) \<noteq> None"
    and "j < n \<Longrightarrow> j \<noteq> i \<Longrightarrow> wpcs (thread_pool s) j = WRun u \<Longrightarrow> \<not> finished s j \<Longrightarrow> task_sock u \<noteq> task_sock t"
proof -
  have c: "count (unhandled n s) t = (if link s (task_sock t) = None then 0 else 1)"
    using assms(1,5) by (simp add: one_task_each_def)
  have "1 \<le> count (\<Sum>k<n. in_hand (slot s k)) t"
    using sum_thread(1) [OF assms(2), of in_hand "slot s"] assms(3,4) by (simp add: slot_def in_hand_def)
  then have "count (unhandled n s) t \<noteq> 0" by (simp add: unhandled_def)
  with c show "link s (task_sock t) \<noteq> None" by (simp split: if_splits)
  show "task_sock u \<noteq> task_sock t"
    if "j < n" "j \<noteq> i" "wpcs (thread_pool s) j = WRun u" "\<not> finished s j"
  proof
    assume "task_sock u = task_sock t"
    then have "u = t" by (simp add: Task_eq)
    then have "2 \<le> count (\<Sum>k<n. in_hand (slot s k)) t"
      using assms(3,4) that by (intro two_in_hand [OF assms(2) that(1)]) (simp_all add: slot_def in_hand_def)
    then have "2 \<le> count (unhandled n s) t" by (simp add: unhandled_def)
    with c show False by (simp split: if_splits)
  qed
qed

section \<open>Progress\<close>

definition server_weight :: "nat \<Rightarrow> server_state \<Rightarrow> nat" where
  "server_weight n s = 2 * weight n (thread_pool s) + (\<Sum>i<n. if finished s i then 0 else 1)"

lemma finished_count:
  fixes f :: "nat \<Rightarrow> bool"
  assumes "i < n"
  shows "(\<Sum>j<n. if (f(i := b)) j then 0 else 1 :: nat) + (if f i then 0 else 1)
    = (\<Sum>j<n. if f j then 0 else 1) + (if b then 0 else 1)"
  unfolding sum_thread(1) [OF assms, of "\<lambda>b. if b then 0 else 1 :: nat" f]
    sum_thread(2) [OF assms, of "\<lambda>b. if b then 0 else 1 :: nat" f]
  by simp

lemma server_weight_decreases:
  assumes "running_move n w s t"
  shows "server_weight n t < server_weight n s"
  using assms
proof cases
  case (pool_moves p)
  with weight_decreases [OF pool_moves(2)] show ?thesis by (simp add: server_weight_def)
next
  case (handles i u c tr)
  then show ?thesis
    using finished_count [OF handles(2), of "finished s" True]
    by (simp add: server_weight_def)
next
  case (handles_nobody i u c tr)
  then show ?thesis
    using finished_count [OF handles_nobody(2), of "finished s" True]
    by (simp add: server_weight_def)
next
  case (returns i u)
  then have "pool_internal n (\<lambda>_. False) (thread_pool s) (thread_pool t)" by (auto intro: pool_internal.w_done)
  from weight_decreases [OF this] returns show ?thesis
    using finished_count [OF returns(2), of "finished s" False]
    by (simp add: server_weight_def)
qed

lemma no_endless_run: "\<not> (\<exists>r. r 0 = s \<and> (\<forall>k. running_move n w (r k) (r (Suc k))))"
proof
  assume "\<exists>r. r 0 = s \<and> (\<forall>k. running_move n w (r k) (r (Suc k)))"
  then obtain r where "\<forall>k. running_move n w (r k) (r (Suc k))" by blast
  then have "\<forall>k. (r (Suc k), r k) \<in> measure (server_weight n)" using server_weight_decreases by (blast intro: in_measure [THEN iffD2])
  then show False using wf_iff_no_infinite_down_chain [of "measure (server_weight n)"] by auto
qed

text \<open>What comes from outside lets every handler return.\<close>

definition peers_end :: "outside \<Rightarrow> bool" where
  "peers_end w \<longleftrightarrow> (\<forall>c. ending (peers w c) \<noteq> Silent \<and> length (inbuf (peers w c)) < 2147483648
     \<and> (\<forall>p prog. os_exec (systems w c) p = Some prog \<longrightarrow> parameter_program prog) \<and> write_progress (systems w c))"

lemma serve_returns:
  assumes "peers_end w"
  shows "\<exists>tr. serve w c t = Some tr" "\<exists>tr. serve_nobody w c t = Some tr"
proof -
  have "serve w c t \<noteq> None" unfolding serve_def ProcessOn_def
    by (rule HandlerRequest_returns) (use assms in \<open>auto simp: peers_end_def\<close>)
  then show "\<exists>tr. serve w c t = Some tr" by blast
  have "serve_nobody w c t \<noteq> None" unfolding serve_nobody_def ProcessOn_def
    by (rule HandlerRequest_returns) (use assms in \<open>auto simp: peers_end_def\<close>)
  then show "\<exists>tr. serve_nobody w c t = Some tr" by blast
qed

text \<open>A server that cannot move has a pool that cannot.\<close>

lemma stuck_pool:
  assumes "\<And>t. \<not> running_move n w s t" "peers_end w"
  shows "\<not> pool_internal n (\<lambda>_. False) (thread_pool s) p"
proof
  assume "pool_internal n (\<lambda>_. False) (thread_pool s) p"
  moreover have "\<not> pool_internal n (\<lambda>_. True) (thread_pool s) p" for p
    using assms(1) running_move.pool_moves by blast
  moreover have "wpcs (thread_pool s) i \<noteq> WRun t" if "i < n" for i t
    using assms(1) that serve_returns [OF assms(2)]
    by (cases "finished s i"; cases "link s (task_sock t)")
      (blast intro: running_move.returns running_move.handles running_move.handles_nobody)+
  ultimately show False
    by (elim pool_internal.cases) (blast intro: pool_internal.intros)+
qed

definition all_answered :: "outside \<Rightarrow> server_state \<Rightarrow> bool" where
  "all_answered w s \<longleftrightarrow> mset (map fst (answers s)) = mset [0..<links s] \<and> link s = (\<lambda>_. None)
     \<and> (\<forall>(c, tr) \<in> set (answers s).
          \<exists>f. 0 \<le> f \<and> HandlerRequest (systems w c) (returned w) (junks w c) f (peers w c) = Some tr)"

lemma rest_all_answered:
  assumes "server_inv n w s" "at_rest n (thread_pool s)"
  shows "all_answered w s"
proof -
  from assms(2) have empty: "unhandled n s = {#}"
    by (auto simp: unhandled_def at_rest_def slot_def in_hand_def intro!: sum.neutral)
  have none: "link s f = None" for f
  proof (cases "f < 0")
    case True
    with server_invD(3) [OF assms(1)] show ?thesis by (simp add: one_task_each_def)
  next
    case False
    with server_invD(3) [OF assms(1)] have "count (unhandled n s) \<lparr>task_sock = f\<rparr> = (if link s f = None then 0 else 1)"
      by (simp add: one_task_each_def)
    with empty show ?thesis by (simp split: if_splits)
  qed
  with server_invD(4) [OF assms(1)] have "distinct (answered s)" "set (answered s) = {..<links s}"
    by (simp_all add: open_or_answered_def open_links_def)
  then have "mset (answered s) = mset [0..<links s]"
    by (intro set_eq_iff_mset_eq_distinct [THEN iffD1]) (simp_all add: atLeast0LessThan)
  with none server_invD(5) [OF assms(1)] show ?thesis
    unfolding all_answered_def answered_def answers_right_def serve_def ProcessOn_def by fastforce
qed

lemma stuck_all_answered:
  assumes "server_inv n w s" "0 < n" "peers_end w" "\<And>t. \<not> running_move n w s t"
  shows "all_answered w s"
proof (rule rest_all_answered [OF assms(1)])
  note p = server_invD(1) [OF assms(1)]
  show "at_rest n (thread_pool s)"
    by (rule stuck_at_rest [where hangs = "\<lambda>_. False", OF pool_reachable_inv [OF p assms(2)] idle_slots.reachable_inv [OF p] assms(2)])
       (use stuck_pool [OF assms(4,3)] in simp_all)
qed

section \<open>Running a schedule\<close>

datatype server_choice = Thread choice | Handle nat | Return nat | Accept int | Accept_fails

fun server_exec :: "nat \<Rightarrow> outside \<Rightarrow> server_choice \<Rightarrow> server_state \<Rightarrow> server_state option" where
  "server_exec n w (Thread c) s =
     (case c of
        CCall t \<Rightarrow> None
      | _ \<Rightarrow> map_option (\<lambda>p. s\<lparr>thread_pool := p\<rparr>) (pool_exec n (\<lambda>_. True) c (thread_pool s)))"
| "server_exec n w (Handle i) s =
     (case wpcs (thread_pool s) i of
        WRun t \<Rightarrow>
          if i < n \<and> \<not> finished s i then
            (case link s (task_sock t) of
               Some c \<Rightarrow> map_option (\<lambda>tr. s\<lparr>finished := (finished s)(i := True),
                   link := (link s)(task_sock t := None), answers := answers s @ [(c, tr)]\<rparr>) (serve w c t)
             | None \<Rightarrow> map_option (\<lambda>tr. s\<lparr>finished := (finished s)(i := True)\<rparr>) (serve_nobody w 0 t))
          else None
      | _ \<Rightarrow> None)"
| "server_exec n w (Return i) s =
     (case wpcs (thread_pool s) i of
        WRun t \<Rightarrow> if i < n \<and> finished s i then Some (s\<lparr>finished := (finished s)(i := False),
            thread_pool := wgoto i WLock ((thread_pool s)\<lparr>served := served (thread_pool s) @ [t]\<rparr>)\<rparr>) else None
      | _ \<Rightarrow> None)"
| "server_exec n w (Accept f) s =
     (if main_pc (thread_pool s) = PIdle \<and> 0 \<le> f \<and> link s f = None then
        Some (s\<lparr>thread_pool := (thread_pool s)\<lparr>main_pc := PLock \<lparr>task_sock = f\<rparr>\<rparr>,
          link := (link s)(f \<mapsto> links s), links := Suc (links s)\<rparr>)
      else None)"
| "server_exec n w Accept_fails s =
     (if main_pc (thread_pool s) = PIdle then
        Some (s\<lparr>thread_pool := (thread_pool s)\<lparr>main_pc := PLock \<lparr>task_sock = -1\<rparr>\<rparr>\<rparr>)
      else None)"

lemma thread_exec_step:
  assumes "server_exec n w (Thread c) s = Some t"
  shows "running_step n w s t"
proof (cases c)
  case (CWorker i)
  with assms show ?thesis
    by (auto split: if_splits intro: running_step.moves running_move.pool_moves worker_exec_step)
next
  case (CWake i)
  with assms show ?thesis by (auto split: if_splits intro: running_step.wakes)
next
  case CMain
  with assms show ?thesis by (auto intro: running_step.moves running_move.pool_moves main_exec_step)
next
  case (CSignal i)
  with assms show ?thesis
    by (auto split: if_splits intro!: running_step.moves running_move.pool_moves intro: pool_internal.p_signal)
qed (use assms in simp)

lemma server_exec_step: "server_exec n w c s = Some t \<Longrightarrow> running_step n w s t"
proof (cases c)
  case (Thread d)
  then show "server_exec n w c s = Some t \<Longrightarrow> running_step n w s t" using thread_exec_step by simp
next
  case (Handle i)
  then show "server_exec n w c s = Some t \<Longrightarrow> running_step n w s t"
    by (auto split: wpc.splits option.splits if_splits intro!: running_step.moves
        intro: running_move.handles running_move.handles_nobody)
next
  case (Return i)
  then show "server_exec n w c s = Some t \<Longrightarrow> running_step n w s t"
    by (auto split: wpc.splits if_splits intro!: running_step.moves intro: running_move.returns)
qed (auto split: if_splits intro: running_step.accepts running_step.accept_fails)

lemma server_sched_reach:
  assumes "run_sched (server_exec n w) cs server_start = Some s"
  shows "reach (\<lambda>s. s = server_start) (running_step n w) s"
proof -
  have "(running_step n w)\<^sup>*\<^sup>* server_start s"
    by (rule run_sched_rtranclp [OF _ assms]) (rule server_exec_step)
  moreover have "reach (\<lambda>s. s = server_start) (running_step n w) server_start"
    by (rule reach_init) simp
  ultimately show ?thesis by (blast intro: reach_rtranclp)
qed

text \<open>Two connections, taken by two workers.\<close>

definition two_at_work :: "server_choice list" where
  "two_at_work = concat (map (\<lambda>(f, i). Accept f # map Thread [CMain, CMain, CMain, CMain, CWorker i, CWorker i, CWorker i, CWorker i])
     [(4, 0), (5, 1)])"

lemma run_two_at_work:
  "\<exists>s. run_sched (server_exec 2 w) two_at_work server_start = Some s \<and> links s = 2 \<and> finished s = (\<lambda>_. False)
     \<and> answers s = [] \<and> wpcs (thread_pool s) 0 = WRun \<lparr>task_sock = 4\<rparr> \<and> wpcs (thread_pool s) 1 = WRun \<lparr>task_sock = 5\<rparr>"
  by (simp add: two_at_work_def server_start_def pool_eval upt_rec numeral_2_eq_2)

section \<open>Properties\<close>

text \<open>C9: No two workers are in the handler on the same descriptor: although numbers are used
  again as soon as a connection is closed, and a task may wait long in the queue, the number
  in a task stands for the same open connection from \<open>accept\<close> to \<open>close\<close>.\<close>

theorem workers_own_descriptors:
  assumes "reach (\<lambda>s. s = server_start) (running_step n w) s"
    and "i < n" "wpcs (thread_pool s) i = WRun t" "\<not> finished s i" "0 \<le> task_sock t"
    and "j < n" "j \<noteq> i" "wpcs (thread_pool s) j = WRun u" "\<not> finished s j"
  shows "task_sock u \<noteq> task_sock t \<and> (\<exists>c < links s. link s (task_sock t) = Some c \<and> c \<notin> fst ` set (answers s))"
proof -
  note inv = server.reachable_inv [OF assms(1)]
  note own = own_descriptor [OF server_invD(3) [OF inv] assms(2-5)]
  obtain c where c: "link s (task_sock t) = Some c" using own(1) by blast
  then have "c \<in> open_links s" by (auto simp: open_links_def)
  with server_invD(4) [OF inv] have "c < links s \<and> c \<notin> fst ` set (answers s)"
    by (auto simp: open_or_answered_def answered_def)
  with c own(2) [OF assms(6-9)] show ?thesis by blast
qed

theorem workers_own_descriptors_witness:
  "\<exists>s :: server_state. wpcs (thread_pool s) 0 = WRun \<lparr>task_sock = 4\<rparr> \<and> wpcs (thread_pool s) 1 = WRun \<lparr>task_sock = 5\<rparr>
    \<and> (\<exists>c < 2. link s 4 = Some c \<and> c \<notin> fst ` set (answers s))"
proof -
  obtain s :: server_state and w where run: "run_sched (server_exec 2 w) two_at_work server_start = Some s"
    and s: "links s = 2" "finished s = (\<lambda>_. False)" "wpcs (thread_pool s) 0 = WRun \<lparr>task_sock = 4\<rparr>"
      "wpcs (thread_pool s) 1 = WRun \<lparr>task_sock = 5\<rparr>" using run_two_at_work by blast
  from workers_own_descriptors [OF server_sched_reach [OF run] _ s(3) _ _ _ _ s(4)] s show ?thesis
    by (intro exI [of _ s]) simp
qed

text \<open>C2: Every connection is answered once. Where peers end their connections within fewer than
  2^31 bytes and the programs take their parameters by \<open>GetQueryString\<close>, as those of the
  repository do, the server left alone makes only finitely many moves, whatever
  the schedule, and where it stops every connection accepted so far has been answered
  exactly once, with what the handler does on its bytes, and is closed.\<close>

theorem every_connection_answered:
  assumes "reach (\<lambda>s. s = server_start) (running_step n w) s" "0 < n" "peers_end w"
  shows "\<not> (\<exists>r. r 0 = s \<and> (\<forall>k. running_move n w (r k) (r (Suc k))))
    \<and> (\<forall>t. (running_move n w)\<^sup>*\<^sup>* s t \<and> (\<forall>u. \<not> running_move n w t u) \<longrightarrow> all_answered w t)"
proof (intro conjI allI impI)
  fix t assume t: "(running_move n w)\<^sup>*\<^sup>* s t \<and> (\<forall>u. \<not> running_move n w t u)"
  then have "(running_step n w)\<^sup>*\<^sup>* s t"
    by (metis (mono_tags, lifting) mono_rtranclp running_step.moves)
  then have "server_inv n w t" using server.inv_rtranclp server.reachable_inv [OF assms(1)] by blast
  with t assms(2,3) show "all_answered w t" by (blast intro: stuck_all_answered)
qed (rule no_endless_run)

theorem every_connection_answered_witness:
  "\<exists>s w. links s = 2 \<and> answers s = [] \<and> (\<forall>t. (running_move 2 w)\<^sup>*\<^sup>* s t \<and> (\<forall>u. \<not> running_move 2 w t u) \<longrightarrow> all_answered w t)"
proof -
  let ?w = "\<lparr>peers = \<lambda>_. arrives ''GET / HTTP/1.0'' Closed, systems = \<lambda>_. site_env\<lparr>os_exec := \<lambda>_. None\<rparr>,
      junks = \<lambda>_. 0, returned = \<lambda>_. False\<rparr>"
  have w: "peers_end ?w" using site_env_ok(3) by (simp add: peers_end_def arrives_def cgi_ready_def write_progress_def)
  obtain s where run: "run_sched (server_exec 2 ?w) two_at_work server_start = Some s"
    and s: "links s = 2" "answers s = []" using run_two_at_work [of ?w] by blast
  from every_connection_answered [OF server_sched_reach [OF run] _ w] s show ?thesis
    by (intro exI [of _ s] exI [of _ ?w]) simp
qed

end
