(* ===== verification/Web_Refine.thy ===== *)
theory Web_Refine
  imports Web_Whole
begin

text \<open>
  What the running server promises, without its threads, locks and descriptors: a service
  with a first-in first-out line of waiting clients, at most \<open>n\<close> of them in service at a
  time. Every step of the server of \<open>Web_Whole\<close> is one step of this service or none, so that
  what holds of the service holds of the server.
\<close>

section \<open>Simulation\<close>

text \<open>
  A concrete system whose every step is, seen through \<open>abst\<close>, one abstract step or no change;
  \<open>inv\<close> is what the argument needs to know of the concrete state.
\<close>

locale simulation = invariant_system cini cstep inv
  for cini :: "'c \<Rightarrow> bool" and cstep :: "'c \<Rightarrow> 'c \<Rightarrow> bool" and inv :: "'c \<Rightarrow> bool" +
  fixes aini :: "'a \<Rightarrow> bool" and astep :: "'a \<Rightarrow> 'a \<Rightarrow> bool" and abst :: "'c \<Rightarrow> 'a"
  assumes abst_init: "cini s \<Longrightarrow> aini (abst s)"
    and abst_step: "inv s \<Longrightarrow> cstep s t \<Longrightarrow> abst t = abst s \<or> astep (abst s) (abst t)"
begin

lemma simulated_run: "cstep\<^sup>*\<^sup>* s t \<Longrightarrow> inv s \<Longrightarrow> astep\<^sup>*\<^sup>* (abst s) (abst t)"
proof (induction rule: rtranclp_induct)
  case (step u t)
  with inv_rtranclp [OF step.hyps(1)] abst_step [of u t] show ?case
    by (metis rtranclp.rtrancl_into_rtrancl)
qed simp

lemma simulated_reach: "reach cini cstep s \<Longrightarrow> reach aini astep (abst s)"
proof (induction rule: reach.induct)
  case (reach_step s t)
  with reachable_inv abst_step [of s t] show ?case by (metis reach.reach_step)
qed (blast intro: reach.reach_init abst_init)

end

section \<open>The service\<close>

text \<open>
  A client is a connection by its number of arrival, or \<open>None\<close> for the failed \<open>accept\<close> that
  the server treats as one.
\<close>

record service =
  waiting :: "nat option list"
  busy :: "nat option multiset"
  replies :: "(nat \<times> event list) list"
  arrived :: nat

definition service_start :: service where
  "service_start = \<lparr>waiting = [], busy = {#}, replies = [], arrived = 0\<rparr>"

inductive service_step :: "nat \<Rightarrow> outside \<Rightarrow> service \<Rightarrow> service \<Rightarrow> bool" for n w where
  arrives_client: "service_step n w v (v\<lparr>waiting := waiting v @ [Some (arrived v)], arrived := Suc (arrived v)\<rparr>)"
| arrives_nobody: "service_step n w v (v\<lparr>waiting := waiting v @ [None]\<rparr>)"
| begins: "waiting v = x # xs \<Longrightarrow> size (busy v) < n \<Longrightarrow>
    service_step n w v (v\<lparr>waiting := xs, busy := add_mset x (busy v)\<rparr>)"
| replies_client: "busy v = add_mset (Some c) b \<Longrightarrow> 0 \<le> task_sock t \<Longrightarrow> serve w c t = Some tr \<Longrightarrow>
    service_step n w v (v\<lparr>busy := b, replies := replies v @ [(c, tr)]\<rparr>)"
| dismisses_nobody: "busy v = add_mset None b \<Longrightarrow> service_step n w v (v\<lparr>busy := b\<rparr>)"

inductive_cases service_stepE: "service_step n w v v'"

text \<open>The connections in the line are the latest, in the order they came; all others have begun.\<close>

definition clients :: "nat option list \<Rightarrow> nat list" where
  "clients xs = map the (filter (\<lambda>x. x \<noteq> None) xs)"

definition clients_in :: "nat option multiset \<Rightarrow> nat multiset" where
  "clients_in b = image_mset the (filter_mset (\<lambda>x. x \<noteq> None) b)"

definition in_order :: "nat \<Rightarrow> service \<Rightarrow> bool" where
  "in_order n v \<longleftrightarrow> size (busy v) \<le> n \<and> (\<exists>k \<le> arrived v. clients (waiting v) = [k..<arrived v]
     \<and> mset (map fst (replies v)) + clients_in (busy v) = mset [0..<k])"

lemma clients_simps [simp]:
  "clients [] = []" "clients (xs @ ys) = clients xs @ clients ys"
  "clients (Some c # xs) = c # clients xs" "clients (None # xs) = clients xs"
  by (simp_all add: clients_def)

lemma clients_in_simps [simp]:
  "clients_in {#} = {#}" "clients_in (add_mset (Some c) b) = add_mset c (clients_in b)"
  "clients_in (add_mset None b) = clients_in b"
  by (simp_all add: clients_in_def)

lemma in_order_begins:
  assumes "in_order n v" "waiting v = x # xs" "size (busy v) < n"
  shows "in_order n (v\<lparr>waiting := xs, busy := add_mset x (busy v)\<rparr>)"
proof -
  from assms(1) obtain k where k: "k \<le> arrived v" "clients (waiting v) = [k..<arrived v]"
    "mset (map fst (replies v)) + clients_in (busy v) = mset [0..<k]" unfolding in_order_def by blast
  show ?thesis
  proof (cases x)
    case None
    with assms k show ?thesis by (auto simp: in_order_def)
  next
    case (Some c)
    with assms(2) k(2) have e: "c # clients xs = [k..<arrived v]" by simp
    then have "k < arrived v" by (metis list.distinct(1) not_less upt_conv_Nil)
    with e have "c = k" "clients xs = [Suc k..<arrived v]" by (simp_all add: upt_conv_Cons)
    with assms(3) k Some \<open>k < arrived v\<close> show ?thesis
      by (auto simp: in_order_def atLeastLessThanSuc intro!: exI [of _ "Suc k"])
  qed
qed

interpretation service: invariant_system "\<lambda>v. v = service_start" "service_step n w" "in_order n" for n w
proof
  fix v assume "v = service_start"
  then show "in_order n v" by (simp add: in_order_def service_start_def)
next
  fix v v' assume inv: "in_order n v" and "service_step n w v v'"
  from this(2) show "in_order n v'"
  proof cases
    case arrives_client
    with inv show ?thesis by (auto simp: in_order_def)
  next
    case begins
    with in_order_begins [OF inv] show ?thesis by simp
  qed (use inv in \<open>auto simp: in_order_def\<close>)
qed

section \<open>The server is the service\<close>

primrec main_tasks :: "ppc \<Rightarrow> Task list" where
  "main_tasks PIdle = []"
| "main_tasks (PLock t) = [t]"
| "main_tasks (PPush t) = [t]"
| "main_tasks PUnlock = []"
| "main_tasks PSignal = []"

definition waiting_tasks :: "server_state \<Rightarrow> Task list" where
  "waiting_tasks s = task_queue (thread_pool s) @ main_tasks (main_pc (thread_pool s))"

definition busy_tasks :: "nat \<Rightarrow> server_state \<Rightarrow> Task multiset" where
  "busy_tasks n s = (\<Sum>i<n. in_hand (slot s i))"

definition client :: "server_state \<Rightarrow> Task \<Rightarrow> nat option" where
  "client s t = link s (task_sock t)"

definition service_of :: "nat \<Rightarrow> server_state \<Rightarrow> service" where
  "service_of n s = \<lparr>waiting = map (client s) (waiting_tasks s), busy = image_mset (client s) (busy_tasks n s),
     replies = answers s, arrived = links s\<rparr>"

lemma unhandled_split: "unhandled n s = mset (waiting_tasks s) + busy_tasks n s"
proof -
  have "main_hand p = mset (main_tasks p)" for p by (cases p) simp_all
  then show ?thesis by (simp add: unhandled_def waiting_tasks_def busy_tasks_def)
qed

text \<open>Where the line stays, so do the tasks in service, up to those that are handled.\<close>

lemma busy_same:
  "unhandled n t = unhandled n s \<Longrightarrow> waiting_tasks t = waiting_tasks s \<Longrightarrow> busy_tasks n t = busy_tasks n s"
  by (simp add: unhandled_split)

lemma service_of_same:
  assumes "unhandled n t = unhandled n s" "waiting_tasks t = waiting_tasks s"
    and "link t = link s" "answers t = answers s" "links t = links s"
  shows "service_of n t = service_of n s"
  using busy_same [OF assms(1,2)] assms(2-5) by (simp add: service_of_def client_def [abs_def])

text \<open>A new or a finished connection leaves the clients of the other tasks alone.\<close>

lemma client_update:
  assumes "link t = (link s)(f := x)" "\<forall>v \<in># m. task_sock v \<noteq> f"
  shows "v \<in># m \<Longrightarrow> client t v = client s v"
  using assms by (simp add: client_def)

lemma size_hands: "finite A \<Longrightarrow> size (\<Sum>j\<in>A. in_hand (f j)) \<le> card A"
proof (induction rule: finite_induct)
  case (insert i A)
  have "size (in_hand x) \<le> 1" for x by (cases "snd x") (simp_all add: in_hand_def)
  then have "size (in_hand (f i)) \<le> 1" .
  with insert show ?case by simp
qed simp

lemma size_busy_free:
  assumes "i < n" "in_hand (slot s i) = {#}"
  shows "size (busy_tasks n s) < n"
proof -
  have "busy_tasks n s = (\<Sum>j \<in> {..<n} - {i}. in_hand (slot s j))"
    unfolding busy_tasks_def sum_thread(1) [OF assms(1), of in_hand "slot s"] by (simp add: assms(2))
  moreover have "card ({..<n} - {i}) < n" using assms(1) by simp
  ultimately show ?thesis using size_hands [of "{..<n} - {i}" "slot s"] by simp
qed

text \<open>The moves of the pool: a worker that pops begins with the first of the line.\<close>

lemma service_of_pool:
  assumes "pool_internal n (\<lambda>_. True) (thread_pool s) p" "still_running s"
  shows "service_of n (s\<lparr>thread_pool := p\<rparr>) = service_of n s
    \<or> service_step n w (service_of n s) (service_of n (s\<lparr>thread_pool := p\<rparr>))" (is "service_of n ?t = _ \<or> _")
proof -
  note u = unhandled_pool [OF assms]
  have same: "service_of n ?t = service_of n s" if "waiting_tasks ?t = waiting_tasks s"
    by (rule service_of_same [OF u that]) simp_all
  from assms(1) show ?thesis
  proof cases
    case (w_pop i t q)
    then have q: "waiting_tasks s = t # waiting_tasks ?t" by (simp add: waiting_tasks_def task_fifo.pop_Some)
    then have b: "busy_tasks n ?t = add_mset t (busy_tasks n s)" using u by (simp add: unhandled_split)
    have "in_hand (slot s i) = {#}" using w_pop by (simp add: slot_def in_hand_def)
    with size_busy_free w_pop(2) have "size (busy (service_of n s)) < n" by (simp add: service_of_def)
    moreover have "waiting (service_of n s) = client s t # map (client s) (waiting_tasks ?t)"
      by (simp add: service_of_def q)
    ultimately have "service_step n w (service_of n s)
      ((service_of n s)\<lparr>waiting := map (client s) (waiting_tasks ?t), busy := add_mset (client s t) (busy (service_of n s))\<rparr>)"
      by (intro begins)
    then show ?thesis by (simp add: service_of_def b client_def [abs_def])
  qed (use same in \<open>simp_all add: waiting_tasks_def queue_push_def\<close>)
qed

lemma service_of_handles:
  assumes "one_task_each n s" "unhandled n s = add_mset t (unhandled n s')" "waiting_tasks s' = waiting_tasks s"
    and "link s (task_sock t) = Some c" "link s' = (link s)(task_sock t := None)"
  shows "waiting (service_of n s') = waiting (service_of n s)"
    and "busy (service_of n s) = add_mset (Some c) (busy (service_of n s'))" and "0 \<le> task_sock t"
proof -
  show p: "0 \<le> task_sock t" using assms(1,4) unfolding one_task_each_def
    by (metis linorder_not_le option.distinct(1))
  have "count (unhandled n s) t = 1" using assms(1,4) p by (simp add: one_task_each_def)
  then have "t \<notin># unhandled n s'" using assms(2) by (simp add: not_in_iff)
  then have o: "\<forall>v \<in># unhandled n s'. task_sock v \<noteq> task_sock t" by (metis Task_eq)
  have "v \<in> set (waiting_tasks s) \<Longrightarrow> client s' v = client s v" for v
    by (rule client_update [OF assms(5) o]) (simp add: unhandled_split assms(3))
  then show "waiting (service_of n s') = waiting (service_of n s)" by (simp add: service_of_def assms(3))
  have "busy_tasks n s = add_mset t (busy_tasks n s')" using assms(2,3) by (simp add: unhandled_split)
  moreover have "image_mset (client s') (busy_tasks n s') = image_mset (client s) (busy_tasks n s')"
    by (rule image_mset_cong, rule client_update [OF assms(5) o]) (simp add: unhandled_split)
  ultimately show "busy (service_of n s) = add_mset (Some c) (busy (service_of n s'))"
    using assms(4) by (simp add: service_of_def client_def)
qed

lemma service_of_accepts:
  assumes "one_task_each n s" "0 \<le> f" "link s f = None" "main_pc (thread_pool s) = PIdle" "finished s' = finished s"
    and "thread_pool s' = (thread_pool s)\<lparr>main_pc := PLock \<lparr>task_sock = f\<rparr>\<rparr>" "link s' = (link s)(f := x)"
  shows "waiting (service_of n s') = waiting (service_of n s) @ [x]"
    and "busy (service_of n s') = busy (service_of n s)"
proof -
  have "count (unhandled n s) \<lparr>task_sock = f\<rparr> = 0" using assms(1-3) by (simp add: one_task_each_def)
  then have "\<lparr>task_sock = f\<rparr> \<notin># unhandled n s" by (simp add: not_in_iff)
  then have o: "\<forall>v \<in># unhandled n s. task_sock v \<noteq> f" by (metis Task.surjective unit.exhaust)
  have w: "waiting_tasks s' = waiting_tasks s @ [\<lparr>task_sock = f\<rparr>]" using assms(4,6) by (simp add: waiting_tasks_def)
  have "v \<in> set (waiting_tasks s) \<Longrightarrow> client s' v = client s v" for v
    by (rule client_update [OF assms(7) o]) (simp add: unhandled_split)
  with w assms(7) show "waiting (service_of n s') = waiting (service_of n s) @ [x]"
    by (simp add: service_of_def client_def)
  have b: "busy_tasks n s' = busy_tasks n s" using assms(5,6) by (simp add: busy_tasks_def slot_def)
  have "image_mset (client s') (busy_tasks n s) = image_mset (client s) (busy_tasks n s)"
    by (rule image_mset_cong, rule client_update [OF assms(7) o]) (simp add: unhandled_split)
  then show "busy (service_of n s') = busy (service_of n s)" by (simp add: service_of_def b)
qed

lemma service_of_step:
  assumes inv: "server_inv n w s" and "running_step n w s s'"
  shows "service_of n s' = service_of n s \<or> service_step n w (service_of n s) (service_of n s')"
proof -
  note one = server_invD(3) [OF inv] and run = server_invD(2) [OF inv]
  from assms(2) show ?thesis
  proof cases
    case moves
    then show ?thesis
    proof cases
      case (pool_moves p)
      with service_of_pool [OF pool_moves(2) run] show ?thesis by simp
    next
      case (handles i t c tr)
      then have u: "unhandled n s = add_mset t (unhandled n s')" by (intro unhandled_finish) simp_all
      have "waiting_tasks s' = waiting_tasks s" "link s' = (link s)(task_sock t := None)"
        using handles(1) by (simp_all add: waiting_tasks_def)
      note h = service_of_handles [OF one u this(1) handles(5) this(2)]
      from service_step.replies_client [OF h(2,3) handles(6)]
      show ?thesis using h(1) handles(1) by (simp add: service_of_def)
    next
      case (handles_nobody i t c tr)
      then have u: "unhandled n s = add_mset t (unhandled n s')" by (intro unhandled_finish) simp_all
      have w: "waiting_tasks s' = waiting_tasks s" and l: "link s' = link s"
        using handles_nobody(1) by (simp_all add: waiting_tasks_def)
      then have "busy_tasks n s = add_mset t (busy_tasks n s')" using u by (simp add: unhandled_split)
      then have "busy (service_of n s) = add_mset None (busy (service_of n s'))"
        using handles_nobody(5) l by (simp add: service_of_def client_def [abs_def])
      from service_step.dismisses_nobody [OF this] show ?thesis
        using handles_nobody(1) w by (simp add: service_of_def client_def [abs_def])
    next
      case (returns i t)
      then have "service_of n s' = service_of n s"
        using unhandled_return [OF returns(2-4)] by (intro service_of_same) (simp_all add: waiting_tasks_def)
      then show ?thesis by simp
    qed
  next
    case (accepts f)
    then have "waiting (service_of n s') = waiting (service_of n s) @ [Some (links s)]"
      "busy (service_of n s') = busy (service_of n s)"
      by (intro service_of_accepts [OF one, of f]; simp)+
    then have "service_of n s' = (service_of n s)\<lparr>waiting := waiting (service_of n s) @ [Some (arrived (service_of n s))],
      arrived := Suc (arrived (service_of n s))\<rparr>" using accepts(1) by (simp add: service_of_def)
    then show ?thesis using service_step.arrives_client by metis
  next
    case accept_fails
    then have l: "link s' = link s" and w: "waiting_tasks s' = waiting_tasks s @ [\<lparr>task_sock = -1\<rparr>]"
      and b: "busy_tasks n s' = busy_tasks n s" by (simp_all add: waiting_tasks_def busy_tasks_def slot_def)
    moreover have "link s (-1) = None" using one by (simp add: one_task_each_def)
    ultimately have "service_of n s' = (service_of n s)\<lparr>waiting := waiting (service_of n s) @ [None]\<rparr>"
      using accept_fails(1) by (simp add: service_of_def client_def [abs_def])
    then show ?thesis using service_step.arrives_nobody by metis
  next
    case (wakes i)
    then have "service_of n s' = service_of n s"
      using unhandled_wake [OF wakes(2,3)] by (intro service_of_same) (simp_all add: waiting_tasks_def)
    then show ?thesis by simp
  qed
qed

interpretation server_service: simulation "\<lambda>s. s = server_start" "running_step n w" "server_inv n w"
    "\<lambda>v. v = service_start" "service_step n w" "service_of n" for n w
proof
  fix s assume "s = server_start"
  moreover have "busy_tasks n server_start = {#}"
    unfolding busy_tasks_def
    by (rule sum.neutral) (simp add: slot_def in_hand_def server_start_def pool_start_def)
  ultimately show "service_of n s = service_start"
    by (simp add: service_of_def service_start_def waiting_tasks_def server_start_def pool_start_def)
qed (rule service_of_step)

lemma run_two_at_work_idle:
  "\<exists>s. run_sched (server_exec 2 w) two_at_work server_start = Some s \<and> links s = 2 \<and> main_pc (thread_pool s) = PIdle
     \<and> answers s = []"
  by (simp add: two_at_work_def server_start_def pool_eval upt_rec numeral_2_eq_2)

section \<open>Properties\<close>

text \<open>C3: The running server implements the service: threads, mutex, condition variable, queue and
  descriptor numbers together are a first-in first-out line in front of \<open>n\<close> handlers. Every
  state the server reaches is one the service reaches, and each of its steps is one step of
  the service or invisible to it.\<close>

theorem server_implements_service:
  assumes "reach (\<lambda>s. s = server_start) (running_step n w) s" "running_step n w s t"
  shows "reach (\<lambda>v. v = service_start) (service_step n w) (service_of n s)
    \<and> (service_of n t = service_of n s \<or> service_step n w (service_of n s) (service_of n t))"
  using server_service.simulated_reach [OF assms(1)]
    server_service.abst_step [OF server.reachable_inv [OF assms(1)] assms(2)] by blast

theorem server_implements_service_witness:
  "\<exists>s t w. links s = 2 \<and> main_pc (thread_pool t) = PLock \<lparr>task_sock = -1\<rparr>
    \<and> reach (\<lambda>v. v = service_start) (service_step 2 w) (service_of 2 s)
    \<and> (service_of 2 t = service_of 2 s \<or> service_step 2 w (service_of 2 s) (service_of 2 t))"
proof -
  fix w
  obtain s :: server_state where run: "run_sched (server_exec 2 w) two_at_work server_start = Some s"
    and s: "links s = 2" "main_pc (thread_pool s) = PIdle" using run_two_at_work_idle by blast
  let ?t = "s\<lparr>thread_pool := (thread_pool s)\<lparr>main_pc := PLock \<lparr>task_sock = -1\<rparr>\<rparr>\<rparr>"
  have "running_step 2 w s ?t" using s(2) by (rule running_step.accept_fails)
  from server_implements_service [OF server_sched_reach [OF run] this] s(1) show ?thesis
    by (intro exI [of _ s] exI [of _ ?t] exI [of _ w]) simp
qed

text \<open>C4: Connections are taken up in the order they came: at any moment those that wait are the latest, from
  some number \<open>k\<close> on, in the order of their arrival; each of the first \<open>k\<close> is in service or
  has been answered, once; and no more than \<open>n\<close> are in service at a time.\<close>

theorem connections_taken_in_order:
  assumes "reach (\<lambda>s. s = server_start) (running_step n w) s"
  shows "\<exists>k \<le> links s. clients (map (client s) (waiting_tasks s)) = [k..<links s]
    \<and> mset (map fst (answers s)) + clients_in (image_mset (client s) (busy_tasks n s)) = mset [0..<k]
    \<and> size (busy_tasks n s) \<le> n"
  using service.reachable_inv [OF server_service.simulated_reach [OF assms]]
  by (auto simp: in_order_def service_of_def)

theorem connections_taken_in_order_witness:
  "\<exists>s. links s = 2 \<and> answers s = [] \<and> (\<exists>k \<le> 2. clients (map (client s) (waiting_tasks s)) = [k..<2]
    \<and> clients_in (image_mset (client s) (busy_tasks 2 s)) = mset [0..<k])"
proof -
  fix w
  obtain s :: server_state where run: "run_sched (server_exec 2 w) two_at_work server_start = Some s"
    and s: "links s = 2" "answers s = []" using run_two_at_work_idle by blast
  from connections_taken_in_order [OF server_sched_reach [OF run]] s show ?thesis
    by (intro exI [of _ s]) auto
qed

end
