(* ===== verification/Web_Paths.thy ===== *)
theory Web_Paths
  imports Web_Send
begin

text \<open>
  Where the paths of the server lead. The server hands \<open>./wwwroot\<close> and the target of the
  request to \<open>stat\<close>, \<open>open\<close> and \<open>execl\<close> as they are (Protocol.hpp). This theory states how
  the system resolves such a path, as POSIX has it for a tree without symbolic links, and
  shows which targets stay below the web root and that the others reach every file.
\<close>

section \<open>Path resolution\<close>

text \<open>A location is a list of names, the innermost first; the root of the tree is \<open>[]\<close>.\<close>

type_synonym location = "string list"

fun components :: "string \<Rightarrow> string list" where
  "components [] = [[]]"
| "components (c # cs) = (if c = CHR ''/'' then [] # components cs
     else (case components cs of [] \<Rightarrow> [[c]] | w # ws \<Rightarrow> (c # w) # ws))"

definition step_name :: "string \<Rightarrow> location \<Rightarrow> location" where
  "step_name c l = (if c = [] \<or> c = ''.'' then l else if c = ''..'' then tl l else c # l)"

text \<open>Every step leaves a directory.\<close>

definition is_dir :: "(location \<Rightarrow> file_stat option) \<Rightarrow> location \<Rightarrow> bool" where
  "is_dir fs l = (case fs l of Some st \<Rightarrow> st_isdir st | None \<Rightarrow> False)"

fun walk :: "(location \<Rightarrow> file_stat option) \<Rightarrow> location \<Rightarrow> string list \<Rightarrow> location option" where
  "walk fs l [] = Some l"
| "walk fs l (c # cs) = (if is_dir fs l then walk fs (step_name c l) cs else None)"

definition resolve :: "(location \<Rightarrow> file_stat option) \<Rightarrow> location \<Rightarrow> string \<Rightarrow> location option" where
  "resolve fs cwd p = (if p = [] then None
     else walk fs (if hd p = CHR ''/'' then [] else cwd) (components p))"

text \<open>
  The system calls on a tree \<open>fs\<close> by a process whose working directory is \<open>cwd\<close>: \<open>fds\<close> is
  the answer of \<open>open\<close> for an existing file and \<open>progs\<close> the programs on the machine.
\<close>

definition unix_calls :: "os_env \<Rightarrow> (location \<Rightarrow> file_stat option) \<Rightarrow> location \<Rightarrow> (location \<Rightarrow> int)
    \<Rightarrow> (location \<Rightarrow> ((string \<Rightarrow> string option) \<Rightarrow> proc) option) \<Rightarrow> bool" where
  "unix_calls env fs cwd fds progs \<longleftrightarrow>
     os_stat env = (\<lambda>p. case resolve fs cwd p of Some l \<Rightarrow> fs l | None \<Rightarrow> None)
     \<and> os_open env = (\<lambda>p. case resolve fs cwd p of Some l \<Rightarrow> if fs l = None then -1 else fds l | None \<Rightarrow> -1)
     \<and> os_exec env = (\<lambda>p. case resolve fs cwd p of Some l \<Rightarrow> if fs l = None then None else progs l | None \<Rightarrow> None)"

text \<open>A tree: the root is a directory and so is what holds an existing entry.\<close>

definition file_tree :: "(location \<Rightarrow> file_stat option) \<Rightarrow> bool" where
  "file_tree fs \<longleftrightarrow> is_dir fs [] \<and> (\<forall>n l. fs (n # l) \<noteq> None \<longrightarrow> is_dir fs l)"

lemma components_nonempty [simp]: "components s \<noteq> []"
  by (cases s) (simp_all split: list.splits)

lemma components_name: "CHR ''/'' \<notin> set n \<Longrightarrow> components n = [n]"
  by (induction n) auto

lemma components_name_slash: "CHR ''/'' \<notin> set n \<Longrightarrow> components (n @ CHR ''/'' # s) = n # components s"
  by (induction n) auto

lemma components_slash_name:
  "CHR ''/'' \<notin> set n \<Longrightarrow> components (s @ CHR ''/'' # n) = components s @ [n]"
  by (induction s) (auto simp: components_name split: list.splits)

lemma components_names:
  "\<forall>n \<in> set ns. CHR ''/'' \<notin> set n \<Longrightarrow> components (s @ concat (map (Cons (CHR ''/'')) ns)) = components s @ ns"
proof (induction ns rule: rev_induct)
  case (snoc n ns)
  then show ?case using components_slash_name [of n "s @ concat (map (Cons (CHR ''/'')) ns)"] by simp
qed simp

lemma walk_append: "walk fs l (cs @ ds) = (case walk fs l cs of Some k \<Rightarrow> walk fs k ds | None \<Rightarrow> None)"
  by (induction cs arbitrary: l) simp_all

lemma is_dir_exists: "is_dir fs l \<Longrightarrow> fs l \<noteq> None"
  by (auto simp: is_dir_def split: option.splits)

lemma file_tree_tl: "file_tree fs \<Longrightarrow> is_dir fs l \<Longrightarrow> is_dir fs (tl l)"
  by (cases l) (auto simp: file_tree_def dest: is_dir_exists)

text \<open>Enough \<open>..\<close> lead from any directory to the root, and the names of a file from there to it.\<close>

lemma walk_up: "file_tree fs \<Longrightarrow> is_dir fs l \<Longrightarrow> walk fs l (replicate n ''..'') = Some (drop n l)"
  by (induction n arbitrary: l) (simp_all add: step_name_def file_tree_tl drop_Suc)

definition plain_name :: "string \<Rightarrow> bool" where
  "plain_name n \<longleftrightarrow> token n \<and> CHR ''/'' \<notin> set n \<and> CHR ''?'' \<notin> set n \<and> NUL \<notin> set n
     \<and> n \<noteq> ''.'' \<and> n \<noteq> ''..''"

lemma walk_down:
  "file_tree fs \<Longrightarrow> \<forall>n \<in> set q. plain_name n \<Longrightarrow> fs q \<noteq> None \<Longrightarrow> walk fs [] (rev q) = Some q"
proof (induction q)
  case (Cons n q)
  then have d: "is_dir fs q" by (auto simp: file_tree_def)
  with Cons have "walk fs [] (rev q) = Some q" by (auto dest: is_dir_exists)
  with Cons.prems(2) d show ?case by (auto simp: walk_append step_name_def plain_name_def token_def)
qed simp

lemma walk_below: "''..'' \<notin> set cs \<Longrightarrow> walk fs l cs = Some k \<Longrightarrow> \<exists>x. k = x @ l"
proof (induction cs arbitrary: l)
  case (Cons c cs)
  then obtain x where "k = x @ step_name c l" by (auto split: if_splits)
  with Cons.prems(1) show ?case by (auto simp: step_name_def split: if_splits)
qed simp

section \<open>The target that leads to a given file\<close>

text \<open>
  For a server in the directory \<open>cwd\<close>: leave the web root and all the directories above it,
  then name the file \<open>q\<close> from the root.
\<close>

definition climb :: "location \<Rightarrow> location \<Rightarrow> string list" where
  "climb cwd q = replicate (Suc (length cwd)) ''..'' @ rev q"

definition escape :: "location \<Rightarrow> location \<Rightarrow> string" where
  "escape cwd q = concat (map (Cons (CHR ''/'')) (climb cwd q))"

lemma climb_names: "climb cwd q \<noteq> []" "n \<in> set (climb cwd q) \<Longrightarrow> n = ''..'' \<or> n \<in> set q"
  by (auto simp: climb_def)

lemma plain_nameD:
  "plain_name n \<Longrightarrow> n \<noteq> [] \<and> CHR ''/'' \<notin> set n \<and> CHR ''?'' \<notin> set n \<and> NUL \<notin> set n"
  "plain_name n \<Longrightarrow> c \<in> set n \<Longrightarrow> \<not> isspace c"
  by (simp_all add: plain_name_def token_def)

lemma concat_slash_snoc:
  "concat (map (Cons c) (ns @ [n])) = concat (map (Cons c) ns) @ c # n"
  by simp

lemma last_names:
  assumes "ns \<noteq> []" "\<And>n. n \<in> set ns \<Longrightarrow> n \<noteq> [] \<and> c \<notin> set n"
  shows "concat (map (Cons c) ns) \<noteq> [] \<and> last (concat (map (Cons c) ns)) \<noteq> c"
  using assms
proof (induction ns rule: rev_induct)
  case (snoc n ns)
  then have "n \<noteq> []" "c \<notin> set n" by auto
  then have "last n \<noteq> c" using last_in_set by metis
  with \<open>n \<noteq> []\<close> show ?case unfolding concat_slash_snoc by simp
qed simp

lemma plain_names_clean:
  "\<forall>n \<in> set q. plain_name n \<Longrightarrow> n \<in> set (climb cwd q) \<Longrightarrow> n \<noteq> [] \<and> CHR ''/'' \<notin> set n"
  using climb_names(2) [of n cwd q] plain_nameD(1) [of n] by auto

lemma escape_chars:
  assumes "c \<in> set (escape cwd q)"
  shows "c = CHR ''/'' \<or> c = CHR ''.'' \<or> (\<exists>n \<in> set q. c \<in> set n)"
proof -
  from assms have "c = CHR ''/'' \<or> (\<exists>n \<in> set (climb cwd q). c \<in> set n)"
    by (auto simp: escape_def split: if_splits)
  then show ?thesis using climb_names(2) [of _ cwd q] by fastforce
qed

lemma escape_target:
  assumes "\<forall>n \<in> set q. plain_name n"
  shows "token (escape cwd q)" "CHR ''?'' \<notin> set (escape cwd q)"
    and "c_str (root_path (escape cwd q)) = WEB_ROOT @ escape cwd q"
proof -
  have ne: "escape cwd q \<noteq> []" "last (escape cwd q) \<noteq> CHR ''/''"
    using last_names [OF climb_names(1)] plain_names_clean [OF assms] unfolding escape_def by blast+
  have sp: "\<not> isspace (CHR ''/'')" "\<not> isspace (CHR ''.'')" by (simp_all add: isspace_def)
  have "\<not> isspace c \<and> c \<noteq> CHR ''?'' \<and> c \<noteq> NUL" if c: "c \<in> set (escape cwd q)" for c
  proof (cases "\<exists>n \<in> set q. c \<in> set n")
    case True
    with assms plain_nameD show ?thesis by blast
  next
    case False
    with escape_chars [OF c] sp show ?thesis by auto
  qed
  then have z: "NUL \<notin> set (escape cwd q)"
    and "token (escape cwd q)" "CHR ''?'' \<notin> set (escape cwd q)" using ne(1) by (auto simp: token_def)
  then show "token (escape cwd q)" "CHR ''?'' \<notin> set (escape cwd q)" by blast+
  have "NUL \<notin> set (WEB_ROOT @ escape cwd q)" using z by (simp add: WEB_ROOT_def)
  then show "c_str (root_path (escape cwd q)) = WEB_ROOT @ escape cwd q"
    using ne c_str_id [of "WEB_ROOT @ escape cwd q"] by (simp add: root_path_def Let_def)
qed

lemma resolve_escape:
  assumes "file_tree fs" "is_dir fs (''wwwroot'' # cwd)" "\<forall>n \<in> set q. plain_name n" "fs q \<noteq> None"
  shows "resolve fs cwd (c_str (root_path (escape cwd q))) = Some q"
proof -
  have "components (WEB_ROOT @ escape cwd q) = components WEB_ROOT @ climb cwd q"
    unfolding escape_def by (rule components_names) (use plain_names_clean [OF assms(3)] in blast)
  moreover have "components WEB_ROOT = [''.'', ''wwwroot'']" by (simp add: WEB_ROOT_def)
  moreover have d: "is_dir fs cwd" using file_tree_tl [OF assms(1,2)] by simp
  moreover have "walk fs (''wwwroot'' # cwd) (replicate (Suc (length cwd)) ''..'') = Some []"
    using walk_up [OF assms(1,2), of "Suc (length cwd)"] by simp
  ultimately show ?thesis
    using walk_down [OF assms(1,3,4)] assms(2) escape_target(3) [OF assms(3), of cwd]
    by (simp add: resolve_def WEB_ROOT_def walk_append step_name_def climb_def del: replicate_Suc)
qed

lemma escape_calls:
  assumes "unix_calls env fs cwd fds progs" "file_tree fs" "is_dir fs (''wwwroot'' # cwd)"
    and "\<forall>n \<in> set q. plain_name n" "fs q = Some st"
  shows "os_stat env (c_str (root_path (escape cwd q))) = Some st"
    and "os_open env (c_str (root_path (escape cwd q))) = fds q"
    and "os_exec env (c_str (root_path (escape cwd q))) = progs q"
  using resolve_escape [OF assms(2-4)] assms(1,5) by (simp_all add: unix_calls_def)

lemma get_upper: "map toupper ''GET'' = ''GET''"
  by (simp add: toupper_def)

lemma escape_query_ok:
  assumes "\<forall>n \<in> set q. plain_name n" "\<forall>c \<in> set args. \<not> isspace c"
    and "length (escape cwd q) + length args < 2147483000"
  shows "request_ok CRLF ''GET'' (escape cwd q @ ''?'' @ args) ''HTTP/1.1'' []"
proof -
  have t: "token ''GET''" "token ''HTTP/1.1''" "\<not> isspace (CHR ''?'')" by (simp_all add: token_def isspace_def)
  have "token (escape cwd q @ ''?'' @ args)"
    using escape_target(1) [OF assms(1), of cwd] assms(2) t(3) by (auto simp: token_def)
  with t assms(3) show ?thesis by (simp add: request_ok_def request_line_def)
qed

lemma escape_request_ok:
  assumes "\<forall>n \<in> set q. plain_name n" "length (escape cwd q) < 2147483000"
  shows "request_ok CRLF ''GET'' (escape cwd q) ''HTTP/1.1'' []"
proof -
  have "token ''GET''" "token ''HTTP/1.1''" by (simp_all add: token_def isspace_def)
  with escape_target(1) [OF assms(1), of cwd] assms(2) show ?thesis
    by (simp add: request_ok_def request_line_def)
qed

section \<open>Which targets stay below the web root\<close>

lemma components_snoc_page: "components (s @ ''/'' @ DEFAUTL_PAGE) = components s @ [DEFAUTL_PAGE]"
  using components_slash_name [of DEFAUTL_PAGE s] by (simp add: DEFAUTL_PAGE_def)

text \<open>A path that leads into the web root, or nowhere.\<close>

definition below_root :: "(location \<Rightarrow> file_stat option) \<Rightarrow> location \<Rightarrow> string \<Rightarrow> bool" where
  "below_root fs cwd p = (case resolve fs cwd p of Some l \<Rightarrow> suffix (''wwwroot'' # cwd) l | None \<Rightarrow> True)"

lemma resolve_below_root:
  assumes "c_str p = WEB_ROOT @ CHR ''/'' # w" "''..'' \<notin> set (components (CHR ''/'' # w))"
  shows "below_root fs cwd (c_str p)"
proof (cases "resolve fs cwd (c_str p)")
  case (Some l)
  have w: "components (WEB_ROOT @ CHR ''/'' # w) = ''.'' # ''wwwroot'' # components w"
    using components_name_slash [of "''.''" "''wwwroot'' @ CHR ''/'' # w"]
      components_name_slash [of "''wwwroot''" w] by (simp add: WEB_ROOT_def)
  then have "walk fs (''wwwroot'' # cwd) (components w) = Some l"
    using assms(1) Some w by (simp add: resolve_def WEB_ROOT_def step_name_def split: if_splits)
  moreover have "''..'' \<notin> set (components w)" using assms(2) by simp
  ultimately show ?thesis using walk_below Some by (auto simp: suffix_def below_root_def)
qed (simp add: below_root_def)

text \<open>The target as the client names the resource: without the query of a GET request.\<close>

definition request_target :: "HttpRequest \<Rightarrow> string" where
  "request_target r = (if req_method r = ''GET'' then takeWhile (\<lambda>c. c \<noteq> CHR ''?'') (uri r) else uri r)"

lemma request_target_whole: "CHR ''?'' \<notin> set (uri r) \<Longrightarrow> request_target r = uri r"
proof -
  assume "CHR ''?'' \<notin> set (uri r)"
  then have "takeWhile (\<lambda>c. c \<noteq> CHR ''?'') (uri r) = uri r"
    by (intro takeWhile_eq_all_conv [THEN iffD2]) blast
  then show ?thesis by (simp add: request_target_def)
qed

lemma request_target_query:
  assumes "req_method r = ''GET''" "uri r = p @ ''?'' @ q" "CHR ''?'' \<notin> set p"
  shows "request_target r = p"
proof -
  have "takeWhile (\<lambda>c. c \<noteq> CHR ''?'') p = p"
    using assms(3) by (intro takeWhile_eq_all_conv [THEN iffD2]) blast
  then have "takeWhile (\<lambda>c. c \<noteq> CHR ''?'') (p @ ''?'' @ q) = p"
    using assms(3) by (subst takeWhile_append2) auto
  then show ?thesis using assms(1,2) by (simp add: request_target_def)
qed

lemma choose_path_target:
  assumes "req_method r = ''GET'' \<or> req_method r = ''POST''"
  shows "path (choose_path r) = root_path (request_target r)"
proof (cases "req_method r = ''GET''")
  case get: True
  show ?thesis
  proof (cases "CHR ''?'' \<in> set (uri r)")
    case True
    then obtain p q where "uri r = p @ CHR ''?'' # q" "CHR ''?'' \<notin> set p"
      by (meson split_list_first)
    then have u: "uri r = p @ ''?'' @ q" "CHR ''?'' \<notin> set p" by simp_all
    show ?thesis
      unfolding choose_path_query [OF get u] request_target_query [OF get u] by simp
  next
    case False
    then show ?thesis using choose_path_plain [OF get] request_target_whole [of r] by simp
  qed
next
  case False
  with assms show ?thesis using choose_path_post [of r] by (simp add: request_target_def)
qed

lemma components_page:
  assumes "''..'' \<notin> set (components s)" "s \<noteq> []" "last s = CHR ''/''"
  shows "''..'' \<notin> set (components (s @ DEFAUTL_PAGE))"
proof -
  obtain t where s: "s = t @ ''/''" using assms(2,3) by (cases s rule: rev_cases) simp_all
  have "components (t @ ''/'') = components t @ [[]]"
    using components_slash_name [of "[]" t] by simp
  with assms(1) s have "''..'' \<notin> set (components t)" by simp
  moreover have "components (s @ DEFAUTL_PAGE) = components t @ [DEFAUTL_PAGE]"
    using components_snoc_page [of t] s by simp
  ultimately show ?thesis by (simp add: DEFAUTL_PAGE_def)
qed

lemma c_str_appended: "c_str (s @ t) = (if NUL \<in> set s then c_str s else s @ c_str t)"
  by (auto simp: c_str_def takeWhile_append)

text \<open>Both ways to append the default page keep the components free of \<open>..\<close>.\<close>

lemma root_path_components:
  assumes "c_str t = CHR ''/'' # w" "''..'' \<notin> set (components (c_str t))"
  shows "\<exists>x. c_str (root_path t) = WEB_ROOT @ CHR ''/'' # x \<and> ''..'' \<notin> set (components (CHR ''/'' # x))"
proof (cases "NUL \<in> set t \<or> last t \<noteq> CHR ''/''")
  case True
  have "t \<noteq> []" using assms(1) by (auto simp: c_str_def)
  have n: "NUL \<notin> set WEB_ROOT" by (simp add: WEB_ROOT_def)
  have "root_path t = WEB_ROOT @ (if last t = CHR ''/'' then t @ DEFAUTL_PAGE else t)"
    using \<open>t \<noteq> []\<close> by (simp add: root_path_def Let_def)
  then have "c_str (root_path t) = WEB_ROOT @ c_str t" using True n by (auto simp: c_str_appended)
  with assms show ?thesis by simp
next
  case False
  then have t: "t = CHR ''/'' # w" "NUL \<notin> set t" using assms(1) by simp_all
  then have "root_path t = WEB_ROOT @ CHR ''/'' # (w @ DEFAUTL_PAGE)" using False
    by (auto simp: root_path_def Let_def WEB_ROOT_def)
  moreover have "NUL \<notin> set (WEB_ROOT @ CHR ''/'' # (w @ DEFAUTL_PAGE))"
    using t by (simp add: WEB_ROOT_def DEFAUTL_PAGE_def)
  moreover have "''..'' \<notin> set (components (t @ DEFAUTL_PAGE))"
    by (rule components_page) (use assms(2) t False in simp_all)
  ultimately show ?thesis using t(1) by auto
qed

lemma stat_path_page:
  assumes "stat_path env r = Some r1"
  shows "path r1 = path r \<or> path r1 = path r @ ''/'' @ DEFAUTL_PAGE"
  using assms by (auto simp: stat_path_def Let_def split: option.splits if_splits)

text \<open>The paths the server tries for such a target: its own and that with the default page.\<close>

lemma plain_path_below_root:
  assumes "c_str t = CHR ''/'' # w" "''..'' \<notin> set (components (c_str t))"
    and "p = root_path t \<or> p = root_path t @ ''/'' @ DEFAUTL_PAGE"
  shows "below_root fs cwd (c_str p)"
proof -
  let ?p = "root_path t"
  obtain x where x: "c_str ?p = WEB_ROOT @ CHR ''/'' # x" "''..'' \<notin> set (components (CHR ''/'' # x))"
    using root_path_components [OF assms(1,2)] by blast
  show ?thesis
  proof (cases "p = ?p \<or> NUL \<in> set ?p")
    case True
    then have "c_str p = c_str ?p" using assms(3) by (auto simp: c_str_appended)
    with resolve_below_root [OF x] show ?thesis by simp
  next
    case False
    then have p: "c_str p = WEB_ROOT @ CHR ''/'' # (x @ ''/'' @ DEFAUTL_PAGE)"
      using assms(3) x(1) by (auto simp: c_str_appended DEFAUTL_PAGE_def)
    have "''..'' \<notin> set (components (CHR ''/'' # (x @ ''/'' @ DEFAUTL_PAGE)))"
      using x(2) components_snoc_page [of "CHR ''/'' # x"] by (simp add: DEFAUTL_PAGE_def)
    from resolve_below_root [OF p this] show ?thesis .
  qed
qed

lemma error_page_below_root: "below_root fs cwd (c_str error_page)"
proof (rule resolve_below_root)
  show "c_str error_page = WEB_ROOT @ CHR ''/'' # PAGE_404" unfolding error_page_NUL by (simp add: error_page_def)
  show "''..'' \<notin> set (components (CHR ''/'' # PAGE_404))" by (simp add: PAGE_404_def)
qed

section \<open>What a request can depend on\<close>

text \<open>
  The same system with other files and programs: \<open>S\<close>, \<open>F\<close> and \<open>X\<close> are its answers to \<open>stat\<close>,
  \<open>open\<close> and \<open>execl\<close>.
\<close>

definition with_files :: "(string \<Rightarrow> file_stat option) \<Rightarrow> (string \<Rightarrow> int)
    \<Rightarrow> (string \<Rightarrow> ((string \<Rightarrow> string option) \<Rightarrow> proc) option) \<Rightarrow> os_env \<Rightarrow> os_env" where
  "with_files S F X env = env\<lparr>os_stat := S, os_open := F, os_exec := X\<rparr>"

definition alike_at :: "os_env \<Rightarrow> os_env \<Rightarrow> string \<Rightarrow> bool" where
  "alike_at env env' p \<longleftrightarrow> os_stat env' (c_str p) = os_stat env (c_str p)
     \<and> os_open env' (c_str p) = os_open env (c_str p) \<and> os_exec env' (c_str p) = os_exec env (c_str p)"

lemma with_files_sel [simp]:
  "os_pipe_in (with_files S F X env) = os_pipe_in env" "os_pipe_out (with_files S F X env) = os_pipe_out env"
  "os_fork (with_files S F X env) = os_fork env" "os_environ (with_files S F X env) = os_environ env"
  "os_write (with_files S F X env) = os_write env" "os_waitpid_ok (with_files S F X env) = os_waitpid_ok env"
  "os_send (with_files S F X env) = os_send env" "os_unflushed (with_files S F X env) = os_unflushed env"
  "os_stack_stat (with_files S F X env) = os_stack_stat env"
  by (simp_all add: with_files_def)

lemma send_with_files: "SendHttpResquese (with_files S F X env) = SendHttpResquese env"
proof -
  have s: "sys_send (with_files S F X env) = sys_send env" by (simp add: sys_send_def fun_eq_iff)
  have "send_body (with_files S F X env) s body tot = send_body env s body tot" for s body tot
  proof (induction env s body tot rule: send_body.induct)
    case (1 env s body tot)
    then show ?case
      by (cases "0 < os_send env (length body - tot)"; subst (1 2) send_body.simps) (simp_all add: sys_send_def)
  qed
  then show ?thesis by (simp add: SendHttpResquese_def s fun_eq_iff)
qed

lemma parent_writes_with_files: "parent_writes (with_files S F X env) pfd r = parent_writes env pfd r"
proof -
  have "write_loop (with_files S F X env) pfd len body tot = write_loop env pfd len body tot" for len body tot
  proof (induction env pfd len body tot rule: write_loop.induct)
    case (1 env pfd len body tot)
    then show ?case by (subst (1 2) write_loop.simps) (simp add: Let_def)
  qed
  then show ?thesis by (simp add: parent_writes_def)
qed

lemma ProcessCIG_with_files:
  assumes "alike_at env (with_files S F X env) (path (request ep))"
  shows "ProcessCIG (with_files S F X env) ep = ProcessCIG env ep"
proof -
  have c: "cgi_child (with_files S F X env) (request ep) = cgi_child env (request ep)"
    using assms by (simp add: cgi_child_def cgi_environment_def alike_at_def cong: option.case_cong)
  have x: "exit_code (with_files S F X env) = exit_code env" by (simp add: exit_code_def fun_eq_iff)
  show ?thesis unfolding ProcessCIG_def with_files_sel parent_writes_with_files c x ..
qed

lemma Helper_with_files:
  assumes "alike_at env (with_files S F X env) error_page"
  shows "BuildHttpResponseHelper (with_files S F X env) ep = BuildHttpResponseHelper env ep"
proof -
  have "HandlerError (with_files S F X env) error_page ep = HandlerError env error_page ep" for ep
    using assms by (simp add: HandlerError_def alike_at_def Let_def cong: option.case_cong if_cong)
  then show ?thesis unfolding BuildHttpResponseHelper_def Let_def error_page_def by simp
qed

lemma Build_with_files:
  assumes "alike_at env (with_files S F X env) error_page"
    and "\<And>p. p = path (choose_path (request ep)) \<or> p = path (choose_path (request ep)) @ ''/'' @ DEFAUTL_PAGE \<Longrightarrow>
      req_method (request ep) = ''GET'' \<or> req_method (request ep) = ''POST'' \<Longrightarrow>
      alike_at env (with_files S F X env) p"
  shows "BuildHttpResponse (with_files S F X env) ep = BuildHttpResponse env ep"
proof (cases "req_method (request ep) = ''GET'' \<or> req_method (request ep) = ''POST''")
  case False
  then show ?thesis by (simp add: BuildHttpResponse_def Helper_with_files [OF assms(1)])
next
  case True
  let ?r = "choose_path (request ep)"
  have a: "alike_at env (with_files S F X env) (path ?r)"
    "alike_at env (with_files S F X env) (path ?r @ ''/'' @ DEFAUTL_PAGE)"
    using assms(2) True by blast+
  have st: "stat_path (with_files S F X env) ?r = stat_path env ?r"
    using a by (simp add: stat_path_def alike_at_def Let_def cong: option.case_cong if_cong)
  have c: "ProcessCIG (with_files S F X env) (ep\<lparr>request := find_suffix r1\<rparr>) = ProcessCIG env (ep\<lparr>request := find_suffix r1\<rparr>)"
    "ProcessNonCIG (with_files S F X env) (ep\<lparr>request := find_suffix r1\<rparr>) = ProcessNonCIG env (ep\<lparr>request := find_suffix r1\<rparr>)"
    if "stat_path env ?r = Some r1" for r1
  proof -
    have p: "alike_at env (with_files S F X env) (path r1)" using stat_path_page [OF that] a by auto
    then show "ProcessCIG (with_files S F X env) (ep\<lparr>request := find_suffix r1\<rparr>) = ProcessCIG env (ep\<lparr>request := find_suffix r1\<rparr>)"
      by (intro ProcessCIG_with_files) (simp add: find_suffix_extension)
    from p show "ProcessNonCIG (with_files S F X env) (ep\<lparr>request := find_suffix r1\<rparr>) = ProcessNonCIG env (ep\<lparr>request := find_suffix r1\<rparr>)"
      by (simp add: ProcessNonCIG_def alike_at_def find_suffix_extension)
  qed
  show ?thesis
    unfolding BuildHttpResponse_def Let_def st Helper_with_files [OF assms(1)]
    by (auto split: option.splits simp: c)
qed

section \<open>Properties\<close>

text \<open>
  A machine: the server runs in \<open>/srv\<close>, its web root holds the error page, and the root of
  the tree a file \<open>secret\<close> of nine bytes and a program \<open>halt\<close>.
\<close>

definition machine :: "location \<Rightarrow> file_stat option" where
  "machine l = (if l \<in> {[], [''srv''], [''wwwroot'', ''srv'']} then Some \<lparr>st_isdir = True, st_exec = True, st_size = 64\<rparr>
     else if l = [''404.html'', ''wwwroot'', ''srv''] then Some \<lparr>st_isdir = False, st_exec = False, st_size = 7\<rparr>
     else if l = [''secret''] then Some \<lparr>st_isdir = False, st_exec = False, st_size = 9\<rparr>
     else if l = [''halt''] then Some \<lparr>st_isdir = False, st_exec = True, st_size = 8\<rparr> else None)"

definition machine_fds :: "location \<Rightarrow> int" where
  "machine_fds l = (if l = [''secret''] then 5 else 6)"

definition machine_programs :: "location \<Rightarrow> ((string \<Rightarrow> string option) \<Rightarrow> proc) option" where
  "machine_programs l = (if l = [''halt'']
     then Some (\<lambda>e. PWrite (case e ''QUERY_STRING'' of Some q \<Rightarrow> q | None \<Rightarrow> []) (PExit 0)) else None)"

definition machine_env :: os_env where
  "machine_env = site_env\<lparr>
     os_stat := (\<lambda>p. case resolve machine [''srv''] p of Some l \<Rightarrow> machine l | None \<Rightarrow> None),
     os_open := (\<lambda>p. case resolve machine [''srv''] p of
        Some l \<Rightarrow> if machine l = None then -1 else machine_fds l | None \<Rightarrow> -1),
     os_exec := (\<lambda>p. case resolve machine [''srv''] p of
        Some l \<Rightarrow> if machine l = None then None else machine_programs l | None \<Rightarrow> None)\<rparr>"

lemma machine_ok:
  "unix_calls machine_env machine [''srv''] machine_fds machine_programs" "file_tree machine"
  "is_dir machine [''wwwroot'', ''srv'']" "full_send machine_env" "cgi_ready machine_env"
  "plain_name ''secret''" "plain_name ''halt''"
proof -
  show "unix_calls machine_env machine [''srv''] machine_fds machine_programs"
    by (simp add: unix_calls_def machine_env_def)
  show "file_tree machine" by (auto simp: file_tree_def machine_def is_dir_def)
  show "is_dir machine [''wwwroot'', ''srv'']" by (simp add: machine_def is_dir_def)
  show "full_send machine_env" "cgi_ready machine_env" using site_env_ok(1,3)
    by (simp_all add: machine_env_def full_send_def cgi_ready_def write_progress_def)
  show "plain_name ''secret''" "plain_name ''halt''" by (simp_all add: plain_name_def token_def isspace_def)
qed

lemma machine_page: "page_ok machine_env 6 7"
proof -
  have "resolve machine [''srv''] ''./wwwroot/404.html'' = Some [''404.html'', ''wwwroot'', ''srv'']"
    by (simp add: resolve_def step_name_def is_dir_def machine_def)
  then show ?thesis
    by (simp add: page_ok_def machine_env_def machine_def machine_fds_def error_page_def web_defs)
qed

text \<open>C13: A request whose target starts with \<open>/\<close> and has no \<open>..\<close> component depends on nothing outside
  the web root: whatever bytes arrive, for GET and POST, with or without a query, with
  default pages, error page and programs, the handler does exactly the same on two machines
  whose files and programs agree at every path that leads into \<open>wwwroot\<close> (or nowhere). In
  particular it opens, sends and runs nothing else.\<close>

theorem plain_requests_stay_below_root:
  assumes "RecvHttpRequest indet (EndPoint_new junk s st) = Some ep"
    and "c_str (request_target (request ep)) = CHR ''/'' # w"
      "''..'' \<notin> set (components (c_str (request_target (request ep))))"
    and "\<forall>p. below_root fs cwd p \<longrightarrow> S p = os_stat env p \<and> F p = os_open env p \<and> X p = os_exec env p"
  shows "HandlerRequest (with_files S F X env) indet junk s st = HandlerRequest env indet junk s st"
proof -
  have alike: "alike_at env (with_files S F X env) p" if "below_root fs cwd (c_str p)" for p
    using assms(4) that by (simp add: alike_at_def with_files_def)
  have "BuildHttpResponse (with_files S F X env) (emit es ep) = BuildHttpResponse env (emit es ep)" for es
  proof (rule Build_with_files)
    show "alike_at env (with_files S F X env) error_page" by (rule alike [OF error_page_below_root])
    fix p assume "p = path (choose_path (request (emit es ep))) \<or> p = path (choose_path (request (emit es ep))) @ ''/'' @ DEFAUTL_PAGE"
      and "req_method (request (emit es ep)) = ''GET'' \<or> req_method (request (emit es ep)) = ''POST''"
    then show "alike_at env (with_files S F X env) p"
      using plain_path_below_root [OF assms(2,3)] choose_path_target [of "request ep"]
      by (intro alike) simp
  qed
  then show ?thesis by (simp add: HandlerRequest_def assms(1) send_with_files)
qed

theorem plain_requests_stay_below_root_witness:
  "HandlerRequest (with_files (\<lambda>p. if below_root machine [''srv''] p then os_stat machine_env p else None)
      (\<lambda>p. if below_root machine [''srv''] p then os_open machine_env p else -1)
      (\<lambda>p. if below_root machine [''srv''] p then os_exec machine_env p else None) machine_env)
      (\<lambda>_. False) 0 4 (arrives (''GET /404.html?a=1 HTTP/1.1'' @ CRLF @ CRLF) Closed)
    = HandlerRequest machine_env (\<lambda>_. False) 0 4 (arrives (''GET /404.html?a=1 HTTP/1.1'' @ CRLF @ CRLF) Closed)"
proof -
  let ?b = "request_head_bytes CRLF ''GET'' ''/404.html?a=1'' ''HTTP/1.1'' [] @ []"
  let ?ep = "parsed ''GET'' ''/404.html?a=1'' ''HTTP/1.1'' [] (arrives [] Closed) (EndPoint_new 0 4 (arrives ?b Closed))"
  have ok: "request_ok CRLF ''GET'' ''/404.html?a=1'' ''HTTP/1.1'' []"
    by (simp add: request_ok_def token_def isspace_def request_line_def)
  have c: "conn (EndPoint_new 0 4 (arrives ?b Closed)) = with_bytes ?b (arrives [] Closed)" by simp
  have "map toupper ''GET'' \<noteq> ''POST'' \<or> map_of [] ''Content-Length'' = (None :: string option)" by simp
  from RecvHttpRequest_no_body [OF ok _ fresh_new c this]
  have r: "RecvHttpRequest (\<lambda>_. False) (EndPoint_new 0 4 (arrives ?b Closed)) = Some ?ep" by simp
  have t: "request_target (request ?ep) = ''/404.html''" by (simp add: request_target_def toupper_def)
  have b: "?b = ''GET /404.html?a=1 HTTP/1.1'' @ CRLF @ CRLF" by (simp add: request_head_bytes_def request_line_def)
  show ?thesis unfolding b [symmetric]
    by (rule plain_requests_stay_below_root [OF r, of "''404.html''" machine "[''srv'']"]) (simp_all only: t, simp_all)
qed

text \<open>C15: files outside the web root are sent to whoever asks for them: for every readable file
  that is not executable, wherever it lies, if the names on its path are plain (not empty, not
  \<open>.\<close> or \<open>..\<close>, without white space, \<open>/\<close>, \<open>?\<close> and zero byte), there is a well-formed GET target
  (enough \<open>..\<close> and the file's path from the root) for which the server opens that very file
  and sends it whole, up to the 32-bit size it keeps. An executable file is run instead (C14),
  and a name that is not plain cannot be written in a target, as nothing is decoded.\<close>

theorem requests_read_any_file:
  assumes "unix_calls env fs cwd fds progs" "file_tree fs" "is_dir fs (''wwwroot'' # cwd)"
    and "\<forall>n \<in> set q. plain_name n" "fs q = Some st" "\<not> st_isdir st" "\<not> st_exec st" "0 \<le> fds q"
    and "full_send env" "\<forall>e. \<not> indet e" "length (escape cwd q) < 2147483000"
  shows "\<exists>head body. HandlerRequest env indet junk s
      (arrives (request_head_bytes CRLF ''GET'' (escape cwd q) ''HTTP/1.1'' [] @ r) e)
    = Some (head @ [EvSendfile s (fds q) (int32 (st_size st)), EvClose (fds q)] @ body)
    \<and> EvOpen (root_path (escape cwd q)) (fds q) \<in> set head
    \<and> resolve fs cwd (c_str (root_path (escape cwd q))) = Some q"
proof -
  note calls = escape_calls [OF assms(1-5)]
  have "request_ok CRLF ''GET'' (escape cwd q) ''HTTP/1.1'' []"
    by (rule escape_request_ok [OF assms(4,11)])
  note h = Handler_static [OF assms(9) this assms(10) get_upper escape_target(2) [OF assms(4)] calls(1)
    assms(6,7) calls(2) assms(8)]
  have "resolve fs cwd (c_str (root_path (escape cwd q))) = Some q"
    by (rule resolve_escape [OF assms(2-4)]) (simp add: assms(5))
  then show ?thesis unfolding h
    by (intro exI [of _ "request_logs ''GET'' (escape cwd q) ''HTTP/1.1'' []
      @ [EvOpen (root_path (escape cwd q)) (fds q)] @ map (EvSend s) (status_text OK
         # header_texts (Suffix2Desc (extension (root_path (escape cwd q)))) (int32 (st_size st)) @ [CRLF])"]
      exI [of _ "closing s"]) simp
qed

theorem requests_read_any_file_witness:
  "\<exists>head body. HandlerRequest machine_env (\<lambda>_. False) 0 4
      (arrives (''GET /../../secret HTTP/1.1'' @ CRLF @ CRLF) Closed)
    = Some (head @ [EvSendfile 4 5 9, EvClose 5] @ body)"
proof -
  have e: "escape [''srv''] [''secret''] = ''/../../secret''" by (simp add: escape_def climb_def)
  have "machine [''secret''] = Some \<lparr>st_isdir = False, st_exec = False, st_size = 9\<rparr>"
    by (simp add: machine_def)
  then show ?thesis
    using requests_read_any_file [OF machine_ok(1-3), of "[''secret'']" _ "\<lambda>_. False" 0 4 "[]" Closed]
      machine_ok(4,6)
    by (auto simp: e machine_fds_def request_head_bytes_def request_line_def int32_def)
qed

text \<open>C14: programs outside the web root can be run by anybody: for every file that can be
  executed, wherever it lies, if the names on its path are plain (not empty, not \<open>.\<close> or \<open>..\<close>,
  without white space, \<open>/\<close>, \<open>?\<close> and zero byte), a GET target followed by \<open>?\<close> and a query makes
  the server run that very file with the query of the client's choice in its environment. If
  the program ends, the client is sent its output where it exits with 0, and the error page
  otherwise; if it waits for input, which never comes and never ends, the request is never
  answered.\<close>

theorem requests_run_any_program:
  assumes "unix_calls env fs cwd fds progs" "file_tree fs" "is_dir fs (''wwwroot'' # cwd)"
    and "\<forall>n \<in> set q. plain_name n" "fs q = Some st" "\<not> st_isdir st" "progs q = Some prog"
    and "cgi_ready env" "page_ok env f len" "\<forall>e. \<not> indet e"
    and "\<forall>c \<in> set args. \<not> isspace c" "length (escape cwd q) + length args < 2147483000"
  shows "case run_proc (prog (get_env env args)) [] of
      Some (out, status) \<Rightarrow> \<exists>tr. HandlerRequest env indet junk s
          (arrives (request_head_bytes CRLF ''GET'' (escape cwd q @ ''?'' @ args) ''HTTP/1.1'' [] @ r) e) = Some tr
        \<and> sent tr = cgi_wire (Suffix2Desc (extension (root_path (escape cwd q)))) (exit_code env status) out len
    | None \<Rightarrow> HandlerRequest env indet junk s
        (arrives (request_head_bytes CRLF ''GET'' (escape cwd q @ ''?'' @ args) ''HTTP/1.1'' [] @ r) e) = None"
proof -
  note calls = escape_calls [OF assms(1-5)]
  note target = escape_target(2) [OF assms(4)]
  have ok: "request_ok CRLF ''GET'' (escape cwd q @ ''?'' @ args) ''HTTP/1.1'' []"
    by (rule escape_query_ok [OF assms(4,11,12)])
  note runs = Handler_cgi_get [OF assms(8,9) ok assms(10) get_upper target calls(1) assms(6) calls(3) [unfolded assms(7)]]
  note waits = Handler_cgi_get_blocked [OF assms(8) ok assms(10) get_upper target calls(1) assms(6)
      calls(3) [unfolded assms(7)]]
  show ?thesis
    using runs waits by (cases "run_proc (prog (get_env env args)) []") auto
qed

theorem requests_run_any_program_witness:
  "\<exists>tr. HandlerRequest machine_env (\<lambda>_. False) 0 4
      (arrives (''GET /../../halt?now HTTP/1.1'' @ CRLF @ CRLF) Closed) = Some tr
    \<and> sent tr = ok_wire (Suffix2Desc (extension ''./wwwroot/../../halt'')) ''now''"
proof -
  have e: "escape [''srv''] [''halt''] = ''/../../halt''" by (simp add: escape_def climb_def)
  have p: "root_path ''/../../halt'' = ''./wwwroot/../../halt''" by (simp add: root_path_def WEB_ROOT_def)
  have m: "machine [''halt''] = Some \<lparr>st_isdir = False, st_exec = True, st_size = 8\<rparr>"
    "machine_programs [''halt''] = Some (\<lambda>e. PWrite (case e ''QUERY_STRING'' of Some q \<Rightarrow> q | None \<Rightarrow> []) (PExit 0))"
    by (simp_all add: machine_def machine_programs_def)
  have x: "exit_code machine_env (Exited 0) = OK"
    using machine_ok(5) by (simp add: exit_code_def cgi_ready_def)
  show ?thesis
    using requests_run_any_program [OF machine_ok(1-3) _ m(1) _ m(2) machine_ok(5) machine_page,
        of "\<lambda>_. False" "''now''" 0 4 "[]" Closed] machine_ok(7) x
    by (simp add: e p get_env_def isspace_def cgi_wire_def request_head_bytes_def request_line_def)
qed

end
