(* ===== verification/Web_Singleton.thy ===== *)
theory Web_Singleton
  imports Web_Prelude
begin

text \<open>
  The two \<open>GetInstance\<close> functions (TcpServer.hpp and ThreadPool.hpp): double-checked locking
  around a static pointer, as a step relation over any number of calling threads. The two
  differ in their mutex. \<open>TcpServer::GetInstance\<close> locks one static mutex;
  \<open>ThreadPool::GetInstance\<close> locks a local variable, a mutex of its own for every call. The
  mutex a thread locks is the parameter \<open>lk\<close> of the step relation.
\<close>

section \<open>The steps\<close>

text \<open>
  Where a call is: before the first test; at \<open>pthread_mutex_lock\<close>; at the second test; at the
  assignment of the new object; at its initialisation (\<open>InitServer\<close>, \<open>InitThreadPool\<close>); at
  \<open>pthread_mutex_unlock\<close>; at \<open>return\<close>; or back, with the pointer it returned.
\<close>

datatype gpc = GTest1 | GLock | GTest2 | GAssign | GInit | GUnlock | GReturn | GDone "nat option"

text \<open>
  \<open>instance_ptr\<close> is the static pointer, \<open>None\<close> for null; instances are numbered in the order
  of their construction and \<open>created\<close> counts them; \<open>ready\<close> is the set of initialised ones;
  \<open>holder\<close> says which thread holds each mutex.
\<close>

record singleton =
  instance_ptr :: "nat option"
  created :: nat
  ready :: "nat set"
  holder :: "nat \<Rightarrow> nat option"
  gpcs :: "nat \<Rightarrow> gpc"

definition singleton_init :: "singleton \<Rightarrow> bool" where
  "singleton_init s \<longleftrightarrow> instance_ptr s = None \<and> created s = 0 \<and> ready s = {}
     \<and> holder s = (\<lambda>_. None) \<and> gpcs s = (\<lambda>_. GTest1)"

definition goto :: "nat \<Rightarrow> gpc \<Rightarrow> singleton \<Rightarrow> singleton" where
  "goto t p s = s\<lparr>gpcs := (gpcs s)(t := p)\<rparr>"

inductive get_step :: "(nat \<Rightarrow> nat) \<Rightarrow> singleton \<Rightarrow> singleton \<Rightarrow> bool"
  for lk :: "nat \<Rightarrow> nat" where
  test1: "gpcs s t = GTest1 \<Longrightarrow>
    get_step lk s (goto t (if instance_ptr s = None then GLock else GReturn) s)"
| lock: "gpcs s t = GLock \<Longrightarrow> holder s (lk t) = None \<Longrightarrow>
    get_step lk s (goto t GTest2 (s\<lparr>holder := (holder s)(lk t := Some t)\<rparr>))"
| test2: "gpcs s t = GTest2 \<Longrightarrow>
    get_step lk s (goto t (if instance_ptr s = None then GAssign else GUnlock) s)"
| assign: "gpcs s t = GAssign \<Longrightarrow>
    get_step lk s (goto t GInit (s\<lparr>instance_ptr := Some (created s), created := Suc (created s)\<rparr>))"
| init: "gpcs s t = GInit \<Longrightarrow>
    get_step lk s (goto t GUnlock (s\<lparr>ready := ready s \<union> set_option (instance_ptr s)\<rparr>))"
| unlock: "gpcs s t = GUnlock \<Longrightarrow>
    get_step lk s (goto t GReturn (s\<lparr>holder := (holder s)(lk t := None)\<rparr>))"
| return: "gpcs s t = GReturn \<Longrightarrow>
    get_step lk s (goto t (GDone (instance_ptr s)) s)"

inductive_cases get_stepE: "get_step lk s s'"

definition tcp_lock :: "nat \<Rightarrow> nat" where
  "tcp_lock t = 0"

definition pool_lock :: "nat \<Rightarrow> nat" where
  "pool_lock t = t"

lemma goto_sel [simp]:
  "instance_ptr (goto t p s) = instance_ptr s" "created (goto t p s) = created s"
  "ready (goto t p s) = ready s" "holder (goto t p s) = holder s"
  "gpcs (goto t p s) = (gpcs s)(t := p)"
  by (simp_all add: goto_def)

section \<open>One static mutex: one instance\<close>

text \<open>
  The calls between \<open>lock\<close> and \<open>unlock\<close> hold the mutex; an instance exists exactly when the
  pointer is set; a call about to construct one has seen that none exists; and what a call
  returns is the first instance.
\<close>

primrec in_section :: "gpc \<Rightarrow> bool" where
  "in_section GTest1 = False"
| "in_section GLock = False"
| "in_section GTest2 = True"
| "in_section GAssign = True"
| "in_section GInit = True"
| "in_section GUnlock = True"
| "in_section GReturn = False"
| "in_section (GDone p) = False"

definition tcp_inv :: "singleton \<Rightarrow> bool" where
  "tcp_inv s \<longleftrightarrow>
     (\<forall>t. in_section (gpcs s t) \<longleftrightarrow> holder s 0 = Some t)
     \<and> (instance_ptr s = None \<longleftrightarrow> created s = 0) \<and> created s \<le> 1
     \<and> (\<forall>t. gpcs s t = GAssign \<longrightarrow> created s = 0)
     \<and> (instance_ptr s \<noteq> None \<longrightarrow> instance_ptr s = Some 0)
     \<and> (\<forall>t. gpcs s t = GInit \<or> gpcs s t = GUnlock \<or> gpcs s t = GReturn \<longrightarrow> created s = 1)
     \<and> (\<forall>t p. gpcs s t = GDone p \<longrightarrow> p = Some 0)"

lemma tcp_inv_init: "singleton_init s \<Longrightarrow> tcp_inv s"
  by (simp add: singleton_init_def tcp_inv_def)

lemma tcp_section: "tcp_inv s \<Longrightarrow> in_section (gpcs s t) \<longleftrightarrow> holder s 0 = Some t"
  by (simp add: tcp_inv_def)

lemma tcp_alone: "tcp_inv s \<Longrightarrow> in_section (gpcs s t) \<Longrightarrow> u \<noteq> t \<Longrightarrow> \<not> in_section (gpcs s u)"
  by (simp add: tcp_section)

lemma tcp_inv_step:
  assumes i: "tcp_inv s" and "get_step tcp_lock s s'"
  shows "tcp_inv s'"
  using assms(2)
proof cases
  case (assign t)
  then have "\<And>u. u \<noteq> t \<Longrightarrow> \<not> in_section (gpcs s u)" using tcp_alone [OF i, of t] by simp
  then have "\<And>u. u \<noteq> t \<Longrightarrow> gpcs s u \<noteq> GAssign" by force
  with assign i tcp_section [OF i, of t] show ?thesis by (auto simp: tcp_inv_def)
next
  case (test1 t)
  with i tcp_section [OF i, of t] show ?thesis by (auto simp: tcp_inv_def)
next
  case (lock t)
  with i tcp_section [OF i, of t] show ?thesis by (auto simp: tcp_inv_def tcp_lock_def)
next
  case (test2 t)
  with i tcp_section [OF i, of t] show ?thesis by (auto simp: tcp_inv_def)
next
  case (init t)
  with i tcp_section [OF i, of t] show ?thesis by (auto simp: tcp_inv_def)
next
  case (unlock t)
  with i tcp_section [OF i, of t] show ?thesis by (auto simp: tcp_inv_def tcp_lock_def)
next
  case (return t)
  with i tcp_section [OF i, of t] show ?thesis by (auto simp: tcp_inv_def)
qed

interpretation tcp: invariant_system singleton_init "get_step tcp_lock" tcp_inv
  by unfold_locales (auto intro: tcp_inv_init tcp_inv_step)

section \<open>Running a schedule\<close>

text \<open>The step of one given thread, as a function.\<close>

definition get_exec :: "(nat \<Rightarrow> nat) \<Rightarrow> nat \<Rightarrow> singleton \<Rightarrow> singleton option" where
  "get_exec lk t s =
     (case gpcs s t of
        GTest1 \<Rightarrow> Some (goto t (if instance_ptr s = None then GLock else GReturn) s)
      | GLock \<Rightarrow> if holder s (lk t) = None
                 then Some (goto t GTest2 (s\<lparr>holder := (holder s)(lk t := Some t)\<rparr>)) else None
      | GTest2 \<Rightarrow> Some (goto t (if instance_ptr s = None then GAssign else GUnlock) s)
      | GAssign \<Rightarrow> Some (goto t GInit
                    (s\<lparr>instance_ptr := Some (created s), created := Suc (created s)\<rparr>))
      | GInit \<Rightarrow> Some (goto t GUnlock (s\<lparr>ready := ready s \<union> set_option (instance_ptr s)\<rparr>))
      | GUnlock \<Rightarrow> Some (goto t GReturn (s\<lparr>holder := (holder s)(lk t := None)\<rparr>))
      | GReturn \<Rightarrow> Some (goto t (GDone (instance_ptr s)) s)
      | GDone p \<Rightarrow> None)"

lemma get_step_exec: "get_step lk s s' \<longleftrightarrow> (\<exists>t. get_exec lk t s = Some s')"
proof
  assume "get_step lk s s'"
  then show "\<exists>t. get_exec lk t s = Some s'"
  proof cases
    case (test1 t)
    then show ?thesis by (intro exI [of _ t]) (simp add: get_exec_def)
  next
    case (lock t)
    then show ?thesis by (intro exI [of _ t]) (simp add: get_exec_def)
  next
    case (test2 t)
    then show ?thesis by (intro exI [of _ t]) (simp add: get_exec_def)
  next
    case (assign t)
    then show ?thesis by (intro exI [of _ t]) (simp add: get_exec_def)
  next
    case (init t)
    then show ?thesis by (intro exI [of _ t]) (simp add: get_exec_def)
  next
    case (unlock t)
    then show ?thesis by (intro exI [of _ t]) (simp add: get_exec_def)
  next
    case (return t)
    then show ?thesis by (intro exI [of _ t]) (simp add: get_exec_def)
  qed
next
  assume "\<exists>t. get_exec lk t s = Some s'"
  then obtain t where e: "get_exec lk t s = Some s'" by blast
  show "get_step lk s s'"
    using e get_step.test1 [of s t lk] get_step.lock [of s t lk] get_step.test2 [of s t lk]
      get_step.assign [of s t lk] get_step.init [of s t lk] get_step.unlock [of s t lk]
      get_step.return [of s t lk]
    by (cases "gpcs s t") (simp_all add: get_exec_def split: if_split_asm)
qed

definition singleton_start :: singleton where
  "singleton_start = \<lparr>instance_ptr = None, created = 0, ready = {}, holder = (\<lambda>_. None),
     gpcs = (\<lambda>_. GTest1)\<rparr>"

lemma sched_reach:
  assumes "run_sched (get_exec lk) ts singleton_start = Some s"
  shows "reach singleton_init (get_step lk) s"
proof -
  have "reach singleton_init (get_step lk) singleton_start"
    by (rule reach_init) (simp add: singleton_init_def singleton_start_def)
  moreover have "(get_step lk)\<^sup>*\<^sup>* singleton_start s"
    by (rule run_sched_rtranclp [OF _ assms]) (auto simp: get_step_exec)
  ultimately show ?thesis by (rule reach_rtranclp)
qed

section \<open>Properties\<close>

text \<open>C16: with the static mutex of \<open>TcpServer::GetInstance\<close>, in every interleaving of any
  number of calls at most one server is constructed and every call that has returned has
  returned it.\<close>

theorem tcp_single_instance:
  assumes "reach singleton_init (get_step tcp_lock) s"
  shows "created s \<le> 1 \<and> (\<forall>t p. gpcs s t = GDone p \<longrightarrow> p = Some 0)"
  using tcp.reachable_inv [OF assms] by (simp add: tcp_inv_def)

theorem tcp_single_instance_witness:
  "\<exists>s. run_sched (get_exec tcp_lock) [0, 1, 0, 0, 0, 0, 0, 1, 1, 1, 1, 0] singleton_start = Some s
     \<and> created s = 1 \<and> gpcs s 1 = GDone (Some 0)"
proof -
  let ?ts = "[0, 1, 0, 0, 0, 0, 0, 1, 1, 1, 1, 0]"
  obtain s where s: "run_sched (get_exec tcp_lock) ?ts singleton_start = Some s"
    and d: "gpcs s 1 = GDone (Some 0)" "created s = 1"
    by (simp add: get_exec_def singleton_start_def tcp_lock_def)
  from tcp_single_instance [OF sched_reach [OF s]] have "created s \<le> 1" by simp
  with s d show ?thesis by blast
qed

text \<open>C23: the mutex of \<open>ThreadPool::GetInstance\<close> is a local variable, so the calls do not
  exclude each other: two concurrent calls can construct two pools and return one each.\<close>

theorem pool_two_instances:
  "\<exists>s. reach singleton_init (get_step pool_lock) s \<and> created s = 2
     \<and> gpcs s 0 = GDone (Some 0) \<and> gpcs s 1 = GDone (Some 1)"
proof -
  obtain s where s: "run_sched (get_exec pool_lock)
      [0, 1, 0, 1, 0, 1, 0, 0, 0, 0, 1, 1, 1, 1] singleton_start = Some s"
    and d: "created s = 2" "gpcs s 0 = GDone (Some 0)" "gpcs s 1 = GDone (Some 1)"
    by (simp add: get_exec_def singleton_start_def pool_lock_def)
  from sched_reach [OF s] d show ?thesis by blast
qed

text \<open>\<open>TcpServer::GetInstance\<close> publishes the pointer before it calls \<open>InitServer\<close>, and the
  first test is made without the mutex: a second caller can return the server while its
  socket does not exist yet.\<close>

theorem tcp_returned_before_init:
  "\<exists>s. reach singleton_init (get_step tcp_lock) s \<and> gpcs s 1 = GDone (Some 0) \<and> 0 \<notin> ready s"
proof -
  obtain s where s: "run_sched (get_exec tcp_lock) [0, 0, 0, 0, 1, 1] singleton_start = Some s"
    and d: "gpcs s 1 = GDone (Some 0)" "0 \<notin> ready s"
    by (simp add: get_exec_def singleton_start_def tcp_lock_def)
  from sched_reach [OF s] d show ?thesis by blast
qed

end
