(* ===== verification/Web_Pipe.thy ===== *)
theory Web_Pipe
  imports Web_Programs
begin

text \<open>
  Server and CGI program as two processes over two pipes (Protocol.hpp, \<open>ProcessCIG\<close>). In
  \<open>Web_Build\<close> the program runs on the whole body at once; here the two run in any order, a
  pipe holds at most \<open>cap\<close> bytes, and each process waits where it must: a writer while its
  pipe is full, a reader while its pipe is empty and can still be written to. The server
  writes the body, then reads until the end of the output, then collects the status. The
  results agree with \<open>run_proc\<close> under every schedule, the programs of the repository always
  finish, a program that reads until the end of its input waits for ever, and one that answers
  while it reads can.
\<close>

section \<open>The two processes\<close>

text \<open>
  Where the server's thread is: in the write loop with the bytes still to be written, in the
  read loop, or behind \<open>waitpid\<close> with the status. The program is running, or gone.
\<close>

datatype server_pc = Writing string | Reading | Reaped wstatus

datatype program_pc = Running proc | Gone wstatus

record exchange =
  server :: server_pc
  received :: string       \<comment> \<open>\<open>response_body\<close>\<close>
  down :: string           \<comment> \<open>in the pipe \<open>output\<close>, to the program\<close>
  up :: string             \<comment> \<open>in the pipe \<open>input\<close>, to the server\<close>
  program :: program_pc

definition exchange_start :: "proc \<Rightarrow> string \<Rightarrow> exchange" where
  "exchange_start p body = \<lparr>server = Writing body, received = [], down = [], up = [], program = Running p\<rparr>"

text \<open>
  One move of the server, \<open>None\<close> while it waits. A blocking \<open>write\<close> puts its bytes one after the
  other; where the program is gone it fails (the server ignores \<open>SIGPIPE\<close>) and the loop ends.
  The read loop ends when the pipe is empty and its write end is closed.
\<close>

definition server_move :: "nat \<Rightarrow> exchange \<Rightarrow> exchange option" where
  "server_move cap s = (case server s of
     Writing [] \<Rightarrow> Some (s\<lparr>server := Reading\<rparr>)
   | Writing (c # cs) \<Rightarrow> (case program s of
       Gone st \<Rightarrow> Some (s\<lparr>server := Reading\<rparr>)
     | Running p \<Rightarrow> if length (down s) < cap then Some (s\<lparr>server := Writing cs, down := down s @ [c]\<rparr>) else None)
   | Reading \<Rightarrow> (case up s of
       c # cs \<Rightarrow> Some (s\<lparr>received := received s @ [c], up := cs\<rparr>)
     | [] \<Rightarrow> (case program s of Gone st \<Rightarrow> Some (s\<lparr>server := Reaped st\<rparr>) | Running p \<Rightarrow> None))
   | Reaped st \<Rightarrow> None)"

text \<open>
  One move of the program. Its standard input never ends: the server closes its write end
  only after \<open>waitpid\<close>.
\<close>

definition program_move :: "nat \<Rightarrow> exchange \<Rightarrow> exchange option" where
  "program_move cap s = (case program s of
     Gone st \<Rightarrow> None
   | Running (PExit n) \<Rightarrow> Some (s\<lparr>program := Gone (Exited (n mod 256))\<rparr>)
   | Running (PKilled sig) \<Rightarrow> Some (s\<lparr>program := Gone (Signaled sig)\<rparr>)
   | Running (PErr out p) \<Rightarrow> Some (s\<lparr>program := Running p\<rparr>)
   | Running (PWrite out p) \<Rightarrow> (case out of
       [] \<Rightarrow> Some (s\<lparr>program := Running p\<rparr>)
     | c # cs \<Rightarrow> if length (up s) < cap then Some (s\<lparr>program := Running (PWrite cs p), up := up s @ [c]\<rparr>) else None)
   | Running (PRead k) \<Rightarrow> (case down s of
       [] \<Rightarrow> None
     | c # cs \<Rightarrow> Some (s\<lparr>program := Running (k (Some c)), down := cs\<rparr>)))"

inductive exchange_step :: "nat \<Rightarrow> exchange \<Rightarrow> exchange \<Rightarrow> bool" for cap where
  server_step: "server_move cap s = Some t \<Longrightarrow> exchange_step cap s t"
| program_step: "program_move cap s = Some t \<Longrightarrow> exchange_step cap s t"

inductive_simps exchange_step_simps: "exchange_step cap s t"

section \<open>The result does not depend on the schedule\<close>

text \<open>What the server has still to write, and what the exchange will come to.\<close>

definition unwritten :: "exchange \<Rightarrow> string" where
  "unwritten s = (case server s of Writing cs \<Rightarrow> cs | _ \<Rightarrow> [])"

definition outcome :: "exchange \<Rightarrow> (string \<times> wstatus) option" where
  "outcome s = (case program s of
     Running p \<Rightarrow> map_option (\<lambda>(out, st). (received s @ up s @ out, st)) (run_proc p (down s @ unwritten s))
   | Gone st \<Rightarrow> Some (received s @ up s, st))"

lemma server_move_outcome: "server_move cap s = Some t \<Longrightarrow> outcome t = outcome s"
  by (auto simp: server_move_def outcome_def unwritten_def
      split: server_pc.splits program_pc.splits list.splits if_splits)

lemma program_move_outcome: "program_move cap s = Some t \<Longrightarrow> outcome t = outcome s"
  by (auto simp: program_move_def outcome_def unwritten_def option.map_comp comp_def case_prod_unfold
      split: program_pc.splits proc.splits list.splits if_splits)

lemma step_outcome: "exchange_step cap s t \<Longrightarrow> outcome t = outcome s"
  by (auto simp: exchange_step_simps dest: server_move_outcome program_move_outcome)

text \<open>Once reaped, everything the program wrote has been received.\<close>

definition reaped_ok :: "exchange \<Rightarrow> bool" where
  "reaped_ok s \<longleftrightarrow> (\<forall>st. server s = Reaped st \<longrightarrow> program s = Gone st \<and> up s = [])"

lemma reaped_ok_step: "reaped_ok s \<Longrightarrow> exchange_step cap s t \<Longrightarrow> reaped_ok t"
  by (auto simp: exchange_step_simps reaped_ok_def server_move_def program_move_def
      split: server_pc.splits program_pc.splits list.splits if_splits proc.splits)

definition exchange_inv :: "proc \<Rightarrow> string \<Rightarrow> exchange \<Rightarrow> bool" where
  "exchange_inv p body s \<longleftrightarrow> outcome s = run_proc p body \<and> reaped_ok s"

interpretation exchange: invariant_system "\<lambda>s. s = exchange_start p body" "exchange_step cap" "exchange_inv p body"
proof
  fix s assume "s = exchange_start p body"
  then show "exchange_inv p body s"
    by (simp add: exchange_inv_def exchange_start_def outcome_def unwritten_def reaped_ok_def option.map_id)
next
  fix s t assume "exchange_inv p body s" "exchange_step cap s t"
  then show "exchange_inv p body t" using step_outcome reaped_ok_step by (auto simp: exchange_inv_def)
qed

lemma exchange_result:
  assumes "reach (\<lambda>s. s = exchange_start p body) (exchange_step cap) s" "server s = Reaped st"
  shows "run_proc p body = Some (received s, st)"
  using exchange.reachable_inv [OF assms(1)] assms(2)
  by (auto simp: exchange_inv_def reaped_ok_def outcome_def)

section \<open>Every run is finite\<close>

text \<open>
  The moves still to come: those of the program on the bytes it can still get, where a byte
  it writes costs the server a move as well, and those of the server.
\<close>

primrec program_work :: "proc \<Rightarrow> string \<Rightarrow> nat" where
  "program_work (PExit n) inp = 1"
| "program_work (PKilled sig) inp = 1"
| "program_work (PWrite out p) inp = 2 * length out + 1 + program_work p inp"
| "program_work (PErr out p) inp = 1 + program_work p inp"
| "program_work (PRead k) inp = (case inp of [] \<Rightarrow> 0 | c # cs \<Rightarrow> 1 + program_work (k (Some c)) cs)"

definition server_work :: "exchange \<Rightarrow> nat" where
  "server_work s = (case server s of Writing cs \<Rightarrow> length cs + 2 | Reading \<Rightarrow> 1 | Reaped st \<Rightarrow> 0)"

definition work :: "exchange \<Rightarrow> nat" where
  "work s = (case program s of Running p \<Rightarrow> program_work p (down s @ unwritten s) | Gone st \<Rightarrow> 0)
     + server_work s + length (up s)"

lemmas work_defs = work_def server_work_def unwritten_def

lemma step_work: "exchange_step cap s t \<Longrightarrow> work t < work s"
  by (auto simp: exchange_step_simps work_defs server_move_def program_move_def
      split: server_pc.splits program_pc.splits list.splits if_splits proc.splits)

lemma steps_work: "(exchange_step cap ^^ n) s t \<Longrightarrow> n + work t \<le> work s"
proof (induction n arbitrary: t)
  case (Suc n)
  then obtain u where "(exchange_step cap ^^ n) s u" "exchange_step cap u t" by auto
  with Suc.IH [of u] step_work [of cap u t] show ?case by linarith
qed simp

section \<open>Where an exchange can stop\<close>

definition stopped :: "nat \<Rightarrow> exchange \<Rightarrow> bool" where
  "stopped cap s \<longleftrightarrow> server_move cap s = None \<and> program_move cap s = None"

lemma stopped_iff: "stopped cap s \<longleftrightarrow> (\<forall>t. \<not> exchange_step cap s t)"
  by (cases "server_move cap s"; cases "program_move cap s") (auto simp: stopped_def exchange_step_simps)

text \<open>
  It stops when the status has been collected, when the program waits for input that never
  comes, or when both sides wait to write into full pipes.
\<close>

definition both_full :: "nat \<Rightarrow> exchange \<Rightarrow> bool" where
  "both_full cap s \<longleftrightarrow> (\<exists>c cs. server s = Writing (c # cs)) \<and> cap \<le> length (down s)
     \<and> (\<exists>c cs p. program s = Running (PWrite (c # cs) p)) \<and> cap \<le> length (up s)"

lemma stopped_cases:
  assumes "stopped cap s" "0 < cap" "reaped_ok s"
  shows "(\<exists>st. server s = Reaped st) \<or> outcome s = None \<or> both_full cap s"
  using assms
  by (auto simp: stopped_def server_move_def program_move_def outcome_def unwritten_def both_full_def reaped_ok_def
      split: server_pc.splits program_pc.splits list.splits if_splits proc.splits)

section \<open>Programs that take their input first\<close>

text \<open>
  \<open>reads_first n p\<close>: the program writes nothing to its output before it has read \<open>n\<close> bytes or
  ended.
\<close>

inductive reads_first :: "nat \<Rightarrow> proc \<Rightarrow> bool" where
  enough: "reads_first 0 p"
| reads: "(\<And>c. reads_first n (k (Some c))) \<Longrightarrow> reads_first (Suc n) (PRead k)"
| reports: "reads_first n p \<Longrightarrow> reads_first n (PErr out p)"
| exits: "reads_first n (PExit code)"
| dies: "reads_first n (PKilled sig)"

declare reads_first.intros [intro]

inductive_cases reads_first_WriteE [elim!]: "reads_first n (PWrite out p)"
inductive_cases reads_first_ErrE [elim!]: "reads_first n (PErr out p)"
inductive_cases reads_first_ReadE: "reads_first (Suc n) (PRead k)"

lemma reads_first_Read [simp]: "reads_first (Suc n) (PRead k) = (\<forall>c. reads_first n (k (Some c)))"
  by (blast elim: reads_first_ReadE)

definition input_first :: "exchange \<Rightarrow> bool" where
  "input_first s \<longleftrightarrow> (\<forall>p. program s = Running p \<longrightarrow> reads_first (length (down s) + length (unwritten s)) p)"

lemma input_first_step: "input_first s \<Longrightarrow> exchange_step cap s t \<Longrightarrow> input_first t"
  by (auto simp: exchange_step_simps input_first_def unwritten_def server_move_def program_move_def
      split: server_pc.splits program_pc.splits list.splits if_splits proc.splits)

lemma input_first_not_full: "input_first s \<Longrightarrow> \<not> both_full cap s"
  by (auto simp: input_first_def both_full_def unwritten_def)

interpretation first_input: invariant_system "\<lambda>s. s = exchange_start p body \<and> reads_first (length body) p"
  "exchange_step cap" input_first
proof
  show "input_first s" if "s = exchange_start p body \<and> reads_first (length body) p" for s
    using that by (simp add: exchange_start_def input_first_def unwritten_def)
qed (rule input_first_step)

lemma exchange_completes:
  assumes "reads_first (length body) p" "run_proc p body = Some (out, st)" "0 < cap"
    and "(exchange_step cap ^^ n) (exchange_start p body) s"
  shows "n \<le> program_work p body + length body + 2"
    and "(\<forall>t. \<not> exchange_step cap s t) \<longleftrightarrow> server s = Reaped st \<and> received s = out"
proof -
  show "n \<le> program_work p body + length body + 2"
    using steps_work [OF assms(4)] by (simp add: work_defs exchange_start_def)
  have steps: "(exchange_step cap)\<^sup>*\<^sup>* (exchange_start p body) s"
    using assms(4) by (rule relpowp_imp_rtranclp)
  have inv: "exchange_inv p body s" using exchange.inv_rtranclp [OF steps] exchange.inv_init by blast
  have "input_first s" using first_input.inv_rtranclp [OF steps] first_input.inv_init assms(1) by blast
  then have free: "\<not> both_full cap s" by (rule input_first_not_full)
  show "(\<forall>t. \<not> exchange_step cap s t) \<longleftrightarrow> server s = Reaped st \<and> received s = out"
  proof
    assume "\<forall>t. \<not> exchange_step cap s t"
    then obtain st' where r: "server s = Reaped st'"
      using stopped_cases [of cap s] inv free assms(2,3) by (auto simp: stopped_iff exchange_inv_def)
    with inv assms(2) show "server s = Reaped st \<and> received s = out"
      by (auto simp: exchange_inv_def reaped_ok_def outcome_def)
  next
    assume "server s = Reaped st \<and> received s = out"
    with inv show "\<forall>t. \<not> exchange_step cap s t"
      by (auto simp: exchange_inv_def reaped_ok_def exchange_step_simps server_move_def program_move_def)
  qed
qed

text \<open>
  A program that still waits for input when it has read the whole body: the server waits in
  its read loop for the program to end, and only then would it close the pipe.
\<close>

definition waits_for_input :: "exchange \<Rightarrow> bool" where
  "waits_for_input s \<longleftrightarrow> server s = Reading \<and> up s = [] \<and> down s = [] \<and> (\<exists>k. program s = Running (PRead k))"

lemma waits_for_input_stopped: "waits_for_input s \<Longrightarrow> stopped cap s"
  by (auto simp: waits_for_input_def stopped_def server_move_def program_move_def)

lemma stopped_waits_for_input:
  assumes "stopped cap s" "0 < cap" "outcome s = None" "reaped_ok s" "\<not> both_full cap s"
  shows "waits_for_input s"
  using assms
  by (auto simp: stopped_def server_move_def program_move_def outcome_def waits_for_input_def both_full_def reaped_ok_def
      split: server_pc.splits program_pc.splits list.splits if_splits proc.splits)

lemma exchange_waits:
  assumes "reads_first (length body) p" "run_proc p body = None" "0 < cap"
    and steps: "(exchange_step cap)\<^sup>*\<^sup>* (exchange_start p body) s"
  shows "(\<forall>t. \<not> exchange_step cap s t) \<longleftrightarrow> waits_for_input s"
proof -
  have inv: "exchange_inv p body s" using exchange.inv_rtranclp [OF steps] exchange.inv_init by blast
  have "input_first s" using first_input.inv_rtranclp [OF steps] first_input.inv_init assms(1) by blast
  then have "\<not> both_full cap s" by (rule input_first_not_full)
  with inv assms(2,3) stopped_waits_for_input [of cap s] waits_for_input_stopped [of s cap] show ?thesis
    by (auto simp: exchange_inv_def stopped_iff [symmetric])
qed

section \<open>The programs of the repository\<close>

text \<open>What the server passes on through the pipe, and the exchange that \<open>ProcessCIG\<close> starts.\<close>

definition piped_body :: "HttpRequest \<Rightarrow> string" where
  "piped_body r = (if req_method r = ''POST'' then Req_body r else [])"

definition cgi_exchange :: "os_env \<Rightarrow> HttpRequest \<Rightarrow> exchange" where
  "cgi_exchange env r = exchange_start (cgi_child env r) (piped_body r)"

lemma cgi_exchange_result:
  assumes "write_progress env" "content_length r = int (length (Req_body r))"
    and "reach (\<lambda>s. s = cgi_exchange env r) (exchange_step cap) s" "server s = Reaped st"
  shows "run_proc (cgi_child env r) (written (parent_writes env pfd r)) = Some (received s, st)"
  using exchange_result [OF assms(3,4) [unfolded cgi_exchange_def]] written_parent_writes [OF assms(1,2)]
  by (simp add: piped_body_def)

lemma reads_first_read_loop: "n < 2 ^ 32 \<Longrightarrow> reads_first n (read_loop (of_nat n) c acc k)"
proof (induction n arbitrary: c acc)
  case (Suc n)
  have "of_nat (Suc n) - 1 = (of_nat n :: 32 word)" by simp
  with Suc word32_nonzero [of "Suc n"] show ?case
    by (subst read_loop.simps) (auto simp: Let_def simp del: of_nat_Suc)
qed auto

lemma parameter_program_reads_first:
  assumes "parameter_program prog" "content_length r = int (length (Req_body r))" "length (Req_body r) < 2147483648"
  shows "reads_first (length (piped_body r)) (prog (cgi_environment env r))"
proof (cases "req_method r = ''POST''")
  case True
  let ?n = "length (Req_body r)"
  obtain k where k: "prog = (\<lambda>e. GetQueryString e k)" using assms(1) unfolding parameter_program_def by blast
  have "atoi (to_string (int ?n)) = int ?n"
    by (rule atoi_to_string) (use assms(3) in \<open>simp add: in_int32_def\<close>)
  then show ?thesis
    using reads_first_read_loop [of ?n NUL "[]" "k True"] assms(3) True k cgi_environment_post [OF True assms(2)]
    by (simp add: piped_body_def GetQueryString_def post_env_def)
qed (auto simp: piped_body_def)

lemma parameter_program_outcome:
  assumes "parameter_program prog" "content_length r = int (length (Req_body r))" "length (Req_body r) < 2147483648"
    and "req_method r = ''POST'' \<or> req_method r = ''GET''"
  shows "run_proc (prog (cgi_environment env r)) (piped_body r) \<noteq> None"
proof -
  let ?env = "env\<lparr>os_write := int\<rparr>"
  have "write_progress ?env" by (simp add: write_progress_def)
  then have "run_proc (prog (cgi_environment ?env r)) (piped_body r) \<noteq> None"
    using parameter_program_returns [OF assms(1) _ assms(2-4), of ?env 0] written_parent_writes [of ?env r 0] assms(2)
    by (simp add: piped_body_def)
  then show ?thesis by (simp add: cgi_environment_def)
qed

section \<open>A program that answers while it reads\<close>

text \<open>Such as \<open>cat\<close>: it writes each byte it reads.\<close>

primrec echo :: "nat \<Rightarrow> proc" where
  "echo 0 = PExit 0"
| "echo (Suc n) = PRead (\<lambda>r. case r of None \<Rightarrow> PExit 0 | Some c \<Rightarrow> PWrite [c] (echo n))"

lemma run_echo: "run_proc (echo (length b)) b = Some (b, Exited 0)"
  by (induction b) simp_all

text \<open>
  While the server writes it does not read: the bytes are all in the two pipes, in the hand of
  the program, or unwritten.
\<close>

definition echo_inv :: "nat \<Rightarrow> nat \<Rightarrow> exchange \<Rightarrow> bool" where
  "echo_inv cap len s \<longleftrightarrow> (\<exists>rest m w. server s = Writing rest \<and> m = length (down s) + length rest
     \<and> (program s = Running (echo m) \<and> w = 0
        \<or> (\<exists>out. program s = Running (PWrite out (echo m)) \<and> w = length out \<and> w \<le> 1))
     \<and> length (down s) \<le> cap \<and> length (up s) \<le> cap \<and> m + w + length (up s) = len \<and> received s = [])"

lemma echo_inv_step:
  assumes "2 * cap + 1 < len" "echo_inv cap len s" "exchange_step cap s t"
  shows "echo_inv cap len t"
proof -
  obtain rest w where s: "server s = Writing rest" "length (down s) \<le> cap" "length (up s) \<le> cap"
    "length (down s) + length rest + w + length (up s) = len" "received s = []"
    and p: "program s = Running (echo (length (down s) + length rest)) \<and> w = 0
      \<or> (\<exists>out. program s = Running (PWrite out (echo (length (down s) + length rest))) \<and> w = length out \<and> w \<le> 1)"
    using assms(2) unfolding echo_inv_def by blast
  have "w \<le> 1" using p by auto
  with s assms(1) obtain c cs where rest: "rest = c # cs" by (cases rest) auto
  from assms(3) show ?thesis
  proof (cases rule: exchange_step.cases)
    case server_step
    with s p rest show ?thesis
      by (auto simp: server_move_def echo_inv_def split: if_splits)
  next
    case program_step
    from p show ?thesis
    proof (elim disjE exE conjE)
      assume "program s = Running (echo (length (down s) + length rest))" "w = 0"
      with program_step s rest show ?thesis
        by (auto simp: program_move_def echo_inv_def split: list.splits)
    next
      fix out assume "program s = Running (PWrite out (echo (length (down s) + length rest)))"
        "w = length out" "w \<le> 1"
      with program_step s rest show ?thesis
        by (auto simp: program_move_def echo_inv_def split: list.splits if_splits)
    qed
  qed
qed

interpretation echoing: invariant_system "\<lambda>s. s = exchange_start (echo (length b)) b \<and> 2 * cap + 1 < len \<and> len = length b"
  "exchange_step cap" "\<lambda>s. 2 * cap + 1 < len \<and> echo_inv cap len s"
proof
  show "2 * cap + 1 < len \<and> echo_inv cap len s"
    if "s = exchange_start (echo (length b)) b \<and> 2 * cap + 1 < len \<and> len = length b" for s
    using that by (simp add: echo_inv_def exchange_start_def)
qed (blast intro: echo_inv_step)

text \<open>A run that cannot go on for ever stops somewhere.\<close>

lemma exchange_stops: "\<exists>t. (exchange_step cap)\<^sup>*\<^sup>* s t \<and> stopped cap t"
proof (induction "work s" arbitrary: s rule: less_induct)
  case less
  show ?case
  proof (cases "stopped cap s")
    case False
    then obtain u where "exchange_step cap s u" by (auto simp: stopped_iff)
    with less [OF step_work] show ?thesis by (meson converse_rtranclp_into_rtranclp)
  qed blast
qed

lemma stopped_echo:
  assumes "2 * cap + 1 < length b" "0 < cap" "(exchange_step cap)\<^sup>*\<^sup>* (exchange_start (echo (length b)) b) s"
  shows "\<exists>c cs. server s = Writing (c # cs)" and "stopped cap s \<Longrightarrow> both_full cap s"
proof -
  have inv: "echo_inv cap (length b) s"
    using echoing.inv_rtranclp [OF assms(3), of "length b"] echoing.inv_init [of _ b cap "length b"] assms(1) by blast
  then show writing: "\<exists>c cs. server s = Writing (c # cs)"
    using assms(1) by (auto simp: echo_inv_def neq_Nil_conv [symmetric])
  have ex: "exchange_inv (echo (length b)) b s" using exchange.inv_rtranclp [OF assms(3)] exchange.inv_init by blast
  assume "stopped cap s"
  then show "both_full cap s"
    using stopped_cases [of cap s] ex assms(2) writing by (auto simp: exchange_inv_def run_echo)
qed

lemma echo_receives_nothing:
  assumes "2 * cap + 1 < length b" "(exchange_step cap)\<^sup>*\<^sup>* (exchange_start (echo (length b)) b) s"
  shows "received s = []"
  using echoing.inv_rtranclp [OF assms(2), of "length b"] echoing.inv_init [of _ b cap "length b"] assms(1)
  by (fastforce simp: echo_inv_def)

section \<open>Properties\<close>

text \<open>C6: how server and CGI program come to rest. Every run over pipes of any capacity, in any
  interleaving, ends after a bounded number of moves. For a program that takes its parameters
  by \<open>GetQueryString\<close>, as those of the repository do, and a request with its whole body of
  fewer than 2^31 bytes, it ends exactly where the server has collected what \<open>run_proc\<close> says,
  the whole output and the status: the two never wait for each other for ever. In general, for
  a program that writes nothing before it has read the whole body, it ends there exactly if the
  program ends on that body and no more; one that reads on, say to the end of its input, waits
  for bytes, and the server for its output, for ever.\<close>

theorem pipe_exchange_completes:
  assumes "os_exec env (c_str (path r)) = Some prog" "0 < cap"
    and "(exchange_step cap ^^ n) (cgi_exchange env r) s"
  shows "n \<le> program_work (cgi_child env r) (piped_body r) + length (piped_body r) + 2
    \<and> (parameter_program prog \<and> content_length r = int (length (Req_body r)) \<and> length (Req_body r) < 2147483648
        \<and> (req_method r = ''POST'' \<or> req_method r = ''GET'') \<longrightarrow>
       ((\<forall>t. \<not> exchange_step cap s t) \<longleftrightarrow>
         (\<exists>st. server s = Reaped st \<and> run_proc (cgi_child env r) (piped_body r) = Some (received s, st))))
    \<and> (reads_first (length (piped_body r)) (cgi_child env r) \<longrightarrow>
       ((\<forall>t. \<not> exchange_step cap s t) \<longleftrightarrow>
         (case run_proc (cgi_child env r) (piped_body r) of
            Some (out, st) \<Rightarrow> server s = Reaped st \<and> received s = out
          | None \<Rightarrow> waits_for_input s)))"
proof -
  have child: "cgi_child env r = prog (cgi_environment env r)" using assms(1) by (simp add: cgi_child_def)
  note run = assms(3) [unfolded cgi_exchange_def]
  have bound: "n \<le> program_work (cgi_child env r) (piped_body r) + length (piped_body r) + 2"
    using steps_work [OF run] by (simp add: work_defs exchange_start_def)
  have rest: "(\<forall>t. \<not> exchange_step cap s t) \<longleftrightarrow> (case run_proc (cgi_child env r) (piped_body r) of
            Some (out, st) \<Rightarrow> server s = Reaped st \<and> received s = out | None \<Rightarrow> waits_for_input s)"
    if "reads_first (length (piped_body r)) (cgi_child env r)"
    using exchange_completes(2) [OF that _ assms(2) run]
      exchange_waits [OF that _ assms(2) relpowp_imp_rtranclp [OF run]]
    by (auto split: option.split)
  moreover have "(\<forall>t. \<not> exchange_step cap s t) \<longleftrightarrow>
      (\<exists>st. server s = Reaped st \<and> run_proc (cgi_child env r) (piped_body r) = Some (received s, st))"
    if "parameter_program prog \<and> content_length r = int (length (Req_body r)) \<and> length (Req_body r) < 2147483648
        \<and> (req_method r = ''POST'' \<or> req_method r = ''GET'')"
  proof -
    have "reads_first (length (piped_body r)) (cgi_child env r)"
      using parameter_program_reads_first [of prog r env] that child by simp
    moreover have "run_proc (cgi_child env r) (piped_body r) \<noteq> None"
      using parameter_program_outcome [of prog r env] that child by simp
    ultimately show ?thesis using rest by auto
  qed
  ultimately show ?thesis using bound by blast
qed

definition pipe_env :: os_env where
  "pipe_env = slow_env\<lparr>os_exec := (\<lambda>p. if p = ''./wwwroot/exe_cgi'' then Some calc_main else None)\<rparr>"

definition pipe_request :: HttpRequest where
  "pipe_request = (HttpRequest_new 0)\<lparr>req_method := ''POST'', path := ''./wwwroot/exe_cgi'', Req_body := ''a=1&b=2'',
     content_length := 7\<rparr>"

theorem pipe_exchange_completes_witness:
  "\<exists>s st. (exchange_step 1)\<^sup>*\<^sup>* (cgi_exchange pipe_env pipe_request) s \<and> server s = Reaped st
    \<and> run_proc (cgi_child pipe_env pipe_request) ''a=1&b=2'' = Some (received s, st)"
proof -
  obtain s n where s: "(exchange_step 1 ^^ n) (cgi_exchange pipe_env pipe_request) s" "stopped 1 s"
    using exchange_stops by (metis rtranclp_imp_relpowp)
  have "os_exec pipe_env (c_str (path pipe_request)) = Some calc_main" by (simp add: pipe_env_def pipe_request_def)
  from pipe_exchange_completes [OF this _ s(1)] s show ?thesis
    using calc_parameter_program
    by (auto simp: pipe_request_def piped_body_def stopped_iff dest: relpowp_imp_rtranclp)
qed

text \<open>
  A program that reads its input to the end before it answers, if that is within \<open>n\<close> bytes:
  the end never comes, since the server closes its end of the pipe behind \<open>waitpid\<close> only, and
  the request hangs for every body, the empty one too.
\<close>

primrec read_to_end :: "nat \<Rightarrow> proc" where
  "read_to_end 0 = PExit 1"
| "read_to_end (Suc n) = PRead (\<lambda>r. case r of None \<Rightarrow> PWrite ''done'' (PExit 0) | Some c \<Rightarrow> read_to_end n)"

lemma reads_first_read_to_end: "k < n \<Longrightarrow> reads_first k (read_to_end n)"
proof (induction n arbitrary: k)
  case (Suc n)
  have "k = 0 \<or> (\<exists>j. k = Suc j \<and> j < n)" using Suc.prems by (cases k) simp_all
  then show ?case using Suc.IH by (auto simp: reads_first.enough)
qed simp

lemma run_read_to_end: "length b < n \<Longrightarrow> run_proc (read_to_end n) b = None"
proof (induction b arbitrary: n)
  case Nil
  then show ?case by (cases n) auto
next
  case (Cons c b)
  then show ?case by (cases n) auto
qed

theorem read_to_end_hangs:
  assumes "length b < n" "0 < cap"
  shows "\<exists>t. (exchange_step cap)\<^sup>*\<^sup>* (exchange_start (read_to_end n) b) t \<and> stopped cap t"
    and "(exchange_step cap)\<^sup>*\<^sup>* (exchange_start (read_to_end n) b) s \<Longrightarrow> stopped cap s \<Longrightarrow> waits_for_input s"
proof -
  show "\<exists>t. (exchange_step cap)\<^sup>*\<^sup>* (exchange_start (read_to_end n) b) t \<and> stopped cap t"
    by (rule exchange_stops)
  show "waits_for_input s" if "(exchange_step cap)\<^sup>*\<^sup>* (exchange_start (read_to_end n) b) s" "stopped cap s"
    using exchange_waits [of b "read_to_end n" cap s] reads_first_read_to_end [OF assms(1)] run_read_to_end [OF assms(1)]
      assms(2) that
    by (simp add: stopped_iff)
qed

text \<open>C24: A CGI program that answers while it reads can hang the request for ever: where the body
  is longer than the two pipes and one byte, a program that echoes its input never gets the
  server out of its write loop, although run on its own it would echo the body and exit; every
  run ends with both sides waiting to write into full pipes.\<close>

theorem pipe_deadlock:
  assumes "2 * cap + 1 < length b" "0 < cap"
  shows "run_proc (echo (length b)) b = Some (b, Exited 0)
    \<and> (\<forall>s. (exchange_step cap)\<^sup>*\<^sup>* (exchange_start (echo (length b)) b) s \<longrightarrow>
        (\<exists>c cs. server s = Writing (c # cs)) \<and> received s = []
        \<and> (\<exists>t. (exchange_step cap)\<^sup>*\<^sup>* s t \<and> both_full cap t \<and> (\<forall>u. \<not> exchange_step cap t u)))"
proof (intro conjI allI impI)
  show "run_proc (echo (length b)) b = Some (b, Exited 0)" by (rule run_echo)
next
  fix s assume s: "(exchange_step cap)\<^sup>*\<^sup>* (exchange_start (echo (length b)) b) s"
  show "\<exists>c cs. server s = Writing (c # cs)" by (rule stopped_echo(1) [OF assms s])
  show "received s = []" by (rule echo_receives_nothing [OF assms(1) s])
  obtain t where t: "(exchange_step cap)\<^sup>*\<^sup>* s t" "stopped cap t" using exchange_stops by blast
  with s have "(exchange_step cap)\<^sup>*\<^sup>* (exchange_start (echo (length b)) b) t" by simp
  from stopped_echo(2) [OF assms this t(2)] t
  show "\<exists>t. (exchange_step cap)\<^sup>*\<^sup>* s t \<and> both_full cap t \<and> (\<forall>u. \<not> exchange_step cap t u)"
    unfolding stopped_iff by blast
qed

theorem pipe_deadlock_witness:
  "\<exists>t. (exchange_step 1)\<^sup>*\<^sup>* (exchange_start (echo (length ''abcd'')) ''abcd'') t \<and> both_full 1 t
    \<and> (\<forall>u. \<not> exchange_step 1 t u)"
proof -
  have "2 * 1 + 1 < length ''abcd''" "0 < (1 :: nat)" by simp_all
  from pipe_deadlock [OF this] show ?thesis by blast
qed

end
