(* ===== verification/Web_Inherit.thy ===== *)
theory Web_Inherit
  imports Web_Prelude
begin

text \<open>
  Several requests for CGI programs at once (Protocol.hpp, \<open>ProcessCIG\<close> in the workers of the
  pool). The descriptor table belongs to the process, and \<open>fork\<close> copies all of it: a program
  forked between \<open>pipe(input)\<close> and \<open>close(input[1])\<close> of another request keeps that write end
  open through \<open>exec\<close>, as it is not marked close-on-exec. The read loop of a request ends
  when nobody holds the write end of its pipe any more, so a request can wait for the program
  of another one. What else the requests do is left out here.
\<close>

section \<open>Steps\<close>

text \<open>Where a request is in \<open>ProcessCIG\<close>: before \<open>pipe\<close>, before \<open>fork\<close>, before
  \<open>close(input[1])\<close>, in the read loop, and behind it.\<close>

datatype cgi_pc = Before_pipe | Before_fork | Before_close | In_read_loop | Behind_loop

text \<open>
  A write end is named by its request. \<open>server_ends\<close> are those open in the server;
  \<open>program_ends i\<close> those open in the running program of request \<open>i\<close>.
\<close>

record descriptors =
  cgi_pcs :: "nat \<Rightarrow> cgi_pc"
  server_ends :: "nat set"
  program_ends :: "nat \<Rightarrow> nat set option"

definition no_requests :: descriptors where
  "no_requests = \<lparr>cgi_pcs = \<lambda>i. Before_pipe, server_ends = {}, program_ends = \<lambda>i. None\<rparr>"

inductive inherit_step :: "descriptors \<Rightarrow> descriptors \<Rightarrow> bool" where
  make_pipe: "cgi_pcs s i = Before_pipe \<Longrightarrow>
    inherit_step s (s\<lparr>cgi_pcs := (cgi_pcs s)(i := Before_fork), server_ends := insert i (server_ends s)\<rparr>)"
| fork_program: "cgi_pcs s i = Before_fork \<Longrightarrow>
    inherit_step s (s\<lparr>cgi_pcs := (cgi_pcs s)(i := Before_close),
      program_ends := (program_ends s)(i \<mapsto> server_ends s)\<rparr>)"
| close_end: "cgi_pcs s i = Before_close \<Longrightarrow>
    inherit_step s (s\<lparr>cgi_pcs := (cgi_pcs s)(i := In_read_loop), server_ends := server_ends s - {i}\<rparr>)"
| program_exits: "program_ends s i = Some ends \<Longrightarrow>
    inherit_step s (s\<lparr>program_ends := (program_ends s)(i := None)\<rparr>)"
| end_of_file: "cgi_pcs s i = In_read_loop \<Longrightarrow> i \<notin> server_ends s \<Longrightarrow> \<forall>j. \<forall>ends. program_ends s j = Some ends \<longrightarrow> i \<notin> ends \<Longrightarrow>
    inherit_step s (s\<lparr>cgi_pcs := (cgi_pcs s)(i := Behind_loop)\<rparr>)"

inductive_simps inherit_step_simps: "inherit_step s t"

section \<open>Invariants\<close>

definition waiting_for_end :: "cgi_pc \<Rightarrow> bool" where
  "waiting_for_end p \<longleftrightarrow> p = Before_fork \<or> p = Before_close"

text \<open>
  The server holds the end of a request from its \<open>pipe\<close> to its \<open>close\<close>; a program runs only
  after its \<open>fork\<close> and holds its own end; a program that holds the end of a request keeps it from the end of file;
  finitely many programs run.
\<close>

definition inherit_inv :: "descriptors \<Rightarrow> bool" where
  "inherit_inv s \<longleftrightarrow>
     (\<forall>i. i \<in> server_ends s \<longleftrightarrow> waiting_for_end (cgi_pcs s i))
   \<and> (\<forall>i. cgi_pcs s i = Before_pipe \<or> cgi_pcs s i = Before_fork \<longrightarrow> program_ends s i = None)
   \<and> (\<forall>i ends. program_ends s i = Some ends \<longrightarrow> i \<in> ends)
   \<and> (\<forall>i j ends. program_ends s j = Some ends \<longrightarrow> i \<in> ends \<longrightarrow> cgi_pcs s i \<noteq> Behind_loop)
   \<and> finite (dom (program_ends s))"

lemma inherit_inv_step: "inherit_inv s \<Longrightarrow> inherit_step s t \<Longrightarrow> inherit_inv t"
  unfolding inherit_step_simps
  by (elim disjE exE conjE) (auto simp: inherit_inv_def waiting_for_end_def split: if_splits)

interpretation inherit: invariant_system "\<lambda>s. s = no_requests" inherit_step inherit_inv
proof
  show "inherit_inv s" if "s = no_requests" for s
    using that by (simp add: inherit_inv_def no_requests_def waiting_for_end_def)
qed (rule inherit_inv_step)

text \<open>A program keeps the ends it has for as long as it runs, and runs once.\<close>

definition keeps_end :: "nat \<Rightarrow> nat \<Rightarrow> descriptors \<Rightarrow> bool" where
  "keeps_end i j s \<longleftrightarrow> inherit_inv s \<and> cgi_pcs s j \<noteq> Before_pipe \<and> cgi_pcs s j \<noteq> Before_fork
     \<and> (\<forall>ends. program_ends s j = Some ends \<longrightarrow> i \<in> ends)"

lemma keeps_end_step: "keeps_end i j s \<Longrightarrow> inherit_step s t \<Longrightarrow> keeps_end i j t"
  unfolding keeps_end_def
proof (intro conjI; elim conjE)
  assume "inherit_inv s" "inherit_step s t"
  then show "inherit_inv t" by (rule inherit_inv_step)
qed (auto simp: inherit_step_simps split: if_splits)

lemma keeps_end_steps: "inherit_step\<^sup>*\<^sup>* s t \<Longrightarrow> keeps_end i j s \<Longrightarrow> keeps_end i j t"
  by (induction rule: rtranclp_induct) (auto intro: keeps_end_step)

lemma behind_loop_exited: "keeps_end i j s \<Longrightarrow> cgi_pcs s i = Behind_loop \<Longrightarrow> program_ends s j = None"
  by (cases "program_ends s j") (auto simp: keeps_end_def inherit_inv_def)

lemma running_keeps_end:
  "inherit_inv s \<Longrightarrow> program_ends s j = Some ends \<Longrightarrow> i \<in> ends \<Longrightarrow> keeps_end i j s"
  by (auto simp: keeps_end_def inherit_inv_def)

text \<open>The output of a request is complete: its own program has exited by the end of file.\<close>

lemma complete_output:
  assumes "reach (\<lambda>s. s = no_requests) inherit_step s" "cgi_pcs s i = Behind_loop"
  shows "program_ends s i = None"
proof -
  have "inherit_inv s" by (rule inherit.reachable_inv [OF assms(1)])
  with assms(2) show ?thesis by (cases "program_ends s i") (auto simp: inherit_inv_def)
qed

section \<open>When every program exits\<close>

lemma all_exit:
  assumes "finite (dom (program_ends s))"
  shows "inherit_step\<^sup>*\<^sup>* s (s\<lparr>program_ends := Map.empty\<rparr>)"
  using assms
proof (induction "dom (program_ends s)" arbitrary: s rule: finite_psubset_induct)
  case psubset
  show ?case
  proof (cases "dom (program_ends s) = {}")
    case True
    then have "s\<lparr>program_ends := Map.empty\<rparr> = s" by simp
    then show ?thesis by simp
  next
    case False
    then obtain j where "j \<in> dom (program_ends s)" by blast
    then obtain ends where j: "program_ends s j = Some ends" by blast
    let ?t = "s\<lparr>program_ends := (program_ends s)(j := None)\<rparr>"
    have "inherit_step s ?t" using j by (rule program_exits)
    moreover have "inherit_step\<^sup>*\<^sup>* ?t (?t\<lparr>program_ends := Map.empty\<rparr>)"
      by (rule psubset.hyps) (use j in auto)
    ultimately show ?thesis by (simp add: converse_rtranclp_into_rtranclp)
  qed
qed

lemma loop_can_end:
  assumes "inherit_inv s" "cgi_pcs s i = In_read_loop"
  shows "\<exists>t. inherit_step\<^sup>*\<^sup>* s t \<and> cgi_pcs t i = Behind_loop"
proof -
  let ?u = "s\<lparr>program_ends := Map.empty\<rparr>"
  have "inherit_step\<^sup>*\<^sup>* s ?u" using assms(1) by (intro all_exit) (simp add: inherit_inv_def)
  moreover have "i \<notin> server_ends s" using assms by (simp add: inherit_inv_def waiting_for_end_def)
  then have "inherit_step ?u (?u\<lparr>cgi_pcs := (cgi_pcs ?u)(i := Behind_loop)\<rparr>)"
    using assms(2) by (intro end_of_file) simp_all
  ultimately have "inherit_step\<^sup>*\<^sup>* s (?u\<lparr>cgi_pcs := (cgi_pcs ?u)(i := Behind_loop)\<rparr>)"
    by (rule rtranclp.rtrancl_into_rtrancl)
  moreover have "cgi_pcs (?u\<lparr>cgi_pcs := (cgi_pcs ?u)(i := Behind_loop)\<rparr>) i = Behind_loop" by simp
  ultimately show ?thesis by blast
qed

section \<open>One request waits for the program of another\<close>

definition delayed :: "nat \<Rightarrow> nat \<Rightarrow> descriptors" where
  "delayed i j = \<lparr>cgi_pcs = (\<lambda>k. Before_pipe)(i := In_read_loop, j := Before_close), server_ends = {j},
     program_ends = [j \<mapsto> {i, j}]\<rparr>"

lemma delayed_reachable:
  assumes "i \<noteq> j"
  shows "reach (\<lambda>s. s = no_requests) inherit_step (delayed i j)"
proof -
  let ?pc = "\<lambda>k :: nat. Before_pipe"
  let ?s = "\<lambda>pcs srv prog. \<lparr>cgi_pcs = pcs, server_ends = srv, program_ends = prog\<rparr>"
  have 1: "inherit_step no_requests (?s (?pc(i := Before_fork)) {i} Map.empty)"
    using make_pipe [of no_requests i] by (simp add: no_requests_def)
  have 2: "inherit_step (?s (?pc(i := Before_fork)) {i} Map.empty)
      (?s (?pc(i := Before_fork, j := Before_fork)) {i, j} Map.empty)"
    using make_pipe [of "?s (?pc(i := Before_fork)) {i} Map.empty" j] assms by (simp add: insert_commute)
  have 3: "inherit_step (?s (?pc(i := Before_fork, j := Before_fork)) {i, j} Map.empty)
      (?s (?pc(i := Before_fork, j := Before_close)) {i, j} [j \<mapsto> {i, j}])"
    using fork_program [of "?s (?pc(i := Before_fork, j := Before_fork)) {i, j} Map.empty" j] assms by simp
  have 4: "inherit_step (?s (?pc(i := Before_fork, j := Before_close)) {i, j} [j \<mapsto> {i, j}])
      (?s (?pc(i := Before_close, j := Before_close)) {i, j} [j \<mapsto> {i, j}, i \<mapsto> {i, j}])"
    using fork_program [of "?s (?pc(i := Before_fork, j := Before_close)) {i, j} [j \<mapsto> {i, j}]" i] assms
    by (simp add: fun_upd_twist)
  have 5: "inherit_step (?s (?pc(i := Before_close, j := Before_close)) {i, j} [j \<mapsto> {i, j}, i \<mapsto> {i, j}])
      (?s (?pc(i := In_read_loop, j := Before_close)) {j} [j \<mapsto> {i, j}, i \<mapsto> {i, j}])"
    using close_end [of "?s (?pc(i := Before_close, j := Before_close)) {i, j} [j \<mapsto> {i, j}, i \<mapsto> {i, j}]" i] assms
    by (simp add: fun_upd_twist insert_Diff_if)
  have 6: "inherit_step (?s (?pc(i := In_read_loop, j := Before_close)) {j} [j \<mapsto> {i, j}, i \<mapsto> {i, j}]) (delayed i j)"
    using program_exits [of "?s (?pc(i := In_read_loop, j := Before_close)) {j} [j \<mapsto> {i, j}, i \<mapsto> {i, j}]" i "{i, j}"] assms
    by (simp add: delayed_def fun_upd_twist)
  have "reach (\<lambda>s. s = no_requests) inherit_step no_requests" by (rule reach_init) simp
  with 1 2 3 4 5 6 show ?thesis by (meson reach_step)
qed

section \<open>Properties\<close>

text \<open>C25: A request can wait for the program of another one. For any two requests there is an
  interleaving after which the first is in its read loop, its own program has exited, and the
  program of the second is running; from there the first gets its end of file in no
  continuation before the second program has exited as well, and in some continuation after.\<close>

theorem request_waits_for_other_program:
  assumes "i \<noteq> j"
  shows "\<exists>s. reach (\<lambda>s. s = no_requests) inherit_step s
    \<and> cgi_pcs s i = In_read_loop \<and> program_ends s i = None \<and> program_ends s j \<noteq> None
    \<and> (\<forall>t. inherit_step\<^sup>*\<^sup>* s t \<longrightarrow> cgi_pcs t i = Behind_loop \<longrightarrow> program_ends t j = None)
    \<and> (\<exists>t. inherit_step\<^sup>*\<^sup>* s t \<and> cgi_pcs t i = Behind_loop)"
proof (rule exI [of _ "delayed i j"], intro conjI allI impI)
  show r: "reach (\<lambda>s. s = no_requests) inherit_step (delayed i j)" by (rule delayed_reachable [OF assms])
  show pc: "cgi_pcs (delayed i j) i = In_read_loop" and "program_ends (delayed i j) i = None"
    and "program_ends (delayed i j) j \<noteq> None" using assms by (simp_all add: delayed_def)
  have inv: "inherit_inv (delayed i j)" by (rule inherit.reachable_inv [OF r])
  have keeps: "keeps_end i j (delayed i j)"
    by (rule running_keeps_end [OF inv, of _ "{i, j}"]) (simp_all add: delayed_def)
  show "program_ends t j = None" if "inherit_step\<^sup>*\<^sup>* (delayed i j) t" "cgi_pcs t i = Behind_loop" for t
    by (rule behind_loop_exited [OF keeps_end_steps [OF that(1) keeps] that(2)])
  show "\<exists>t. inherit_step\<^sup>*\<^sup>* (delayed i j) t \<and> cgi_pcs t i = Behind_loop" by (rule loop_can_end [OF inv pc])
qed

theorem request_waits_for_other_program_witness:
  "\<exists>s. reach (\<lambda>s. s = no_requests) inherit_step s \<and> cgi_pcs s 0 = In_read_loop \<and> program_ends s 0 = None
    \<and> (\<forall>t. inherit_step\<^sup>*\<^sup>* s t \<longrightarrow> cgi_pcs t 0 = Behind_loop \<longrightarrow> program_ends t 1 = None)"
  using request_waits_for_other_program [of 0 1] by auto

end
