(* ===== verification/Spec2Isabelle.thy ===== *)
theory Spec2Isabelle
  imports Mysql_Inline Mysql_Socket Mysql_File Mysql_Owner Mysql_Events Mysql_Iocache Mysql_Ername Mysql_Protocol
    Web_Refine Web_Paths Web_Singleton Web_Programs Web_Pipe Web_Inherit
begin

text \<open>
  A small threaded HTTP/1.0 server (src/MinHttp, C++) and its two CGI programs, modelled as
  functions and step relations, with the properties that make it correct and the places
  where it departs from its purpose; and the inline code of the MySQL client headers that
  the repository keeps for one of the programs (src/MinHttp/cgi/include, C).

  \<^bold>\<open>The program.\<close> \<open>main\<close> (main.cpp) reads a port, creates an \<open>HttpServer\<close> and enters its accept
  loop (HttpServer.hpp). The listening socket belongs to the singleton \<open>TcpServer\<close>
  (TcpServer.hpp). Each accepted socket becomes a \<open>Task\<close> (Task.hpp) in the queue of the
  singleton \<open>ThreadPool\<close> (ThreadPool.hpp), whose six workers call \<open>CallBack::HandlerRequest\<close>
  (Protocol.hpp): an \<open>EndPoint\<close> receives and parses one request (with \<open>Util\<close>, Util.hpp), builds
  the response, from a file below \<open>./wwwroot\<close> or by running a program there (CGI), sends it
  and closes the socket. The CGI programs are a calculator (cgi/cgi.cc) and a registration
  form that writes to MySQL (cgi/mysql_connect.cc); both take their parameters with
  cgi/comm.hpp, from the environment (GET) or from a pipe (POST).

  \<^bold>\<open>The theories, in the order of import.\<close>
  \<^item> \<open>Web_Prelude\<close>: characters, C strings, substring search (\<open>find\<close>, \<open>rfind\<close>); reachability and
    invariants of step relations (\<open>reach\<close>, locale \<open>invariant_system\<close>), schedules (\<open>run_sched\<close>).
  \<^item> \<open>Web_Libc\<close>: \<open>int\<close> as the 32-bit range (\<open>int32\<close>), \<open>isspace\<close>, \<open>toupper\<close>, \<open>atoi\<close>,
    \<open>std::to_string\<close>, and that the last two are inverse.
  \<^item> \<open>Web_Socket\<close>: a connection as the bytes the peer delivers and how it ends (closed, failed,
    or silent); \<open>recv\<close> and \<open>recv\<close> with \<open>MSG_PEEK\<close>.
  \<^item> \<open>Web_Util\<close> (Util.hpp): \<open>ReadInLine\<close> against its contract \<open>line_outcome\<close>; \<open>CutString\<close> and the
    locale \<open>cutter\<close>, which the \<open>CutString\<close> of comm.hpp meets as well.
  \<^item> \<open>Web_Log\<close> (Log.hpp), \<open>Web_Message\<close> (the tables and data of Protocol.hpp): the records
    \<open>HttpRequest\<close>, \<open>HttpResponse\<close>, \<open>EndPoint\<close>, and the events that stand for effects.
  \<^item> \<open>Web_Receive\<close> (Protocol.hpp 133-144 and 500-618): \<open>RecvHttpRequest\<close> and all it calls; what a
    well-formed request becomes, when receiving stops, and that it returns.
  \<^item> \<open>Web_Process\<close>, \<open>Web_Build\<close> (Protocol.hpp 147-466 and 621-701): programs as sequences of
    effects (\<open>proc\<close>, \<open>run_proc\<close>), the system calls as the record \<open>os_env\<close>, and
    \<open>BuildHttpResponse\<close> with \<open>ProcessCIG\<close> and \<open>ProcessNonCIG\<close>; the pipe and the descriptors.
  \<^item> \<open>Web_Send\<close> (Protocol.hpp 469-495 and 712-743, Task.hpp): \<open>SendHttpResquese\<close>,
    \<open>HandlerRequest\<close>, and whole requests from the first byte to the close.
  \<^item> \<open>Web_Pool\<close> (ThreadPool.hpp): the pool as a step relation of workers and pushing thread over
    mutex, condition variable and queue (locale \<open>fifo\<close>); invariants, progress, starvation.
  \<^item> \<open>Web_Singleton\<close> (the two \<open>GetInstance\<close>): double-checked locking as a step relation.
  \<^item> \<open>Web_Server\<close> (TcpServer.hpp, HttpServer.hpp, main.cpp): start-up, accept loop, entry.
  \<^item> \<open>Cgi_Comm\<close>, \<open>Cgi_Calc\<close>, \<open>Cgi_Register\<close> (cgi/): the CGI side.
  \<^item> \<open>Web_Programs\<close>: server and programs together, and the bodies too long for an \<open>int\<close>; this
    theory: properties of the whole.
  \<^item> \<open>Web_Whole\<close>: the running server, that is accept loop, pool and handlers over connections
    and the reused numbers of their descriptors; a refinement of the pool's step relation.
  \<^item> \<open>Web_Refine\<close>: the abstract service of which the running server is an implementation, a
    first-in first-out line in front of \<open>n\<close> handlers (locale \<open>simulation\<close>).
  \<^item> \<open>Web_Paths\<close> (Protocol.hpp 370-432): where the paths that \<open>BuildHttpResponse\<close> makes of targets
    lead in a file tree, as POSIX resolves them: below the root without \<open>..\<close>, anywhere with it.
  \<^item> \<open>Web_Pipe\<close> (\<open>ProcessCIG\<close>): the server and a program as two processes over two pipes of a
    bounded capacity, in any interleaving: the result is that of \<open>run_proc\<close>, every run is
    bounded, and where each can wait for the other.
  \<^item> \<open>Web_Inherit\<close> (\<open>ProcessCIG\<close>): concurrent requests, and the write ends that a program
    inherits from another request.

  \<^bold>\<open>The MySQL client headers.\<close> mysql_connect.cc includes mysql.h; most of what the headers hold is
  declarations of a library that is not in the repository, but some of it is code.
  \<^item> \<open>Mysql_Byteorder\<close> (my_byteorder.h, byte_order_generic.h, byte_order_generic_x86.h,
    little_endian.h, big_endian.h): integers of two, three, four, five, six and eight bytes in
    memory; the two implementations agree, and a load from an offset gives what was stored
    there, reduced to its width (locale \<open>byte_codec\<close>).
  \<^item> \<open>Mysql_Inline\<close> (m_string.h, my_global.h): \<open>skip_trailing_space\<close> in both versions against the
    loop over bytes, and the arithmetic of \<open>timespec\<close>.
  \<^item> \<open>Mysql_Psi\<close> (psi/psi.h): the operations announced to the performance schema, the machine
    on which a wrapper runs (a state monad over world and events), the locale \<open>view\<close> of what
    a client sees of it, and the locales \<open>wait_interface\<close>, \<open>granting_interface\<close> and
    \<open>locker_interface\<close> of the waits, with the rules that carry the proofs of all wrappers.
  \<^item> \<open>Mysql_Socket\<close>, \<open>Mysql_File\<close>, \<open>Mysql_Thread\<close> (psi/mysql_socket.h, mysql_file.h,
    mysql_thread.h with thr_mutex.h, thr_rwlock.h, thr_cond.h): each wrapper; that any
    sequence of them is the same sequence of bare calls and brackets its waits; the byte
    counts reported; the heap blocks of streams; the life of a lock.
  \<^item> \<open>Mysql_Owner\<close> (mysql_thread.h): threads that lock, try to lock and unlock one mutex as a
    step relation, with a null handle and with waits for which no locker is granted, and what
    the performance schema can conclude about the owner.
  \<^item> \<open>Mysql_Events\<close> (psi/mysql_statement.h, mysql_stage.h, mysql_transaction.h, mysql_idle.h,
    mysql_table.h, mysql_mdl.h, mysql_sp.h, mysql_ps.h, mysql_memory.h): what is announced of
    statements, transactions and the like; the locale \<open>event_interface\<close> of an event that is
    handed out, started, used and ended, and its two instances.
  \<^item> \<open>Mysql_Iocache\<close> (my_sys.h): the macros that read and write through an \<open>IO_CACHE\<close>, against
    the file behind it.
  \<^item> \<open>Mysql_Errors\<close>, \<open>Mysql_Ername\<close> (mysqld_error.h, sql_state.h, errmsg.h; mysqld_ername.h): the
    tables of errors, row by row, and that they agree.
  \<^item> \<open>Mysql_Macros\<close> (my_global.h, m_ctype.h, mysql.h, mysql_com.h, my_sys.h, decimal.h,
    sql_common.h): the macros that compute something by themselves.
  \<^item> \<open>Mysql_Protocol\<close> (mysql_com.h, my_command.h, mysql/plugin_trace.h): flags, commands, and the
    stages of a connection with the transitions that plugin_trace.h documents.

  \<^bold>\<open>How effects are modelled.\<close> A function of the source that acts on an object returns the
  changed record. A call of the system that changes something outside the object appends an
  event to the \<open>trace\<close> of the \<open>EndPoint\<close>, in the order of the calls; the result of the call
  is a field of \<open>os_env\<close> (or \<open>tcp_env\<close>), about which a theorem states what it needs:
  \<open>write_progress\<close> (a blocking \<open>write\<close> to a pipe takes between one byte and all), \<open>full_send\<close>
  (\<open>send\<close> takes a whole message), \<open>pipes_ok\<close>, \<open>cgi_ready\<close>, \<open>page_ok\<close>. A call that blocks for
  ever is the result \<open>None\<close>. What a C++ program leaves undetermined is a parameter: the value
  that \<open>GetRequestLine\<close> fails to return (\<open>indet\<close>, any function of the state), uninitialised
  members (\<open>junk\<close>, \<open>os_stack_stat\<close>), the child's unflushed stdio buffer.

  \<^bold>\<open>Loops.\<close> All loops are total functions. The receiving loops consume a byte each turn; the
  write and send loops advance; the loop of \<open>GetQueryString\<close> counts a 32-bit word down. The
  accept loop, which never ends, runs over a list of results of \<open>accept\<close>, any prefix of its
  run. No fuel is used. Concurrency (pool, \<open>GetInstance\<close>) is a step relation between the
  program points of the source, sequentially consistent; the executable versions
  (\<open>pool_exec\<close>, \<open>get_exec\<close>) run schedules in witnesses.

  \<^bold>\<open>What the properties show.\<close> Receiving is a round trip for well-formed requests, stops on bad
  lengths and returns unless the peer is silent; building and sending produce the response
  the method, the target and the file system call for, on every branch; descriptors are
  closed on every path, but for the pipes when \<open>pipe\<close> or \<open>fork\<close> fails; the CGI programs
  receive exactly the body or query string; over pipes of any capacity they never deadlock
  with the server on bodies below 2^31 bytes, as they read just the body and before they
  write, while a program that answers as it reads can and one that reads to the end of its
  input always does; every connection accepted is answered once, by one worker, and closed; connections are
  taken up in the order they came, as the server implements a first-in first-out service; the
  pool loses no wakeup. The departures are theorems too: targets with \<open>..\<close>, by which any client
  reads files anywhere on the machine and runs programs anywhere on it (those whose names can be
  written in a target), a body of 2^31 bytes or more, which can hang its handler, the missing
  \<open>return\<close>, the send loop that repeats the body, the unlocked \<open>ThreadPool::GetInstance\<close>, the
  pointer published before \<open>InitServer\<close>, directories without a page, the ignored database
  errors, and the SQL text built from raw fields. In the MySQL headers the instrumentation is
  shown to be transparent, but for the length that \<open>accept\<close> reports, and its waits balanced
  whatever the performance schema answers, reading through a cache gives the file, and the
  tables of errors agree; the length that is not passed on, a failed stream call that is
  counted as a transfer and the timeout that wraps are the departures there.

  \<^bold>\<open>Not modelled.\<close> Signals other than a child's death, memory exhaustion, weak memory, the
  destructors (never run), code under \<open>#if 0\<close>, the web assets, and the MySQL client library
  behind \<open>mysql_query\<close>, which is a parameter. In the traces of \<open>ProcessCIG\<close> the program's output
  is taken to be read as it is written; \<open>Web_Pipe\<close> shows that every schedule that completes
  comes to the same, and for which programs every schedule does.
  The file trees of \<open>Web_Paths\<close> have no symbolic links and no permissions besides what \<open>open\<close>
  and \<open>execl\<close> answer.
  Of the MySQL headers: the branches for Windows and \<open>SAFE_MUTEX\<close>; the performance schema
  itself, the system calls, pthread and mysys, which are parameters (the performance schema
  is assumed not to touch its client's memory); and the headers, or parts of them, that
  declare what the library defines or rename it (the rest of mysql.h, mysql_com.h, sql_common.h,
  my_sys.h and m_ctype.h; my_thread.h, my_thread_local.h and the functions of m_string.h that
  only call the C library; the types and the tables of function pointers of psi.h). The macros
  of my_dbug.h compile to nothing or call the library's debugger.
\<close>

section \<open>Properties of the whole program\<close>

text \<open>The small site with the two programs installed.\<close>

definition program_env :: "mysql_client \<Rightarrow> os_env" where
  "program_env db = site_env\<lparr>
     os_stat := (\<lambda>p. if p = ''./wwwroot/404.html'' then Some \<lparr>st_isdir = False, st_exec = False, st_size = 7\<rparr>
       else Some \<lparr>st_isdir = False, st_exec = True, st_size = 100\<rparr>),
     os_exec := (\<lambda>p. if p = ''./wwwroot/exe_cgi'' then Some calc_main
       else if p = ''./wwwroot/mysql_cgi'' then Some (register_main db) else None)\<rparr>"

lemma program_env_ok: "cgi_ready (program_env db)" "page_ok (program_env db) 6 7"
  by (simp_all add: program_env_def site_env_def slow_env_def full_send_def page_ok_def error_page_def web_defs
      cgi_ready_def write_progress_def)

lemma program_paths: "root_path ''/exe_cgi'' = ''./wwwroot/exe_cgi''" "root_path ''/mysql_cgi'' = ''./wwwroot/mysql_cgi''"
  "c_str ''./wwwroot/exe_cgi'' = ''./wwwroot/exe_cgi''" "c_str ''./wwwroot/mysql_cgi'' = ''./wwwroot/mysql_cgi''"
  by (simp_all add: root_path_def web_defs Let_def)

lemma program_env_sel:
  "os_stat (program_env db) ''./wwwroot/exe_cgi'' = Some \<lparr>st_isdir = False, st_exec = True, st_size = 100\<rparr>"
  "os_stat (program_env db) ''./wwwroot/mysql_cgi'' = Some \<lparr>st_isdir = False, st_exec = True, st_size = 100\<rparr>"
  "os_exec (program_env db) ''./wwwroot/exe_cgi'' = Some calc_main"
  "os_exec (program_env db) ''./wwwroot/mysql_cgi'' = Some (register_main db)"
  "os_waitpid_ok (program_env db)"
  by (simp_all add: program_env_def site_env_def slow_env_def)

text \<open>C1: A connection of fewer than 2^31 bytes is brought to an end: where the peer closes (or
  fails) after fewer than 2^31 bytes, every program of the site takes its parameters by
  \<open>GetQueryString\<close> (as the repository's programs do) and pipes make progress, the handler
  returns, whatever those bytes are; in particular server and program do not wait for each
  other over the pipe. The bound is needed: a body of 2^31 bytes or more can leave the handler
  waiting for ever (\<open>large_post_hangs\<close> in \<open>Web_Programs\<close>).\<close>

theorem handler_terminates:
  assumes "ending st \<noteq> Silent" "length (inbuf st) < 2147483648"
    and "\<forall>p prog. os_exec env p = Some prog \<longrightarrow> parameter_program prog" "write_progress env"
  shows "\<exists>tr. HandlerRequest env indet junk s st = Some tr"
  using HandlerRequest_returns [OF assms] by auto

theorem handler_terminates_witness:
  "\<exists>tr. HandlerRequest (program_env \<lparr>mysql_connects = True, mysql_query = \<lambda>_. 0\<rparr>) (\<lambda>_. False) 0 4
     (arrives ''POST /mysql_cgi'' Failed) = Some tr"
proof (rule handler_terminates)
  let ?env = "program_env \<lparr>mysql_connects = True, mysql_query = \<lambda>_. 0\<rparr>"
  show "\<forall>p prog. os_exec ?env p = Some prog \<longrightarrow> parameter_program prog"
    by (auto simp: program_env_def calc_parameter_program register_parameter_program)
  show "write_progress ?env" using program_env_ok(1) unfolding cgi_ready_def by blast
qed (simp_all add: arrives_def)

text \<open>C11: The calculator, end to end, by POST: for a body \<open>n1=v1&n2=v2\<close> the peer receives
  status 200 and the two lines and the page that \<open>cgi.cc\<close> prints, with sum, difference,
  product and quotient of the two numbers; where the division traps (by zero, or of the
  least \<open>int\<close> by -1) it receives status 500 and the error page. The body itself is
  repeated by the send loop as \<open>ok_wire\<close> says.\<close>

theorem calculator_post:
  assumes "cgi_ready env" "page_ok env f len" and "request_ok nl m u v kvs" "\<forall>e. \<not> indet e"
    and "map toupper m = ''POST''" "map_of kvs ''Content-Length'' = Some cl" "atoi cl = int (length b)"
    and "os_stat env (c_str (root_path u)) = Some st" "\<not> st_isdir st"
    and "os_exec env (c_str (root_path u)) = Some calc_main"
    and "b = two_values n1 v1 n2 v2" "clean_value n1" "clean_value v1" "clean_value n2"
  shows "\<exists>tr. HandlerRequest env indet junk s (arrives (request_head_bytes nl m u v kvs @ b @ r) e) = Some tr
    \<and> sent tr = (if atoi v2 = 0 \<or> atoi v1 = - 2147483648 \<and> atoi v2 = - 1 then error_wire 500 len
        else ok_wire (Suffix2Desc (extension (root_path u)))
          (calc_lines n1 v1 n2 v2 @ calc_page v1 v2 (atoi v1) (atoi v2)))"
proof -
  let ?trap = "atoi v2 = 0 \<or> atoi v1 = - 2147483648 \<and> atoi v2 = - 1"
  have "in_int32 (int (length b))" using assms(7) atoi_range [of cl] by simp
  then have "length b < 2147483648" by (simp add: in_int32_def)
  then have run: "run_proc (calc_main (post_env env (length b))) b = run_proc (calc_body b) []"
    using run_query_post [of b env "\<lambda>ok. calc_body" "[]"] by (simp add: calc_main_def)
  have w: "os_waitpid_ok env" using assms(1) by (simp add: cgi_ready_def)
  show ?thesis
  proof (cases ?trap)
    case True
    then have "run_proc (calc_main (post_env env (length b))) b = Some (calc_lines n1 v1 n2 v2, Signaled 8)"
      unfolding run by (subst assms(11), subst run_calc_body [OF assms(12-14)], rule if_P)
    from Handler_cgi_post [OF assms(1-10) this] True w show ?thesis
      by (simp add: exit_code_def cgi_wire_def code_defs)
  next
    case False
    then have "run_proc (calc_main (post_env env (length b))) b
        = Some (calc_lines n1 v1 n2 v2 @ calc_page v1 v2 (atoi v1) (atoi v2), Exited 0)"
      unfolding run by (subst assms(11), subst run_calc_body [OF assms(12-14)], rule if_not_P)
    from Handler_cgi_post [OF assms(1-10) this] w show ?thesis
      unfolding if_not_P [OF False] by (simp add: exit_code_def cgi_wire_def)
  qed
qed

theorem calculator_post_witness:
  "\<exists>tr. HandlerRequest (program_env \<lparr>mysql_connects = True, mysql_query = \<lambda>_. 0\<rparr>) (\<lambda>_. False) 0 4
      (arrives (''POST /exe_cgi HTTP/1.1'' @ [LF] @ ''Content-Length: 7'' @ [LF] @ [LF] @ ''a=1&b=0'') Closed) = Some tr
    \<and> sent tr = error_wire 500 7"
proof -
  let ?db = "\<lparr>mysql_connects = True, mysql_query = \<lambda>_. 0\<rparr>"
  have ok: "request_ok [LF] ''POST'' ''/exe_cgi'' ''HTTP/1.1'' [(''Content-Length'', ''7'')]"
    by (simp add: request_ok_def token_def isspace_def request_line_def header_ok_def)
  have b: "''a=1&b=0'' = two_values ''a'' ''1'' ''b'' ''0''" by (simp add: two_values_def)
  have n: "atoi ''7'' = int (length ''a=1&b=0'')" "atoi ''0'' = 0" by (simp_all add: libc_eval)
  have m: "map toupper ''POST'' = ''POST''" "map_of [(''Content-Length'', ''7'')] ''Content-Length'' = Some ''7''"
    by (simp_all add: toupper_def)
  have st: "os_stat (program_env ?db) (c_str (root_path ''/exe_cgi''))
      = Some \<lparr>st_isdir = False, st_exec = True, st_size = 100\<rparr>"
    "os_exec (program_env ?db) (c_str (root_path ''/exe_cgi'')) = Some calc_main"
    unfolding program_paths by (rule program_env_sel)+
  show ?thesis
    using calculator_post [OF program_env_ok(1,2) ok _ m n(1) st(1) _ st(2) b, of "\<lambda>_. False" 0 4 "[]" Closed]
    by (simp add: clean_value_def n(2) request_head_bytes_def request_line_def header_line_def SEP_def)
qed

text \<open>The calculator, end to end, by GET: the query string after the first \<open>?\<close> of the
  target reaches the program through its environment, with the same two outcomes.\<close>

theorem calculator_get:
  assumes "cgi_ready env" "page_ok env f len" and "request_ok nl m (p @ ''?'' @ q) v kvs" "\<forall>e. \<not> indet e"
    and "map toupper m = ''GET''" "CHR ''?'' \<notin> set p"
    and "os_stat env (c_str (root_path p)) = Some st" "\<not> st_isdir st"
    and "os_exec env (c_str (root_path p)) = Some calc_main"
    and "q = two_values n1 v1 n2 v2" "NUL \<notin> set q" "clean_value n1" "clean_value v1" "clean_value n2"
  shows "\<exists>tr. HandlerRequest env indet junk s (arrives (request_head_bytes nl m (p @ ''?'' @ q) v kvs @ r) e) = Some tr
    \<and> sent tr = (if atoi v2 = 0 \<or> atoi v1 = - 2147483648 \<and> atoi v2 = - 1 then error_wire 500 len
        else ok_wire (Suffix2Desc (extension (root_path p)))
          (calc_lines n1 v1 n2 v2 @ calc_page v1 v2 (atoi v1) (atoi v2)))"
proof -
  let ?trap = "atoi v2 = 0 \<or> atoi v1 = - 2147483648 \<and> atoi v2 = - 1"
  have run: "run_proc (calc_main (get_env env q)) [] = run_proc (calc_body q) []"
    using run_query_get [OF assms(11), of env "\<lambda>ok. calc_body" "[]"] by (simp add: calc_main_def)
  have w: "os_waitpid_ok env" using assms(1) by (simp add: cgi_ready_def)
  show ?thesis
  proof (cases ?trap)
    case True
    then have "run_proc (calc_main (get_env env q)) [] = Some (calc_lines n1 v1 n2 v2, Signaled 8)"
      unfolding run by (subst assms(10), subst run_calc_body [OF assms(12-14)], rule if_P)
    from Handler_cgi_get [OF assms(1-9) this] True w show ?thesis
      by (simp add: exit_code_def cgi_wire_def code_defs)
  next
    case False
    then have "run_proc (calc_main (get_env env q)) []
        = Some (calc_lines n1 v1 n2 v2 @ calc_page v1 v2 (atoi v1) (atoi v2), Exited 0)"
      unfolding run by (subst assms(10), subst run_calc_body [OF assms(12-14)], rule if_not_P)
    from Handler_cgi_get [OF assms(1-9) this] w show ?thesis
      unfolding if_not_P [OF False] by (simp add: exit_code_def cgi_wire_def)
  qed
qed

theorem calculator_get_witness:
  "\<exists>tr. HandlerRequest (program_env \<lparr>mysql_connects = True, mysql_query = \<lambda>_. 0\<rparr>) (\<lambda>_. False) 0 4
      (arrives (''GET /exe_cgi?a=6&b=3 HTTP/1.1'' @ [LF] @ [LF]) Closed) = Some tr
    \<and> sent tr = ok_wire (Suffix2Desc (extension ''./wwwroot/exe_cgi''))
        (calc_lines ''a'' ''6'' ''b'' ''3'' @ calc_page ''6'' ''3'' 6 3)"
proof -
  let ?db = "\<lparr>mysql_connects = True, mysql_query = \<lambda>_. 0\<rparr>"
  have ok: "request_ok [LF] ''GET'' (''/exe_cgi'' @ ''?'' @ ''a=6&b=3'') ''HTTP/1.1'' []"
    by (simp add: request_ok_def token_def isspace_def request_line_def)
  have q: "''a=6&b=3'' = two_values ''a'' ''6'' ''b'' ''3''" by (simp add: two_values_def)
  have n: "atoi ''6'' = 6" "atoi ''3'' = 3" by (simp_all add: libc_eval)
  have m: "map toupper ''GET'' = ''GET''" by (simp add: toupper_def)
  have st: "os_stat (program_env ?db) (c_str (root_path ''/exe_cgi''))
      = Some \<lparr>st_isdir = False, st_exec = True, st_size = 100\<rparr>"
    "os_exec (program_env ?db) (c_str (root_path ''/exe_cgi'')) = Some calc_main"
    unfolding program_paths by (rule program_env_sel)+
  show ?thesis
    using calculator_get [OF program_env_ok(1,2) ok _ m _ st(1) _ st(2) q, of "\<lambda>_. False" 0 4 "[]" Closed]
    by (simp add: clean_value_def n program_paths(1) request_head_bytes_def request_line_def)
qed

text \<open>C27: Registration reports success whatever happens: every POST of a body to
  \<open>mysql_cgi\<close> is answered with status 200 and the success page, also where the database
  cannot be reached or rejects the statement, since \<open>InsertSql\<close> returns \<open>true\<close> either way.\<close>

theorem registration_always_succeeds:
  assumes "cgi_ready env" "page_ok env f len" and "request_ok nl m u v kvs" "\<forall>e. \<not> indet e"
    and "map toupper m = ''POST''" "map_of kvs ''Content-Length'' = Some cl" "atoi cl = int (length b)"
    and "os_stat env (c_str (root_path u)) = Some st" "\<not> st_isdir st"
    and "os_exec env (c_str (root_path u)) = Some (register_main db)"
  shows "\<exists>tr. HandlerRequest env indet junk s (arrives (request_head_bytes nl m u v kvs @ b @ r) e) = Some tr
    \<and> sent tr = ok_wire (Suffix2Desc (extension (root_path u))) success_page"
proof -
  have "in_int32 (int (length b))" using assms(7) atoi_range [of cl] by simp
  then have len: "length b < 2147483648" by (simp add: in_int32_def)
  have "InsertSql db (form_statement b) = (True, snd (InsertSql db (form_statement b)))"
    by (simp add: InsertSql_def)
  then obtain err where "InsertSql db (form_statement b) = (True, err)" by blast
  then have "run_proc (register_main db (post_env env (length b))) b = Some (success_page, Exited 0)"
    using run_query_post [OF len, of env _ "[]"] by (simp add: register_main_def split: prod.splits)
  from Handler_cgi_post [OF assms this] assms(1) show ?thesis
    by (simp add: exit_code_def cgi_wire_def cgi_ready_def)
qed

theorem registration_always_succeeds_witness:
  "\<exists>tr. HandlerRequest (program_env \<lparr>mysql_connects = False, mysql_query = \<lambda>_. 1\<rparr>) (\<lambda>_. False) 0 4
      (arrives (''POST /mysql_cgi HTTP/1.1'' @ [LF] @ ''Content-Length: 3'' @ [LF] @ [LF] @ ''a=1'') Closed) = Some tr
    \<and> sent tr = ok_wire (Suffix2Desc (extension ''./wwwroot/mysql_cgi'')) success_page"
proof -
  let ?db = "\<lparr>mysql_connects = False, mysql_query = \<lambda>_. 1\<rparr>"
  have ok: "request_ok [LF] ''POST'' ''/mysql_cgi'' ''HTTP/1.1'' [(''Content-Length'', ''3'')]"
    by (simp add: request_ok_def token_def isspace_def request_line_def header_ok_def)
  have n: "atoi ''3'' = int (length ''a=1'')" by (simp add: libc_eval)
  have m: "map toupper ''POST'' = ''POST''" "map_of [(''Content-Length'', ''3'')] ''Content-Length'' = Some ''3''"
    by (simp_all add: toupper_def)
  have st: "os_stat (program_env ?db) (c_str (root_path ''/mysql_cgi''))
      = Some \<lparr>st_isdir = False, st_exec = True, st_size = 100\<rparr>"
    "os_exec (program_env ?db) (c_str (root_path ''/mysql_cgi'')) = Some (register_main ?db)"
    unfolding program_paths by (rule program_env_sel)+
  show ?thesis
    using registration_always_succeeds [OF program_env_ok(1,2) ok _ m n st(1) _ st(2), of "\<lambda>_. False" 0 4 "[]" Closed]
    by (simp add: program_paths(2) request_head_bytes_def request_line_def header_line_def SEP_def)
qed

text \<open>C28: The statement \<open>mysql_connect.cc\<close> runs does not keep its two fields apart: for a form of
  two values it is the insertion of them, and a quote in a field ends it, so that two
  different forms give the same statement.\<close>

theorem registration_statement_ambiguous:
  assumes "clean_value k1" "clean_value name" "clean_value x" "clean_value k2"
  shows "form_statement (two_values k1 name k2 passwd) = insert_statement name passwd
    \<and> form_statement (two_values k1 (name @ [CHR 0x27] @ '','' @ [CHR 0x27] @ x) k2 passwd)
      = form_statement (two_values k1 name k2 (x @ [CHR 0x27] @ '','' @ [CHR 0x27] @ passwd))"
proof -
  let ?n = "name @ [CHR 0x27] @ '','' @ [CHR 0x27] @ x"
  have c: "clean_value ?n" using assms(2,3) by (simp add: clean_value_def)
  have form: "form_statement (two_values k1 n k2 p) = insert_statement n p" if "clean_value n" for n p
    by (simp add: form_statement_def cut_two_values(1) [OF assms(1) that assms(4)]
        cut_two_values(2,3) [OF assms(1) that assms(4), simplified])
  show ?thesis unfolding form [OF c] form [OF assms(2)] by (simp add: insert_statement_def)
qed

theorem registration_statement_ambiguous_witness:
  "form_statement (two_values ''name'' (''tom'' @ [CHR 0x27] @ '','' @ [CHR 0x27] @ ''x'') ''passwd'' ''1'')
    = form_statement (two_values ''name'' ''tom'' ''passwd'' (''x'' @ [CHR 0x27] @ '','' @ [CHR 0x27] @ ''1''))"
  using registration_statement_ambiguous [of "''name''" "''tom''" "''x''" "''passwd''" "''1''"]
  by (simp add: clean_value_def)

end
